(* ===== verification/Prelude.thy ===== *)
theory Prelude
  imports Main "HOL-Library.Char_ord" "HOL-Library.List_Lexorder" "HOL-Library.Product_Lexorder"
begin

text \<open>
  Shared vocabulary of the development: time, strings, JSON values, SQL tables held as lists of
  rows, and computations that thread a state and may fail. The last of these is the shape of
  every Go function of the repository that returns an \<open>error\<close>: a value of type
  \<open>('s, 'e, 'a) eff\<close> takes the state before the call and returns the result, \<open>Inl\<close> for a
  non-nil error, together with the state after it, so that effects that happened before an
  early return stay visible.
\<close>

section \<open>Collections of facts\<close>

named_theorems eff_simps \<open>unfolding of the effect combinators\<close>
named_theorems inv_intro \<open>preservation of an invariant by an effect\<close>
named_theorems hoare_intro \<open>triples of the effect combinators\<close>

section \<open>Time, strings, errors\<close>

text \<open>
  Instants and durations count nanoseconds, an instant from the Unix epoch. The zero
  \<open>time.Time\<close> of Go is 1 January of year 1.
\<close>

type_synonym time = int
type_synonym duration = int

definition zero_time :: time where
  "zero_time = - 62135596800000000000"

definition seconds :: "int \<Rightarrow> duration" where
  "seconds n = n * 1000000000"

text \<open>The ASCII part of \<open>strings.ToLower\<close>.\<close>

definition lower_char :: "char \<Rightarrow> char" where
  "lower_char c = (if CHR ''A'' \<le> c \<and> c \<le> CHR ''Z'' then char_of (of_char c + (32::nat)) else c)"

definition to_lower :: "string \<Rightarrow> string" where
  "to_lower s = map lower_char s"

text \<open>\<open>strings.HasPrefix\<close>, \<open>strings.Contains\<close>, \<open>strings.Cut\<close>, \<open>strings.Join\<close> and \<open>strings.Split\<close>.\<close>

fun has_prefix :: "string \<Rightarrow> string \<Rightarrow> bool" where
  "has_prefix [] s = True"
| "has_prefix (p # ps) [] = False"
| "has_prefix (p # ps) (c # s) = (p = c \<and> has_prefix ps s)"

fun contains_str :: "string \<Rightarrow> string \<Rightarrow> bool" where
  "contains_str [] sub = (sub = [])"
| "contains_str (c # s) sub = (has_prefix sub (c # s) \<or> contains_str s sub)"

text \<open>Cut at the first occurrence of a one-byte separator.\<close>

fun cut_at :: "char \<Rightarrow> string \<Rightarrow> (string \<times> string) option" where
  "cut_at sep [] = None"
| "cut_at sep (c # s) =
     (if c = sep then Some ([], s)
      else (case cut_at sep s of None \<Rightarrow> None | Some (a, b) \<Rightarrow> Some (c # a, b)))"

fun split_at :: "char \<Rightarrow> string \<Rightarrow> string list" where
  "split_at sep [] = [[]]"
| "split_at sep (c # s) =
     (if c = sep then [] # split_at sep s
      else (case split_at sep s of [] \<Rightarrow> [[c]] | w # ws \<Rightarrow> (c # w) # ws))"

fun join_with :: "string \<Rightarrow> string list \<Rightarrow> string" where
  "join_with sep [] = []"
| "join_with sep [w] = w"
| "join_with sep (w # ws) = w @ sep @ join_with sep ws"

text \<open>\<open>strconv.Itoa\<close>.\<close>

fun digits_of :: "nat \<Rightarrow> string" where
  "digits_of n = (if n < 10 then [char_of (48 + n)] else digits_of (n div 10) @ [char_of (48 + n mod 10)])"

declare digits_of.simps [simp del]

definition itoa :: "int \<Rightarrow> string" where
  "itoa i = (if i < 0 then ''-'' @ digits_of (nat (- i)) else digits_of (nat i))"

text \<open>The width-padded \<open>%04d\<close> of a non-negative number.\<close>

definition pad_zero :: "nat \<Rightarrow> string \<Rightarrow> string" where
  "pad_zero w s = replicate (w - length s) (CHR ''0'') @ s"

lemma cut_at_Some: "cut_at c s = Some (a, b) \<Longrightarrow> s = a @ c # b \<and> c \<notin> set a"
  by (induction s arbitrary: a) (auto split: if_splits option.splits)

lemma cut_at_None: "cut_at c s = None \<longleftrightarrow> c \<notin> set s"
  by (induction s) (auto split: option.splits)

lemma cut_at_append: "c \<notin> set a \<Longrightarrow> cut_at c (a @ c # b) = Some (a, b)"
  by (induction a) auto

lemma split_at_nonempty: "split_at c s \<noteq> []"
  by (induction s) (auto split: list.splits)

lemma split_at_no_sep: "c \<notin> set s \<Longrightarrow> split_at c s = [s]"
  by (induction s) auto

lemma split_at_append: "c \<notin> set w \<Longrightarrow> split_at c (w @ c # s) = w # split_at c s"
  by (induction w) auto

lemma split_join:
  "ws \<noteq> [] \<Longrightarrow> \<forall>w \<in> set ws. c \<notin> set w \<Longrightarrow> split_at c (join_with [c] ws) = ws"
  by (induction "[c]" ws rule: join_with.induct) (auto simp: split_at_no_sep split_at_append)

text \<open>The number a text of decimal digits stands for.\<close>

definition digits_val :: "string \<Rightarrow> nat" where
  "digits_val s = foldl (\<lambda>n c. 10 * n + (of_char c - 48)) 0 s"

lemma digits_val_snoc: "digits_val (s @ [c]) = 10 * digits_val s + (of_char c - 48)"
  by (simp add: digits_val_def)

lemma digit_char: "n < 10 \<Longrightarrow> of_char (char_of (48 + n)) = (48 + n :: nat)"
  by simp

lemma digits_val_digits_of [simp]: "digits_val (digits_of n) = n"
proof (induction n rule: digits_of.induct)
  case (1 n)
  show ?case
  proof (cases "n < 10")
    case True
    then show ?thesis
      by (subst digits_of.simps) (simp add: digits_val_def digit_char)
  next
    case False
    then show ?thesis
      by (subst digits_of.simps)
         (use 1 digit_char[of "n mod 10"] in \<open>simp add: digits_val_snoc\<close>)
  qed
qed

lemma digits_val_zeros: "digits_val (replicate k CHR ''0'' @ s) = digits_val s"
proof -
  have "foldl (\<lambda>n c. 10 * n + (of_char c - 48)) 0 (replicate k CHR ''0'') = (0::nat)" by (induction k) simp_all
  then show ?thesis by (simp add: digits_val_def)
qed

lemma digits_of_digits: "c \<in> set (digits_of n) \<Longrightarrow> CHR ''0'' \<le> c \<and> c \<le> CHR ''9''"
proof (induction n rule: digits_of.induct)
  case (1 n)
  have dig: "m < 10 \<Longrightarrow> CHR ''0'' \<le> char_of (48 + m) \<and> char_of (48 + m) \<le> CHR ''9''" for m :: nat
    by (simp add: less_eq_char_def digit_char)
  show ?case
    using 1 dig[of "n mod 10"] dig[of n] by (subst (asm) digits_of.simps[of n]) (auto split: if_splits)
qed

text \<open>\<open>strconv.Atoi\<close>: an optional sign, decimal digits, in the range of a 64-bit integer.\<close>

definition is_digit :: "char \<Rightarrow> bool" where
  "is_digit c \<longleftrightarrow> CHR ''0'' \<le> c \<and> c \<le> CHR ''9''"

definition atoi :: "string \<Rightarrow> int option" where
  "atoi s = (let neg = has_prefix ''-'' s; ds = (if has_prefix ''-'' s \<or> has_prefix ''+'' s then tl s else s);
       n = (if neg then - int (digits_val ds) else int (digits_val ds)) in
     if ds \<noteq> [] \<and> list_all is_digit ds \<and> - (2 ^ 63) \<le> n \<and> n < 2 ^ 63 then Some n else None)"

section \<open>JSON\<close>

text \<open>
  A JSON document is its value tree. The program writes integral numbers only; \<open>JDec\<close> is the text
  of any other number in a document it reads. A Go
  \<open>json.RawMessage\<close> is \<open>None\<close> when it is empty (nil or zero length).
\<close>

datatype json = JNull | JBool bool | JNum int | JDec string | JStr string | JArr "json list"
  | JObj "(string \<times> json) list"

type_synonym raw_json = "json option"

text \<open>
  \<open>encoding/json\<close> matches an object key to a struct field without regard to case, decodes the
  pairs in their order, ignores \<open>null\<close> and unknown keys, and goes on after a value of the wrong
  type, to report the mismatch in the end. A struct decoder is therefore a fold over the pairs
  whose accumulator carries the struct and whether every value so far had its field's type.
\<close>

definition jkey :: "string \<Rightarrow> string \<Rightarrow> bool" where
  "jkey k field \<longleftrightarrow> to_lower k = field"

definition set_str :: "json \<Rightarrow> (string \<Rightarrow> 'r \<Rightarrow> 'r) \<Rightarrow> 'r \<times> bool \<Rightarrow> 'r \<times> bool" where
  "set_str v upd st = (case v of JStr s \<Rightarrow> (upd s (fst st), snd st) | JNull \<Rightarrow> st | _ \<Rightarrow> (fst st, False))"

definition set_int :: "json \<Rightarrow> (int \<Rightarrow> 'r \<Rightarrow> 'r) \<Rightarrow> 'r \<times> bool \<Rightarrow> 'r \<times> bool" where
  "set_int v upd st = (case v of
       JNum n \<Rightarrow> (if - (2 ^ 63) \<le> n \<and> n < 2 ^ 63 then (upd n (fst st), snd st) else (fst st, False))
     | JNull \<Rightarrow> st | _ \<Rightarrow> (fst st, False))"

definition unmarshal_with :: "(string \<Rightarrow> json \<Rightarrow> 'r \<times> bool \<Rightarrow> 'r \<times> bool) \<Rightarrow> raw_json \<Rightarrow> 'r \<Rightarrow> 'r \<times> bool" where
  "unmarshal_with step raw r = (case raw of
       None \<Rightarrow> (r, False)
     | Some JNull \<Rightarrow> (r, True)
     | Some (JObj kvs) \<Rightarrow> foldl (\<lambda>st kv. step (fst kv) (snd kv) st) (r, True) kvs
     | Some _ \<Rightarrow> (r, False))"

text \<open>
  The text \<open>encoding/json\<close> writes for a value: no spaces, \<open>"\<close>, \<open>\\<close> and the control characters escaped,
  and \<open><\<close>, \<open>>\<close>, \<open>&\<close> as \<open>\u00xx\<close>.
\<close>

definition hex_digit :: "nat \<Rightarrow> char" where
  "hex_digit n = (if n < 10 then char_of (48 + n) else char_of (87 + n))"

definition json_char :: "char \<Rightarrow> string" where
  "json_char c = (if c = CHR 0x22 then [CHR 0x5C, CHR 0x22] else if c = CHR 0x5C then [CHR 0x5C, CHR 0x5C]
     else if c = CHR 0x0A then [CHR 0x5C, CHR ''n''] else if c = CHR 0x0D then [CHR 0x5C, CHR ''r'']
     else if c = CHR 0x09 then [CHR 0x5C, CHR ''t''] else if c = CHR 0x08 then [CHR 0x5C, CHR ''b'']
     else if c = CHR 0x0C then [CHR 0x5C, CHR ''f'']
     else if (of_char c :: nat) < 32 \<or> c \<in> {CHR ''<'', CHR ''>'', CHR ''&''}
     then [CHR 0x5C, CHR ''u'', CHR ''0'', CHR ''0'', hex_digit (of_char c div 16), hex_digit (of_char c mod 16)]
     else [c])"

definition json_quote :: "string \<Rightarrow> string" where
  "json_quote s = [CHR 0x22] @ concat (map json_char s) @ [CHR 0x22]"

fun json_text :: "json \<Rightarrow> string" where
  "json_text JNull = ''null''"
| "json_text (JBool b) = (if b then ''true'' else ''false'')"
| "json_text (JNum n) = itoa n"
| "json_text (JDec s) = s"
| "json_text (JStr s) = json_quote s"
| "json_text (JArr vs) = ''['' @ join_with '','' (map json_text vs) @ '']''"
| "json_text (JObj kvs) = ''{'' @ join_with '','' (map (\<lambda>kv. json_quote (fst kv) @ '':'' @ json_text (snd kv)) kvs) @ ''}''"

text \<open>A Go map is written with its keys sorted.\<close>

definition json_of_map :: "(string \<times> json) list \<Rightarrow> json" where
  "json_of_map kvs = JObj (map (\<lambda>k. (k, the (map_of (rev kvs) k))) (sort (remdups (map fst kvs))))"

section \<open>Tables\<close>

text \<open>
  A table is the list of its rows in insertion order. \<open>sql_update\<close> is \<open>UPDATE ... WHERE\<close>,
  \<open>sql_count\<close> the number of rows it affects, \<open>sql_find\<close> a lookup by a unique key and
  \<open>sql_first\<close> the row that \<open>ORDER BY key LIMIT 1\<close> returns.
\<close>

definition sql_update :: "('r \<Rightarrow> bool) \<Rightarrow> ('r \<Rightarrow> 'r) \<Rightarrow> 'r list \<Rightarrow> 'r list" where
  "sql_update p f rs = map (\<lambda>r. if p r then f r else r) rs"

definition sql_count :: "('r \<Rightarrow> bool) \<Rightarrow> 'r list \<Rightarrow> nat" where
  "sql_count p rs = length (filter p rs)"

definition sql_find :: "('r \<Rightarrow> bool) \<Rightarrow> 'r list \<Rightarrow> 'r option" where
  "sql_find p rs = find p rs"

definition sql_first :: "('r \<Rightarrow> 'k::linorder) \<Rightarrow> ('r \<Rightarrow> bool) \<Rightarrow> 'r list \<Rightarrow> 'r option" where
  "sql_first key p rs = (case sort_key key (filter p rs) of [] \<Rightarrow> None | r # _ \<Rightarrow> Some r)"

lemma set_sql_update: "set (sql_update p f rs) = f ` {r \<in> set rs. p r} \<union> {r \<in> set rs. \<not> p r}"
  by (auto simp: sql_update_def)

lemma sql_updateE:
  assumes "r' \<in> set (sql_update p f rs)"
  obtains r where "r \<in> set rs" "p r" "r' = f r" | "r' \<in> set rs" "\<not> p r'"
  using assms by (auto simp: set_sql_update)

lemma length_sql_update [simp]: "length (sql_update p f rs) = length rs"
  by (simp add: sql_update_def)

lemma sql_count_pos: "0 < sql_count p rs \<longleftrightarrow> (\<exists>r \<in> set rs. p r)"
  by (auto simp: sql_count_def filter_empty_conv)

lemma sql_count_0: "sql_count p rs = 0 \<longleftrightarrow> (\<forall>r \<in> set rs. \<not> p r)"
  by (auto simp: sql_count_def filter_empty_conv)

lemma sql_update_none: "\<forall>r \<in> set rs. \<not> p r \<Longrightarrow> sql_update p f rs = rs"
  by (induction rs) (auto simp: sql_update_def)

lemma sql_update_cong:
  "(\<And>r. r \<in> set rs \<Longrightarrow> p r = q r) \<Longrightarrow> (\<And>r. r \<in> set rs \<Longrightarrow> p r \<Longrightarrow> f r = g r)
   \<Longrightarrow> sql_update p f rs = sql_update q g rs"
  by (auto simp: sql_update_def)

lemma map_key_sql_update:
  "(\<And>r. k (f r) = k r) \<Longrightarrow> map k (sql_update p f rs) = map k rs"
  by (simp add: sql_update_def)

lemma sql_find_Some: "sql_find p rs = Some r \<Longrightarrow> r \<in> set rs \<and> p r"
  by (auto simp: sql_find_def find_Some_iff)

lemma sql_find_in: "sql_find p rs = Some r \<Longrightarrow> r \<in> set rs"
  by (simp add: sql_find_Some)

lemma sql_find_holds: "sql_find p rs = Some r \<Longrightarrow> p r"
  by (simp add: sql_find_Some)

lemma distinct_key: "distinct (map k rs) \<Longrightarrow> a \<in> set rs \<Longrightarrow> b \<in> set rs \<Longrightarrow> k a = k b \<Longrightarrow> a = b"
  by (auto simp: distinct_map dest: inj_onD)

lemma sql_find_None: "sql_find p rs = None \<longleftrightarrow> (\<forall>r \<in> set rs. \<not> p r)"
  by (auto simp: sql_find_def find_None_iff)

lemma sql_find_append_Some: "sql_find p rs = Some r \<Longrightarrow> sql_find p (rs @ ss) = Some r"
  by (induction rs) (auto simp: sql_find_def)

lemma sql_find_append_None: "sql_find p rs = None \<Longrightarrow> sql_find p (rs @ ss) = sql_find p ss"
  by (induction rs) (auto simp: sql_find_def split: if_splits)

lemma sql_find_append: "sql_find p (rs @ ss) = (case sql_find p rs of None \<Rightarrow> sql_find p ss | Some r \<Rightarrow> Some r)"
  by (auto simp: sql_find_append_Some sql_find_append_None split: option.split)

lemma sql_find_single: "sql_find p [x] = (if p x then Some x else None)"
  by (simp add: sql_find_def)

lemma sql_find_key:
  assumes "distinct (map k rs)" "r \<in> set rs" "k r = x"
  shows "sql_find (\<lambda>r. k r = x) rs = Some r"
  using assms by (induction rs) (auto simp: sql_find_def)

lemma sql_find_update:
  assumes "\<And>r. k (f r) = k r"
  shows "sql_find (\<lambda>r. k r = x) (sql_update p f rs) =
    map_option (\<lambda>r. if p r then f r else r) (sql_find (\<lambda>r. k r = x) rs)"
  using assms by (induction rs) (auto simp: sql_find_def sql_update_def)

lemma sql_first_None: "sql_first key p rs = None \<longleftrightarrow> (\<forall>r \<in> set rs. \<not> p r)"
proof -
  have "sql_first key p rs = None \<longleftrightarrow> set (sort_key key (filter p rs)) = {}"
    by (simp add: sql_first_def split: list.splits del: set_sort)
  then show ?thesis by (auto simp: filter_empty_conv)
qed

lemma sql_first_Some:
  assumes "sql_first key p rs = Some r"
  shows "r \<in> set rs \<and> p r \<and> (\<forall>r' \<in> set rs. p r' \<longrightarrow> key r \<le> key r')"
proof -
  from assms obtain ss where ss: "sort_key key (filter p rs) = r # ss"
    by (auto simp: sql_first_def split: list.splits)
  then have "set (filter p rs) = set (r # ss)" by (metis set_sort)
  moreover have "sorted (map key (r # ss))" using ss by (metis sorted_sort_key)
  ultimately show ?thesis by auto
qed

end
