(* ===== verification/Effects.thy ===== *)
theory Effects
  imports Prelude
begin

text \<open>
  Computations that thread a state and return a value or an error, with the two kinds of
  reasoning the components use: an invariant that every exit keeps (\<open>keeps\<close>) and triples with
  a postcondition for each way to return (\<open>triple\<close>).
\<close>

type_synonym ('s, 'e, 'a) eff = "'s \<Rightarrow> ('e + 'a) \<times> 's"

definition retE :: "'a \<Rightarrow> ('s, 'e, 'a) eff" where
  "retE x s = (Inr x, s)"

definition failE :: "'e \<Rightarrow> ('s, 'e, 'a) eff" where
  "failE e s = (Inl e, s)"

text \<open>\<open>x, err := m(); if err != nil { return err }; k(x)\<close>\<close>

definition bindE :: "('s, 'e, 'a) eff \<Rightarrow> ('a \<Rightarrow> ('s, 'e, 'b) eff) \<Rightarrow> ('s, 'e, 'b) eff" where
  "bindE m k s = (case m s of (Inl e, s') \<Rightarrow> (Inl e, s') | (Inr x, s') \<Rightarrow> k x s')"

text \<open>A call whose error the caller looks at (or drops) instead of returning it.\<close>

definition tryE :: "('s, 'e, 'a) eff \<Rightarrow> ('e + 'a \<Rightarrow> ('s, 'e, 'b) eff) \<Rightarrow> ('s, 'e, 'b) eff" where
  "tryE m k s = (case m s of (r, s') \<Rightarrow> k r s')"

text \<open>Returning an error through a function of it, as \<open>fmt.Errorf("...: %w", err)\<close> does.\<close>

definition onErr :: "('e \<Rightarrow> 'e) \<Rightarrow> ('s, 'e, 'a) eff \<Rightarrow> ('s, 'e, 'a) eff" where
  "onErr f m s = (case m s of (Inl e, s') \<Rightarrow> (Inl (f e), s') | (Inr x, s') \<Rightarrow> (Inr x, s'))"

definition getE :: "('s \<Rightarrow> 'a) \<Rightarrow> ('s, 'e, 'a) eff" where
  "getE f s = (Inr (f s), s)"

definition modE :: "('s \<Rightarrow> 's) \<Rightarrow> ('s, 'e, unit) eff" where
  "modE f s = (Inr (), f s)"

primrec forE :: "('a \<Rightarrow> ('s, 'e, unit) eff) \<Rightarrow> 'a list \<Rightarrow> ('s, 'e, unit) eff" where
  "forE f [] = retE ()"
| "forE f (x # xs) = bindE (f x) (\<lambda>_. forE f xs)"

text \<open>Running an effect of a part of the state.\<close>

definition liftE :: "('s \<Rightarrow> 't) \<Rightarrow> ('t \<Rightarrow> 's \<Rightarrow> 's) \<Rightarrow> ('t, 'e, 'a) eff \<Rightarrow> ('s, 'e, 'a) eff" where
  "liftE get put m s = (case m (get s) of (r, t) \<Rightarrow> (r, put t s))"

lemmas eff_defs = retE_def failE_def bindE_def tryE_def onErr_def getE_def modE_def liftE_def

lemma bindE_ret [simp]: "bindE (retE x) k = k x"
  by (simp add: fun_eq_iff eff_defs)

lemma bindE_fail [simp]: "bindE (failE e) k = failE e"
  by (simp add: fun_eq_iff eff_defs)

lemma bindE_assoc: "bindE (bindE m k) h = bindE m (\<lambda>x. bindE (k x) h)"
  by (auto simp: fun_eq_iff eff_defs split: prod.splits sum.splits)

lemma bindE_Inr_cases:
  assumes "bindE m k s = (Inr y, s')"
  obtains x s1 where "m s = (Inr x, s1)" "k x s1 = (Inr y, s')"
  using assms by (auto simp: bindE_def split: prod.splits sum.splits)

lemma bindE_Inl_cases:
  assumes "bindE m k s = (Inl e, s')"
  obtains "m s = (Inl e, s')" | x s1 where "m s = (Inr x, s1)" "k x s1 = (Inl e, s')"
  using assms by (auto simp: bindE_def split: prod.splits sum.splits)

lemma bindE_run_Inr: "m s = (Inr x, s1) \<Longrightarrow> bindE m k s = k x s1"
  by (simp add: bindE_def)

lemma bindE_run_Inl: "m s = (Inl e, s1) \<Longrightarrow> bindE m k s = (Inl e, s1)"
  by (simp add: bindE_def)

lemma onErr_run_Inr: "m s = (Inr x, s1) \<Longrightarrow> onErr f m s = (Inr x, s1)"
  by (simp add: onErr_def)

lemma onErr_Inr_iff: "onErr f m s = (Inr x, s1) \<longleftrightarrow> m s = (Inr x, s1)"
  by (auto simp: onErr_def split: prod.splits sum.splits)

lemma snd_onErr: "snd (onErr f m s) = snd (m s)"
  by (auto simp: onErr_def split: prod.splits sum.splits)

lemma onErr_run: "onErr f m s = (r, s') \<Longrightarrow> \<exists>r1. m s = (r1, s')"
  by (auto simp: onErr_def split: prod.splits sum.splits)

lemma onErr_Inl_cases:
  assumes "onErr f m s = (Inl e, s')"
  obtains e' where "m s = (Inl e', s')" "e = f e'"
  using assms by (auto simp: onErr_def split: prod.splits sum.splits)

section \<open>Invariants of an effect\<close>

text \<open>\<open>keeps R m\<close>: the states before and after \<open>m\<close>, whether it fails or not, are related by
  \<open>R\<close>. An invariant \<open>I\<close> is the relation \<open>\<lambda>s s'. I s \<longrightarrow> I s'\<close>, a frame \<open>\<lambda>s s'. f s' = f s\<close>.\<close>

definition keeps :: "('s \<Rightarrow> 's \<Rightarrow> bool) \<Rightarrow> ('s, 'e, 'a) eff \<Rightarrow> bool" where
  "keeps R m \<longleftrightarrow> (\<forall>s. R s (snd (m s)))"

lemma keepsI: "(\<And>s. R s (snd (m s))) \<Longrightarrow> keeps R m"
  by (simp add: keeps_def)

lemma keepsD: "keeps R m \<Longrightarrow> m s = (r, s') \<Longrightarrow> R s s'"
  unfolding keeps_def by (metis snd_conv)

lemma keeps_ret [inv_intro]: "reflp R \<Longrightarrow> keeps R (retE x)"
  by (simp add: keeps_def retE_def reflpD)

lemma keeps_fail [inv_intro]: "reflp R \<Longrightarrow> keeps R (failE e)"
  by (simp add: keeps_def failE_def reflpD)

lemma keeps_get [inv_intro]: "reflp R \<Longrightarrow> keeps R (getE f)"
  by (simp add: keeps_def getE_def reflpD)

lemma keeps_bind [inv_intro]:
  "transp R \<Longrightarrow> keeps R m \<Longrightarrow> (\<And>x. keeps R (k x)) \<Longrightarrow> keeps R (bindE m k)"
  unfolding keeps_def bindE_def
  by (auto split: prod.splits sum.splits) (metis snd_conv transpD)+

lemma keeps_try [inv_intro]:
  "transp R \<Longrightarrow> keeps R m \<Longrightarrow> (\<And>r. keeps R (k r)) \<Longrightarrow> keeps R (tryE m k)"
  unfolding keeps_def tryE_def
  by (auto split: prod.splits) (metis snd_conv transpD)

lemma keeps_onErr [inv_intro]: "keeps R m \<Longrightarrow> keeps R (onErr f m)"
  by (simp add: keeps_def snd_onErr)

lemma keeps_if [inv_intro]: "keeps R m \<Longrightarrow> keeps R n \<Longrightarrow> keeps R (if b then m else n)"
  by simp

lemma keeps_for [inv_intro]:
  "reflp R \<Longrightarrow> transp R \<Longrightarrow> (\<And>x. keeps R (f x)) \<Longrightarrow> keeps R (forE f xs)"
  by (induction xs) (auto intro: inv_intro)

lemma keeps_mod: "(\<And>s. R s (f s)) \<Longrightarrow> keeps R (modE f)"
  by (simp add: keeps_def modE_def)

lemma keeps_option [inv_intro]:
  "keeps R n \<Longrightarrow> (\<And>x. keeps R (f x)) \<Longrightarrow> keeps R (case v of None \<Rightarrow> n | Some x \<Rightarrow> f x)"
  by (cases v) auto

lemma keeps_sum [inv_intro]:
  "(\<And>e. keeps R (f e)) \<Longrightarrow> (\<And>x. keeps R (g x)) \<Longrightarrow> keeps R (case v of Inl e \<Rightarrow> f e | Inr x \<Rightarrow> g x)"
  by (cases v) auto

lemma keeps_lift:
  "keeps R m \<Longrightarrow> (\<And>s t. R (get s) t \<Longrightarrow> Q s (put t s)) \<Longrightarrow> keeps Q (liftE get put m)"
  unfolding keeps_def liftE_def by (auto split: prod.splits) (metis snd_conv)

lemma reflp_inv: "reflp (\<lambda>s s'. I s \<longrightarrow> I s')"
  by (simp add: reflpI)

lemma transp_inv: "transp (\<lambda>s s'. I s \<longrightarrow> I s')"
  by (auto intro: transpI)

lemma reflp_frame: "reflp (\<lambda>s s'. f s' = f s)"
  by (simp add: reflpI)

lemma transp_frame: "transp (\<lambda>s s'. f s' = f s)"
  by (auto intro: transpI)

lemmas rel_intro = reflp_inv transp_inv reflp_frame transp_frame

section \<open>Triples\<close>

definition triple :: "('s \<Rightarrow> bool) \<Rightarrow> ('s, 'e, 'a) eff \<Rightarrow> ('a \<Rightarrow> 's \<Rightarrow> bool) \<Rightarrow> ('e \<Rightarrow> 's \<Rightarrow> bool) \<Rightarrow> bool" where
  "triple P m Q E \<longleftrightarrow> (\<forall>s. P s \<longrightarrow> (case m s of (Inl e, s') \<Rightarrow> E e s' | (Inr x, s') \<Rightarrow> Q x s'))"

lemma tripleI:
  "(\<And>s x s'. P s \<Longrightarrow> m s = (Inr x, s') \<Longrightarrow> Q x s') \<Longrightarrow>
   (\<And>s e s'. P s \<Longrightarrow> m s = (Inl e, s') \<Longrightarrow> E e s') \<Longrightarrow> triple P m Q E"
  by (auto simp: triple_def split: prod.splits sum.splits)

lemma tripleD_Inr: "triple P m Q E \<Longrightarrow> P s \<Longrightarrow> m s = (Inr x, s') \<Longrightarrow> Q x s'"
  by (auto simp: triple_def split: prod.splits sum.splits)

lemma tripleD_Inl: "triple P m Q E \<Longrightarrow> P s \<Longrightarrow> m s = (Inl e, s') \<Longrightarrow> E e s'"
  by (auto simp: triple_def split: prod.splits sum.splits)

lemma triple_ret [hoare_intro]: "(\<And>s. P s \<Longrightarrow> Q x s) \<Longrightarrow> triple P (retE x) Q E"
  by (simp add: triple_def retE_def)

lemma triple_fail [hoare_intro]: "(\<And>s. P s \<Longrightarrow> E e s) \<Longrightarrow> triple P (failE e) Q E"
  by (simp add: triple_def failE_def)

lemma triple_bind [hoare_intro]:
  "triple P m M E \<Longrightarrow> (\<And>x. triple (M x) (k x) Q E) \<Longrightarrow> triple P (bindE m k) Q E"
  unfolding triple_def bindE_def by (fastforce split: prod.splits sum.splits)

lemma triple_onErr:
  "triple P m Q (\<lambda>e s. E (f e) s) \<Longrightarrow> triple P (onErr f m) Q E"
  unfolding triple_def onErr_def by (fastforce split: prod.splits sum.splits)

lemma triple_weaken:
  "triple P' m Q' E' \<Longrightarrow> (\<And>s. P s \<Longrightarrow> P' s) \<Longrightarrow> (\<And>x s. Q' x s \<Longrightarrow> Q x s)
   \<Longrightarrow> (\<And>e s. E' e s \<Longrightarrow> E e s) \<Longrightarrow> triple P m Q E"
  unfolding triple_def by (fastforce split: prod.splits sum.splits)

lemma triple_if [hoare_intro]:
  "(b \<Longrightarrow> triple P m Q E) \<Longrightarrow> (\<not> b \<Longrightarrow> triple P n Q E) \<Longrightarrow> triple P (if b then m else n) Q E"
  by simp

end
