(* ===== verification/Domain.thy ===== *)
theory Domain
  imports Effects
begin

text \<open>
  The package \<open>internal/domain\<close>: the sentinel errors and how they are wrapped, the enumerations
  with the strings they are stored as, one record per table row and the predicates on them.
  Identifiers are the text of a UUID; a Go pointer is an \<open>option\<close>.
\<close>

section \<open>Errors\<close>

text \<open>
  \<open>Wrap msg e\<close> is \<open>fmt.Errorf("msg: %w", e)\<close>, \<open>Suffixed e msg\<close> is \<open>fmt.Errorf("%w: msg", e)\<close>, \<open>Errf msg\<close> an error without a wrapped one,
  \<open>PveErr\<close> the \<open>*proxmox.Error\<close> with code, message and HTTP status, \<open>ErrDriver\<close> an error of the
  database driver (connection, constraint) and \<open>CtxDone\<close> the error of a cancelled context.
  \<open>OutOfFuel\<close> is no error of the program: it says that a polling loop has not returned within the
  fuel it was given.
\<close>

datatype err = ErrNotFound | ErrIdempotencyConflict | ErrCapacityExhausted | ErrAlreadyLeased
  | ErrNotClaimable | ErrLeaseLost | ErrInvalidTransition | ErrVersionConflict
  | PveErr string string int | ErrDriver string | CtxDone | OutOfFuel | Errf string | Wrap string err | Suffixed err string

fun errors_is :: "err \<Rightarrow> err \<Rightarrow> bool" where
  "errors_is (Wrap m e) t = (Wrap m e = t \<or> errors_is e t)"
| "errors_is (Suffixed e m) t = (Suffixed e m = t \<or> errors_is e t)"
| "errors_is e t = (e = t)"

fun errors_as_pve :: "err \<Rightarrow> (string \<times> string \<times> int) option" where
  "errors_as_pve (Wrap m e) = errors_as_pve e"
| "errors_as_pve (Suffixed e m) = errors_as_pve e"
| "errors_as_pve (PveErr c m s) = Some (c, m, s)"
| "errors_as_pve e = None"

fun err_text :: "err \<Rightarrow> string" where
  "err_text ErrNotFound = ''domain: resource not found''"
| "err_text ErrIdempotencyConflict = ''domain: idempotency key conflict''"
| "err_text ErrCapacityExhausted = ''domain: capacity exhausted''"
| "err_text ErrAlreadyLeased = ''domain: job already leased''"
| "err_text ErrNotClaimable = ''domain: job not claimable''"
| "err_text ErrLeaseLost = ''domain: job lease lost''"
| "err_text ErrInvalidTransition = ''domain: invalid state transition''"
| "err_text ErrVersionConflict = ''domain: version conflict''"
| "err_text (PveErr c m s) = ''proxmox: '' @ c @ '' (http '' @ itoa s @ ''): '' @ m"
| "err_text (ErrDriver m) = m"
| "err_text CtxDone = ''context canceled''"
| "err_text OutOfFuel = []"
| "err_text (Errf m) = m"
| "err_text (Wrap m e) = m @ '': '' @ err_text e"
| "err_text (Suffixed e m) = err_text e @ '': '' @ m"

text \<open>The shape of a call whose error is wrapped with a prefix.\<close>

abbreviation wrapE :: "string \<Rightarrow> ('s, err, 'a) eff \<Rightarrow> ('s, err, 'a) eff" where
  "wrapE m \<equiv> onErr (Wrap m)"

section \<open>Enumerations\<close>

datatype template_state = TemplateDraft | TemplateCandidate | TemplateActive | TemplateDeprecated
  | TemplateRevoked

datatype instance_state = InstanceRequested | InstanceReserving | InstanceCloning
  | InstanceConfiguring | InstanceNetworkBinding | InstanceBooting | InstanceWaitingGuest
  | InstanceValidatingIdentity | InstanceValidatingEgress | InstanceApplyingWorkload
  | InstanceReady | InstanceRetryWait | InstanceDegraded | InstanceQuarantined
  | InstanceRollingBack | InstanceFailed | InstanceDraining | InstanceDecommissioning
  | InstanceReleasingResources | InstanceRetired

datatype job_operation = JobOpProvision | JobOpRetry | JobOpRebuild | JobOpQuarantine
  | JobOpDecommission | JobOpReconcile

datatype job_state = JobQueued | JobRunning | JobRetryWait | JobSucceeded | JobFailed | JobCancelled

datatype alloc_state = AllocationFree | AllocationReserved | AllocationAssigned
  | AllocationQuarantined | AllocationReleased

datatype validation_result = ValidationPass | ValidationWarn | ValidationFail | ValidationUnknown

datatype alert_status = AlertFiring | AlertAcknowledged | AlertResolved

datatype finding_severity = FindingInfo | FindingWarning | FindingCritical

datatype finding_state = FindingOpen | FindingAcknowledged | FindingRemediating | FindingResolved

fun template_state_str :: "template_state \<Rightarrow> string" where
  "template_state_str TemplateDraft = ''DRAFT''"
| "template_state_str TemplateCandidate = ''CANDIDATE''"
| "template_state_str TemplateActive = ''ACTIVE''"
| "template_state_str TemplateDeprecated = ''DEPRECATED''"
| "template_state_str TemplateRevoked = ''REVOKED''"

fun instance_state_str :: "instance_state \<Rightarrow> string" where
  "instance_state_str InstanceRequested = ''REQUESTED''"
| "instance_state_str InstanceReserving = ''RESERVING''"
| "instance_state_str InstanceCloning = ''CLONING''"
| "instance_state_str InstanceConfiguring = ''CONFIGURING''"
| "instance_state_str InstanceNetworkBinding = ''NETWORK_BINDING''"
| "instance_state_str InstanceBooting = ''BOOTING''"
| "instance_state_str InstanceWaitingGuest = ''WAITING_GUEST''"
| "instance_state_str InstanceValidatingIdentity = ''VALIDATING_IDENTITY''"
| "instance_state_str InstanceValidatingEgress = ''VALIDATING_EGRESS''"
| "instance_state_str InstanceApplyingWorkload = ''APPLYING_WORKLOAD''"
| "instance_state_str InstanceReady = ''READY''"
| "instance_state_str InstanceRetryWait = ''RETRY_WAIT''"
| "instance_state_str InstanceDegraded = ''DEGRADED''"
| "instance_state_str InstanceQuarantined = ''QUARANTINED''"
| "instance_state_str InstanceRollingBack = ''ROLLING_BACK''"
| "instance_state_str InstanceFailed = ''FAILED''"
| "instance_state_str InstanceDraining = ''DRAINING''"
| "instance_state_str InstanceDecommissioning = ''DECOMMISSIONING''"
| "instance_state_str InstanceReleasingResources = ''RELEASING_RESOURCES''"
| "instance_state_str InstanceRetired = ''RETIRED''"

fun job_operation_str :: "job_operation \<Rightarrow> string" where
  "job_operation_str JobOpProvision = ''PROVISION''"
| "job_operation_str JobOpRetry = ''RETRY''"
| "job_operation_str JobOpRebuild = ''REBUILD''"
| "job_operation_str JobOpQuarantine = ''QUARANTINE''"
| "job_operation_str JobOpDecommission = ''DECOMMISSION''"
| "job_operation_str JobOpReconcile = ''RECONCILE''"

fun job_state_str :: "job_state \<Rightarrow> string" where
  "job_state_str JobQueued = ''QUEUED''"
| "job_state_str JobRunning = ''RUNNING''"
| "job_state_str JobRetryWait = ''RETRY_WAIT''"
| "job_state_str JobSucceeded = ''SUCCEEDED''"
| "job_state_str JobFailed = ''FAILED''"
| "job_state_str JobCancelled = ''CANCELLED''"

fun validation_result_str :: "validation_result \<Rightarrow> string" where
  "validation_result_str ValidationPass = ''PASS''"
| "validation_result_str ValidationWarn = ''WARN''"
| "validation_result_str ValidationFail = ''FAIL''"
| "validation_result_str ValidationUnknown = ''UNKNOWN''"

lemma instance_state_str_inj: "inj instance_state_str"
proof (rule injI)
  fix a b :: instance_state
  assume "instance_state_str a = instance_state_str b"
  then show "a = b" by (cases a; cases b) simp_all
qed

section \<open>Rows\<close>

record template =
  tpl_id :: string
  tpl_name :: string
  tpl_family :: string
  tpl_version :: string
  tpl_os_family :: string
  tpl_os_version :: string
  tpl_arch :: string
  tpl_cluster :: string
  tpl_node :: string
  tpl_vmid :: int
  tpl_storage :: string
  tpl_clone_modes :: "string list"
  tpl_checksum :: string
  tpl_manifest :: raw_json
  tpl_state :: template_state
  tpl_validation :: validation_result
  tpl_created :: time
  tpl_updated :: time

definition template_IsUsable :: "template \<Rightarrow> bool" where
  "template_IsUsable t \<longleftrightarrow> tpl_state t = TemplateActive"

record vm_instance =
  inst_id :: string
  inst_logical_name :: string
  inst_hostname :: string
  inst_state :: instance_state
  inst_generation :: int
  inst_template :: string
  inst_cluster :: "string option"
  inst_node :: "string option"
  inst_vmid :: "int option"
  inst_pool :: "string option"
  inst_config :: raw_json
  inst_config_hash :: "string option"
  inst_workload_adapter :: "string option"
  inst_workload_spec :: raw_json
  inst_version :: int
  inst_created :: time
  inst_updated :: time
  inst_retired :: "time option"

definition IsRetired :: "vm_instance \<Rightarrow> bool" where
  "IsRetired i \<longleftrightarrow> inst_retired i \<noteq> None"

record job =
  job_id :: string
  job_instance :: string
  job_op :: job_operation
  job_st :: job_state
  job_checkpoint :: instance_state
  job_data :: raw_json
  job_priority :: int
  job_attempt :: int
  job_max_attempts :: int
  job_next_attempt :: time
  job_owner :: "string option"
  job_lease_until :: "time option"
  job_error_code :: "string option"
  job_error_message :: "string option"
  job_created :: time
  job_started :: "time option"
  job_finished :: "time option"

definition IsLeased :: "job \<Rightarrow> time \<Rightarrow> bool" where
  "IsLeased j now \<longleftrightarrow> job_owner j \<noteq> None \<and>
     (case job_lease_until j of None \<Rightarrow> False | Some t \<Rightarrow> now < t)"

definition IsClaimable :: "job \<Rightarrow> time \<Rightarrow> bool" where
  "IsClaimable j now \<longleftrightarrow>
     (if job_st j \<noteq> JobQueued \<and> job_st j \<noteq> JobRetryWait then False else \<not> job_next_attempt j > now)"

record segment =
  seg_id :: string
  seg_name :: string
  seg_cidr :: string
  seg_gateway :: string
  seg_bridge :: string
  seg_dns :: "string list"
  seg_ipv6_policy :: string
  seg_strategy :: string
  seg_exclusions :: raw_json
  seg_state :: string
  seg_created :: time
  seg_updated :: time

record ip_alloc =
  ipa_id :: string
  ipa_segment :: string
  ipa_address :: string
  ipa_instance :: "string option"
  ipa_state :: alloc_state
  ipa_reserved_until :: "time option"
  ipa_assigned :: "time option"
  ipa_released :: "time option"
  ipa_created :: time

definition IsExpiredReservation :: "ip_alloc \<Rightarrow> time \<Rightarrow> bool" where
  "IsExpiredReservation a now \<longleftrightarrow> ipa_state a = AllocationReserved \<and>
     (case ipa_reserved_until a of None \<Rightarrow> False | Some t \<Rightarrow> now > t)"

record identity_obs =
  obs_id :: string
  obs_instance :: string
  obs_generation :: int
  obs_digest :: string
  obs_ssh :: string
  obs_cloud_init :: "string option"
  obs_hostname :: string
  obs_macs :: "string list"
  obs_ips :: "string list"
  obs_boot :: "string option"
  obs_facts :: raw_json
  obs_at :: time

record validation_run =
  run_id :: string
  run_instance :: string
  run_job :: "string option"
  run_type :: string
  run_result :: validation_result
  run_ruleset :: string
  run_evidence :: raw_json
  run_started :: time
  run_finished :: "time option"

record audit_event =
  aud_id :: string
  aud_at :: time
  aud_actor_type :: string
  aud_actor :: string
  aud_action :: string
  aud_rtype :: string
  aud_rid :: string
  aud_request :: "string option"
  aud_correlation :: "string option"
  aud_before :: raw_json
  aud_after :: raw_json
  aud_metadata :: raw_json

record idem_record =
  idem_scope :: string
  idem_key :: string
  idem_hash :: string
  idem_status :: "int option"
  idem_body :: raw_json
  idem_resource :: "string option"
  idem_expires :: time
  idem_created :: time

record finding =
  fnd_id :: string
  fnd_category :: string
  fnd_severity :: finding_severity
  fnd_rtype :: "string option"
  fnd_rid :: "string option"
  fnd_summary :: string
  fnd_details :: raw_json
  fnd_state :: finding_state
  fnd_detected :: time
  fnd_resolved :: "time option"

record alert =
  alr_id :: string
  alr_fingerprint :: string
  alr_status :: alert_status
  alr_severity :: string
  alr_rtype :: string
  alr_rid :: string
  alr_title :: string
  alr_description :: string
  alr_created :: time
  alr_updated :: time
  alr_ack_at :: "time option"
  alr_ack_by :: "string option"
  alr_ack_note :: "string option"
  alr_version :: int

section \<open>The order of the lifecycle\<close>

text \<open>
  The position of an instance state on the way from \<open>REQUESTED\<close> to \<open>READY\<close>; the states a
  provisioning step cannot leave come last.  It orders the enumeration as the declaration lists
  it, and serves as the measure of the worker's loop.
\<close>

fun lifecycle_rank :: "instance_state \<Rightarrow> nat" where
  "lifecycle_rank InstanceRequested = 0"
| "lifecycle_rank InstanceReserving = 1"
| "lifecycle_rank InstanceCloning = 2"
| "lifecycle_rank InstanceConfiguring = 3"
| "lifecycle_rank InstanceNetworkBinding = 4"
| "lifecycle_rank InstanceBooting = 5"
| "lifecycle_rank InstanceWaitingGuest = 6"
| "lifecycle_rank InstanceValidatingIdentity = 7"
| "lifecycle_rank InstanceValidatingEgress = 8"
| "lifecycle_rank InstanceApplyingWorkload = 9"
| "lifecycle_rank InstanceReady = 10"
| "lifecycle_rank InstanceRetryWait = 11"
| "lifecycle_rank InstanceDegraded = 12"
| "lifecycle_rank InstanceQuarantined = 13"
| "lifecycle_rank InstanceRollingBack = 14"
| "lifecycle_rank InstanceFailed = 15"
| "lifecycle_rank InstanceDraining = 16"
| "lifecycle_rank InstanceDecommissioning = 17"
| "lifecycle_rank InstanceReleasingResources = 18"
| "lifecycle_rank InstanceRetired = 19"

lemma lifecycle_rank_inj: "lifecycle_rank a = lifecycle_rank b \<Longrightarrow> a = b"
  by (cases a; cases b) simp_all

lemma lifecycle_rank_le: "lifecycle_rank a \<le> 19"
  by (cases a) simp_all

instantiation instance_state :: linorder
begin

definition less_eq_instance_state :: "instance_state \<Rightarrow> instance_state \<Rightarrow> bool" where
  "a \<le> b \<longleftrightarrow> lifecycle_rank a \<le> lifecycle_rank b"

definition less_instance_state :: "instance_state \<Rightarrow> instance_state \<Rightarrow> bool" where
  "a < b \<longleftrightarrow> lifecycle_rank a < lifecycle_rank b"

instance
  by standard (auto simp: less_eq_instance_state_def less_instance_state_def dest: lifecycle_rank_inj)

end

section \<open>Facts about wrapped errors\<close>

lemma errors_is_Wrap [simp]: "t \<noteq> Wrap m e \<Longrightarrow> errors_is (Wrap m e) t = errors_is e t"
  by auto

lemma errors_is_Suffixed [simp]: "t \<noteq> Suffixed e m \<Longrightarrow> errors_is (Suffixed e m) t = errors_is e t"
  by auto

lemma errors_is_refl [simp]: "errors_is e e"
  by (cases e) auto

declare errors_is.simps(1,2) [simp del]

end
