(* ===== verification/Database.thy ===== *)
theory Database
  imports Domain
begin

text \<open>
  The PostgreSQL database the repositories share (\<open>internal/storage/db.go\<close> and the tables of
  \<open>migrations/\<close>), the two ways a call to it can go wrong, transactions (\<open>WithTx\<close>), and the
  append-only audit log (\<open>internal/audit/writer.go\<close>).

  \<open>db_faults\<close> is the schedule of what happens to the next calls to the server: \<open>Applied\<close> is the
  normal case, \<open>Refused\<close> a call that fails before it has an effect, \<open>Lost\<close> one that takes effect
  and whose reply is lost with the connection.  An empty schedule is a healthy connection.
  Theorems that leave it arbitrary hold whatever fails, whenever it fails.

  \<open>gen_random_uuid()\<close> yields \<open>db_uuid d n\<close> on its \<open>n\<close>-th call; \<open>now()\<close> is \<open>db_now\<close>.
\<close>

section \<open>State\<close>

datatype outcome = Applied | Refused | Lost

record db =
  db_clusters :: "string list"
  db_templates :: "template list"
  db_segments :: "segment list"
  db_instances :: "vm_instance list"
  db_allocs :: "ip_alloc list"
  db_jobs :: "job list"
  db_obs :: "identity_obs list"
  db_runs :: "validation_run list"
  db_idem :: "idem_record list"
  db_hostnames :: "(string \<times> int) list"
  db_audit :: "audit_event list"
  db_findings :: "finding list"
  db_alerts :: "alert list"
  db_now :: time
  db_draws :: nat
  db_uuid :: "nat \<Rightarrow> string"
  db_faults :: "outcome list"

type_synonym 'a dbm = "(db, err, 'a) eff"

definition conn_error :: err where
  "conn_error = ErrDriver ''driver: bad connection''"

section \<open>Statements\<close>

text \<open>One round trip to the server.\<close>

definition stmt :: "'a dbm \<Rightarrow> 'a dbm" where
  "stmt q d = (case db_faults d of
       [] \<Rightarrow> q d
     | Applied # fs \<Rightarrow> q (d\<lparr>db_faults := fs\<rparr>)
     | Refused # fs \<Rightarrow> (Inl conn_error, d\<lparr>db_faults := fs\<rparr>)
     | Lost # fs \<Rightarrow> (Inl conn_error, snd (q (d\<lparr>db_faults := fs\<rparr>))))"

definition gen_random_uuid :: "string dbm" where
  "gen_random_uuid d = (Inr (db_uuid d (db_draws d)), d\<lparr>db_draws := Suc (db_draws d)\<rparr>)"

text \<open>
  \<open>UPDATE ... WHERE\<close>: \<open>Inr n\<close> with the number of rows affected.  The caller's
  \<open>requireRowsAffected\<close> turns 0 into an error of its own.
\<close>

definition require_rows :: "err \<Rightarrow> nat \<Rightarrow> unit dbm" where
  "require_rows e n = (if n = 0 then failE e else retE ())"

text \<open>An UPDATE of one table, and the shape of the calls that run one and check the rows affected.\<close>

definition upd_tab :: "(db \<Rightarrow> 'r list) \<Rightarrow> ('r list \<Rightarrow> db \<Rightarrow> db) \<Rightarrow> (time \<Rightarrow> 'r \<Rightarrow> bool) \<Rightarrow> (time \<Rightarrow> 'r \<Rightarrow> 'r) \<Rightarrow> nat dbm" where
  "upd_tab tab put p f d = (Inr (sql_count (p (db_now d)) (tab d)),
     put (sql_update (p (db_now d)) (f (db_now d)) (tab d)) d)"

abbreviation exec_rows :: "string \<Rightarrow> err \<Rightarrow> nat dbm \<Rightarrow> unit dbm" where
  "exec_rows m e q \<equiv> bindE (wrapE m (stmt q)) (require_rows e)"

abbreviation put_instances :: "vm_instance list \<Rightarrow> db \<Rightarrow> db" where
  "put_instances rs \<equiv> db_instances_update (\<lambda>_. rs)"

abbreviation put_allocs :: "ip_alloc list \<Rightarrow> db \<Rightarrow> db" where
  "put_allocs rs \<equiv> db_allocs_update (\<lambda>_. rs)"

abbreviation put_templates :: "template list \<Rightarrow> db \<Rightarrow> db" where
  "put_templates rs \<equiv> db_templates_update (\<lambda>_. rs)"

abbreviation put_alerts :: "alert list \<Rightarrow> db \<Rightarrow> db" where
  "put_alerts rs \<equiv> db_alerts_update (\<lambda>_. rs)"

text \<open>A query of many rows.\<close>

definition queryE :: "string \<Rightarrow> (db \<Rightarrow> 'a) \<Rightarrow> 'a dbm" where
  "queryE m f = wrapE m (stmt (getE f))"

text \<open>A row read by \<open>Scan\<close>: \<open>sql.ErrNoRows\<close> becomes \<open>ErrNotFound\<close>.\<close>

definition scan_row :: "'r option \<Rightarrow> 'r dbm" where
  "scan_row r = (case r of None \<Rightarrow> failE ErrNotFound | Some x \<Rightarrow> retE x)"

text \<open>A \<open>QueryRow(...).Scan(...)\<close>: not finding the row is not wrapped, any other error is.\<close>

definition scanE :: "string \<Rightarrow> 'a dbm \<Rightarrow> 'a dbm" where
  "scanE m q = onErr (\<lambda>e. if e = ErrNotFound then ErrNotFound else Wrap m e) (stmt q)"

definition constraint_error :: "string \<Rightarrow> err" where
  "constraint_error c = ErrDriver (''ERROR: violates constraint '' @ c)"

section \<open>Transactions\<close>

text \<open>
  Rolling back restores every table as it was at \<open>BEGIN\<close>.  What has been used of the fault
  schedule, the clock and the generator of identifiers are not part of the transaction.
\<close>

definition roll_back :: "db \<Rightarrow> db \<Rightarrow> db" where
  "roll_back d0 d1 = d0\<lparr>db_faults := db_faults d1, db_now := db_now d1, db_draws := db_draws d1\<rparr>"

definition commit_tx :: "db \<Rightarrow> 'a \<Rightarrow> 'a dbm" where
  "commit_tx d0 x d1 = (case db_faults d1 of
       [] \<Rightarrow> (Inr x, d1)
     | Applied # fs \<Rightarrow> (Inr x, d1\<lparr>db_faults := fs\<rparr>)
     | Refused # fs \<Rightarrow> (Inl conn_error, roll_back d0 (d1\<lparr>db_faults := fs\<rparr>))
     | Lost # fs \<Rightarrow> (Inl conn_error, d1\<lparr>db_faults := fs\<rparr>))"

definition WithTx :: "'a dbm \<Rightarrow> 'a dbm" where
  "WithTx fn d0 = (case wrapE ''storage: begin tx'' (stmt (retE ())) d0 of
       (Inl e, d) \<Rightarrow> (Inl e, d)
     | (Inr _, d) \<Rightarrow> (case fn d of
           (Inl e, d1) \<Rightarrow> (Inl e, roll_back d d1)
         | (Inr x, d1) \<Rightarrow> commit_tx d x d1))"

section \<open>The audit log\<close>

definition audit_Append :: "audit_event \<Rightarrow> unit dbm" where
  "audit_Append ev = wrapE ''audit: append event'' (stmt (bindE gen_random_uuid (\<lambda>u.
     modE (\<lambda>d. d\<lparr>db_audit := db_audit d @
       [ev\<lparr>aud_id := u, aud_at := db_now d,
           aud_metadata := (case aud_metadata ev of None \<Rightarrow> Some (JObj []) | Some m \<Rightarrow> Some m)\<rparr>]\<rparr>))))"

definition system_event :: "string \<Rightarrow> string \<Rightarrow> string \<Rightarrow> string \<Rightarrow> (string \<times> json) list \<Rightarrow> audit_event" where
  "system_event actor action rtype rid md =
     \<lparr>aud_id = [], aud_at = 0, aud_actor_type = ''system'', aud_actor = actor, aud_action = action,
      aud_rtype = rtype, aud_rid = rid, aud_request = None, aud_correlation = None,
      aud_before = None, aud_after = None, aud_metadata = Some (JObj md)\<rparr>"

section \<open>Laws\<close>

text \<open>The tables: all of the database but the clock, the generator and the fault schedule.\<close>

definition tables :: "db \<Rightarrow> db" where
  "tables d = d\<lparr>db_now := 0, db_draws := 0, db_faults := []\<rparr>"

definition same_tables :: "db \<Rightarrow> db \<Rightarrow> bool" where
  "same_tables d d' \<longleftrightarrow> tables d' = tables d"

lemma same_tables_refl [simp]: "same_tables d d"
  by (simp add: same_tables_def)

lemma same_tables_trans: "same_tables a b \<Longrightarrow> same_tables b c \<Longrightarrow> same_tables a c"
  by (simp add: same_tables_def)

lemma same_tables_faults [simp]: "same_tables d (d\<lparr>db_faults := fs\<rparr>)"
  by (simp add: same_tables_def tables_def)

lemma same_tables_fields:
  assumes "same_tables d d'"
  shows "db_clusters d' = db_clusters d" "db_templates d' = db_templates d" "db_segments d' = db_segments d"
    "db_instances d' = db_instances d" "db_allocs d' = db_allocs d" "db_jobs d' = db_jobs d"
    "db_obs d' = db_obs d" "db_runs d' = db_runs d" "db_idem d' = db_idem d"
    "db_hostnames d' = db_hostnames d" "db_audit d' = db_audit d" "db_findings d' = db_findings d"
    "db_alerts d' = db_alerts d" "db_uuid d' = db_uuid d"
  using assms by (cases d; cases d'; simp add: same_tables_def tables_def)+

lemma roll_back_tables [simp]: "same_tables d0 (roll_back d0 d1)"
  by (simp add: same_tables_def tables_def roll_back_def)

lemma reflp_same_tables: "reflp same_tables"
  by (simp add: reflpI)

lemma transp_same_tables: "transp same_tables"
  by (auto intro: transpI same_tables_trans)

lemma stmt_healthy [simp]: "db_faults d = [] \<Longrightarrow> stmt q d = q d"
  by (simp add: stmt_def)

lemma stmt_cases:
  assumes "stmt q d = (r, d')"
  obtains (ran) d0 where "same_tables d d0" "db_now d0 = db_now d" "db_draws d0 = db_draws d" "q d0 = (r, d')"
    | (refused) "r = Inl conn_error" "same_tables d d'" "db_now d' = db_now d" "db_draws d' = db_draws d"
    | (lost) d0 r0 where "same_tables d d0" "db_now d0 = db_now d" "db_draws d0 = db_draws d"
        "q d0 = (r0, d')" "r = Inl conn_error"
proof (cases "db_faults d")
  case Nil
  with assms that(1)[of d] show ?thesis by simp
next
  case (Cons f fs)
  let ?d = "d\<lparr>db_faults := fs\<rparr>"
  show ?thesis
  proof (cases f)
    case Applied
    with assms Cons that(1)[of ?d] show ?thesis by (simp add: stmt_def)
  next
    case Refused
    with assms Cons that(2) show ?thesis by (auto simp: stmt_def)
  next
    case Lost
    obtain r0 d1 where "q ?d = (r0, d1)" by fastforce
    with Lost assms Cons that(3)[of ?d r0] show ?thesis by (auto simp: stmt_def)
  qed
qed

text \<open>A statement that returned a value ran, from the same tables.\<close>

lemma stmt_InrE:
  assumes "stmt q d = (Inr x, d')"
  obtains fs where "q (d\<lparr>db_faults := fs\<rparr>) = (Inr x, d')"
proof (cases "db_faults d")
  case Nil
  then have "d\<lparr>db_faults := []\<rparr> = d" by (metis (full_types) db.surjective db.update_convs(17))
  with Nil assms that[of "[]"] show ?thesis by simp
next
  case (Cons f fs)
  with assms that[of fs] show ?thesis by (cases f) (auto simp: stmt_def)
qed

text \<open>\<open>insensitive R\<close>: what fails does not matter to \<open>R\<close>.\<close>

definition insensitive :: "(db \<Rightarrow> db \<Rightarrow> bool) \<Rightarrow> bool" where
  "insensitive R \<longleftrightarrow> (\<forall>a b c. same_tables a b \<longrightarrow> db_now b = db_now a \<longrightarrow> R b c \<longrightarrow> R a c)"

lemma keeps_stmt:
  assumes "reflp R" "insensitive R" "keeps R q"
  shows "keeps R (stmt q)"
proof (rule keepsI)
  fix s
  obtain r s' where run: "stmt q s = (r, s')" by fastforce
  from run show "R s (snd (stmt q s))"
  proof (cases rule: stmt_cases)
    case (ran d0)
    then have "R d0 s'" using assms(3) keepsD by fastforce
    with ran run assms(2) show ?thesis unfolding insensitive_def by fastforce
  next
    case refused
    have "R s' s'" using assms(1) by (simp add: reflpD)
    with refused run assms(2) show ?thesis unfolding insensitive_def by fastforce
  next
    case (lost d0 r0)
    then have "R d0 s'" using assms(3) keepsD by fastforce
    with lost run assms(2) show ?thesis unfolding insensitive_def by fastforce
  qed
qed

lemma keeps_scanE: "reflp R \<Longrightarrow> insensitive R \<Longrightarrow> keeps R q \<Longrightarrow> keeps R (scanE m q)"
  by (simp add: scanE_def keeps_onErr keeps_stmt)

lemma scanE_run: "scanE m q d = (r, d') \<Longrightarrow> \<exists>r1. stmt q d = (r1, d')"
  unfolding scanE_def by (rule onErr_run)

lemma scanE_InrE:
  assumes "scanE m q d = (Inr x, d')"
  obtains fs where "q (d\<lparr>db_faults := fs\<rparr>) = (Inr x, d')"
  using assms by (auto simp: scanE_def onErr_Inr_iff elim: stmt_InrE)

lemma queryE_InrE:
  assumes "queryE m f d = (Inr x, d')"
  obtains fs where "x = f (d\<lparr>db_faults := fs\<rparr>)" "d' = d\<lparr>db_faults := fs\<rparr>"
proof -
  have run: "stmt (getE f) d = (Inr x, d')"
    using assms unfolding queryE_def onErr_Inr_iff .
  show thesis
  proof (rule stmt_InrE[OF run])
    fix fs
    assume "getE f (d\<lparr>db_faults := fs\<rparr>) = (Inr x :: err + 'a, d')"
    then show thesis by (intro that[of fs]) (auto simp: getE_def)
  qed
qed

lemma queryE_healthy: "db_faults d = [] \<Longrightarrow> queryE m f d = (Inr (f d), d)"
  by (simp add: queryE_def onErr_def getE_def)

lemma scanE_healthy_Inr: "db_faults d = [] \<Longrightarrow> q d = (Inr x, d') \<Longrightarrow> scanE m q d = (Inr x, d')"
  by (simp add: scanE_def onErr_def)

lemma keeps_require: "reflp R \<Longrightarrow> keeps R (require_rows e n)"
  by (simp add: require_rows_def keeps_ret keeps_fail)

lemma keeps_scan_row: "reflp R \<Longrightarrow> keeps R (scan_row r)"
  by (simp add: scan_row_def keeps_ret keeps_fail split: option.split)

lemma keeps_uuid: "(\<And>d n. R d (d\<lparr>db_draws := n\<rparr>)) \<Longrightarrow> keeps R gen_random_uuid"
  by (simp add: keeps_def gen_random_uuid_def)

text \<open>A relation on tables only, the usual case.\<close>

definition table_rel :: "(db \<Rightarrow> db \<Rightarrow> bool) \<Rightarrow> bool" where
  "table_rel R \<longleftrightarrow> (\<forall>a a' b b'. same_tables a a' \<longrightarrow> same_tables b b' \<longrightarrow> R a b \<longrightarrow> R a' b')"

lemma same_tables_sym: "same_tables a b \<Longrightarrow> same_tables b a"
  by (simp add: same_tables_def)

lemma table_rel_insensitive: "table_rel R \<Longrightarrow> insensitive R"
  unfolding table_rel_def insensitive_def by (meson same_tables_refl same_tables_sym)

text \<open>Invariants and frames of the tables.\<close>

definition tab_inv :: "(db \<Rightarrow> bool) \<Rightarrow> bool" where
  "tab_inv I \<longleftrightarrow> (\<forall>d d'. same_tables d d' \<longrightarrow> I d' = I d)"

abbreviation preserves :: "(db \<Rightarrow> bool) \<Rightarrow> 'a dbm \<Rightarrow> bool" where
  "preserves I \<equiv> keeps (\<lambda>d d'. I d \<longrightarrow> I d')"

lemma tab_inv_rel: "tab_inv I \<Longrightarrow> table_rel (\<lambda>d d'. I d \<longrightarrow> I d')"
  unfolding table_rel_def tab_inv_def by blast

lemma tab_inv_insensitive: "tab_inv I \<Longrightarrow> insensitive (\<lambda>d d'. I d \<longrightarrow> I d')"
  by (rule table_rel_insensitive) (rule tab_inv_rel)

lemma preserves_stmt: "tab_inv I \<Longrightarrow> preserves I q \<Longrightarrow> preserves I (stmt q)"
  by (intro keeps_stmt reflp_inv tab_inv_insensitive)

lemma preserves_scanE: "tab_inv I \<Longrightarrow> preserves I q \<Longrightarrow> preserves I (scanE m q)"
  by (simp add: scanE_def keeps_onErr preserves_stmt)

lemma preserves_read: "tab_inv I \<Longrightarrow> preserves I (scanE m (\<lambda>d. scan_row (f d) d))"
  by (rule preserves_scanE) (auto simp: keeps_def scan_row_def eff_defs split: option.split)

lemma preserves_query: "tab_inv I \<Longrightarrow> preserves I (queryE m f)"
  by (simp add: queryE_def keeps_onErr preserves_stmt keeps_get reflp_inv)

lemma preserves_exec_rows: "tab_inv I \<Longrightarrow> preserves I q \<Longrightarrow> preserves I (exec_rows m e q)"
  by (intro keeps_bind keeps_onErr preserves_stmt keeps_require rel_intro)

lemma preserves_uuid: "tab_inv I \<Longrightarrow> preserves I gen_random_uuid"
proof (rule keeps_uuid)
  fix d n
  assume I: "tab_inv I"
  have "same_tables d (d\<lparr>db_draws := n\<rparr>)" by (simp add: same_tables_def tables_def)
  with I show "I d \<longrightarrow> I (d\<lparr>db_draws := n\<rparr>)" by (auto simp: tab_inv_def)
qed

text \<open>
  Atomicity of \<open>WithTx\<close>: the tables after it are those before it, or those the function left
  when it returned without an error; and a transaction that reports success was committed.
\<close>

lemma commit_tx_cases:
  assumes "commit_tx d0 x d1 = (r, d')"
  obtains e where "r = Inl e" "same_tables d0 d'"
    | "same_tables d1 d'" "r = Inr x \<or> r = Inl conn_error"
proof (cases "db_faults d1")
  case Nil
  with assms that show ?thesis by (auto simp: commit_tx_def)
next
  case (Cons f fs)
  with assms that show ?thesis by (cases f) (auto simp: commit_tx_def)
qed

lemma begin_tx:
  assumes "wrapE m (stmt (retE u)) d = (b, d0)"
  shows "same_tables d d0 \<and> db_now d0 = db_now d"
proof -
  have "snd (stmt (retE u) d) = d0" using assms by (metis snd_conv snd_onErr)
  then obtain b' where "stmt (retE u) d = (b', d0)" by (metis prod.collapse)
  then show ?thesis
    by (cases rule: stmt_cases) (auto simp: retE_def intro: same_tables_trans)
qed

lemma WithTx_cases:
  assumes "WithTx fn d = (r, d')"
  obtains (rolled_back) e where "r = Inl e" "same_tables d d'"
    | (committed) d0 x d1 where "same_tables d d0" "db_now d0 = db_now d" "fn d0 = (Inr x, d1)" "same_tables d1 d'"
        "r = Inr x \<or> r = Inl conn_error"
proof -
  obtain b d0 where b: "wrapE ''storage: begin tx'' (stmt (retE ())) d = (b, d0)" by fastforce
  note d0 = begin_tx[OF b]
  show ?thesis
  proof (cases b)
    case (Inl e)
    with b assms d0 that(1) show ?thesis by (auto simp: WithTx_def)
  next
    case (Inr u)
    obtain v d1 where v: "fn d0 = (v, d1)" by fastforce
    show ?thesis
    proof (cases v)
      case (Inl e)
      with Inr b v assms have "r = Inl e" "d' = roll_back d0 d1" by (auto simp: WithTx_def)
      then show ?thesis using that(1) d0 same_tables_trans[OF _ roll_back_tables] by blast
    next
      case (Inr x)
      with \<open>b = Inr u\<close> b v assms have "commit_tx d0 x d1 = (r, d')" by (simp add: WithTx_def)
      then show ?thesis
      proof (cases rule: commit_tx_cases)
        case (1 e)
        with that(1) d0 same_tables_trans show ?thesis by blast
      next
        case 2
        with that(2) d0 v Inr show ?thesis by blast
      qed
    qed
  qed
qed

lemma WithTx_InrE:
  assumes "WithTx fn d = (Inr x, d')"
  obtains d0 d1 where "same_tables d d0" "db_now d0 = db_now d" "fn d0 = (Inr x, d1)" "same_tables d1 d'"
  using assms by (cases rule: WithTx_cases) auto

lemma WithTx_healthy:
  assumes "db_faults d = []" "fn d = (r, d1)" "db_faults d1 = []"
  shows "WithTx fn d = (case r of Inl e \<Rightarrow> (Inl e, roll_back d d1) | Inr x \<Rightarrow> (Inr x, d1))"
  using assms by (cases r) (auto simp: WithTx_def commit_tx_def onErr_def retE_def)

lemma keeps_WithTx:
  assumes "reflp R" "table_rel R" "keeps R fn"
  shows "keeps R (WithTx fn)"
proof (rule keepsI)
  fix d
  obtain r d' where run: "WithTx fn d = (r, d')" by fastforce
  from run have "R d d'"
  proof (cases rule: WithTx_cases)
    case (rolled_back e)
    have "R d d" using assms(1) by (simp add: reflpD)
    with rolled_back(2) assms(2) show ?thesis
      unfolding table_rel_def using same_tables_refl by blast
  next
    case (committed d0 x d1)
    then have "R d0 d1" using assms(3) keepsD by fastforce
    with committed(1,4) assms(2) show ?thesis
      unfolding table_rel_def using same_tables_sym by blast
  qed
  with run show "R d (snd (WithTx fn d))" by simp
qed

lemma preserves_WithTx: "tab_inv I \<Longrightarrow> preserves I fn \<Longrightarrow> preserves I (WithTx fn)"
  by (intro keeps_WithTx reflp_inv tab_inv_rel)

lemma stmt_read_cases:
  assumes "stmt (\<lambda>d. scan_row (f d) d) d = (r, d')"
  shows "same_tables d d' \<and> db_now d' = db_now d \<and>
    (\<forall>x. r = Inr x \<longrightarrow> (\<exists>fs. f (d\<lparr>db_faults := fs\<rparr>) = Some x))"
proof -
  have sc: "scan_row v s = (r0, s') \<Longrightarrow> s' = s" for v r0 and s s' :: db
    by (auto simp: scan_row_def eff_defs split: option.splits)
  from assms have "same_tables d d' \<and> db_now d' = db_now d"
    by (cases rule: stmt_cases) (auto dest!: sc)
  moreover have "\<forall>x. r = Inr x \<longrightarrow> (\<exists>fs. f (d\<lparr>db_faults := fs\<rparr>) = Some x)"
    using assms by (auto simp: scan_row_def eff_defs elim!: stmt_InrE split: option.splits)
  ultimately show ?thesis by blast
qed

text \<open>Reading one row: what a result says of the tables.\<close>

lemma scan_read:
  assumes "scanE m (\<lambda>d. scan_row (f d) d) d = (r, d')" "\<And>fs. f (d\<lparr>db_faults := fs\<rparr>) = f d"
  shows "same_tables d d' \<and> db_now d' = db_now d \<and>
    (case r of Inr x \<Rightarrow> f d = Some x | Inl e \<Rightarrow> if errors_is e ErrNotFound then f d = None else True)"
proof -
  obtain r0 where r0: "stmt (\<lambda>d. scan_row (f d) d) d = (r0, d')" using scanE_run[OF assms(1)] by blast
  have frame: "same_tables d d' \<and> db_now d' = db_now d" using stmt_read_cases[OF r0] by blast
  have "r0 = Inl conn_error \<or> r0 = (case f d of None \<Rightarrow> Inl ErrNotFound | Some x \<Rightarrow> Inr x)"
    using r0 assms(2)
    by (auto simp: stmt_def scan_row_def eff_defs split: list.splits outcome.splits option.splits)
  moreover have "r = (case r0 of Inl e \<Rightarrow> Inl (if e = ErrNotFound then ErrNotFound else Wrap m e) | Inr x \<Rightarrow> Inr x)"
    using assms(1) r0 by (auto simp: scanE_def onErr_def split: sum.splits)
  ultimately show ?thesis using frame by (auto simp: conn_error_def split: option.splits)
qed

text \<open>What a statement that updates one table leaves, when it returns.\<close>

lemma exec_upd_Inr:
  assumes "bindE (wrapE m (stmt (upd_tab tab put p f))) (\<lambda>_. retE ()) d = (Inr u, d')"
  obtains fs where "d' = put (sql_update (p (db_now d)) (f (db_now d)) (tab (d\<lparr>db_faults := fs\<rparr>))) (d\<lparr>db_faults := fs\<rparr>)"
  using assms
  by (auto simp: onErr_Inr_iff upd_tab_def retE_def elim!: bindE_Inr_cases stmt_InrE)

lemma exec_rows_Inr:
  assumes "exec_rows m e (upd_tab tab put p f) d = (Inr u, d')"
  obtains fs where "d' = put (sql_update (p (db_now d)) (f (db_now d)) (tab (d\<lparr>db_faults := fs\<rparr>))) (d\<lparr>db_faults := fs\<rparr>)"
    "\<exists>r \<in> set (tab (d\<lparr>db_faults := fs\<rparr>)). p (db_now d) r"
  using assms
  by (auto simp: onErr_Inr_iff upd_tab_def require_rows_def retE_def failE_def sql_count_pos[symmetric]
      elim!: bindE_Inr_cases stmt_InrE split: if_splits)

text \<open>The clock of the database does not move during an operation.\<close>

lemma WithTx_now:
  assumes "\<And>d r d'. fn d = (r, d') \<Longrightarrow> db_now d' = db_now d" "WithTx fn d = (r, d')"
  shows "db_now d' = db_now d"
proof -
  obtain b d0 where b: "wrapE ''storage: begin tx'' (stmt (retE ())) d = (b, d0)" by fastforce
  obtain v d1 where v: "fn d0 = (v, d1)" by fastforce
  have "db_now d1 = db_now d" using assms(1)[OF v] begin_tx[OF b] by simp
  moreover have "db_now (roll_back a c) = db_now c" for a c by (simp add: roll_back_def)
  ultimately show ?thesis
    using assms(2) b v begin_tx[OF b]
    by (auto simp: WithTx_def commit_tx_def split: sum.splits list.splits outcome.splits)
qed

lemma keeps_now_stmt: "keeps (\<lambda>d d'. db_now d' = db_now d) q \<Longrightarrow> keeps (\<lambda>d d'. db_now d' = db_now d) (stmt q)"
  by (rule keeps_stmt) (auto simp: reflp_def insensitive_def)

text \<open>An event is told apart by what the caller wrote, not by the identifier and time it is given.\<close>

definition event_core :: "audit_event \<Rightarrow> audit_event" where
  "event_core e = e\<lparr>aud_id := [], aud_at := 0\<rparr>"

lemma audit_AppendE:
  assumes "audit_Append ev d = (Inr x, d')" "aud_metadata ev = Some m"
  obtains u where "same_tables (d\<lparr>db_audit := db_audit d @ [ev\<lparr>aud_id := u, aud_at := db_now d\<rparr>]\<rparr>) d'"
    "db_now d' = db_now d"
proof -
  have ev: "ev\<lparr>aud_id := u, aud_at := t, aud_metadata := Some m\<rparr> = ev\<lparr>aud_id := u, aud_at := t\<rparr>" for u t
    using assms(2) by (cases ev) simp
  from assms(1) obtain fs where "bindE gen_random_uuid (\<lambda>u. modE (\<lambda>d. d\<lparr>db_audit := db_audit d @
       [ev\<lparr>aud_id := u, aud_at := db_now d, aud_metadata := (case aud_metadata ev of None \<Rightarrow> Some (JObj []) | Some m \<Rightarrow> Some m)\<rparr>]\<rparr>))
      (d\<lparr>db_faults := fs\<rparr>) = (Inr x, d')"
    unfolding audit_Append_def onErr_Inr_iff by (rule stmt_InrE)
  then have "d' = d\<lparr>db_faults := fs, db_draws := Suc (db_draws d),
      db_audit := db_audit d @ [ev\<lparr>aud_id := db_uuid d (db_draws d), aud_at := db_now d\<rparr>]\<rparr>"
    by (simp add: bindE_def gen_random_uuid_def modE_def assms(2) ev)
  then show ?thesis using that by (auto simp: same_tables_def tables_def)
qed

section \<open>A database to evaluate on\<close>

definition demo_instance :: "string \<Rightarrow> vm_instance" where
  "demo_instance i = \<lparr>inst_id = i, inst_logical_name = i, inst_hostname = i, inst_state = InstanceRequested,
     inst_generation = 1, inst_template = ''t1'', inst_cluster = None, inst_node = None, inst_vmid = None,
     inst_pool = None, inst_config = Some (JObj []), inst_config_hash = None, inst_workload_adapter = None,
     inst_workload_spec = Some (JObj []), inst_version = 1, inst_created = 0, inst_updated = 0, inst_retired = None\<rparr>"

definition demo_uuid :: "nat \<Rightarrow> string" where
  "demo_uuid n = CHR ''u'' # digits_of n"

definition demo_db :: db where
  "demo_db = \<lparr>db_clusters = [''c1''], db_templates = [], db_segments = [], db_instances = [], db_allocs = [], db_jobs = [],
     db_obs = [], db_runs = [], db_idem = [], db_hostnames = [], db_audit = [], db_findings = [],
     db_alerts = [], db_now = 1000, db_draws = 0, db_uuid = demo_uuid, db_faults = []\<rparr>"

lemmas demo_defs = demo_instance_def demo_db_def

end
