(* ===== verification/Keyset.thy ===== *)
theory Keyset
  imports Domain
begin

text \<open>
  Keyset pagination: the condition and order every \<open>List\<close> of the repositories puts into its SQL,
  \<open>Paginate\<close> of \<open>internal/httpapi/pagination.go\<close>, and what the two promise together: a client that
  follows \<open>next_cursor\<close> sees every row once, newest first.  The locale \<open>listing\<close> is the contract of
  a repository; each \<open>List\<close> interprets it.
\<close>

section \<open>The SQL of a listing\<close>

text \<open>
  \<open>$1::timestamptz IS NULL OR (created_at, id) < ($1, $2::uuid)\<close>, where \<open>nullableTime\<close> and
  \<open>nullableString\<close> make a zero time and an empty identifier \<open>NULL\<close>; a row comparison that meets a
  \<open>NULL\<close> after equal times is not true.  Canonical UUIDs compare as their text does.
\<close>

definition after_key :: "time \<Rightarrow> string \<Rightarrow> time \<times> string \<Rightarrow> bool" where
  "after_key t i k \<longleftrightarrow> t = zero_time \<or> fst k < t \<or> fst k = t \<and> i \<noteq> [] \<and> snd k < i"

definition newest_first :: "('r \<Rightarrow> time \<times> string) \<Rightarrow> 'r list \<Rightarrow> 'r list" where
  "newest_first key rs = rev (sort_key key rs)"

definition keyset_page :: "('r \<Rightarrow> time \<times> string) \<Rightarrow> ('r \<Rightarrow> bool) \<Rightarrow> time \<Rightarrow> string \<Rightarrow> nat \<Rightarrow> 'r list \<Rightarrow> 'r list" where
  "keyset_page key p t i n rs = take n (newest_first key (filter (\<lambda>r. p r \<and> after_key t i (key r)) rs))"

section \<open>Paginate\<close>

text \<open>A cursor is the position (created_at, id); the text it travels as is opaque to the client.\<close>

definition Paginate :: "'r list \<Rightarrow> nat \<Rightarrow> ('r \<Rightarrow> time) \<Rightarrow> ('r \<Rightarrow> string) \<Rightarrow> 'r list \<times> (time \<times> string) option" where
  "Paginate items limit created ident =
     (if length items > limit then
        let page = take limit items in
        (page, Some (created (page ! (limit - 1)), ident (page ! (limit - 1))))
      else (items, None))"

definition DefaultPageLimit :: int where "DefaultPageLimit = 50"
definition MaxPageLimit :: int where "MaxPageLimit = 200"

text \<open>The \<open>limit\<close> parameter of a request.\<close>

definition page_limit :: "string \<Rightarrow> err + int" where
  "page_limit raw =
     (if raw = [] then Inr (min DefaultPageLimit MaxPageLimit)
      else case atoi raw of
          None \<Rightarrow> Inl (Errf ''invalid limit'')
        | Some n \<Rightarrow> if n \<le> 0 then Inl (Errf ''invalid limit'')
            else Inr (if n > MaxPageLimit then MaxPageLimit else n))"

text \<open>A client that follows the cursors; the fuel bounds the number of requests.\<close>

fun walk_pages :: "(time \<Rightarrow> string \<Rightarrow> nat \<Rightarrow> 'r list) \<Rightarrow> ('r \<Rightarrow> time) \<Rightarrow> ('r \<Rightarrow> string) \<Rightarrow> nat \<Rightarrow> nat \<Rightarrow>
    time \<Rightarrow> string \<Rightarrow> 'r list option" where
  "walk_pages lst created ident limit 0 t i = None"
| "walk_pages lst created ident limit (Suc fuel) t i = (case Paginate (lst t i (limit + 1)) limit created ident of
       (page, None) \<Rightarrow> Some page
     | (page, Some (t', i')) \<Rightarrow> map_option (\<lambda>rest. page @ rest) (walk_pages lst created ident limit fuel t' i'))"

section \<open>Order lemmas\<close>

lemma newest_first_filter: "newest_first key (filter p rs) = filter p (newest_first key rs)"
  by (simp add: newest_first_def filter_sort[symmetric] rev_filter)

lemma set_newest_first [simp]: "set (newest_first key rs) = set rs"
  by (simp add: newest_first_def)

lemma length_newest_first [simp]: "length (newest_first key rs) = length rs"
  by (simp add: newest_first_def)

lemma newest_first_desc:
  assumes "distinct (map key rs)"
  shows "sorted_wrt (\<lambda>a b. key b < key a) (newest_first key rs)"
proof -
  have "distinct (map key (sort_key key rs))"
    using assms by (simp add: distinct_map inj_on_def)
  moreover have "sorted (map key (sort_key key rs))" by simp
  ultimately have "sorted_wrt (<) (map key (sort_key key rs))"
    by (simp add: strict_sorted_iff)
  then show ?thesis
    by (simp add: newest_first_def sorted_wrt_rev sorted_wrt_map)
qed

section \<open>The contract of a listing\<close>

locale listing =
  fixes valid :: "'s \<Rightarrow> bool"
    and rows :: "'s \<Rightarrow> 'r list"
    and lst :: "'s \<Rightarrow> time \<Rightarrow> string \<Rightarrow> nat \<Rightarrow> 'r list"
    and created :: "'r \<Rightarrow> time"
    and ident :: "'r \<Rightarrow> string"
  assumes keys_desc: "valid s \<Longrightarrow> sorted_wrt (\<lambda>a b. (created b, ident b) < (created a, ident a)) (rows s)"
    and keys_real: "valid s \<Longrightarrow> r \<in> set (rows s) \<Longrightarrow> created r \<noteq> zero_time \<and> ident r \<noteq> []"
    and lst_page: "valid s \<Longrightarrow> lst s t i n = take n (filter (\<lambda>r. after_key t i (created r, ident r)) (rows s))"
begin

lemma filter_after_suffix:
  assumes "valid s" "rows s = xs @ r # ys"
  shows "filter (\<lambda>q. after_key (created r) (ident r) (created q, ident q)) (rows s) = ys"
proof -
  have d: "sorted_wrt (\<lambda>a b. (created b, ident b) < (created a, ident a)) (xs @ r # ys)"
    using keys_desc[OF assms(1)] assms(2) by simp
  have r: "created r \<noteq> zero_time" "ident r \<noteq> []" using keys_real[OF assms(1), of r] assms(2) by auto
  then have k: "after_key (created r) (ident r) (created q, ident q) \<longleftrightarrow> (created q, ident q) < (created r, ident r)" for q
    by (auto simp: after_key_def less_prod_def)
  have "filter (\<lambda>q. (created q, ident q) < (created r, ident r)) xs = []"
    using d by (auto simp: filter_empty_conv sorted_wrt_append dest: order.asym)
  moreover have "filter (\<lambda>q. (created q, ident q) < (created r, ident r)) ys = ys"
    using d by (auto simp: filter_id_conv sorted_wrt_append)
  ultimately show ?thesis using assms(2) by (simp only: k filter_append filter.simps) simp
qed

lemma walk_suffix:
  assumes "valid s" "0 < limit"
    and "filter (\<lambda>q. after_key t i (created q, ident q)) (rows s) = suf"
    and "\<exists>pre. rows s = pre @ suf" "length suf < fuel"
  shows "walk_pages (lst s) created ident limit fuel t i = Some suf"
  using assms(3-)
proof (induction fuel arbitrary: t i suf)
  case 0
  then show ?case by simp
next
  case (Suc fuel)
  have items: "lst s t i (limit + 1) = take (limit + 1) suf"
    using lst_page[OF assms(1)] Suc.prems(1) by simp
  show ?case
  proof (cases "length suf > limit")
    case False
    then have "Paginate (lst s t i (limit + 1)) limit created ident = (suf, None)"
      unfolding items by (simp add: Paginate_def)
    then show ?thesis by simp
  next
    case True
    define r where "r = suf ! (limit - 1)"
    have page: "take limit (take (limit + 1) suf) = take limit suf" by simp
    have split: "suf = take (limit - 1) suf @ r # drop limit suf"
      using True assms(2) id_take_nth_drop[of "limit - 1" suf] by (simp add: r_def)
    obtain pre where pre: "rows s = pre @ suf" using Suc.prems(2) by blast
    have f: "filter (\<lambda>q. after_key (created r) (ident r) (created q, ident q)) (rows s) = drop limit suf"
      by (rule filter_after_suffix[OF assms(1), of "pre @ take (limit - 1) suf"])
         (use pre split in \<open>metis append_assoc\<close>)
    have "\<exists>pre. rows s = pre @ drop limit suf" using pre by (intro exI[of _ "pre @ take limit suf"]) simp
    moreover have "length (drop limit suf) < fuel" using Suc.prems(3) True assms(2) by simp
    ultimately have "walk_pages (lst s) created ident limit fuel (created r) (ident r) = Some (drop limit suf)"
      by (rule Suc.IH[OF f])
    moreover have "Paginate (take (limit + 1) suf) limit created ident = (take limit suf, Some (created r, ident r))"
      using True assms(2) by (simp add: Paginate_def Let_def page r_def)
    ultimately show ?thesis using items by simp
  qed
qed

theorem walk_complete:
  assumes "valid s" "0 < limit" "length (rows s) < fuel"
  shows "walk_pages (lst s) created ident limit fuel zero_time [] = Some (rows s)"
  by (rule walk_suffix[OF assms(1,2) _ _ assms(3)]) (auto simp: after_key_def)

end

text \<open>The rows of a table as a listing needs them: a key, and a creation time that is not Go's zero time.\<close>

definition rows_keyed :: "('r \<Rightarrow> time) \<Rightarrow> ('r \<Rightarrow> string) \<Rightarrow> 'r list \<Rightarrow> bool" where
  "rows_keyed created ident rs \<longleftrightarrow> distinct (map ident rs) \<and> (\<forall>r \<in> set rs. created r \<noteq> zero_time \<and> ident r \<noteq> [])"

text \<open>Every listing written as \<open>keyset_page\<close> meets the contract.\<close>

lemma keyset_listing:
  assumes "\<And>s. valid s \<Longrightarrow> distinct (map ident (tab s))"
    and "\<And>s r. valid s \<Longrightarrow> r \<in> set (tab s) \<Longrightarrow> created r \<noteq> zero_time \<and> ident r \<noteq> []"
  shows "listing valid (\<lambda>s. newest_first (\<lambda>r. (created r, ident r)) (filter (p s) (tab s)))
    (\<lambda>s t i n. keyset_page (\<lambda>r. (created r, ident r)) (p s) t i n (tab s)) created ident"
proof
  fix s assume v: "valid s"
  have "distinct (map (\<lambda>r. (created r, ident r)) (filter (p s) (tab s)))"
    using distinct_map_filter[OF assms(1)[OF v], of "p s"] by (auto simp: distinct_map inj_on_def)
  then show "sorted_wrt (\<lambda>a b. (created b, ident b) < (created a, ident a))
      (newest_first (\<lambda>r. (created r, ident r)) (filter (p s) (tab s)))"
    by (rule newest_first_desc)
qed (use assms(2) in \<open>auto simp: keyset_page_def newest_first_filter conj_commute\<close>)

lemma keyed_listing:
  "listing (\<lambda>s. rows_keyed created ident (tab s)) (\<lambda>s. newest_first (\<lambda>r. (created r, ident r)) (filter (p s) (tab s)))
    (\<lambda>s t i n. keyset_page (\<lambda>r. (created r, ident r)) (p s) t i n (tab s)) created ident"
  by (rule keyset_listing) (auto simp: rows_keyed_def)

end
