(* ===== verification/Jobs.thy ===== *)
theory Jobs
  imports Database Keyset
begin

text \<open>
  The job queue (\<open>internal/jobs/repository.go\<close>): a row of \<open>provisioning_jobs\<close> is leased by one
  worker at a time, for a time.  Every operation is the SQL statement it runs; \<open>Claim\<close> is a
  transaction of three, whose first skips the rows that other transactions have locked.
\<close>

section \<open>Operations\<close>

definition update_jobs :: "(time \<Rightarrow> job \<Rightarrow> bool) \<Rightarrow> (time \<Rightarrow> job \<Rightarrow> job) \<Rightarrow> nat dbm" where
  "update_jobs p f d = (Inr (sql_count (p (db_now d)) (db_jobs d)),
     d\<lparr>db_jobs := sql_update (p (db_now d)) (f (db_now d)) (db_jobs d)\<rparr>)"

definition find_job :: "string \<Rightarrow> db \<Rightarrow> job option" where
  "find_job jid d = sql_find (\<lambda>j. job_id j = jid) (db_jobs d)"

definition jobs_Get :: "string \<Rightarrow> job dbm" where
  "jobs_Get jid = scanE ''jobs: scan job'' (\<lambda>d. scan_row (find_job jid d) d)"

definition new_job :: "string \<Rightarrow> time \<Rightarrow> string \<Rightarrow> job_operation \<Rightarrow> instance_state \<Rightarrow> job" where
  "new_job u now iid oper cp =
     \<lparr>job_id = u, job_instance = iid, job_op = oper, job_st = JobQueued, job_checkpoint = cp,
      job_data = Some (JObj []), job_priority = 0, job_attempt = 0, job_max_attempts = 8,
      job_next_attempt = now, job_owner = None, job_lease_until = None, job_error_code = None,
      job_error_message = None, job_created = now, job_started = None, job_finished = None\<rparr>"

definition insert_job :: "job \<Rightarrow> job dbm" where
  "insert_job j d =
     (if \<exists>r \<in> set (db_jobs d). job_id r = job_id j
      then (Inl (constraint_error ''provisioning_jobs_pkey''), d)
      else if \<forall>i \<in> set (db_instances d). inst_id i \<noteq> job_instance j
      then (Inl (constraint_error ''provisioning_jobs_instance_id_fkey''), d)
      else (Inr j, d\<lparr>db_jobs := db_jobs d @ [j]\<rparr>))"

definition jobs_Create :: "string \<Rightarrow> job_operation \<Rightarrow> instance_state \<Rightarrow> job dbm" where
  "jobs_Create iid oper cp = scanE ''jobs: scan job''
     (bindE gen_random_uuid (\<lambda>u. bindE (getE db_now) (\<lambda>now. insert_job (new_job u now iid oper cp))))"

definition claimable_row :: "(string \<Rightarrow> bool) \<Rightarrow> time \<Rightarrow> job \<Rightarrow> bool" where
  "claimable_row locked now j \<longleftrightarrow>
     job_next_attempt j \<le> now \<and> job_st j \<in> {JobQueued, JobRetryWait} \<and> \<not> locked (job_id j)"

definition select_claimable :: "(string \<Rightarrow> bool) \<Rightarrow> db \<Rightarrow> job option" where
  "select_claimable locked d =
     sql_first (\<lambda>j. (- job_priority j, job_created j)) (claimable_row locked (db_now d)) (db_jobs d)"

definition lease_row :: "string \<Rightarrow> duration \<Rightarrow> time \<Rightarrow> job \<Rightarrow> job" where
  "lease_row w dur now j =
     j\<lparr>job_st := JobRunning, job_owner := Some w, job_lease_until := Some (now + dur),
       job_attempt := job_attempt j + 1,
       job_started := (case job_started j of None \<Rightarrow> Some now | Some t \<Rightarrow> Some t)\<rparr>"

definition claim_select :: "(string \<Rightarrow> bool) \<Rightarrow> string dbm" where
  "claim_select locked = onErr (\<lambda>e. if e = ErrNotFound then ErrNotClaimable else Wrap ''jobs: select claimable'' e)
     (stmt (\<lambda>d. scan_row (map_option job_id (select_claimable locked d)) d))"

definition claim_update :: "string \<Rightarrow> duration \<Rightarrow> string \<Rightarrow> nat dbm" where
  "claim_update w dur jid = wrapE ''jobs: claim update''
     (stmt (update_jobs (\<lambda>now j. job_id j = jid) (lease_row w dur)))"

definition jobs_Claim :: "(string \<Rightarrow> bool) \<Rightarrow> string \<Rightarrow> duration \<Rightarrow> job dbm" where
  "jobs_Claim locked w dur = WithTx
     (bindE (claim_select locked) (\<lambda>jid.
      bindE (claim_update w dur jid) (\<lambda>_. jobs_Get jid)))"

definition owned :: "string \<Rightarrow> string \<Rightarrow> job \<Rightarrow> bool" where
  "owned jid w j \<longleftrightarrow> job_id j = jid \<and> job_owner j = Some w \<and> job_st j = JobRunning"

definition jobs_Heartbeat :: "string \<Rightarrow> string \<Rightarrow> duration \<Rightarrow> unit dbm" where
  "jobs_Heartbeat jid w extension =
     bindE (wrapE ''jobs: heartbeat'' (stmt (update_jobs
       (\<lambda>now j. owned jid w j \<and> (case job_lease_until j of None \<Rightarrow> False | Some t \<Rightarrow> t > now))
       (\<lambda>now j. j\<lparr>job_lease_until := Some (now + extension)\<rparr>))))
     (require_rows ErrLeaseLost)"

definition release_lease :: "job \<Rightarrow> job" where
  "release_lease j = j\<lparr>job_owner := None, job_lease_until := None\<rparr>"

definition jobs_Complete :: "string \<Rightarrow> string \<Rightarrow> unit dbm" where
  "jobs_Complete jid w =
     bindE (wrapE ''jobs: complete'' (stmt (update_jobs (\<lambda>now j. owned jid w j)
       (\<lambda>now j. release_lease (j\<lparr>job_st := JobSucceeded, job_finished := Some now\<rparr>)))))
     (require_rows ErrLeaseLost)"

definition jobs_Fail :: "string \<Rightarrow> string \<Rightarrow> string \<Rightarrow> string \<Rightarrow> time option \<Rightarrow> unit dbm" where
  "jobs_Fail jid w code msg retryAt =
     bindE (wrapE ''jobs: fail'' (case retryAt of
         Some t \<Rightarrow> stmt (update_jobs (\<lambda>now j. owned jid w j)
           (\<lambda>now j. release_lease (j\<lparr>job_st := JobRetryWait, job_next_attempt := t,
              job_error_code := Some code, job_error_message := Some msg\<rparr>)))
       | None \<Rightarrow> stmt (update_jobs (\<lambda>now j. owned jid w j)
           (\<lambda>now j. release_lease (j\<lparr>job_st := JobFailed, job_finished := Some now,
              job_error_code := Some code, job_error_message := Some msg\<rparr>)))))
     (require_rows ErrLeaseLost)"

definition lease_expired :: "time \<Rightarrow> job \<Rightarrow> bool" where
  "lease_expired now j \<longleftrightarrow> job_st j = JobRunning \<and>
     (case job_lease_until j of None \<Rightarrow> False | Some t \<Rightarrow> t < now)"

definition jobs_ReclaimExpiredLeases :: "nat dbm" where
  "jobs_ReclaimExpiredLeases = wrapE ''jobs: reclaim expired leases''
     (stmt (update_jobs lease_expired (\<lambda>now j. release_lease (j\<lparr>job_st := JobQueued\<rparr>))))"

definition requeue_row :: "time \<Rightarrow> job \<Rightarrow> job" where
  "requeue_row now j = release_lease (j\<lparr>job_st := JobQueued, job_next_attempt := now,
     job_error_code := None, job_error_message := None\<rparr>)"

definition requeue_stmt :: "string \<Rightarrow> job dbm" where
  "requeue_stmt jid = scanE ''jobs: scan job''
     (\<lambda>d. case sql_find (\<lambda>j. job_id j = jid \<and> job_st j \<in> {JobFailed, JobRetryWait}) (db_jobs d) of
        None \<Rightarrow> (Inl ErrNotFound, d)
      | Some j \<Rightarrow> bindE (update_jobs (\<lambda>now r. job_id r = jid \<and> job_st r \<in> {JobFailed, JobRetryWait}) requeue_row)
          (\<lambda>_. retE (requeue_row (db_now d) j)) d)"

text \<open>
  \<open>Requeue\<close> runs its UPDATE in the caller's transaction, and on a miss reads the row through the
  pool to tell "no such job" from "not in a state to retry"; \<open>get\<close> is that second read.
\<close>

definition jobs_Requeue :: "job dbm \<Rightarrow> string \<Rightarrow> job dbm" where
  "jobs_Requeue get jid = tryE (requeue_stmt jid) (\<lambda>r. case r of
       Inr j \<Rightarrow> retE j
     | Inl e \<Rightarrow> if errors_is e ErrNotFound
         then tryE get (\<lambda>g. case g of Inr _ \<Rightarrow> failE ErrInvalidTransition | Inl _ \<Rightarrow> failE e)
         else failE e)"

definition jobs_UpdateCheckpoint :: "string \<Rightarrow> instance_state \<Rightarrow> raw_json \<Rightarrow> unit dbm" where
  "jobs_UpdateCheckpoint jid cp data =
     bindE (wrapE ''jobs: update checkpoint'' (stmt (update_jobs (\<lambda>now j. job_id j = jid)
       (\<lambda>now j. j\<lparr>job_checkpoint := cp,
          job_data := (case data of None \<Rightarrow> Some (JObj []) | Some v \<Rightarrow> Some v)\<rparr>))))
     (require_rows ErrNotFound)"

text \<open>
  \<open>List\<close>: the filters that are not empty, and with \<open>Q\<close> a join with the instances.  \<open>ilike\<close> is the server's
  \<open>ILIKE\<close>.
\<close>

record job_filter =
  jf_state :: string
  jf_operation :: string
  jf_instance :: string
  jf_q :: string

definition job_matches :: "(string \<Rightarrow> string \<Rightarrow> bool) \<Rightarrow> job_filter \<Rightarrow> db \<Rightarrow> job \<Rightarrow> bool" where
  "job_matches ilike f d j \<longleftrightarrow>
     (jf_q f = [] \<or> (\<exists>i \<in> set (db_instances d). inst_id i = job_instance j \<and>
        (ilike (inst_logical_name i) (''%'' @ jf_q f @ ''%'') \<or> ilike (inst_hostname i) (''%'' @ jf_q f @ ''%'')))) \<and>
     (jf_state f = [] \<or> job_state_str (job_st j) = jf_state f) \<and>
     (jf_operation f = [] \<or> job_operation_str (job_op j) = jf_operation f) \<and>
     (jf_instance f = [] \<or> job_instance j = jf_instance f)"

definition jobs_page :: "(string \<Rightarrow> string \<Rightarrow> bool) \<Rightarrow> job_filter \<Rightarrow> db \<Rightarrow> time \<Rightarrow> string \<Rightarrow> nat \<Rightarrow> job list" where
  "jobs_page ilike f d t i n = keyset_page (\<lambda>j. (job_created j, job_id j)) (job_matches ilike f d) t i n (db_jobs d)"

definition jobs_List :: "(string \<Rightarrow> string \<Rightarrow> bool) \<Rightarrow> job_filter \<Rightarrow> time \<Rightarrow> string \<Rightarrow> nat \<Rightarrow> job list dbm" where
  "jobs_List ilike f t i n = queryE ''jobs: list'' (\<lambda>d. jobs_page ilike f d t i n)"

interpretation job_list: listing "\<lambda>d. rows_keyed job_created job_id (db_jobs d)"
  "\<lambda>d. newest_first (\<lambda>j. (job_created j, job_id j)) (filter (job_matches ilike f d) (db_jobs d))"
  "jobs_page ilike f" job_created job_id for ilike f
  unfolding jobs_page_def[abs_def] by (rule keyed_listing)

section \<open>Well-formed rows\<close>

text \<open>
  A job has an owner and a lease exactly while it runs, and a terminal job has a finish time.
\<close>

definition job_wf :: "job \<Rightarrow> bool" where
  "job_wf j \<longleftrightarrow> (job_owner j \<noteq> None \<longleftrightarrow> job_st j = JobRunning)
     \<and> (job_lease_until j \<noteq> None \<longleftrightarrow> job_st j = JobRunning)
     \<and> (job_st j \<in> {JobSucceeded, JobFailed} \<longrightarrow> job_finished j \<noteq> None)
     \<and> 0 \<le> job_attempt j"

definition jobs_inv :: "db \<Rightarrow> bool" where
  "jobs_inv d \<longleftrightarrow> distinct (map job_id (db_jobs d)) \<and> (\<forall>j \<in> set (db_jobs d). job_wf j)"

abbreviation jobs_inv_kept :: "db \<Rightarrow> db \<Rightarrow> bool" where
  "jobs_inv_kept d d' \<equiv> (jobs_inv d \<longrightarrow> jobs_inv d')"

lemma jobs_inv_tables: "same_tables d d' \<Longrightarrow> jobs_inv d' = jobs_inv d"
  by (simp add: jobs_inv_def same_tables_fields)

lemma table_rel_jobs_inv: "table_rel jobs_inv_kept"
  unfolding table_rel_def by (auto simp: jobs_inv_tables)

lemmas jobs_rel = rel_intro table_rel_jobs_inv table_rel_insensitive[OF table_rel_jobs_inv]

text \<open>An UPDATE that keeps the key and the shape of a row keeps the invariant.\<close>

lemma keeps_update_jobs:
  assumes "\<And>now j. job_id (f now j) = job_id j"
    and "\<And>now j. p now j \<Longrightarrow> job_wf j \<Longrightarrow> job_wf (f now j)"
  shows "keeps jobs_inv_kept (update_jobs p f)"
  by (rule keepsI) (auto simp: update_jobs_def jobs_inv_def map_key_sql_update assms
      elim!: sql_updateE)

lemma keeps_insert_job: "keeps jobs_inv_kept (insert_job (new_job u now iid oper cp))"
  by (rule keepsI) (auto simp: insert_job_def jobs_inv_def new_job_def job_wf_def)

lemma keeps_jobs_uuid: "keeps jobs_inv_kept gen_random_uuid"
  by (rule keeps_uuid) (simp add: jobs_inv_def)

lemma keeps_jobs_Get: "keeps jobs_inv_kept (jobs_Get jid)"
  unfolding jobs_Get_def
  by (intro keeps_scanE jobs_rel keepsI) (simp add: scan_row_def eff_defs split: option.split)

lemmas job_row_defs = job_wf_def lease_row_def release_lease_def owned_def requeue_row_def lease_expired_def

lemma keeps_jobs_Create: "keeps jobs_inv_kept (jobs_Create iid oper cp)"
  unfolding jobs_Create_def
  by (intro keeps_scanE keeps_bind keeps_get keeps_jobs_uuid keeps_insert_job jobs_rel)

lemma keeps_jobs_Claim: "keeps jobs_inv_kept (jobs_Claim locked w dur)"
proof -
  have s: "keeps jobs_inv_kept (claim_select locked)"
    unfolding claim_select_def
    by (intro keeps_onErr keeps_stmt jobs_rel keepsI) (simp add: scan_row_def eff_defs split: option.split)
  have "keeps jobs_inv_kept (claim_update w dur jid)" for jid
    unfolding claim_update_def
    by (intro keeps_onErr keeps_stmt keeps_update_jobs jobs_rel) (simp_all add: job_row_defs)
  with s show ?thesis
    unfolding jobs_Claim_def by (intro keeps_WithTx keeps_bind keeps_jobs_Get jobs_rel)
qed

lemma keeps_jobs_Heartbeat: "keeps jobs_inv_kept (jobs_Heartbeat jid w ex)"
  unfolding jobs_Heartbeat_def
  by (intro keeps_bind keeps_onErr keeps_stmt keeps_update_jobs keeps_require jobs_rel)
     (auto simp: job_row_defs)

lemma keeps_jobs_Complete: "keeps jobs_inv_kept (jobs_Complete jid w)"
  unfolding jobs_Complete_def
  by (intro keeps_bind keeps_onErr keeps_stmt keeps_update_jobs keeps_require jobs_rel)
     (auto simp: job_row_defs)

lemma keeps_jobs_Fail: "keeps jobs_inv_kept (jobs_Fail jid w code msg retryAt)"
  unfolding jobs_Fail_def
  by (intro keeps_bind keeps_onErr keeps_option keeps_stmt keeps_update_jobs keeps_require jobs_rel)
     (auto simp: job_row_defs)

lemma keeps_jobs_Reclaim: "keeps jobs_inv_kept jobs_ReclaimExpiredLeases"
  unfolding jobs_ReclaimExpiredLeases_def
  by (intro keeps_onErr keeps_stmt keeps_update_jobs jobs_rel) (auto simp: job_row_defs)

lemma keeps_requeue_stmt: "keeps jobs_inv_kept (requeue_stmt jid)"
proof -
  have u: "keeps jobs_inv_kept (update_jobs (\<lambda>now r. job_id r = jid \<and> job_st r \<in> {JobFailed, JobRetryWait}) requeue_row)"
    by (intro keeps_update_jobs) (auto simp: job_row_defs)
  have "keeps jobs_inv_kept (\<lambda>d. case sql_find (\<lambda>j. job_id j = jid \<and> job_st j \<in> {JobFailed, JobRetryWait}) (db_jobs d) of
        None \<Rightarrow> (Inl ErrNotFound, d)
      | Some j \<Rightarrow> bindE (update_jobs (\<lambda>now r. job_id r = jid \<and> job_st r \<in> {JobFailed, JobRetryWait}) requeue_row)
          (\<lambda>_. retE (requeue_row (db_now d) j)) d)"
    using u by (auto simp: keeps_def bindE_def retE_def update_jobs_def split: option.split)
  then show ?thesis
    unfolding requeue_stmt_def by (intro keeps_scanE jobs_rel)
qed

lemma keeps_jobs_Requeue: "keeps jobs_inv_kept get \<Longrightarrow> keeps jobs_inv_kept (jobs_Requeue get jid)"
  unfolding jobs_Requeue_def
  by (intro keeps_try keeps_sum keeps_requeue_stmt keeps_ret keeps_if keeps_fail jobs_rel)

lemma keeps_jobs_UpdateCheckpoint: "keeps jobs_inv_kept (jobs_UpdateCheckpoint jid cp data)"
  unfolding jobs_UpdateCheckpoint_def
  by (intro keeps_bind keeps_onErr keeps_stmt keeps_update_jobs keeps_require jobs_rel)
     (auto simp: job_row_defs)

lemmas jobs_keep = keeps_jobs_Get keeps_jobs_Create keeps_jobs_Claim keeps_jobs_Heartbeat
  keeps_jobs_Complete keeps_jobs_Fail keeps_jobs_Reclaim keeps_jobs_Requeue keeps_jobs_UpdateCheckpoint

text \<open>
  C40.  Every operation on the queue keeps its rows well formed, whatever fails: their identifiers are distinct, a job has an owner
  and a lease exactly while it runs, and a finish time once it is terminal.
\<close>

theorem job_rows_stay_well_formed:
  "preserves jobs_inv (jobs_Create iid oper cp) \<and> preserves jobs_inv (jobs_Claim locked w dur) \<and>
   preserves jobs_inv (jobs_Heartbeat jid w dur) \<and> preserves jobs_inv (jobs_UpdateCheckpoint jid cp data) \<and>
   preserves jobs_inv (jobs_Complete jid w) \<and> preserves jobs_inv (jobs_Fail jid w code msg retryAt) \<and>
   preserves jobs_inv jobs_ReclaimExpiredLeases \<and> preserves jobs_inv (jobs_Requeue (jobs_Get jid) jid)"
  by (intro conjI jobs_keep)

theorem job_rows_stay_well_formed_witness:
  "jobs_inv (snd (jobs_Claim (\<lambda>_. False) ''w1'' 60 (demo_db\<lparr>db_jobs := [new_job ''j1'' 10 ''i1'' JobOpProvision InstanceRequested]\<rparr>)))"
proof -
  have inv: "jobs_inv (demo_db\<lparr>db_jobs := [new_job ''j1'' 10 ''i1'' JobOpProvision InstanceRequested]\<rparr>)"
    by (simp add: jobs_inv_def job_wf_def new_job_def)
  have "preserves jobs_inv (jobs_Claim (\<lambda>_. False) ''w1'' 60)"
    by (rule job_rows_stay_well_formed[THEN conjunct2, THEN conjunct1])
  then have "jobs_inv d \<longrightarrow> jobs_inv (snd (jobs_Claim (\<lambda>_. False) ''w1'' 60 d))" for d unfolding keeps_def by (rule spec)
  from this inv show ?thesis by (rule mp)
qed

end
