(* ===== verification/Leases.thy ===== *)
theory Leases
  imports Jobs
begin

text \<open>
  What the job queue promises to the workers: a worker that claimed a job, or extended its lease,
  is the only one to hold it until the lease runs out or the worker lets go, whatever the other
  workers, the maintenance loop, the API and the network do meanwhile.  The locale
  \<open>lease_store\<close> states the laws of a store of leases and derives the exclusion from them; the
  repository of \<open>Jobs\<close> is its interpretation.
\<close>

section \<open>The interface\<close>

text \<open>
  What a step lets a worker know: it holds the job until the given time, it gave the job up, or
  nothing.  \<open>belief\<close> collects what each worker knows.
\<close>

datatype ('w, 'j) lease_event = Gained 'w 'j time | LetGo 'w 'j | Quiet

type_synonym ('w, 'j) belief = "'w \<Rightarrow> 'j \<Rightarrow> time option"

fun learn :: "('w, 'j) lease_event \<Rightarrow> ('w, 'j) belief \<Rightarrow> ('w, 'j) belief" where
  "learn (Gained w j e) b = b(w := (b w)(j := Some e))"
| "learn (LetGo w j) b = b(w := (b w)(j := None))"
| "learn Quiet b = b"

inductive lease_run :: "('s \<Rightarrow> ('w, 'j) lease_event \<Rightarrow> 's \<Rightarrow> bool) \<Rightarrow> 's \<Rightarrow> 's \<Rightarrow> ('w, 'j) belief \<Rightarrow> bool"
  for stp s0 where
  start: "lease_run stp s0 s0 (\<lambda>w j. None)"
| more: "lease_run stp s0 s b \<Longrightarrow> stp s ev s' \<Longrightarrow> lease_run stp s0 s' (learn ev b)"

locale lease_store =
  fixes inv :: "'s \<Rightarrow> bool"
    and lease :: "'s \<Rightarrow> 'j \<Rightarrow> ('w \<times> time) option"
    and clock :: "'s \<Rightarrow> time"
    and stp :: "'s \<Rightarrow> ('w, 'j) lease_event \<Rightarrow> 's \<Rightarrow> bool"
  assumes step_inv: "stp s ev s' \<Longrightarrow> inv s \<Longrightarrow> inv s'"
    and clock_mono: "stp s ev s' \<Longrightarrow> inv s \<Longrightarrow> clock s \<le> clock s'"
    and gained_lease: "stp s (Gained w j e) s' \<Longrightarrow> inv s \<Longrightarrow> lease s' j = Some (w, e)"
    and lease_stays: "stp s ev s' \<Longrightarrow> inv s \<Longrightarrow> lease s j = Some (w, e) \<Longrightarrow> clock s' \<le> e \<Longrightarrow>
      ev \<noteq> LetGo w j \<Longrightarrow> \<exists>e'. e \<le> e' \<and> lease s' j = Some (w, e')"
begin

lemma run_inv: "lease_run stp s0 s b \<Longrightarrow> inv s0 \<Longrightarrow> inv s"
  by (induction rule: lease_run.induct) (auto intro: step_inv)

lemma belief_is_lease:
  assumes "lease_run stp s0 s b" "inv s0" "b w j = Some e" "clock s \<le> e"
  shows "\<exists>e'. e \<le> e' \<and> lease s j = Some (w, e')"
  using assms
proof (induction arbitrary: e rule: lease_run.induct)
  case start
  then show ?case by simp
next
  case (more s b ev s')
  have i: "inv s" using more.hyps(1) more.prems(1) by (rule run_inv)
  show ?case
  proof (cases "b w j = Some e \<and> ev \<noteq> LetGo w j \<and> (\<forall>t. ev \<noteq> Gained w j t)")
    case True
    have "clock s \<le> e" using clock_mono[OF more.hyps(2) i] more.prems(3) by simp
    with more.IH True more.prems(1) obtain e' where "e \<le> e'" "lease s j = Some (w, e')" by blast
    with lease_stays[OF more.hyps(2) i] True more.prems(3) show ?thesis
      by (meson order.trans)
  next
    case False
    with more.prems(2) have "ev = Gained w j e" by (cases ev) (auto split: if_splits)
    with gained_lease[OF _ i] more.hyps(2) show ?thesis by blast
  qed
qed

lemma exclusion:
  assumes "lease_run stp s0 s b" "inv s0"
    and "b w1 j = Some e1" "clock s \<le> e1" "b w2 j = Some e2" "clock s \<le> e2"
  shows "w1 = w2"
  using belief_is_lease[OF assms(1,2,3,4)] belief_is_lease[OF assms(1,2,5,6)] by auto

end

section \<open>What the operations do to a row\<close>

lemma update_require_cases:
  assumes "bindE (onErr g (stmt (update_jobs p f))) (require_rows e) d = (r, d')"
  shows "db_now d' = db_now d \<and>
    (db_jobs d' = db_jobs d \<and> r \<noteq> Inr () \<or>
     db_jobs d' = sql_update (p (db_now d)) (f (db_now d)) (db_jobs d) \<and>
       (r = Inr () \<longrightarrow> (\<exists>j \<in> set (db_jobs d). p (db_now d) j)))"
proof -
  obtain r1 d1 where s: "stmt (update_jobs p f) d = (r1, d1)" by fastforce
  then have d': "d' = d1" and r: "r1 = Inl e' \<Longrightarrow> r = Inl (g e')"
      "r1 = Inr n \<Longrightarrow> r = Inr () \<Longrightarrow> n \<noteq> 0" for e' n
    using assms by (auto simp: bindE_def onErr_def require_rows_def failE_def retE_def
        split: sum.splits if_splits)
  from s show ?thesis
  proof (cases rule: stmt_cases)
    case (ran d0)
    then have "r1 = Inr (sql_count (p (db_now d)) (db_jobs d))"
      by (auto simp: update_jobs_def same_tables_fields)
    with r(2) have "r = Inr () \<longrightarrow> (\<exists>j \<in> set (db_jobs d). p (db_now d) j)"
      by (metis neq0_conv sql_count_pos)
    with ran d' show ?thesis by (auto simp: update_jobs_def same_tables_fields)
  next
    case refused
    with d' r(1) show ?thesis by (auto simp: same_tables_fields)
  next
    case (lost d0 r0)
    with d' r(1) show ?thesis by (auto simp: update_jobs_def same_tables_fields)
  qed
qed

lemma update_stmt_cases:
  assumes "onErr g (stmt (update_jobs p f)) d = (r, d')"
  shows "db_now d' = db_now d \<and>
    (db_jobs d' = db_jobs d \<or> db_jobs d' = sql_update (p (db_now d)) (f (db_now d)) (db_jobs d))"
proof -
  have "snd (stmt (update_jobs p f) d) = d'" using assms by (metis snd_conv snd_onErr)
  then obtain r1 where "stmt (update_jobs p f) d = (r1, d')" by (metis prod.collapse)
  then show ?thesis
    by (cases rule: stmt_cases) (auto simp: update_jobs_def same_tables_fields)
qed

subsection \<open>Claim\<close>

definition claim_effect :: "(string \<Rightarrow> bool) \<Rightarrow> string \<Rightarrow> duration \<Rightarrow> db \<Rightarrow> job \<Rightarrow> db \<Rightarrow> bool" where
  "claim_effect locked w dur d j d' \<longleftrightarrow>
     select_claimable locked d = Some j \<and>
     db_jobs d' = sql_update (\<lambda>r. job_id r = job_id j) (lease_row w dur (db_now d)) (db_jobs d)"

lemma select_claimable_Some:
  assumes "select_claimable locked d = Some j"
  shows "j \<in> set (db_jobs d)" "claimable_row locked (db_now d) j"
    "\<And>r. r \<in> set (db_jobs d) \<Longrightarrow> claimable_row locked (db_now d) r \<Longrightarrow>
      (- job_priority j, job_created j) \<le> (- job_priority r, job_created r)"
  using sql_first_Some[OF assms[unfolded select_claimable_def]] by auto

lemma select_claimable_cong:
  "same_tables d d0 \<Longrightarrow> db_now d0 = db_now d \<Longrightarrow> select_claimable l d0 = select_claimable l d"
  by (simp add: select_claimable_def same_tables_fields)

lemma claim_body_Inr:
  assumes "bindE (claim_select locked) (\<lambda>jid. bindE (claim_update w dur jid) (\<lambda>_. jobs_Get jid)) d = (Inr j', d')"
  obtains j where "claim_effect locked w dur d j d'" "db_now d' = db_now d"
    "find_job (job_id j) d' = Some j'"
proof -
  from assms obtain jid d1 n d2 where s: "claim_select locked d = (Inr jid, d1)"
    and u: "claim_update w dur jid d1 = (Inr n, d2)" and g: "jobs_Get jid d2 = (Inr j', d')"
    by (elim bindE_Inr_cases) blast
  have "stmt (\<lambda>d. scan_row (map_option job_id (select_claimable locked d)) d) d = (Inr jid, d1)"
    using s by (simp add: claim_select_def onErr_Inr_iff)
  from stmt_read_cases[OF this] obtain fs where d1: "same_tables d d1" "db_now d1 = db_now d"
    and "map_option job_id (select_claimable locked (d\<lparr>db_faults := fs\<rparr>)) = Some jid" by auto
  then obtain j where j: "select_claimable locked d = Some j" "job_id j = jid"
    by (auto simp: select_claimable_cong[of d "d\<lparr>db_faults := fs\<rparr>"])
  have "stmt (update_jobs (\<lambda>now j. job_id j = jid) (lease_row w dur)) d1 = (Inr n, d2)"
    using u by (simp add: claim_update_def onErr_Inr_iff)
  then obtain fs where "update_jobs (\<lambda>now j. job_id j = jid) (lease_row w dur) (d1\<lparr>db_faults := fs\<rparr>) = (Inr n, d2)"
    by (rule stmt_InrE)
  then have d2: "db_jobs d2 = sql_update (\<lambda>r. job_id r = jid) (lease_row w dur (db_now d)) (db_jobs d)"
      "db_now d2 = db_now d"
    using d1 by (auto simp: update_jobs_def same_tables_fields)
  have "stmt (\<lambda>d. scan_row (find_job jid d) d) d2 = (Inr j', d')"
    using g by (simp add: jobs_Get_def scanE_def onErr_Inr_iff)
  from stmt_read_cases[OF this] obtain fs where d': "same_tables d2 d'" "db_now d' = db_now d2"
    and f: "find_job jid (d2\<lparr>db_faults := fs\<rparr>) = Some j'" by auto
  have "find_job jid d' = Some j'"
    using f d' by (simp add: find_job_def same_tables_fields)
  moreover have "claim_effect locked w dur d j d'"
    using j d2 d' by (simp add: claim_effect_def same_tables_fields)
  ultimately show ?thesis using that j d2 d' by simp
qed

lemma claim_cases:
  assumes "jobs_Claim locked w dur d = (r, d')"
  obtains (nothing) e where "r = Inl e" "db_jobs d' = db_jobs d"
    | (claimed) j where "claim_effect locked w dur d j d'"
        "\<And>j'. r = Inr j' \<Longrightarrow> find_job (job_id j) d' = Some j'"
  using assms unfolding jobs_Claim_def
proof (cases rule: WithTx_cases)
  case (rolled_back e)
  with that(1) show ?thesis by (auto simp: same_tables_fields)
next
  case (committed d0 x d1)
  from committed(3) obtain j where j: "claim_effect locked w dur d0 j d1" "find_job (job_id j) d1 = Some x"
    by (rule claim_body_Inr)
  have "claim_effect locked w dur d j d'"
    using j(1) committed(1,2,4) by (simp add: claim_effect_def select_claimable_cong same_tables_fields)
  moreover have "r = Inr j' \<Longrightarrow> find_job (job_id j) d' = Some j'" for j'
    using j(2) committed(4,5) by (auto simp: find_job_def same_tables_fields)
  ultimately show ?thesis using that(2) by blast
qed

lemma jobs_Claim_now: "jobs_Claim locked w dur d = (r, d') \<Longrightarrow> db_now d' = db_now d"
  unfolding jobs_Claim_def
proof (rule WithTx_now)
  fix d r d'
  have "keeps (\<lambda>d d'. db_now d' = db_now d)
     (bindE (claim_select locked) (\<lambda>jid. bindE (claim_update w dur jid) (\<lambda>_. jobs_Get jid)))"
    unfolding claim_select_def claim_update_def jobs_Get_def scanE_def
    by (intro keeps_bind keeps_onErr keeps_now_stmt rel_intro keepsI)
       (simp_all add: scan_row_def eff_defs update_jobs_def split: option.split)
  then show "bindE (claim_select locked) (\<lambda>jid. bindE (claim_update w dur jid) (\<lambda>_. jobs_Get jid)) d = (r, d') \<Longrightarrow>
    db_now d' = db_now d" by (rule keepsD)
qed

section \<open>The repository as a store of leases\<close>

definition job_lease :: "db \<Rightarrow> string \<Rightarrow> (string \<times> time) option" where
  "job_lease d jid = (case find_job jid d of
       None \<Rightarrow> None
     | Some j \<Rightarrow> if job_st j = JobRunning
         then (case (job_owner j, job_lease_until j) of (Some w, Some e) \<Rightarrow> Some (w, e) | _ \<Rightarrow> None)
         else None)"

text \<open>
  The steps of the whole service on the queue, with \<open>L\<close> the configured lease duration that both
  \<open>Claim\<close> and \<open>Heartbeat\<close> pass.  A worker that called \<open>Complete\<close> or \<open>Fail\<close> is done with the job,
  whatever the reply.  \<open>elsewhere\<close> lets time pass, the network change and the other tables move.
\<close>

inductive queue_step :: "duration \<Rightarrow> db \<Rightarrow> (string, string) lease_event \<Rightarrow> db \<Rightarrow> bool" for L where
  claim: "jobs_Claim locked w L d = (Inr j, d') \<Longrightarrow> queue_step L d (Gained w (job_id j) (db_now d + L)) d'"
| claim_err: "jobs_Claim locked w L d = (Inl e, d') \<Longrightarrow> queue_step L d Quiet d'"
| heartbeat: "jobs_Heartbeat jid w L d = (Inr (), d') \<Longrightarrow> queue_step L d (Gained w jid (db_now d + L)) d'"
| heartbeat_err: "jobs_Heartbeat jid w L d = (Inl e, d') \<Longrightarrow> queue_step L d Quiet d'"
| complete: "jobs_Complete jid w d = (r, d') \<Longrightarrow> queue_step L d (LetGo w jid) d'"
| fail: "jobs_Fail jid w code msg retryAt d = (r, d') \<Longrightarrow> queue_step L d (LetGo w jid) d'"
| reclaim: "jobs_ReclaimExpiredLeases d = (r, d') \<Longrightarrow> queue_step L d Quiet d'"
| requeue: "requeue_stmt jid d = (r, d') \<Longrightarrow> queue_step L d Quiet d'"
| create: "jobs_Create iid oper cp d = (r, d') \<Longrightarrow> queue_step L d Quiet d'"
| checkpoint: "jobs_UpdateCheckpoint jid cp data d = (r, d') \<Longrightarrow> queue_step L d Quiet d'"
| elsewhere: "db_jobs d' = db_jobs d \<Longrightarrow> db_now d \<le> db_now d' \<Longrightarrow> queue_step L d Quiet d'"

text \<open>No lease reaches further than the lease duration from now.\<close>

definition queue_inv :: "duration \<Rightarrow> db \<Rightarrow> bool" where
  "queue_inv L d \<longleftrightarrow> jobs_inv d \<and>
     (\<forall>j \<in> set (db_jobs d). \<forall>e. job_lease_until j = Some e \<longrightarrow> e \<le> db_now d + L)"

lemma find_job_cong: "db_jobs d' = db_jobs d \<Longrightarrow> find_job jid d' = find_job jid d"
  by (simp add: find_job_def)

lemma find_job_update:
  assumes "db_jobs d' = sql_update p f (db_jobs d)" "\<And>j. job_id (f j) = job_id j"
  shows "find_job jid d' = map_option (\<lambda>j. if p j then f j else j) (find_job jid d)"
  using assms by (simp add: find_job_def sql_find_update)

lemma job_lease_cong: "db_jobs d' = db_jobs d \<Longrightarrow> job_lease d' jid = job_lease d jid"
  by (simp add: job_lease_def find_job_def)

lemma job_lease_Some:
  "job_lease d jid = Some (w, e) \<longleftrightarrow> (\<exists>j. find_job jid d = Some j \<and> job_st j = JobRunning \<and>
     job_owner j = Some w \<and> job_lease_until j = Some e)"
  by (auto simp: job_lease_def split: option.splits)

text \<open>An UPDATE that leaves the leases of the rows it touches at least as long, or does not touch
  the leased row.\<close>

lemma lease_stays_update:
  assumes "db_jobs d' = db_jobs d \<or> db_jobs d' = sql_update p f (db_jobs d)"
    and "\<And>j. job_id (f j) = job_id j"
    and "job_lease d jid = Some (w, e)"
    and "\<And>j. j \<in> set (db_jobs d) \<Longrightarrow> p j \<Longrightarrow> job_id j = jid \<Longrightarrow> job_st j = JobRunning \<Longrightarrow> job_owner j = Some w \<Longrightarrow>
      job_lease_until j = Some e \<Longrightarrow> job_st (f j) = JobRunning \<and> job_owner (f j) = Some w \<and>
      (\<exists>e'. e \<le> e' \<and> job_lease_until (f j) = Some e')"
  shows "\<exists>e'. e \<le> e' \<and> job_lease d' jid = Some (w, e')"
proof -
  from assms(3) obtain j where j: "find_job jid d = Some j" "job_st j = JobRunning" "job_owner j = Some w"
      "job_lease_until j = Some e" by (auto simp: job_lease_Some)
  then have m: "j \<in> set (db_jobs d)" "job_id j = jid"
    using sql_find_Some[of _ "db_jobs d" j] by (auto simp: find_job_def)
  from assms(1) show ?thesis
  proof
    assume "db_jobs d' = db_jobs d"
    then have "job_lease d' jid = job_lease d jid" by (rule job_lease_cong)
    with assms(3) show ?thesis by auto
  next
    assume u: "db_jobs d' = sql_update p f (db_jobs d)"
    show ?thesis
    proof (cases "p j")
      case True
      with assms(4)[OF m(1) _ m(2)] j find_job_update[OF u assms(2)] show ?thesis
        by (auto simp: job_lease_Some)
    next
      case False
      with j find_job_update[OF u assms(2)] show ?thesis
        by (auto simp: job_lease_Some)
    qed
  qed
qed

lemma require_now:
  "bindE (onErr g (stmt (update_jobs p f))) (require_rows e) d = (r, d') \<Longrightarrow> db_now d' = db_now d"
  using update_require_cases by blast

lemma require_jobs:
  "bindE (onErr g (stmt (update_jobs p f))) (require_rows e) d = (r, d') \<Longrightarrow>
   db_jobs d' = db_jobs d \<or> db_jobs d' = sql_update (p (db_now d)) (f (db_now d)) (db_jobs d)"
  using update_require_cases by blast

lemma jobs_Fail_alt:
  "jobs_Fail jid w code msg retryAt = bindE (onErr (Wrap ''jobs: fail'') (stmt (update_jobs (\<lambda>now j. owned jid w j)
     (\<lambda>now j. release_lease (case retryAt of
         Some t \<Rightarrow> j\<lparr>job_st := JobRetryWait, job_next_attempt := t,
              job_error_code := Some code, job_error_message := Some msg\<rparr>
       | None \<Rightarrow> j\<lparr>job_st := JobFailed, job_finished := Some now,
              job_error_code := Some code, job_error_message := Some msg\<rparr>)))))
   (require_rows ErrLeaseLost)"
  by (cases retryAt) (simp_all add: jobs_Fail_def)

lemma requeue_jobs:
  assumes "requeue_stmt jid d = (r, d')"
  shows "db_now d' = db_now d \<and> (db_jobs d' = db_jobs d \<or>
    db_jobs d' = sql_update (\<lambda>r. job_id r = jid \<and> job_st r \<in> {JobFailed, JobRetryWait}) (requeue_row (db_now d)) (db_jobs d))"
proof -
  obtain r1 where "stmt (\<lambda>d. case sql_find (\<lambda>j. job_id j = jid \<and> job_st j \<in> {JobFailed, JobRetryWait}) (db_jobs d) of
        None \<Rightarrow> (Inl ErrNotFound, d)
      | Some j \<Rightarrow> bindE (update_jobs (\<lambda>now r. job_id r = jid \<and> job_st r \<in> {JobFailed, JobRetryWait}) requeue_row)
          (\<lambda>_. retE (requeue_row (db_now d) j)) d) d = (r1, d')"
    using scanE_run[OF assms[unfolded requeue_stmt_def]] by blast
  then show ?thesis
    by (cases rule: stmt_cases)
       (auto simp: bindE_def retE_def update_jobs_def same_tables_fields split: option.splits)
qed

lemma new_job_id [simp]: "job_id (new_job u now iid oper cp) = u" "job_lease_until (new_job u now iid oper cp) = None"
  by (simp_all add: new_job_def)

lemma create_jobs:
  assumes "jobs_Create iid oper cp d = (r, d')"
  shows "db_now d' = db_now d \<and> (db_jobs d' = db_jobs d \<or>
    (\<exists>u. db_jobs d' = db_jobs d @ [new_job u (db_now d) iid oper cp] \<and> (\<forall>j \<in> set (db_jobs d). job_id j \<noteq> u)))"
proof -
  obtain r1 where "stmt (bindE gen_random_uuid (\<lambda>u. bindE (getE db_now) (\<lambda>now. insert_job (new_job u now iid oper cp)))) d
      = (r1, d')"
    using scanE_run[OF assms[unfolded jobs_Create_def]] by blast
  then show ?thesis
    by (cases rule: stmt_cases)
       (auto simp: bindE_def getE_def gen_random_uuid_def insert_job_def same_tables_fields
         split: if_splits)
qed

lemmas queue_op_defs = jobs_Heartbeat_def jobs_Complete_def jobs_Fail_alt jobs_UpdateCheckpoint_def
  jobs_ReclaimExpiredLeases_def

lemma queue_step_now:
  assumes "queue_step L d ev d'"
  shows "db_now d \<le> db_now d'"
  using assms
proof cases
  case claim then show ?thesis by (simp add: jobs_Claim_now)
next
  case claim_err then show ?thesis by (simp add: jobs_Claim_now)
next
  case heartbeat then show ?thesis unfolding queue_op_defs by (simp add: require_now)
next
  case heartbeat_err then show ?thesis unfolding queue_op_defs by (simp add: require_now)
next
  case complete then show ?thesis unfolding queue_op_defs by (simp add: require_now)
next
  case fail then show ?thesis unfolding queue_op_defs by (simp add: require_now)
next
  case reclaim then show ?thesis unfolding queue_op_defs by (auto dest: update_stmt_cases)
next
  case requeue then show ?thesis by (auto dest: requeue_jobs)
next
  case create then show ?thesis by (auto dest: create_jobs)
next
  case checkpoint then show ?thesis unfolding queue_op_defs by (simp add: require_now)
next
  case elsewhere then show ?thesis by simp
qed

lemma lease_bound_update:
  assumes "\<And>j e. j \<in> set js \<Longrightarrow> job_lease_until j = Some e \<Longrightarrow> e \<le> t"
    and "js' = js \<or> js' = sql_update p f js"
    and "\<And>j e. j \<in> set js \<Longrightarrow> job_lease_until (f j) = Some e \<Longrightarrow> job_lease_until j = Some e \<or> e \<le> t"
    and "j \<in> set js'" "job_lease_until j = Some e"
  shows "e \<le> t"
  using assms(2)
proof
  assume "js' = js"
  with assms(1,4,5) show ?thesis by blast
next
  assume "js' = sql_update p f js"
  with assms(4) have "j \<in> set (sql_update p f js)" by simp
  then show ?thesis
  proof (rule sql_updateE)
    fix r assume "r \<in> set js" "j = f r"
    with assms(1,3,5) show ?thesis by blast
  next
    assume "j \<in> set js"
    with assms(1,5) show ?thesis by blast
  qed
qed

lemma queue_step_jobs_inv:
  assumes "queue_step L d ev d'" "jobs_inv d"
  shows "jobs_inv d'"
  using assms(1)
proof cases
  case claim with assms(2) keepsD[OF keeps_jobs_Claim] show ?thesis by blast
next
  case claim_err with assms(2) keepsD[OF keeps_jobs_Claim] show ?thesis by blast
next
  case heartbeat with assms(2) keepsD[OF keeps_jobs_Heartbeat] show ?thesis by blast
next
  case heartbeat_err with assms(2) keepsD[OF keeps_jobs_Heartbeat] show ?thesis by blast
next
  case complete with assms(2) keepsD[OF keeps_jobs_Complete] show ?thesis by blast
next
  case fail with assms(2) keepsD[OF keeps_jobs_Fail] show ?thesis by blast
next
  case reclaim with assms(2) keepsD[OF keeps_jobs_Reclaim] show ?thesis by blast
next
  case requeue with assms(2) keepsD[OF keeps_requeue_stmt] show ?thesis by blast
next
  case create with assms(2) keepsD[OF keeps_jobs_Create] show ?thesis by blast
next
  case checkpoint with assms(2) keepsD[OF keeps_jobs_UpdateCheckpoint] show ?thesis by blast
next
  case elsewhere with assms(2) show ?thesis by (simp add: jobs_inv_def)
qed

lemma jobs_inv_unique:
  "jobs_inv d \<Longrightarrow> i \<in> set (db_jobs d) \<Longrightarrow> j \<in> set (db_jobs d) \<Longrightarrow> job_id i = job_id j \<Longrightarrow> i = j"
  by (auto simp: jobs_inv_def distinct_map dest: inj_onD)

text \<open>
  What any step does to the table of jobs: nothing, one UPDATE or one INSERT; the UPDATE leaves
  the keys, sets no lease but the one of \<open>L\<close> from now, and takes no valid lease from a worker that
  did not let go of it.
\<close>

definition gentle :: "duration \<Rightarrow> db \<Rightarrow> (string, string) lease_event \<Rightarrow> db \<Rightarrow> (job \<Rightarrow> bool) \<Rightarrow> (job \<Rightarrow> job) \<Rightarrow> bool" where
  "gentle L d ev d' p f \<longleftrightarrow> (\<forall>j. job_id (f j) = job_id j) \<and>
     (\<forall>j. job_lease_until (f j) \<in> {None, Some (db_now d + L), job_lease_until j}) \<and>
     (\<forall>j \<in> set (db_jobs d). \<forall>w e. p j \<longrightarrow> job_st j = JobRunning \<longrightarrow> job_owner j = Some w \<longrightarrow>
        job_lease_until j = Some e \<longrightarrow> db_now d' \<le> e \<longrightarrow> ev \<noteq> LetGo w (job_id j) \<longrightarrow>
        job_st (f j) = JobRunning \<and> job_owner (f j) = Some w \<and>
        job_lease_until (f j) \<in> {Some e, Some (db_now d + L)})"

lemma gentle_claim:
  assumes "jobs_inv d" "claim_effect locked w L d j d'"
  shows "gentle L d ev d'' (\<lambda>r. job_id r = job_id j) (lease_row w L (db_now d))"
proof -
  from assms(2) have j: "j \<in> set (db_jobs d)" "job_st j \<noteq> JobRunning"
    using select_claimable_Some(1,2)[of locked d j] by (auto simp: claim_effect_def claimable_row_def)
  have "r = j" if "r \<in> set (db_jobs d)" "job_id r = job_id j" for r
    using jobs_inv_unique[OF assms(1) that(1) j(1) that(2)] .
  then show ?thesis using j by (auto simp: gentle_def lease_row_def)
qed

lemma queue_step_effect:
  assumes "queue_step L d ev d'" "jobs_inv d"
  obtains (same) "db_jobs d' = db_jobs d"
    | (update) p f where "db_jobs d' = sql_update p f (db_jobs d)" "gentle L d ev d' p f"
    | (insert) u iid oper cp where "db_jobs d' = db_jobs d @ [new_job u (db_now d) iid oper cp]"
        "\<forall>j \<in> set (db_jobs d). job_id j \<noteq> u"
proof -
  have req: thesis if "bindE (onErr g (stmt (update_jobs p f))) (require_rows e) d = (r, d')"
    "gentle L d ev d' (p (db_now d)) (f (db_now d))" for g p f e r
    using update_require_cases[OF that(1)] same update that(2) by blast
  from assms(1) show thesis
  proof cases
    case claim
    from claim(2) show thesis
      by (cases rule: claim_cases) (use same update gentle_claim[OF assms(2)] in \<open>auto simp: claim_effect_def\<close>)
  next
    case claim_err
    from claim_err(2) show thesis
      by (cases rule: claim_cases) (use same update gentle_claim[OF assms(2)] in \<open>auto simp: claim_effect_def\<close>)
  next
    case heartbeat
    then show thesis unfolding queue_op_defs
      by (elim req) (auto simp: gentle_def owned_def)
  next
    case heartbeat_err
    then show thesis unfolding queue_op_defs
      by (elim req) (auto simp: gentle_def owned_def)
  next
    case complete
    then show thesis unfolding queue_op_defs
      by (elim req) (auto simp: gentle_def owned_def release_lease_def)
  next
    case fail
    then show thesis unfolding queue_op_defs
      by (elim req) (auto simp: gentle_def owned_def release_lease_def split: option.splits)
  next
    case reclaim
    then have "db_now d' = db_now d" "db_jobs d' = db_jobs d \<or>
        db_jobs d' = sql_update (lease_expired (db_now d)) (\<lambda>j. release_lease (j\<lparr>job_st := JobQueued\<rparr>)) (db_jobs d)"
      unfolding queue_op_defs by (auto dest: update_stmt_cases)
    then show thesis
      by (elim disjE) (erule same, erule update, auto simp: gentle_def release_lease_def lease_expired_def)
  next
    case requeue
    from requeue_jobs[OF requeue(2)] show thesis
      by (elim conjE disjE) (erule same, erule update, auto simp: gentle_def release_lease_def requeue_row_def)
  next
    case create
    from create_jobs[OF create(2)] show thesis using same insert by blast
  next
    case checkpoint
    then show thesis unfolding queue_op_defs
      by (elim req) (auto simp: gentle_def)
  next
    case elsewhere
    then show thesis by (intro same)
  qed
qed

lemma queue_step_inv:
  assumes "queue_step L d ev d'" "queue_inv L d"
  shows "queue_inv L d'"
proof -
  have i: "jobs_inv d" and b: "\<And>j e. j \<in> set (db_jobs d) \<Longrightarrow> job_lease_until j = Some e \<Longrightarrow> e \<le> db_now d + L"
    using assms(2) by (auto simp: queue_inv_def)
  have "e \<le> db_now d + L" if "j \<in> set (db_jobs d')" "job_lease_until j = Some e" for j e
    using assms(1) i
  proof (cases rule: queue_step_effect)
    case same with b that show ?thesis by simp
  next
    case (insert u iid oper cp) with b that show ?thesis by auto
  next
    case (update p f)
    show ?thesis
    proof (rule lease_bound_update[OF b disjI2[OF update(1)] _ that])
      fix j e assume "job_lease_until (f j) = Some e"
      with update(2) show "job_lease_until j = Some e \<or> e \<le> db_now d + L"
        unfolding gentle_def by (metis empty_iff insertE option.inject option.simps(3) order_refl)
    qed
  qed
  with queue_step_now[OF assms(1)] queue_step_jobs_inv[OF assms(1) i] show ?thesis
    by (fastforce simp: queue_inv_def)
qed

lemma queue_lease_stays:
  assumes "queue_step L d ev d'" "queue_inv L d" "job_lease d jid = Some (w, e)"
    "db_now d' \<le> e" "ev \<noteq> LetGo w jid"
  shows "\<exists>e'. e \<le> e' \<and> job_lease d' jid = Some (w, e')"
proof -
  have i: "jobs_inv d" using assms(2) by (simp add: queue_inv_def)
  from assms(1) i show ?thesis
  proof (cases rule: queue_step_effect)
    case same
    with assms(3) show ?thesis using job_lease_cong[OF same] by auto
  next
    case (insert u iid oper cp)
    with assms(3) have "find_job jid d' = find_job jid d"
      by (auto simp: job_lease_Some find_job_def sql_find_append_Some)
    with assms(3) show ?thesis by (auto simp: job_lease_def)
  next
    case (update p f)
    show ?thesis
    proof (rule lease_stays_update[OF disjI2[OF update(1)] _ assms(3)])
      show "\<And>j. job_id (f j) = job_id j" using update(2) by (simp add: gentle_def)
    next
      fix j assume j: "j \<in> set (db_jobs d)" "p j" "job_id j = jid" "job_st j = JobRunning"
        "job_owner j = Some w" "job_lease_until j = Some e"
      then have "e \<le> db_now d + L" using assms(2) by (simp add: queue_inv_def)
      with j update(2) assms(4,5) show "job_st (f j) = JobRunning \<and> job_owner (f j) = Some w \<and>
          (\<exists>e'. e \<le> e' \<and> job_lease_until (f j) = Some e')"
        unfolding gentle_def by blast
    qed
  qed
qed

lemma queue_gained:
  assumes "queue_step L d (Gained w jid e) d'" "queue_inv L d"
  shows "job_lease d' jid = Some (w, e)"
proof -
  have i: "jobs_inv d" using assms(2) by (simp add: queue_inv_def)
  from assms(1) show ?thesis
  proof cases
    case (claim locked j)
    from claim(3) show ?thesis
    proof (cases rule: claim_cases)
      case (nothing e) then show ?thesis by simp
    next
      case (claimed j0)
      then have f: "find_job (job_id j0) d' = Some j"
        and u: "db_jobs d' = sql_update (\<lambda>r. job_id r = job_id j0) (lease_row w L (db_now d)) (db_jobs d)"
        by (auto simp: claim_effect_def)
      have "job_id j = job_id j0" using f sql_find_Some by (fastforce simp: find_job_def)
      moreover obtain r where "find_job (job_id j0) d = Some r" "j = (if job_id r = job_id j0
          then lease_row w L (db_now d) r else r)"
        using f find_job_update[OF u] by (auto simp: lease_row_def)
      moreover then have "job_id r = job_id j0" using sql_find_Some by (fastforce simp: find_job_def)
      ultimately show ?thesis using f claim(1,2) by (auto simp: job_lease_Some lease_row_def)
    qed
  next
    case heartbeat
    let ?p = "\<lambda>j. owned jid w j \<and> (case job_lease_until j of None \<Rightarrow> False | Some t \<Rightarrow> t > db_now d)"
    from heartbeat(2) have u: "db_jobs d' = sql_update ?p (\<lambda>j. j\<lparr>job_lease_until := Some (db_now d + L)\<rparr>) (db_jobs d)"
        "\<exists>j \<in> set (db_jobs d). ?p j"
      using update_require_cases[OF heartbeat(2)[unfolded jobs_Heartbeat_def]] by auto
    then obtain j where j: "j \<in> set (db_jobs d)" "?p j" by blast
    then have "find_job jid d = Some j"
      unfolding find_job_def using i by (intro sql_find_key) (auto simp: jobs_inv_def owned_def)
    with j find_job_update[OF u(1)] heartbeat(1) show ?thesis
      by (auto simp: job_lease_Some owned_def)
  qed
qed

interpretation queue: lease_store "queue_inv L" job_lease db_now "queue_step L" for L
  by unfold_locales (blast intro: queue_step_inv queue_step_now queue_gained queue_lease_stays)+

section \<open>Properties\<close>

text \<open>
  C2.  Mutual exclusion of the workers.  Start from a queue with well-formed rows and no lease
  beyond the lease duration, and let the workers, the maintenance loop and the API run in any
  order, with any call refused or its reply lost, time passing in between.  If two workers each
  were told they hold a job (by \<open>Claim\<close> or \<open>Heartbeat\<close>), neither has since called \<open>Complete\<close> or
  \<open>Fail\<close>, and neither lease has run out by the clock, they are the same worker.
\<close>

theorem workers_exclude_each_other:
  assumes "queue_inv L d0" "lease_run (queue_step L) d0 d b"
    and "b w1 j = Some e1" "db_now d \<le> e1" "b w2 j = Some e2" "db_now d \<le> e2"
  shows "w1 = w2"
  by (rule queue.exclusion[OF assms(2,1,3-6)])

lemma jobs_Claim_healthy:
  assumes "jobs_inv d" "db_faults d = []"
  shows "jobs_Claim locked w dur d = (case select_claimable locked d of
       None \<Rightarrow> (Inl ErrNotClaimable, d)
     | Some j \<Rightarrow> (Inr (lease_row w dur (db_now d) j),
         d\<lparr>db_jobs := sql_update (\<lambda>r. r = j) (lease_row w dur (db_now d)) (db_jobs d)\<rparr>))"
proof (cases "select_claimable locked d")
  case None
  then have "claim_select locked d = (Inl ErrNotClaimable, d)"
    using assms(2) by (simp add: claim_select_def scan_row_def eff_defs)
  with None assms(2) show ?thesis
    by (simp add: jobs_Claim_def WithTx_healthy bindE_run_Inl roll_back_def)
next
  case (Some j)
  let ?d = "d\<lparr>db_jobs := sql_update (\<lambda>r. job_id r = job_id j) (lease_row w dur (db_now d)) (db_jobs d)\<rparr>"
  note j = select_claimable_Some[OF Some]
  have s: "claim_select locked d = (Inr (job_id j), d)"
    using Some assms(2) by (simp add: claim_select_def scan_row_def eff_defs)
  have u: "\<exists>n. claim_update w dur (job_id j) d = (Inr n, ?d)"
    using assms(2) by (simp add: claim_update_def update_jobs_def onErr_def)
  have "find_job (job_id j) d = Some j"
    unfolding find_job_def using assms(1) j(1) by (intro sql_find_key) (auto simp: jobs_inv_def)
  then have "find_job (job_id j) ?d = Some (lease_row w dur (db_now d) j)"
    using find_job_update[of ?d "\<lambda>r. job_id r = job_id j" "lease_row w dur (db_now d)" d "job_id j"]
    by (simp add: lease_row_def)
  then have g: "jobs_Get (job_id j) ?d = (Inr (lease_row w dur (db_now d) j), ?d)"
    using assms(2) by (simp add: jobs_Get_def scanE_def scan_row_def onErr_def retE_def)
  have "sql_update (\<lambda>r. job_id r = job_id j) (lease_row w dur (db_now d)) (db_jobs d) =
      sql_update (\<lambda>r. r = j) (lease_row w dur (db_now d)) (db_jobs d)"
    by (rule sql_update_cong) (use jobs_inv_unique[OF assms(1) _ j(1)] in auto)
  with Some s u g assms(2) show ?thesis
    by (auto simp: jobs_Claim_def WithTx_healthy bindE_run_Inr)
qed

text \<open>
  C23.  \<open>Claim\<close> on a healthy connection: it answers \<open>ErrNotClaimable\<close> and changes nothing only when no
  unlocked row is due; otherwise it returns the due row of the highest priority, the oldest among
  those, leased to the caller for the given time with its attempt counted, and no other row moves.
\<close>

theorem claim_takes_the_best_job:
  assumes "jobs_inv d" "db_faults d = []"
  shows "case jobs_Claim locked w dur d of
      (Inl e, d') \<Rightarrow> e = ErrNotClaimable \<and> d' = d \<and> filter (claimable_row locked (db_now d)) (db_jobs d) = []
    | (Inr j', d') \<Rightarrow> \<exists>j. j' = lease_row w dur (db_now d) j
        \<and> d' = d\<lparr>db_jobs := sql_update (\<lambda>r. r = j) (lease_row w dur (db_now d)) (db_jobs d)\<rparr>
        \<and> j \<in> set (filter (claimable_row locked (db_now d)) (db_jobs d))
        \<and> (\<forall>r \<in> set (filter (claimable_row locked (db_now d)) (db_jobs d)).
              job_priority r < job_priority j \<or> job_priority r = job_priority j \<and> job_created j \<le> job_created r)"
proof (cases "select_claimable locked d")
  case None
  then show ?thesis
    using jobs_Claim_healthy[OF assms, of locked w dur] None[unfolded select_claimable_def sql_first_None]
    by (simp add: filter_empty_conv)
next
  case (Some j)
  have "job_priority r < job_priority j \<or> job_priority r = job_priority j \<and> job_created j \<le> job_created r"
    if "r \<in> set (db_jobs d)" "claimable_row locked (db_now d) r" for r
    using select_claimable_Some(3)[OF Some that] by auto
  with Some select_claimable_Some(1,2)[OF Some] jobs_Claim_healthy[OF assms, of locked w dur] show ?thesis
    by (auto intro!: exI[of _ j])
qed

subsection \<open>Witnesses\<close>

definition demo_queue :: db where
  "demo_queue = demo_db\<lparr>db_instances := [demo_instance ''i1''],
     db_jobs := [new_job ''j1'' 10 ''i1'' JobOpProvision InstanceRequested,
                 new_job ''j2'' 20 ''i1'' JobOpProvision InstanceRequested]\<rparr>"

lemmas demo_queue_defs = demo_defs demo_queue_def new_job_def

lemma demo_queue_inv: "queue_inv L demo_queue" "jobs_inv demo_queue" "db_faults demo_queue = []"
  by (simp_all add: queue_inv_def jobs_inv_def job_wf_def demo_queue_defs)

lemma demo_claim: "jobs_Claim (\<lambda>_. False) ''w1'' 60 demo_queue =
   (Inr (lease_row ''w1'' 60 1000 (new_job ''j1'' 10 ''i1'' JobOpProvision InstanceRequested)),
    demo_queue\<lparr>db_jobs := [lease_row ''w1'' 60 1000 (new_job ''j1'' 10 ''i1'' JobOpProvision InstanceRequested),
      new_job ''j2'' 20 ''i1'' JobOpProvision InstanceRequested]\<rparr>)"
  by (subst jobs_Claim_healthy[OF demo_queue_inv(2,3)])
     (simp add: select_claimable_def sql_first_def claimable_row_def demo_queue_defs sql_update_def)

theorem workers_exclude_each_other_witness:
  "\<exists>d b. lease_run (queue_step 60) demo_queue d b \<and> b ''w1'' ''j1'' = Some 1060 \<and> db_now d \<le> 1060 \<and>
     (\<forall>w. b w ''j1'' = Some 1060 \<longrightarrow> w = ''w1'')"
proof -
  define d where "d = snd (jobs_Claim (\<lambda>_. False) ''w1'' 60 demo_queue)"
  define b where "b = learn (Gained ''w1'' ''j1'' 1060) (\<lambda>w j. None)"
  have "queue_step 60 demo_queue (Gained ''w1'' ''j1'' 1060) d"
    using queue_step.claim[OF demo_claim] unfolding d_def demo_claim snd_conv
    by (simp add: demo_queue_defs lease_row_def)
  then have r: "lease_run (queue_step 60) demo_queue d b"
    unfolding b_def by (rule lease_run.more[OF lease_run.start])
  have n: "db_now d \<le> 1060" unfolding d_def demo_claim snd_conv by (simp add: demo_queue_defs)
  have b1: "b ''w1'' ''j1'' = Some 1060" by (simp add: b_def)
  have "w = ''w1''" if "b w ''j1'' = Some 1060" for w
    by (rule workers_exclude_each_other[OF demo_queue_inv(1) r that n b1 n])
  with r n b1 show ?thesis by blast
qed

theorem claim_takes_the_best_job_witness:
  "case jobs_Claim (\<lambda>_. False) ''w1'' 60 demo_queue of (Inl e, d') \<Rightarrow> False
   | (Inr j', d') \<Rightarrow> job_id j' = ''j1'' \<and> job_owner j' = Some ''w1'' \<and> job_attempt j' = 1"
  using claim_takes_the_best_job[OF demo_queue_inv(2,3), of "\<lambda>_. False" "''w1''" 60]
  unfolding demo_claim prod.case sum.case by (simp add: new_job_def lease_row_def)

end
