(* ===== verification/Instances.thy ===== *)
theory Instances
  imports Database Keyset
begin

text \<open>
  The aggregate root of the lifecycle, \<open>internal/instance/repository.go\<close>, with the constraints of
  the table \<open>vm_instances\<close>: the primary key, the template and cluster it refers to,
  \<open>UNIQUE(logical_name, generation)\<close> and the two partial indexes over the instances that are not
  retired, on the hostname and on the VMID within a cluster.
\<close>

section \<open>Constraints\<close>

definition hostname_ok :: "vm_instance \<Rightarrow> vm_instance \<Rightarrow> bool" where
  "hostname_ok i r \<longleftrightarrow> IsRetired i \<or> IsRetired r \<or> inst_id r = inst_id i \<or> inst_hostname r \<noteq> inst_hostname i"

definition vmid_ok :: "vm_instance \<Rightarrow> vm_instance \<Rightarrow> bool" where
  "vmid_ok i r \<longleftrightarrow> IsRetired i \<or> IsRetired r \<or> inst_id r = inst_id i \<or> inst_vmid i = None \<or> inst_cluster i = None \<or>
     inst_vmid r \<noteq> inst_vmid i \<or> inst_cluster r \<noteq> inst_cluster i"

definition generation_ok :: "vm_instance \<Rightarrow> vm_instance \<Rightarrow> bool" where
  "generation_ok i r \<longleftrightarrow> inst_id r = inst_id i \<or>
     inst_logical_name r \<noteq> inst_logical_name i \<or> inst_generation r \<noteq> inst_generation i"

definition coexist :: "vm_instance \<Rightarrow> vm_instance \<Rightarrow> bool" where
  "coexist i r \<longleftrightarrow> hostname_ok i r \<and> vmid_ok i r \<and> generation_ok i r"

definition instances_inv :: "db \<Rightarrow> bool" where
  "instances_inv d \<longleftrightarrow> distinct (map inst_id (db_instances d)) \<and>
     (\<forall>i \<in> set (db_instances d). 1 \<le> inst_version i) \<and>
     (\<forall>i \<in> set (db_instances d). \<forall>r \<in> set (db_instances d). coexist i r)"

section \<open>Operations\<close>

definition find_instance :: "string \<Rightarrow> db \<Rightarrow> vm_instance option" where
  "find_instance iid d = sql_find (\<lambda>i. inst_id i = iid) (db_instances d)"

definition or_empty_object :: "raw_json \<Rightarrow> raw_json" where
  "or_empty_object r = (case r of None \<Rightarrow> Some (JObj []) | Some v \<Rightarrow> Some v)"

definition insert_instance :: "vm_instance \<Rightarrow> vm_instance dbm" where
  "insert_instance i d =
     (if \<exists>r \<in> set (db_instances d). inst_id r = inst_id i then (Inl (constraint_error ''vm_instances_pkey''), d)
      else if \<forall>t \<in> set (db_templates d). tpl_id t \<noteq> inst_template i
      then (Inl (constraint_error ''vm_instances_template_id_fkey''), d)
      else if \<exists>r \<in> set (db_instances d). \<not> generation_ok i r
      then (Inl (constraint_error ''vm_instances_logical_name_generation_key''), d)
      else if \<exists>r \<in> set (db_instances d). \<not> hostname_ok i r
      then (Inl (constraint_error ''uq_active_instance_hostname''), d)
      else (Inr i, put_instances (db_instances d @ [i]) d))"

text \<open>The row \<open>Create\<close> inserts: always \<open>REQUESTED\<close>, whatever state the caller passes.\<close>

definition new_instance :: "string \<Rightarrow> time \<Rightarrow> vm_instance \<Rightarrow> vm_instance" where
  "new_instance u now i =
     \<lparr>inst_id = u, inst_logical_name = inst_logical_name i, inst_hostname = inst_hostname i,
      inst_state = InstanceRequested,
      inst_generation = (if inst_generation i = 0 then 1 else inst_generation i),
      inst_template = inst_template i, inst_cluster = None, inst_node = None, inst_vmid = None,
      inst_pool = None, inst_config = or_empty_object (inst_config i), inst_config_hash = None,
      inst_workload_adapter = inst_workload_adapter i,
      inst_workload_spec = or_empty_object (inst_workload_spec i),
      inst_version = 1, inst_created = now, inst_updated = now, inst_retired = None\<rparr>"

definition instances_Create :: "vm_instance \<Rightarrow> vm_instance dbm" where
  "instances_Create i = scanE ''instance: scan'' (bindE gen_random_uuid (\<lambda>u.
     bindE (getE db_now) (\<lambda>now. insert_instance (new_instance u now i))))"

definition instances_Get :: "string \<Rightarrow> vm_instance dbm" where
  "instances_Get iid = scanE ''instance: scan'' (\<lambda>d. scan_row (find_instance iid d) d)"

definition instances_GetByLogicalName :: "string \<Rightarrow> vm_instance dbm" where
  "instances_GetByLogicalName nm = scanE ''instance: scan'' (\<lambda>d. scan_row
     (sql_first (\<lambda>i. - inst_generation i) (\<lambda>i. inst_logical_name i = nm \<and> \<not> IsRetired i) (db_instances d)) d)"

definition instances_UpdateState :: "string \<Rightarrow> instance_state \<Rightarrow> unit dbm" where
  "instances_UpdateState iid newState = exec_rows ''instance: update state'' ErrNotFound
     (upd_tab db_instances put_instances (\<lambda>now i. inst_id i = iid)
       (\<lambda>now i. i\<lparr>inst_state := newState, inst_version := inst_version i + 1, inst_updated := now\<rparr>))"

definition placement_stmt :: "string \<Rightarrow> string \<Rightarrow> string \<Rightarrow> int \<Rightarrow> nat dbm" where
  "placement_stmt iid cluster node vmid d =
     (let place = (\<lambda>i. i\<lparr>inst_cluster := Some cluster, inst_node := Some node, inst_vmid := Some vmid,
            inst_updated := db_now d\<rparr>)
      in case find_instance iid d of
           None \<Rightarrow> (Inr 0, d)
         | Some i \<Rightarrow>
             if cluster \<notin> set (db_clusters d) then (Inl (constraint_error ''vm_instances_pve_cluster_id_fkey''), d)
             else if \<exists>r \<in> set (db_instances d). \<not> vmid_ok (place i) r
             then (Inl (constraint_error ''uq_active_instance_vmid''), d)
             else upd_tab db_instances put_instances (\<lambda>_ i. inst_id i = iid) (\<lambda>_. place) d)"

definition instances_SetPVEPlacement :: "string \<Rightarrow> string \<Rightarrow> string \<Rightarrow> int \<Rightarrow> unit dbm" where
  "instances_SetPVEPlacement iid cluster node vmid =
     exec_rows ''instance: set pve placement'' ErrNotFound (placement_stmt iid cluster node vmid)"

definition instances_SetDesiredConfigHash :: "string \<Rightarrow> string \<Rightarrow> unit dbm" where
  "instances_SetDesiredConfigHash iid h = bindE (wrapE ''instance: set desired config hash''
     (stmt (upd_tab db_instances put_instances (\<lambda>now i. inst_id i = iid)
       (\<lambda>now i. i\<lparr>inst_config_hash := Some h, inst_updated := now\<rparr>)))) (\<lambda>_. retE ())"

definition instances_Retire :: "string \<Rightarrow> unit dbm" where
  "instances_Retire iid = exec_rows ''instance: retire'' ErrNotFound
     (upd_tab db_instances put_instances (\<lambda>now i. inst_id i = iid \<and> \<not> IsRetired i)
       (\<lambda>now i. i\<lparr>inst_state := InstanceRetired, inst_retired := Some now,
          inst_version := inst_version i + 1, inst_updated := now\<rparr>))"

definition instances_page :: "db \<Rightarrow> time \<Rightarrow> string \<Rightarrow> nat \<Rightarrow> vm_instance list" where
  "instances_page d t i n = keyset_page (\<lambda>r. (inst_created r, inst_id r)) (\<lambda>_. True) t i n (db_instances d)"

definition instances_List :: "time \<Rightarrow> string \<Rightarrow> nat \<Rightarrow> vm_instance list dbm" where
  "instances_List t i n = queryE ''instance: list'' (\<lambda>d. instances_page d t i n)"

definition instances_FindCurrentJobID :: "string \<Rightarrow> string dbm" where
  "instances_FindCurrentJobID iid = scanE ''instance: find current job id'' (\<lambda>d. scan_row
     (map_option job_id (sql_first (\<lambda>j. - job_created j) (\<lambda>j. job_instance j = iid) (db_jobs d))) d)"

section \<open>The invariant\<close>

lemma tab_inv_instances: "tab_inv instances_inv"
  by (simp add: tab_inv_def instances_inv_def same_tables_fields)

text \<open>A row that is replaced by one that claims no more of the unique names.\<close>

definition inst_shrinks :: "vm_instance \<Rightarrow> vm_instance \<Rightarrow> bool" where
  "inst_shrinks i i' \<longleftrightarrow> inst_id i' = inst_id i \<and> inst_hostname i' = inst_hostname i \<and>
     inst_logical_name i' = inst_logical_name i \<and> inst_generation i' = inst_generation i \<and>
     inst_cluster i' = inst_cluster i \<and> inst_vmid i' = inst_vmid i \<and>
     (IsRetired i \<longrightarrow> IsRetired i') \<and> inst_version i \<le> inst_version i'"

lemmas coexist_defs = coexist_def hostname_ok_def vmid_ok_def generation_ok_def

lemma coexist_sym: "coexist i r \<Longrightarrow> coexist r i"
  by (auto simp: coexist_defs)

lemma coexist_shrinks: "inst_shrinks i i' \<Longrightarrow> inst_shrinks r r' \<Longrightarrow> coexist i r \<Longrightarrow> coexist i' r'"
  by (auto simp: inst_shrinks_def coexist_defs)

lemma instances_inv_map:
  assumes g: "\<And>i. inst_shrinks i (g i)" and "instances_inv d" "db_instances d' = map g (db_instances d)"
  shows "instances_inv d'"
proof -
  have "inst_id \<circ> g = inst_id" using g by (simp add: inst_shrinks_def fun_eq_iff)
  moreover have "1 \<le> inst_version (g i)" if "i \<in> set (db_instances d)" for i
    using assms(2) that g[of i] by (force simp: instances_inv_def inst_shrinks_def)
  moreover have "coexist (g i) (g r)" if "i \<in> set (db_instances d)" "r \<in> set (db_instances d)" for i r
    using assms(2) that coexist_shrinks[OF g g] by (simp add: instances_inv_def)
  ultimately show ?thesis using assms(2,3) by (auto simp: instances_inv_def)
qed

lemma preserves_upd_instances:
  assumes "\<And>now i. p now i \<Longrightarrow> inst_shrinks i (f now i)"
  shows "preserves instances_inv (upd_tab db_instances put_instances p f)"
proof (rule keepsI)
  fix d :: db
  let ?g = "\<lambda>i. if p (db_now d) i then f (db_now d) i else i"
  have "inst_shrinks i (?g i)" for i using assms by (simp add: inst_shrinks_def)
  then have "instances_inv d \<Longrightarrow> instances_inv (put_instances (map ?g (db_instances d)) d)"
    by (rule instances_inv_map) simp_all
  then show "instances_inv d \<longrightarrow> instances_inv (snd (upd_tab db_instances put_instances p f d))"
    by (simp add: upd_tab_def sql_update_def)
qed

lemma preserves_insert_instance:
  assumes "1 \<le> inst_version i" "inst_vmid i = None"
  shows "preserves instances_inv (insert_instance i)"
proof (rule keepsI, rule impI)
  fix d assume inv: "instances_inv d"
  show "instances_inv (snd (insert_instance i d))"
  proof (cases "insert_instance i d = (Inr i, put_instances (db_instances d @ [i]) d)")
    case True
    then have "\<forall>r \<in> set (db_instances d). inst_id r \<noteq> inst_id i \<and> generation_ok i r \<and> hostname_ok i r"
      by (auto simp: insert_instance_def split: if_splits)
    moreover then have "\<forall>r \<in> set (db_instances d). coexist i r"
      using assms(2) by (auto simp: coexist_def vmid_ok_def)
    moreover have "coexist i i" by (simp add: coexist_defs)
    ultimately show ?thesis using True inv assms(1)
      by (auto simp: instances_inv_def intro: coexist_sym)
  qed (auto simp: insert_instance_def inv split: if_splits)
qed

lemma coexist_placed:
  "coexist i r \<Longrightarrow> vmid_ok (i\<lparr>inst_cluster := c, inst_node := n, inst_vmid := v, inst_updated := t\<rparr>) r \<Longrightarrow>
   coexist (i\<lparr>inst_cluster := c, inst_node := n, inst_vmid := v, inst_updated := t\<rparr>) r"
  by (simp add: coexist_def hostname_ok_def generation_ok_def IsRetired_def)

lemma preserves_placement: "preserves instances_inv (placement_stmt iid cluster node vmid)"
proof (rule keepsI, rule impI)
  fix d assume inv: "instances_inv d"
  let ?f = "\<lambda>i. i\<lparr>inst_cluster := Some cluster, inst_node := Some node, inst_vmid := Some vmid, inst_updated := db_now d\<rparr>"
  let ?d = "put_instances (sql_update (\<lambda>i. inst_id i = iid) ?f (db_instances d)) d"
  have "instances_inv ?d" if i: "find_instance iid d = Some i" and ok: "\<forall>r \<in> set (db_instances d). vmid_ok (?f i) r" for i
  proof -
    have i': "i \<in> set (db_instances d)" "inst_id i = iid"
      using sql_find_in sql_find_holds i unfolding find_instance_def by fast+
    have u: "r = i" if "r \<in> set (db_instances d)" "inst_id r = iid" for r
      by (rule distinct_key[of inst_id "db_instances d"]) (use inv i' that in \<open>simp_all add: instances_inv_def\<close>)
    have c: "coexist (?f i) r" if "r \<in> set (db_instances d)" for r
      using inv i' ok that by (intro coexist_placed) (simp_all add: instances_inv_def)
    have s: "set (db_instances ?d) \<subseteq> insert (?f i) {r \<in> set (db_instances d). inst_id r \<noteq> iid}"
      using u by (auto simp: set_sql_update)
    have "coexist a b" if "a \<in> set (db_instances ?d)" "b \<in> set (db_instances ?d)" for a b
    proof -
      have "coexist (?f i) (?f i)" by (simp add: coexist_defs)
      moreover have "coexist r (?f i)" if "r \<in> set (db_instances d)" for r
        using c[OF that] by (rule coexist_sym)
      moreover have "coexist a b" if "a \<in> set (db_instances d)" "b \<in> set (db_instances d)"
        using inv that by (simp add: instances_inv_def)
      moreover have "a = ?f i \<or> a \<in> set (db_instances d)" "b = ?f i \<or> b \<in> set (db_instances d)"
        using that s by blast+
      ultimately show ?thesis using c by metis
    qed
    moreover have "1 \<le> inst_version a" if "a \<in> set (db_instances ?d)" for a
      using that s i' inv by (auto simp: instances_inv_def)
    moreover have "map inst_id (db_instances ?d) = map inst_id (db_instances d)"
      by (simp add: map_key_sql_update)
    ultimately show ?thesis using inv unfolding instances_inv_def by simp
  qed
  then show "instances_inv (snd (placement_stmt iid cluster node vmid d))"
    using inv by (auto simp: placement_stmt_def Let_def upd_tab_def split: option.split)
qed

lemma preserves_instance_ops:
  "preserves instances_inv (instances_Create i)" "preserves instances_inv (instances_UpdateState iid st)"
  "preserves instances_inv (instances_SetPVEPlacement iid cluster node vmid)"
  "preserves instances_inv (instances_SetDesiredConfigHash iid h)" "preserves instances_inv (instances_Retire iid)"
  unfolding instances_Create_def instances_UpdateState_def instances_SetPVEPlacement_def
    instances_SetDesiredConfigHash_def instances_Retire_def
  by (intro preserves_exec_rows preserves_scanE keeps_bind preserves_uuid keeps_get keeps_onErr preserves_stmt keeps_ret
      preserves_insert_instance preserves_upd_instances preserves_placement tab_inv_instances rel_intro;
      simp add: inst_shrinks_def IsRetired_def new_instance_def)+

text \<open>
  C24.  The constraints of \<open>vm_instances\<close> hold through every operation of the repository, whatever
  fails: identifiers are unique, no two instances that are not retired share a hostname or a VMID of
  a cluster, no two rows share a logical name and generation, and versions start at 1 and never go
  down.
\<close>

theorem instances_inv_preserved:
  "preserves instances_inv (instances_Create i) \<and> preserves instances_inv (instances_UpdateState iid st) \<and>
   preserves instances_inv (instances_SetPVEPlacement iid cluster node vmid) \<and>
   preserves instances_inv (instances_SetDesiredConfigHash iid h) \<and> preserves instances_inv (instances_Retire iid)"
  using preserves_instance_ops by blast

theorem instances_inv_preserved_witness:
  "instances_inv (snd (instances_Create (demo_instance ''a'') (demo_db\<lparr>db_faults := [Lost]\<rparr>)))"
proof -
  have "instances_inv (demo_db\<lparr>db_faults := [Lost]\<rparr>)" by (simp add: instances_inv_def demo_db_def)
  with instances_inv_preserved[of "demo_instance ''a''" "[]" InstanceReady "[]" "[]" 0 "[]"] show ?thesis
    unfolding keeps_def by blast
qed

section \<open>The listing\<close>

interpretation instance_list: listing "\<lambda>d. rows_keyed inst_created inst_id (db_instances d)"
  "\<lambda>d. newest_first (\<lambda>r. (inst_created r, inst_id r)) (filter (\<lambda>_. True) (db_instances d))"
  instances_page inst_created inst_id
  unfolding instances_page_def[abs_def] by (rule keyed_listing)

end
