(* ===== verification/Ipam.thy ===== *)
theory Ipam
  imports Instances "HOL-Library.AList"
begin

text \<open>
  Address management, \<open>internal/ipam\<close>: reserving the lowest free address of a segment, the states an
  allocation goes through, the reaper of expired reservations, the sequence of hostnames and the
  segments with their capacity.
\<close>

section \<open>Addresses\<close>

text \<open>\<open>ORDER BY address\<close> on an IPv4 \<open>inet\<close> column: by the four octets.\<close>

definition inet_key :: "string \<Rightarrow> nat list" where
  "inet_key a = map digits_val (split_at CHR ''.'' (case cut_at CHR ''/'' a of None \<Rightarrow> a | Some (h, _) \<Rightarrow> h))"

section \<open>Allocations\<close>

definition find_alloc :: "string \<Rightarrow> db \<Rightarrow> ip_alloc option" where
  "find_alloc aid d = sql_find (\<lambda>a. ipa_id a = aid) (db_allocs d)"

definition ipam_Get :: "string \<Rightarrow> ip_alloc dbm" where
  "ipam_Get aid = scanE ''ipam: scan allocation'' (\<lambda>d. scan_row (find_alloc aid d) d)"

definition free_row :: "(string \<Rightarrow> bool) \<Rightarrow> string \<Rightarrow> ip_alloc \<Rightarrow> bool" where
  "free_row locked seg a \<longleftrightarrow> ipa_segment a = seg \<and> ipa_state a = AllocationFree \<and> \<not> locked (ipa_id a)"

definition select_free :: "(string \<Rightarrow> bool) \<Rightarrow> string \<Rightarrow> db \<Rightarrow> ip_alloc option" where
  "select_free locked seg d = sql_first (\<lambda>a. inet_key (ipa_address a)) (free_row locked seg) (db_allocs d)"

definition reserve_row :: "string \<Rightarrow> duration \<Rightarrow> time \<Rightarrow> ip_alloc \<Rightarrow> ip_alloc" where
  "reserve_row iid ttl now a =
     a\<lparr>ipa_state := AllocationReserved, ipa_instance := Some iid, ipa_reserved_until := Some (now + ttl)\<rparr>"

definition reserve_select :: "(string \<Rightarrow> bool) \<Rightarrow> string \<Rightarrow> string dbm" where
  "reserve_select locked seg = onErr (\<lambda>e. if e = ErrNotFound then ErrCapacityExhausted else Wrap ''ipam: select free address'' e)
     (stmt (\<lambda>d. scan_row (map_option ipa_id (select_free locked seg d)) d))"

text \<open>The UPDATE refers to an instance that must exist.\<close>

definition reserve_stmt :: "string \<Rightarrow> duration \<Rightarrow> string \<Rightarrow> nat dbm" where
  "reserve_stmt iid ttl aid d =
     (if find_instance iid d = None then (Inl (constraint_error ''ip_allocations_instance_id_fkey''), d)
      else upd_tab db_allocs put_allocs (\<lambda>now a. ipa_id a = aid) (reserve_row iid ttl) d)"

definition ReserveNextFree :: "(string \<Rightarrow> bool) \<Rightarrow> string \<Rightarrow> string \<Rightarrow> duration \<Rightarrow> ip_alloc dbm" where
  "ReserveNextFree locked seg iid ttl = WithTx
     (bindE (reserve_select locked seg) (\<lambda>aid.
      bindE (wrapE ''ipam: reserve update'' (stmt (reserve_stmt iid ttl aid))) (\<lambda>_. ipam_Get aid)))"

definition MarkAssigned :: "string \<Rightarrow> string \<Rightarrow> unit dbm" where
  "MarkAssigned aid iid = exec_rows ''ipam: mark assigned'' ErrNotFound
     (upd_tab db_allocs put_allocs
       (\<lambda>now a. ipa_id a = aid \<and> ipa_instance a = Some iid \<and> ipa_state a = AllocationReserved)
       (\<lambda>now a. a\<lparr>ipa_state := AllocationAssigned, ipa_assigned := Some now\<rparr>))"

definition MarkQuarantined :: "string \<Rightarrow> unit dbm" where
  "MarkQuarantined aid = exec_rows ''ipam: mark quarantined'' ErrNotFound
     (upd_tab db_allocs put_allocs
       (\<lambda>now a. ipa_id a = aid \<and> ipa_state a \<in> {AllocationReserved, AllocationAssigned})
       (\<lambda>now a. a\<lparr>ipa_state := AllocationQuarantined\<rparr>))"

definition release_row :: "time \<Rightarrow> ip_alloc \<Rightarrow> ip_alloc" where
  "release_row now a = a\<lparr>ipa_state := AllocationFree, ipa_instance := None, ipa_reserved_until := None,
     ipa_assigned := None, ipa_released := Some now\<rparr>"

definition ipam_Release :: "string \<Rightarrow> unit dbm" where
  "ipam_Release aid = exec_rows ''ipam: release'' ErrNotFound
     (upd_tab db_allocs put_allocs
       (\<lambda>now a. ipa_id a = aid \<and> ipa_state a \<in> {AllocationReserved, AllocationAssigned, AllocationQuarantined})
       release_row)"

definition ipam_FindByInstance :: "string \<Rightarrow> ip_alloc dbm" where
  "ipam_FindByInstance iid = scanE ''ipam: scan allocation'' (\<lambda>d. scan_row
     (sql_first (\<lambda>a. - ipa_created a)
        (\<lambda>a. ipa_instance a = Some iid \<and> ipa_state a \<in> {AllocationReserved, AllocationAssigned}) (db_allocs d)) d)"

section \<open>The reaper\<close>

definition active_job_of :: "string \<Rightarrow> db \<Rightarrow> bool" where
  "active_job_of iid d \<longleftrightarrow>
     (\<exists>j \<in> set (db_jobs d). job_instance j = iid \<and> job_st j \<in> {JobQueued, JobRunning, JobRetryWait})"

definition reapable :: "db \<Rightarrow> ip_alloc \<Rightarrow> bool" where
  "reapable d a \<longleftrightarrow> ipa_state a = AllocationReserved \<and>
     (case ipa_reserved_until a of None \<Rightarrow> False | Some t \<Rightarrow> t < db_now d) \<and>
     (case ipa_instance a of None \<Rightarrow> False | Some iid \<Rightarrow> \<not> active_job_of iid d)"

definition reap_row :: "time \<Rightarrow> ip_alloc \<Rightarrow> ip_alloc" where
  "reap_row now a = a\<lparr>ipa_state := AllocationFree, ipa_instance := None, ipa_reserved_until := None,
     ipa_released := Some now\<rparr>"

definition reap_event :: "string \<Rightarrow> string \<Rightarrow> audit_event" where
  "reap_event aid iid = system_event ''ipam-reaper'' ''release_expired_reservation'' ''ip_allocation'' aid
     [(''instance_id'', JStr iid), (''reason'', JStr ''reservation_ttl_expired'')]"

definition reap_one :: "string \<times> string \<Rightarrow> unit dbm" where
  "reap_one c = bindE (wrapE (''ipam: reaper release '' @ fst c)
       (stmt (upd_tab db_allocs put_allocs (\<lambda>now a. ipa_id a = fst c) reap_row)))
     (\<lambda>_. wrapE (''ipam: reaper audit '' @ fst c) (audit_Append (reap_event (fst c) (snd c))))"

definition reap_candidates :: "(string \<Rightarrow> bool) \<Rightarrow> db \<Rightarrow> (string \<times> string) list" where
  "reap_candidates locked d = map (\<lambda>a. (ipa_id a, the (ipa_instance a)))
     (filter (\<lambda>a. reapable d a \<and> \<not> locked (ipa_id a)) (db_allocs d))"

definition ReleaseExpiredReservations :: "(string \<Rightarrow> bool) \<Rightarrow> nat dbm" where
  "ReleaseExpiredReservations locked = WithTx
     (bindE (queryE ''ipam: reaper select expired'' (reap_candidates locked)) (\<lambda>cs.
      bindE (forE reap_one cs) (\<lambda>_. retE (length cs))))"

section \<open>Hostnames\<close>

text \<open>\<open>next_value\<close> is a 32-bit \<open>INTEGER\<close>: the upsert fails rather than wrap.\<close>

definition hostname_upsert :: "string \<Rightarrow> int dbm" where
  "hostname_upsert prefix d = (case map_of (db_hostnames d) prefix of
       None \<Rightarrow> (Inr 1, d\<lparr>db_hostnames := AList.update prefix 1 (db_hostnames d)\<rparr>)
     | Some n \<Rightarrow> if n + 1 > 2147483647 then (Inl (ErrDriver ''ERROR: integer out of range''), d)
         else (Inr (n + 1), d\<lparr>db_hostnames := AList.update prefix (n + 1) (db_hostnames d)\<rparr>))"

definition format_hostname :: "string \<Rightarrow> int \<Rightarrow> string" where
  "format_hostname prefix n = prefix @ ''-'' @ pad_zero 4 (itoa n)"

definition hostnames_Next :: "string \<Rightarrow> string dbm" where
  "hostnames_Next prefix = bindE
     (wrapE (''ipam: next hostname for prefix '' @ [CHR 0x22] @ prefix @ [CHR 0x22]) (stmt (hostname_upsert prefix)))
     (\<lambda>n. retE (format_hostname prefix n))"

section \<open>Segments\<close>

text \<open>
  PostgreSQL's input functions of \<open>cidr\<close> and \<open>inet\<close> are parameters: the canonical text of a valid
  input, \<open>None\<close> for one the cast refuses.
\<close>

definition new_segment :: "string \<Rightarrow> time \<Rightarrow> string \<Rightarrow> string \<Rightarrow> string list \<Rightarrow> segment \<Rightarrow> segment" where
  "new_segment u now cidr gateway dns s =
     \<lparr>seg_id = u, seg_name = seg_name s, seg_cidr = cidr, seg_gateway = gateway, seg_bridge = seg_bridge s,
      seg_dns = dns,
      seg_ipv6_policy = (if seg_ipv6_policy s = [] then ''deny'' else seg_ipv6_policy s),
      seg_strategy = (if seg_strategy s = [] then ''sequential-lowest-free'' else seg_strategy s),
      seg_exclusions = (case seg_exclusions s of None \<Rightarrow> Some (JArr []) | Some v \<Rightarrow> Some v),
      seg_state = ''ACTIVE'', seg_created = now, seg_updated = now\<rparr>"

text \<open>\<open>dns_servers\<close> travels as comma-separated text, the empty text being the empty array.\<close>

definition dns_array :: "string list \<Rightarrow> string list" where
  "dns_array dns = (let csv = join_with '','' dns in if csv = [] then [] else split_at CHR '','' csv)"

definition all_some :: "'a option list \<Rightarrow> 'a list option" where
  "all_some xs = (if None \<in> set xs then None else Some (map the xs))"

definition segments_Create :: "(string \<Rightarrow> string option) \<Rightarrow> (string \<Rightarrow> string option) \<Rightarrow> segment \<Rightarrow> segment dbm" where
  "segments_Create pg_cidr pg_inet s = scanE ''ipam: scan segment'' (bindE gen_random_uuid (\<lambda>u d.
     (case (pg_cidr (seg_cidr s), pg_inet (seg_gateway s), all_some (map pg_inet (dns_array (seg_dns s)))) of
        (Some c, Some g, Some dns) \<Rightarrow>
          (let r = new_segment u (db_now d) c g dns s in
           if \<exists>x \<in> set (db_segments d). seg_id x = u then (Inl (constraint_error ''network_segments_pkey''), d)
           else if \<exists>x \<in> set (db_segments d). seg_name x = seg_name r
           then (Inl (constraint_error ''network_segments_name_key''), d)
           else (Inr r, d\<lparr>db_segments := db_segments d @ [r]\<rparr>))
      | _ \<Rightarrow> (Inl (ErrDriver ''ERROR: invalid input syntax''), d))))"

definition segments_Get :: "string \<Rightarrow> segment dbm" where
  "segments_Get sid = scanE ''ipam: scan segment'' (\<lambda>d. scan_row (sql_find (\<lambda>s. seg_id s = sid) (db_segments d)) d)"

definition segments_GetByName :: "string \<Rightarrow> segment dbm" where
  "segments_GetByName nm = scanE ''ipam: scan segment'' (\<lambda>d. scan_row (sql_find (\<lambda>s. seg_name s = nm) (db_segments d)) d)"

definition segments_List :: "string \<Rightarrow> segment list dbm" where
  "segments_List st = queryE ''ipam: list segments'' (\<lambda>d. sort_key seg_name
     (filter (\<lambda>s. st = [] \<or> seg_state s = st) (db_segments d)))"

record segment_capacity =
  cap_total :: nat
  cap_free :: nat
  cap_reserved :: nat
  cap_assigned :: nat
  cap_quarantined :: nat

text \<open>\<open>GROUP BY state\<close>, and the switch over its rows: \<open>RELEASED\<close> counts in the total only.\<close>

definition capacity_step :: "segment_capacity \<Rightarrow> alloc_state \<times> nat \<Rightarrow> segment_capacity" where
  "capacity_step c r = (let c' = (case fst r of
       AllocationFree \<Rightarrow> c\<lparr>cap_free := snd r\<rparr>
     | AllocationReserved \<Rightarrow> c\<lparr>cap_reserved := snd r\<rparr>
     | AllocationAssigned \<Rightarrow> c\<lparr>cap_assigned := snd r\<rparr>
     | AllocationQuarantined \<Rightarrow> c\<lparr>cap_quarantined := snd r\<rparr>
     | AllocationReleased \<Rightarrow> c) in c'\<lparr>cap_total := cap_total c' + snd r\<rparr>)"

definition group_states :: "string \<Rightarrow> ip_alloc list \<Rightarrow> (alloc_state \<times> nat) list" where
  "group_states seg as = (let ss = map ipa_state (filter (\<lambda>a. ipa_segment a = seg) as) in
     map (\<lambda>s. (s, count_list ss s)) (remdups ss))"

definition segments_Capacity :: "string \<Rightarrow> segment_capacity dbm" where
  "segments_Capacity seg = queryE ''ipam: segment capacity'' (\<lambda>d.
     foldl capacity_step \<lparr>cap_total = 0, cap_free = 0, cap_reserved = 0, cap_assigned = 0, cap_quarantined = 0\<rparr>
       (group_states seg (db_allocs d)))"

section \<open>Well-formed allocations\<close>

text \<open>An address has a holder exactly while it is reserved, assigned or quarantined.\<close>

definition alloc_wf :: "ip_alloc \<Rightarrow> bool" where
  "alloc_wf a \<longleftrightarrow> (ipa_instance a \<noteq> None \<longleftrightarrow> ipa_state a \<in> {AllocationReserved, AllocationAssigned, AllocationQuarantined})
     \<and> (ipa_state a = AllocationReserved \<longrightarrow> ipa_reserved_until a \<noteq> None)
     \<and> (ipa_state a \<in> {AllocationFree, AllocationReserved} \<longrightarrow> ipa_assigned a = None)"

definition allocs_inv :: "db \<Rightarrow> bool" where
  "allocs_inv d \<longleftrightarrow> distinct (map ipa_id (db_allocs d)) \<and>
     distinct (map (\<lambda>a. (ipa_segment a, ipa_address a)) (db_allocs d)) \<and> (\<forall>a \<in> set (db_allocs d). alloc_wf a)"

lemma tab_inv_allocs: "tab_inv allocs_inv"
  by (simp add: tab_inv_def allocs_inv_def same_tables_fields)

definition alloc_keeps_key :: "ip_alloc \<Rightarrow> ip_alloc \<Rightarrow> bool" where
  "alloc_keeps_key a a' \<longleftrightarrow> ipa_id a' = ipa_id a \<and> ipa_segment a' = ipa_segment a \<and> ipa_address a' = ipa_address a"

lemma allocs_inv_update:
  assumes "\<And>a. p a \<Longrightarrow> alloc_keeps_key a (f a)"
    and "\<And>a. a \<in> set (db_allocs d) \<Longrightarrow> p a \<Longrightarrow> alloc_wf a \<Longrightarrow> alloc_wf (f a)"
    and "allocs_inv d" "db_allocs d' = sql_update p f (db_allocs d)"
  shows "allocs_inv d'"
proof -
  have k: "ipa_id (if p a then f a else a) = ipa_id a"
    "(ipa_segment (if p a then f a else a), ipa_address (if p a then f a else a)) = (ipa_segment a, ipa_address a)" for a
    using assms(1)[of a] by (auto simp: alloc_keeps_key_def)
  have "map ipa_id (db_allocs d') = map ipa_id (db_allocs d)"
    "map (\<lambda>a. (ipa_segment a, ipa_address a)) (db_allocs d') = map (\<lambda>a. (ipa_segment a, ipa_address a)) (db_allocs d)"
    unfolding assms(4) sql_update_def map_map comp_def k by (rule refl)+
  moreover have "\<forall>a \<in> set (db_allocs d'). alloc_wf a"
    using assms(2,3,4) by (auto simp: allocs_inv_def elim!: sql_updateE)
  ultimately show ?thesis using assms(3) by (simp add: allocs_inv_def)
qed

lemma preserves_upd_allocs:
  assumes "\<And>now a. p now a \<Longrightarrow> alloc_keeps_key a (f now a)"
    and "\<And>now a. p now a \<Longrightarrow> alloc_wf a \<Longrightarrow> alloc_wf (f now a)"
  shows "preserves allocs_inv (upd_tab db_allocs put_allocs p f)"
proof (rule keepsI, rule impI)
  fix d :: db
  assume "allocs_inv d"
  then show "allocs_inv (snd (upd_tab db_allocs put_allocs p f d))"
    by (rule allocs_inv_update[where p = "p (db_now d)" and f = "f (db_now d)" and d = d, rotated 2])
       (simp_all add: upd_tab_def assms)
qed

lemmas alloc_row_defs = alloc_wf_def alloc_keeps_key_def reserve_row_def release_row_def reap_row_def

section \<open>Reserving\<close>

lemma select_free_Some:
  assumes "select_free locked seg d = Some a"
  shows "a \<in> set (db_allocs d)" "free_row locked seg a"
    "\<And>r. r \<in> set (db_allocs d) \<Longrightarrow> free_row locked seg r \<Longrightarrow> inet_key (ipa_address a) \<le> inet_key (ipa_address r)"
  using sql_first_Some[OF assms[unfolded select_free_def]] by auto

text \<open>What a reservation does to the table when it takes effect.\<close>

definition reserve_effect :: "(string \<Rightarrow> bool) \<Rightarrow> string \<Rightarrow> string \<Rightarrow> duration \<Rightarrow> db \<Rightarrow> db \<Rightarrow> bool" where
  "reserve_effect locked seg iid ttl d d' \<longleftrightarrow> (\<exists>a. select_free locked seg d = Some a \<and>
     db_allocs d' = sql_update (\<lambda>r. ipa_id r = ipa_id a) (reserve_row iid ttl (db_now d)) (db_allocs d))"

lemma reserve_body_Inr:
  assumes "bindE (reserve_select locked seg) (\<lambda>aid. bindE (wrapE m (stmt (reserve_stmt iid ttl aid)))
      (\<lambda>_. ipam_Get aid)) d = (Inr x, d')"
  shows "reserve_effect locked seg iid ttl d d'"
proof -
  from assms obtain aid d1 n d2 where s: "reserve_select locked seg d = (Inr aid, d1)"
    and u: "stmt (reserve_stmt iid ttl aid) d1 = (Inr n, d2)" and g: "ipam_Get aid d2 = (Inr x, d')"
    by (elim bindE_Inr_cases) (auto simp: onErr_Inr_iff)
  have "stmt (\<lambda>d. scan_row (map_option ipa_id (select_free locked seg d)) d) d = (Inr aid, d1)"
    using s by (simp add: reserve_select_def onErr_Inr_iff)
  from stmt_read_cases[OF this] obtain fs where d1: "same_tables d d1" "db_now d1 = db_now d"
    and a: "map_option ipa_id (select_free locked seg (d\<lparr>db_faults := fs\<rparr>)) = Some aid" by auto
  then obtain a where a: "select_free locked seg d = Some a" "ipa_id a = aid"
    by (auto simp: select_free_def)
  from u obtain fs where "reserve_stmt iid ttl aid (d1\<lparr>db_faults := fs\<rparr>) = (Inr n, d2)" by (rule stmt_InrE)
  then have d2: "db_allocs d2 = sql_update (\<lambda>r. ipa_id r = aid) (reserve_row iid ttl (db_now d)) (db_allocs d)"
    using d1 by (auto simp: reserve_stmt_def upd_tab_def same_tables_fields split: if_splits)
  have "stmt (\<lambda>d. scan_row (find_alloc aid d) d) d2 = (Inr x, d')"
    using g by (simp add: ipam_Get_def scanE_def onErr_Inr_iff)
  from stmt_read_cases[OF this] have "same_tables d2 d'" by simp
  with a d2 show ?thesis by (auto simp: reserve_effect_def same_tables_fields)
qed

lemma reserve_cases:
  assumes "ReserveNextFree locked seg iid ttl d = (r, d')"
  shows "db_allocs d' = db_allocs d \<and> (\<forall>x. r \<noteq> Inr x) \<or> reserve_effect locked seg iid ttl d d'"
  using assms unfolding ReserveNextFree_def
proof (cases rule: WithTx_cases)
  case (rolled_back e)
  then show ?thesis by (simp add: same_tables_fields)
next
  case (committed d0 x d1)
  have "reserve_effect locked seg iid ttl d0 d1" using reserve_body_Inr[OF committed(3)] .
  then have "reserve_effect locked seg iid ttl d d'"
    using committed(1,2,4) by (simp add: reserve_effect_def select_free_def same_tables_fields)
  then show ?thesis by blast
qed

lemma allocs_inv_unique:
  "allocs_inv d \<Longrightarrow> a \<in> set (db_allocs d) \<Longrightarrow> b \<in> set (db_allocs d) \<Longrightarrow> ipa_id a = ipa_id b \<Longrightarrow> a = b"
  by (rule distinct_key[of ipa_id]) (simp_all add: allocs_inv_def)

lemma preserves_reserve: "preserves allocs_inv (ReserveNextFree locked seg iid ttl)"
proof (rule keepsI, rule impI)
  fix d assume inv: "allocs_inv d"
  obtain r d' where run: "ReserveNextFree locked seg iid ttl d = (r, d')" by fastforce
  have "allocs_inv d'"
    using reserve_cases[OF run]
  proof (elim disjE conjE)
    assume "db_allocs d' = db_allocs d"
    with inv show ?thesis by (simp add: allocs_inv_def)
  next
    assume "reserve_effect locked seg iid ttl d d'"
    then obtain a where a: "select_free locked seg d = Some a" and
      u: "db_allocs d' = sql_update (\<lambda>r. ipa_id r = ipa_id a) (reserve_row iid ttl (db_now d)) (db_allocs d)"
      by (auto simp: reserve_effect_def)
    note f = select_free_Some(1,2)[OF a]
    show ?thesis
    proof (rule allocs_inv_update[OF _ _ inv u])
      fix b assume "b \<in> set (db_allocs d)" "ipa_id b = ipa_id a" "alloc_wf b"
      moreover from this have "b = a" using allocs_inv_unique[OF inv] f(1) by blast
      ultimately show "alloc_wf (reserve_row iid ttl (db_now d) b)"
        using f(2) by (auto simp: alloc_row_defs free_row_def)
    qed (simp add: alloc_row_defs)
  qed
  with run show "allocs_inv (snd (ReserveNextFree locked seg iid ttl d))" by simp
qed

lemma ReserveNextFree_healthy:
  assumes "allocs_inv d" "db_faults d = []" "find_instance iid d \<noteq> None"
  shows "ReserveNextFree locked seg iid ttl d = (case select_free locked seg d of
       None \<Rightarrow> (Inl ErrCapacityExhausted, d)
     | Some a \<Rightarrow> (Inr (reserve_row iid ttl (db_now d) a),
         put_allocs (sql_update (\<lambda>r. r = a) (reserve_row iid ttl (db_now d)) (db_allocs d)) d))"
proof (cases "select_free locked seg d")
  case None
  then have "reserve_select locked seg d = (Inl ErrCapacityExhausted, d)"
    using assms(2) by (simp add: reserve_select_def scan_row_def eff_defs)
  with None assms(2) show ?thesis
    by (simp add: ReserveNextFree_def WithTx_healthy bindE_run_Inl roll_back_def)
next
  case (Some a)
  let ?f = "reserve_row iid ttl (db_now d)"
  let ?d = "put_allocs (sql_update (\<lambda>r. ipa_id r = ipa_id a) ?f (db_allocs d)) d"
  note a = select_free_Some(1)[OF Some]
  have s: "reserve_select locked seg d = (Inr (ipa_id a), d)"
    using Some assms(2) by (simp add: reserve_select_def scan_row_def eff_defs)
  have u: "\<exists>n. wrapE m (stmt (reserve_stmt iid ttl (ipa_id a))) d = (Inr n, ?d)" for m
    using assms(2,3) by (simp add: reserve_stmt_def upd_tab_def onErr_def)
  have "sql_find (\<lambda>r. ipa_id r = ipa_id a) (db_allocs d) = Some a"
    by (rule sql_find_key[OF _ a]) (use assms(1) in \<open>simp_all add: allocs_inv_def\<close>)
  then have "sql_find (\<lambda>r. ipa_id r = ipa_id a) (sql_update (\<lambda>r. ipa_id r = ipa_id a) ?f (db_allocs d)) = Some (?f a)"
    by (subst sql_find_update) (simp_all add: reserve_row_def)
  then have g: "ipam_Get (ipa_id a) ?d = (Inr (?f a), ?d)"
    using assms(2) by (simp add: ipam_Get_def find_alloc_def scanE_def scan_row_def onErr_def retE_def)
  have "sql_update (\<lambda>r. ipa_id r = ipa_id a) ?f (db_allocs d) = sql_update (\<lambda>r. r = a) ?f (db_allocs d)"
    by (rule sql_update_cong) (use allocs_inv_unique[OF assms(1) _ a] in auto)
  moreover have "WithTx (bindE (reserve_select locked seg) (\<lambda>aid. bindE (wrapE ''ipam: reserve update''
      (stmt (reserve_stmt iid ttl aid))) (\<lambda>_. ipam_Get aid))) d = (Inr (?f a), ?d)"
  proof (subst WithTx_healthy)
    obtain n where "wrapE ''ipam: reserve update'' (stmt (reserve_stmt iid ttl (ipa_id a))) d = (Inr n, ?d)"
      using u by blast
    with s g show "bindE (reserve_select locked seg) (\<lambda>aid. bindE (wrapE ''ipam: reserve update''
      (stmt (reserve_stmt iid ttl aid))) (\<lambda>_. ipam_Get aid)) d = (Inr (?f a), ?d)"
      by (simp add: bindE_run_Inr)
  qed (use assms(2) in simp_all)
  ultimately show ?thesis using Some by (simp add: ReserveNextFree_def)
qed

text \<open>
  C21.  Reserving an address.  On a healthy connection \<open>ReserveNextFree\<close> answers
  \<open>ErrCapacityExhausted\<close> and changes nothing only when the segment has no unlocked free address;
  otherwise it reserves the lowest one by the order of the octets, for the instance and the time
  asked for, and leaves every other allocation as it was.
\<close>

theorem reserve_takes_the_lowest_free_address:
  assumes "allocs_inv d" "db_faults d = []" "find_instance iid d \<noteq> None"
  shows "case ReserveNextFree locked seg iid ttl d of
      (Inl e, d') \<Rightarrow> e = ErrCapacityExhausted \<and> d' = d \<and> filter (free_row locked seg) (db_allocs d) = []
    | (Inr a', d') \<Rightarrow> \<exists>a. a' = reserve_row iid ttl (db_now d) a
        \<and> d' = put_allocs (sql_update (\<lambda>r. r = a) (reserve_row iid ttl (db_now d)) (db_allocs d)) d
        \<and> a \<in> set (filter (free_row locked seg) (db_allocs d))
        \<and> (\<forall>r \<in> set (filter (free_row locked seg) (db_allocs d)). inet_key (ipa_address a) \<le> inet_key (ipa_address r))"
proof (cases "select_free locked seg d")
  case None
  then show ?thesis
    using ReserveNextFree_healthy[OF assms, of locked seg ttl] None[unfolded select_free_def sql_first_None]
    by (simp add: filter_empty_conv)
next
  case (Some a)
  with select_free_Some[OF Some] ReserveNextFree_healthy[OF assms, of locked seg ttl] show ?thesis
    by (auto intro!: exI[of _ a])
qed

section \<open>Reaping\<close>

text \<open>The database with its allocations and audit log replaced.\<close>

lemma same_tables_reap:
  assumes "same_tables a b"
  shows "same_tables (a\<lparr>db_allocs := x, db_audit := y\<rparr>) (b\<lparr>db_allocs := x, db_audit := y\<rparr>)"
  using assms by (cases a; cases b) (simp add: same_tables_def tables_def)

lemma reap_one_Inr:
  assumes "reap_one c d = (Inr x, d')"
  obtains e where "same_tables (d\<lparr>db_allocs := sql_update (\<lambda>a. ipa_id a = fst c) (reap_row (db_now d)) (db_allocs d),
        db_audit := db_audit d @ [e]\<rparr>) d'"
    "event_core e = reap_event (fst c) (snd c)" "db_now d' = db_now d"
proof -
  from assms obtain n d1 where u: "stmt (upd_tab db_allocs put_allocs (\<lambda>now a. ipa_id a = fst c) reap_row) d = (Inr n, d1)"
    and a: "audit_Append (reap_event (fst c) (snd c)) d1 = (Inr x, d')"
    unfolding reap_one_def by (elim bindE_Inr_cases) (simp add: onErr_Inr_iff)
  from u obtain fs where "upd_tab db_allocs put_allocs (\<lambda>now a. ipa_id a = fst c) reap_row (d\<lparr>db_faults := fs\<rparr>) = (Inr n, d1)"
    by (rule stmt_InrE)
  then have d1: "d1 = put_allocs (sql_update (\<lambda>a. ipa_id a = fst c) (reap_row (db_now d)) (db_allocs d)) (d\<lparr>db_faults := fs\<rparr>)"
    by (simp add: upd_tab_def)
  from a obtain u where "same_tables (d1\<lparr>db_audit := db_audit d1 @ [(reap_event (fst c) (snd c))\<lparr>aud_id := u, aud_at := db_now d1\<rparr>]\<rparr>) d'"
      "db_now d' = db_now d1"
    by (rule audit_AppendE) (auto simp: reap_event_def system_event_def)
  then show ?thesis
    by (intro that[of "(reap_event (fst c) (snd c))\<lparr>aud_id := u, aud_at := db_now d1\<rparr>"])
       (simp_all add: d1 same_tables_def tables_def event_core_def reap_event_def system_event_def)
qed

lemma reap_row_twice: "reap_row t (reap_row t a) = reap_row t a"
  by (simp add: reap_row_def)

lemma sql_update_twice:
  assumes "\<And>r. p (f r) = p r" "\<And>r. q (f r) = q r" "\<And>r. f (f r) = f r"
  shows "sql_update p f (sql_update q f rs) = sql_update (\<lambda>r. p r \<or> q r) f rs"
  using assms by (auto simp: sql_update_def)

lemma reap_all_Inr:
  assumes "forE reap_one cs d = (Inr x, d')"
  shows "\<exists>es. same_tables (d\<lparr>db_allocs := sql_update (\<lambda>a. ipa_id a \<in> fst ` set cs) (reap_row (db_now d)) (db_allocs d),
        db_audit := db_audit d @ es\<rparr>) d'
    \<and> map event_core es = map (\<lambda>c. reap_event (fst c) (snd c)) cs"
  using assms
proof (induction cs arbitrary: d)
  case Nil
  then show ?case by (auto simp: retE_def sql_update_def)
next
  case (Cons c cs)
  then obtain y d1 where c: "reap_one c d = (Inr y, d1)" and r: "forE reap_one cs d1 = (Inr x, d')"
    by (auto elim: bindE_Inr_cases)
  from c obtain e where e: "same_tables (d\<lparr>db_allocs := sql_update (\<lambda>a. ipa_id a = fst c) (reap_row (db_now d)) (db_allocs d),
        db_audit := db_audit d @ [e]\<rparr>) d1" "event_core e = reap_event (fst c) (snd c)" "db_now d1 = db_now d"
    by (rule reap_one_Inr)
  from Cons.IH[OF r] obtain es where es: "same_tables (d1\<lparr>db_allocs := sql_update (\<lambda>a. ipa_id a \<in> fst ` set cs)
        (reap_row (db_now d1)) (db_allocs d1), db_audit := db_audit d1 @ es\<rparr>) d'"
      "map event_core es = map (\<lambda>c. reap_event (fst c) (snd c)) cs" by blast
  have u: "sql_update (\<lambda>a. ipa_id a \<in> fst ` set cs) (reap_row (db_now d))
      (sql_update (\<lambda>a. ipa_id a = fst c) (reap_row (db_now d)) (db_allocs d)) =
      sql_update (\<lambda>a. ipa_id a \<in> fst ` set (c # cs)) (reap_row (db_now d)) (db_allocs d)"
    by (subst sql_update_twice) (auto simp: reap_row_def intro: sql_update_cong)
  have "same_tables (d\<lparr>db_allocs := sql_update (\<lambda>a. ipa_id a \<in> fst ` set (c # cs)) (reap_row (db_now d)) (db_allocs d),
        db_audit := db_audit d @ e # es\<rparr>) d'"
  proof (rule same_tables_trans[OF _ es(1)])
    have a: "db_allocs d1 = sql_update (\<lambda>a. ipa_id a = fst c) (reap_row (db_now d)) (db_allocs d)"
      "db_audit d1 = db_audit d @ [e]"
      using same_tables_fields(5,11)[OF e(1)] by simp_all
    show "same_tables (d\<lparr>db_allocs := sql_update (\<lambda>a. ipa_id a \<in> fst ` set (c # cs)) (reap_row (db_now d)) (db_allocs d),
        db_audit := db_audit d @ e # es\<rparr>) (d1\<lparr>db_allocs := sql_update (\<lambda>a. ipa_id a \<in> fst ` set cs)
        (reap_row (db_now d1)) (db_allocs d1), db_audit := db_audit d1 @ es\<rparr>)"
      using same_tables_reap[OF e(1)] unfolding a e(3) u by simp
  qed
  with e(2) es(2) show ?case by (intro exI[of _ "e # es"]) simp
qed

definition reaped :: "(string \<Rightarrow> bool) \<Rightarrow> db \<Rightarrow> db \<Rightarrow> bool" where
  "reaped locked d d' \<longleftrightarrow> (\<exists>es. same_tables (d\<lparr>
       db_allocs := sql_update (\<lambda>a. reapable d a \<and> \<not> locked (ipa_id a)) (reap_row (db_now d)) (db_allocs d),
       db_audit := db_audit d @ es\<rparr>) d'
     \<and> map event_core es = map (\<lambda>c. reap_event (fst c) (snd c)) (reap_candidates locked d))"

lemma reap_candidates_ids:
  assumes "allocs_inv d" "a \<in> set (db_allocs d)"
  shows "ipa_id a \<in> fst ` set (reap_candidates locked d) \<longleftrightarrow> reapable d a \<and> \<not> locked (ipa_id a)"
  using allocs_inv_unique[OF assms(1) assms(2)] assms(2) by (force simp: reap_candidates_def)

lemma reaped_tables:
  "same_tables d d0 \<Longrightarrow> db_now d0 = db_now d \<Longrightarrow> same_tables d1 d' \<Longrightarrow> reaped locked d0 d1 \<Longrightarrow> reaped locked d d'"
proof -
  assume a: "same_tables d d0" "db_now d0 = db_now d" "same_tables d1 d'" "reaped locked d0 d1"
  have r: "reapable d0 = reapable d" "reap_candidates locked d0 = reap_candidates locked d"
    using a(1,2) by (auto simp: reapable_def active_job_of_def reap_candidates_def fun_eq_iff same_tables_fields split: option.splits)
  have f: "db_allocs d0 = db_allocs d" "db_audit d0 = db_audit d" using a(1) by (simp_all add: same_tables_fields)
  from a(4) obtain es where es: "same_tables (d0\<lparr>
       db_allocs := sql_update (\<lambda>a. reapable d a \<and> \<not> locked (ipa_id a)) (reap_row (db_now d)) (db_allocs d),
       db_audit := db_audit d @ es\<rparr>) d1"
    "map event_core es = map (\<lambda>c. reap_event (fst c) (snd c)) (reap_candidates locked d)"
    unfolding reaped_def r f a(2) by blast
  have "same_tables (d\<lparr>db_allocs := sql_update (\<lambda>a. reapable d a \<and> \<not> locked (ipa_id a)) (reap_row (db_now d)) (db_allocs d),
       db_audit := db_audit d @ es\<rparr>) d'"
    by (rule same_tables_trans[OF same_tables_reap[OF a(1)] same_tables_trans[OF es(1) a(3)]])
  with es(2) show ?thesis unfolding reaped_def by blast
qed

lemma ReleaseExpired_cases:
  assumes "ReleaseExpiredReservations locked d = (r, d')" "allocs_inv d"
  shows "same_tables d d' \<and> (\<exists>e. r = Inl e) \<or>
    reaped locked d d' \<and> (r = Inr (length (reap_candidates locked d)) \<or> r = Inl conn_error)"
  using assms(1) unfolding ReleaseExpiredReservations_def
proof (cases rule: WithTx_cases)
  case (rolled_back e)
  then show ?thesis by blast
next
  case (committed d0 n d1)
  from committed(3) obtain cs d2 where q: "queryE ''ipam: reaper select expired'' (reap_candidates locked) d0 = (Inr cs, d2)"
    and f: "bindE (forE reap_one cs) (\<lambda>_. retE (length cs)) d2 = (Inr n, d1)" by (rule bindE_Inr_cases)
  from f obtain y where f': "forE reap_one cs d2 = (Inr y, d1)" and n: "n = length cs"
    by (rule bindE_Inr_cases) (simp add: retE_def)
  from q obtain fs where q': "cs = reap_candidates locked (d0\<lparr>db_faults := fs\<rparr>)" "d2 = d0\<lparr>db_faults := fs\<rparr>"
    by (rule queryE_InrE)
  have c: "cs = reap_candidates locked d2" using q' by simp
  have inv2: "allocs_inv d2" using assms(2) committed(1) q'(2) by (simp add: allocs_inv_def same_tables_fields)
  have "reaped locked d2 d1"
  proof -
    have "sql_update (\<lambda>a. ipa_id a \<in> fst ` set cs) (reap_row (db_now d2)) (db_allocs d2) =
        sql_update (\<lambda>a. reapable d2 a \<and> \<not> locked (ipa_id a)) (reap_row (db_now d2)) (db_allocs d2)"
      unfolding c by (rule sql_update_cong) (simp_all add: reap_candidates_ids[OF inv2])
    with reap_all_Inr[OF f'] show ?thesis unfolding reaped_def c by auto
  qed
  moreover have d2: "same_tables d d2" "db_now d2 = db_now d"
    using committed(1,2) q'(2) same_tables_trans[OF committed(1) same_tables_faults] by simp_all
  moreover have "reap_candidates locked d2 = reap_candidates locked d"
    using d2 by (auto simp: reapable_def active_job_of_def reap_candidates_def fun_eq_iff same_tables_fields split: option.splits)
  ultimately show ?thesis
    using reaped_tables[OF _ _ committed(4)] committed(5) c n by metis
qed

text \<open>
  C22.  The reaper, whatever fails and whenever.  Either the tables are as before and it reports an
  error, or exactly the unlocked reservations that ran out and whose instance has no job queued,
  running or waiting were freed, with one audit event for each and nothing else changed; a number it
  reports is the number of those.
\<close>

theorem reaper_frees_expired_reservations_only:
  assumes "allocs_inv d"
  shows "case ReleaseExpiredReservations locked d of (r, d') \<Rightarrow>
    same_tables d d' \<and> (\<exists>e. r = Inl e) \<or>
    (\<exists>es. same_tables (d\<lparr>
        db_allocs := sql_update (\<lambda>a. reapable d a \<and> \<not> locked (ipa_id a)) (reap_row (db_now d)) (db_allocs d),
        db_audit := db_audit d @ es\<rparr>) d'
      \<and> map event_core es = map (\<lambda>c. reap_event (fst c) (snd c)) (reap_candidates locked d)
      \<and> (r = Inr (length es) \<or> r = Inl conn_error))"
proof -
  obtain r d' where run: "ReleaseExpiredReservations locked d = (r, d')" by fastforce
  have "length es = length (reap_candidates locked d)"
    if "map event_core es = map (\<lambda>c. reap_event (fst c) (snd c)) (reap_candidates locked d)" for es
    using map_eq_imp_length_eq[OF that] by simp
  note len = this
  from ReleaseExpired_cases[OF run assms] show ?thesis
  proof
    assume "reaped locked d d' \<and> (r = Inr (length (reap_candidates locked d)) \<or> r = Inl conn_error)"
    with len show ?thesis unfolding run reaped_def prod.case by (intro disjI2) auto
  qed (simp add: run)
qed

section \<open>One holder per address\<close>

text \<open>
  The steps of the service on the allocations, each with the allocations it gives back: \<open>Release\<close> the
  one it names, the reaper those it may reap, the others none.
\<close>

inductive ipam_step :: "db \<Rightarrow> string set \<Rightarrow> db \<Rightarrow> bool" where
  reserve: "ReserveNextFree locked seg iid ttl d = (r, d') \<Longrightarrow> ipam_step d {} d'"
| assign: "MarkAssigned aid iid d = (r, d') \<Longrightarrow> ipam_step d {} d'"
| quarantine: "MarkQuarantined aid d = (r, d') \<Longrightarrow> ipam_step d {} d'"
| release: "ipam_Release aid d = (r, d') \<Longrightarrow> ipam_step d {aid} d'"
| reap: "ReleaseExpiredReservations locked d = (r, d') \<Longrightarrow> ipam_step d (ipa_id ` {a \<in> set (db_allocs d). reapable d a}) d'"
| elsewhere: "db_allocs d' = db_allocs d \<Longrightarrow> ipam_step d {} d'"

inductive ipam_run :: "db \<Rightarrow> string set \<Rightarrow> db \<Rightarrow> bool" where
  stay: "ipam_run d {} d"
| more: "ipam_run d F d1 \<Longrightarrow> ipam_step d1 G d2 \<Longrightarrow> ipam_run d (F \<union> G) d2"

lemma preserves_alloc_ops:
  "preserves allocs_inv (MarkAssigned aid iid)" "preserves allocs_inv (MarkQuarantined aid)"
  "preserves allocs_inv (ipam_Release aid)"
  unfolding MarkAssigned_def MarkQuarantined_def ipam_Release_def
  by (rule preserves_exec_rows[OF tab_inv_allocs], rule preserves_upd_allocs; auto simp: alloc_row_defs)+

lemma reaped_inv:
  assumes "reaped locked d d'" "allocs_inv d"
  shows "allocs_inv d'"
proof -
  from assms(1) have u: "db_allocs d' = sql_update (\<lambda>a. reapable d a \<and> \<not> locked (ipa_id a)) (reap_row (db_now d)) (db_allocs d)"
    unfolding reaped_def by (auto simp: same_tables_fields)
  show ?thesis
    by (rule allocs_inv_update[OF _ _ assms(2) u]) (auto simp: alloc_row_defs reapable_def)
qed

lemma ipam_step_inv:
  assumes "ipam_step d F d'" "allocs_inv d"
  shows "allocs_inv d'"
  using assms(1)
proof cases
  case reserve then show ?thesis using assms(2) keepsD[OF preserves_reserve] by blast
next
  case assign then show ?thesis using assms(2) keepsD[OF preserves_alloc_ops(1)] by blast
next
  case quarantine then show ?thesis using assms(2) keepsD[OF preserves_alloc_ops(2)] by blast
next
  case release then show ?thesis using assms(2) keepsD[OF preserves_alloc_ops(3)] by blast
next
  case reap
  from ReleaseExpired_cases[OF reap(2) assms(2)] show ?thesis
    using assms(2) tab_inv_allocs reaped_inv unfolding tab_inv_def by blast
next
  case elsewhere then show ?thesis using assms(2) by (simp add: allocs_inv_def)
qed

text \<open>A held allocation: the row and the instance it belongs to.\<close>

definition held_by :: "string \<Rightarrow> string \<Rightarrow> string \<times> string \<Rightarrow> db \<Rightarrow> bool" where
  "held_by aid iid addr d \<longleftrightarrow> (\<exists>a \<in> set (db_allocs d). ipa_id a = aid \<and> ipa_instance a = Some iid \<and>
     (ipa_segment a, ipa_address a) = addr)"

lemma held_update:
  assumes "held_by aid iid addr d" "db_allocs d' = db_allocs d \<or> db_allocs d' = sql_update p f (db_allocs d)"
    and "\<And>a. a \<in> set (db_allocs d) \<Longrightarrow> ipa_id a = aid \<Longrightarrow> ipa_instance a = Some iid \<Longrightarrow> p a \<Longrightarrow>
      alloc_keeps_key a (f a) \<and> ipa_instance (f a) = Some iid"
  shows "held_by aid iid addr d'"
  using assms(2)
proof
  assume "db_allocs d' = db_allocs d"
  with assms(1) show ?thesis by (simp add: held_by_def)
next
  assume u: "db_allocs d' = sql_update p f (db_allocs d)"
  from assms(1) obtain a where a: "a \<in> set (db_allocs d)" "ipa_id a = aid" "ipa_instance a = Some iid"
    "(ipa_segment a, ipa_address a) = addr" by (auto simp: held_by_def)
  show ?thesis
  proof (cases "p a")
    case True
    with assms(3)[OF a(1-3)] a u show ?thesis
      by (auto simp: held_by_def set_sql_update alloc_keeps_key_def intro!: bexI[of _ "f a"])
  next
    case False
    with a u show ?thesis by (auto simp: held_by_def set_sql_update intro!: bexI[of _ a])
  qed
qed

lemma exec_rows_update:
  assumes "exec_rows m e (upd_tab db_allocs put_allocs p f) d = (r, d')"
  shows "db_allocs d' = db_allocs d \<or> db_allocs d' = sql_update (p (db_now d)) (f (db_now d)) (db_allocs d)"
proof -
  from assms obtain r1 d1 where s: "stmt (upd_tab db_allocs put_allocs p f) d = (r1, d1)" "db_allocs d' = db_allocs d1"
    by (cases "stmt (upd_tab db_allocs put_allocs p f) d")
       (auto simp: bindE_def onErr_def require_rows_def retE_def failE_def split: sum.splits if_splits)
  from s(1) show ?thesis
    by (cases rule: stmt_cases) (auto simp: s(2) upd_tab_def same_tables_fields)
qed

lemma ipam_step_held:
  assumes "ipam_step d F d'" "allocs_inv d" "held_by aid iid addr d" "aid \<notin> F"
  shows "held_by aid iid addr d'"
  using assms(1)
proof cases
  case (reserve locked seg iid' ttl r)
  from reserve_cases[OF reserve(2)] show ?thesis
  proof
    assume "db_allocs d' = db_allocs d \<and> (\<forall>x. r \<noteq> Inr x)"
    with assms(3) show ?thesis by (simp add: held_by_def)
  next
    assume "reserve_effect locked seg iid' ttl d d'"
    then obtain b where b: "select_free locked seg d = Some b"
      and u: "db_allocs d' = sql_update (\<lambda>r. ipa_id r = ipa_id b) (reserve_row iid' ttl (db_now d)) (db_allocs d)"
      by (auto simp: reserve_effect_def)
    note f = select_free_Some(1,2)[OF b]
    have "ipa_instance b = None" using f assms(2) by (auto simp: allocs_inv_def alloc_wf_def free_row_def)
    then show ?thesis
      using allocs_inv_unique[OF assms(2) _ f(1)]
      by (intro held_update[OF assms(3) disjI2[OF u]]) force
  qed
next
  case (assign a i r)
  show ?thesis
    by (rule held_update[OF assms(3) exec_rows_update[OF assign(2)[unfolded MarkAssigned_def]]])
       (simp add: alloc_keeps_key_def)
next
  case (quarantine a r)
  show ?thesis
    by (rule held_update[OF assms(3) exec_rows_update[OF quarantine(2)[unfolded MarkQuarantined_def]]])
       (simp add: alloc_keeps_key_def)
next
  case (release a r)
  show ?thesis
    by (rule held_update[OF assms(3) exec_rows_update[OF release(2)[unfolded ipam_Release_def]]])
       (use assms(4) release(1) in auto)
next
  case (reap locked r)
  from ReleaseExpired_cases[OF reap(2) assms(2)] have "db_allocs d' = db_allocs d \<or>
      db_allocs d' = sql_update (\<lambda>a. reapable d a \<and> \<not> locked (ipa_id a)) (reap_row (db_now d)) (db_allocs d)"
    by (auto simp: reaped_def same_tables_fields)
  then show ?thesis
    by (rule held_update[OF assms(3)]) (use assms(4) reap(1) in auto)
next
  case elsewhere
  with assms(3) show ?thesis by (simp add: held_by_def)
qed

lemma ipam_run_held:
  assumes "ipam_run d F d'" "allocs_inv d" "held_by aid iid addr d" "aid \<notin> F"
  shows "allocs_inv d' \<and> held_by aid iid addr d'"
  using assms by (induction rule: ipam_run.induct) (auto dest: ipam_step_inv ipam_step_held)

lemma reserve_holds:
  assumes "ReserveNextFree locked seg iid ttl d = (Inr x, d')" "allocs_inv d"
  obtains a where "a \<in> set (db_allocs d)" "ipa_state a = AllocationFree" "ipa_id a = ipa_id x"
    "(ipa_segment a, ipa_address a) = (ipa_segment x, ipa_address x)"
    "held_by (ipa_id x) iid (ipa_segment x, ipa_address x) d'"
proof -
  from assms(1) obtain d0 d1 where t: "same_tables d d0" "db_now d0 = db_now d" "same_tables d1 d'"
    and body: "bindE (reserve_select locked seg) (\<lambda>aid. bindE (wrapE ''ipam: reserve update''
      (stmt (reserve_stmt iid ttl aid))) (\<lambda>_. ipam_Get aid)) d0 = (Inr x, d1)"
    unfolding ReserveNextFree_def by (rule WithTx_InrE)
  from reserve_body_Inr[OF body] obtain a where a: "select_free locked seg d = Some a"
    and u: "db_allocs d1 = sql_update (\<lambda>r. ipa_id r = ipa_id a) (reserve_row iid ttl (db_now d)) (db_allocs d)"
    using t by (auto simp: reserve_effect_def select_free_def same_tables_fields)
  note f = select_free_Some(1,2)[OF a]
  from body obtain aid e1 n e2 where g: "ipam_Get aid e2 = (Inr x, d1)"
      and s: "reserve_select locked seg d0 = (Inr aid, e1)"
    by (elim bindE_Inr_cases)
  have aid: "aid = ipa_id a"
  proof -
    have "stmt (\<lambda>d. scan_row (map_option ipa_id (select_free locked seg d)) d) d0 = (Inr aid, e1)"
      using s by (simp add: reserve_select_def onErr_Inr_iff)
    from stmt_read_cases[OF this] a t show ?thesis by (auto simp: select_free_def same_tables_fields)
  qed
  have "stmt (\<lambda>d. scan_row (find_alloc aid d) d) e2 = (Inr x, d1)"
    using g by (simp add: ipam_Get_def scanE_def onErr_Inr_iff)
  from stmt_read_cases[OF this] have "find_alloc aid d1 = Some x"
    by (auto simp: find_alloc_def same_tables_fields)
  then have x: "x \<in> set (db_allocs d1)" "ipa_id x = ipa_id a"
    unfolding find_alloc_def aid by (blast dest: sql_find_in sql_find_holds)+
  have "x = reserve_row iid ttl (db_now d) a"
    using x(1) unfolding u
  proof (rule sql_updateE)
    fix r assume "r \<in> set (db_allocs d)" "ipa_id r = ipa_id a" "x = reserve_row iid ttl (db_now d) r"
    with allocs_inv_unique[OF assms(2) _ f(1)] show ?thesis by blast
  next
    assume "ipa_id x \<noteq> ipa_id a"
    with x(2) show ?thesis by simp
  qed
  then have r: "ipa_instance x = Some iid" "ipa_segment x = ipa_segment a" "ipa_address x = ipa_address a"
    by (simp_all add: reserve_row_def)
  have "x \<in> set (db_allocs d')" using x(1) t(3) by (simp add: same_tables_fields)
  then have "held_by (ipa_id x) iid (ipa_segment x, ipa_address x) d'"
    unfolding held_by_def using r(1) by blast
  with f x(2) r show ?thesis by (intro that[of a]) (simp_all add: free_row_def)
qed


section \<open>Hostnames do not repeat\<close>

text \<open>The last number given out for a prefix, and the names a sequence of calls returns.\<close>

definition last_seq :: "db \<Rightarrow> string \<Rightarrow> int" where
  "last_seq d p = (case map_of (db_hostnames d) p of None \<Rightarrow> 0 | Some n \<Rightarrow> n)"

fun next_names :: "string list \<Rightarrow> db \<Rightarrow> string list" where
  "next_names [] d = []"
| "next_names (p # ps) d = (case hostnames_Next p d of
       (Inl e, d') \<Rightarrow> next_names ps d'
     | (Inr h, d') \<Rightarrow> h # next_names ps d')"

lemma last_seq_tables: "same_tables d d' \<Longrightarrow> last_seq d' = last_seq d"
  by (simp add: last_seq_def fun_eq_iff same_tables_fields)

lemma upsert_seq:
  assumes "hostname_upsert p d = (r, d')"
  shows "(r = Inr (last_seq d p + 1) \<and> last_seq d' = (last_seq d)(p := last_seq d p + 1)) \<or>
    ((\<exists>e. r = Inl e) \<and> last_seq d' = last_seq d)"
  using assms
  by (auto simp: hostname_upsert_def last_seq_def fun_eq_iff update_conv' split: option.splits if_splits)

lemma Next_seq:
  assumes "hostnames_Next p d = (r, d')"
  shows "(\<forall>q. last_seq d q \<le> last_seq d' q) \<and>
    (\<forall>h. r = Inr h \<longrightarrow> h = format_hostname p (last_seq d' p) \<and> last_seq d p < last_seq d' p)"
proof -
  obtain r1 d1 where s: "stmt (hostname_upsert p) d = (r1, d1)" by fastforce
  have run: "hostnames_Next p d = (map_sum (Wrap (''ipam: next hostname for prefix '' @ [CHR 0x22] @ p @ [CHR 0x22]))
      (format_hostname p) r1, d1)"
    unfolding hostnames_Next_def bindE_def onErr_def s by (cases r1) (simp_all add: retE_def)
  from s have "(r1 = Inr (last_seq d p + 1) \<and> last_seq d1 = (last_seq d)(p := last_seq d p + 1)) \<or>
    ((\<exists>e. r1 = Inl e) \<and> (last_seq d1 = last_seq d \<or> last_seq d1 = (last_seq d)(p := last_seq d p + 1)))"
  proof (cases rule: stmt_cases)
    case (ran d0)
    from upsert_seq[OF ran(4)] show ?thesis unfolding last_seq_tables[OF ran(1)] by blast
  next
    case refused
    from last_seq_tables[OF refused(2)] refused(1) show ?thesis by blast
  next
    case (lost d0 r0)
    from upsert_seq[OF lost(4)] lost(5) show ?thesis unfolding last_seq_tables[OF lost(1)] by blast
  qed
  then show ?thesis using run assms by auto
qed

lemma format_hostname_inj:
  assumes "format_hostname p n = format_hostname q m" "0 \<le> n" "0 \<le> m"
  shows "p = q \<and> n = m"
proof -
  have nodash: "CHR ''-'' \<notin> set (pad_zero 4 (itoa k))" if "0 \<le> k" for k
    using that digits_of_digits[of "CHR ''-''" "nat k"] by (auto simp: pad_zero_def itoa_def less_eq_char_def)
  have cut: "cut_at CHR ''-'' (rev (format_hostname x k)) = Some (rev (pad_zero 4 (itoa k)), rev x)" if "0 \<le> k" for x k
    using cut_at_append[of "CHR ''-''" "rev (pad_zero 4 (itoa k))" "rev x"] nodash[OF that]
    by (simp add: format_hostname_def)
  have eq: "p = q" "pad_zero 4 (itoa n) = pad_zero 4 (itoa m)"
    using cut[OF assms(2), of p] cut[OF assms(3), of q] assms(1) by auto
  have "digits_val (pad_zero 4 (itoa k)) = nat k" if "0 \<le> k" for k
    using that by (simp add: pad_zero_def digits_val_zeros itoa_def)
  with eq(2) assms(2,3) have "nat n = nat m" by metis
  with eq(1) assms(2,3) show ?thesis by simp
qed

lemma next_names_later:
  "h \<in> set (next_names ps d) \<Longrightarrow> \<exists>p n. h = format_hostname p n \<and> last_seq d p < n"
proof (induction ps arbitrary: d)
  case Nil
  then show ?case by simp
next
  case (Cons p ps)
  obtain r d' where n: "hostnames_Next p d = (r, d')" by fastforce
  note seq = Next_seq[OF n]
  have later: "h \<in> set (next_names ps d') \<Longrightarrow> ?case"
    using Cons.IH[of d'] seq by (meson le_less_trans)
  show ?case
  proof (cases r)
    case (Inl e)
    with Cons.prems n later show ?thesis by simp
  next
    case (Inr g)
    with seq have "g = format_hostname p (last_seq d' p) \<and> last_seq d p < last_seq d' p" by simp
    with Inr Cons.prems n later show ?thesis by auto
  qed
qed

text \<open>The sequences of a database start at no less than zero.\<close>

definition sequences_ok :: "db \<Rightarrow> bool" where
  "sequences_ok d \<longleftrightarrow> (\<forall>p. 0 \<le> last_seq d p)"

text \<open>
  Hostnames are never given out twice: over any sequence of calls of \<open>Next\<close> with any prefixes, also
  ones that are extensions of each other, and with any faults, the names returned are all different.
\<close>

theorem hostnames_are_unique:
  assumes "sequences_ok d"
  shows "distinct (next_names ps d)"
  using assms
proof (induction ps arbitrary: d)
  case Nil
  then show ?case by simp
next
  case (Cons p ps)
  obtain r d' where n: "hostnames_Next p d = (r, d')" by fastforce
  note seq = Next_seq[OF n]
  have ok': "sequences_ok d'" using Cons.prems seq unfolding sequences_ok_def by (meson order.trans)
  note ih = Cons.IH[OF ok']
  show ?case
  proof (cases r)
    case (Inl e)
    with n ih show ?thesis by simp
  next
    case (Inr g)
    have "g \<notin> set (next_names ps d')"
    proof
      assume "g \<in> set (next_names ps d')"
      then obtain q m where qm: "g = format_hostname q m" "last_seq d' q < m" using next_names_later by blast
      moreover have "g = format_hostname p (last_seq d' p)" using seq Inr by simp
      moreover have "0 \<le> last_seq d' p" "0 \<le> last_seq d' q" using ok' by (simp_all add: sequences_ok_def)
      ultimately show False using format_hostname_inj[of p "last_seq d' p" q m] by auto
    qed
    with n Inr ih show ?thesis by simp
  qed
qed

section \<open>Capacity\<close>

definition cap_field :: "alloc_state \<Rightarrow> segment_capacity \<Rightarrow> nat" where
  "cap_field st c = (case st of AllocationFree \<Rightarrow> cap_free c | AllocationReserved \<Rightarrow> cap_reserved c
     | AllocationAssigned \<Rightarrow> cap_assigned c | AllocationQuarantined \<Rightarrow> cap_quarantined c | AllocationReleased \<Rightarrow> 0)"

lemma capacity_step_field:
  "st \<noteq> AllocationReleased \<Longrightarrow> cap_field st (capacity_step c r) = (if fst r = st then snd r else cap_field st c)"
  by (cases st; cases "fst r") (simp_all add: cap_field_def capacity_step_def Let_def)

lemma capacity_step_total: "cap_total (capacity_step c r) = cap_total c + snd r"
  by (cases "fst r") (simp_all add: capacity_step_def Let_def)

lemma capacity_foldl_total: "cap_total (foldl capacity_step c rs) = cap_total c + sum_list (map snd rs)"
  by (induction rs arbitrary: c) (simp_all add: capacity_step_total)

lemma capacity_foldl_field:
  assumes "st \<noteq> AllocationReleased" "\<And>r. r \<in> set rs \<Longrightarrow> fst r = st \<Longrightarrow> snd r = n"
  shows "cap_field st (foldl capacity_step c rs) = (if st \<in> fst ` set rs then n else cap_field st c)"
  using assms by (induction rs arbitrary: c) (auto simp: capacity_step_field)

lemma sum_list_counts: "sum_list (map (count_list xs) (remdups xs)) = length xs"
proof -
  have "sum_list (map (count_list xs) (remdups xs)) = sum (count_list xs) (set xs)"
    by (simp add: sum_list_distinct_conv_sum_set)
  then show ?thesis by (simp add: sum_count_set)
qed

text \<open>
  The capacity of a segment is a census: the total counts the rows of the segment, and each of the
  four figures the rows in that state, so rows that are \<open>RELEASED\<close> are the difference.
\<close>

theorem capacity_counts_the_segment:
  assumes "db_faults d = []"
  shows "\<exists>c. segments_Capacity seg d = (Inr c, d) \<and>
    cap_total c = sql_count (\<lambda>a. ipa_segment a = seg) (db_allocs d) \<and>
    (\<forall>st. cap_field st c = (if st = AllocationReleased then 0 else
       sql_count (\<lambda>a. ipa_segment a = seg \<and> ipa_state a = st) (db_allocs d)))"
proof -
  let ?ss = "map ipa_state (filter (\<lambda>a. ipa_segment a = seg) (db_allocs d))"
  let ?z = "\<lparr>cap_total = 0, cap_free = 0, cap_reserved = 0, cap_assigned = 0, cap_quarantined = 0\<rparr>"
  let ?c = "foldl capacity_step ?z (group_states seg (db_allocs d))"
  have total: "cap_total ?c = length ?ss"
    by (simp add: capacity_foldl_total group_states_def Let_def comp_def sum_list_counts)
  have cnt: "count_list ?ss st = sql_count (\<lambda>a. ipa_segment a = seg \<and> ipa_state a = st) (db_allocs d)" for st
    unfolding sql_count_def count_list_eq_length_filter filter_map comp_def length_map filter_filter
    by (rule arg_cong[of _ _ length], rule filter_cong) auto
  have field: "cap_field st ?c = count_list ?ss st" if "st \<noteq> AllocationReleased" for st
  proof -
    have "cap_field st ?c = (if st \<in> fst ` set (group_states seg (db_allocs d)) then count_list ?ss st else cap_field st ?z)"
      by (rule capacity_foldl_field[OF that]) (auto simp: group_states_def Let_def)
    moreover have "st \<in> fst ` set (group_states seg (db_allocs d)) \<longleftrightarrow> st \<in> set ?ss"
      by (force simp: group_states_def Let_def)
    moreover have "st \<notin> set ?ss \<Longrightarrow> count_list ?ss st = 0" by (simp add: count_list_0_iff)
    moreover have "cap_field st ?z = 0" by (cases st) (simp_all add: cap_field_def)
    ultimately show ?thesis by presburger
  qed
  have "cap_field AllocationReleased ?c = 0" by (simp add: cap_field_def)
  moreover have "length ?ss = sql_count (\<lambda>a. ipa_segment a = seg) (db_allocs d)" by (simp add: sql_count_def)
  ultimately show ?thesis
    using total field cnt by (intro exI[of _ ?c]) (simp add: segments_Capacity_def queryE_healthy[OF assms])
qed

subsection \<open>Witnesses\<close>

definition demo_alloc :: "string \<Rightarrow> string \<Rightarrow> ip_alloc" where
  "demo_alloc i a = \<lparr>ipa_id = i, ipa_segment = ''s1'', ipa_address = a, ipa_instance = None,
     ipa_state = AllocationFree, ipa_reserved_until = None, ipa_assigned = None, ipa_released = None, ipa_created = 0\<rparr>"

definition demo_ipam :: db where
  "demo_ipam = demo_db\<lparr>db_instances := [demo_instance ''i1'', demo_instance ''i2''],
     db_allocs := [demo_alloc ''a1'' ''10.0.0.10'', demo_alloc ''a2'' ''10.0.0.9'']\<rparr>"

lemmas demo_ipam_defs = demo_ipam_def demo_alloc_def demo_defs

lemma demo_ipam_ok: "allocs_inv demo_ipam" "db_faults demo_ipam = []" "find_instance ''i1'' demo_ipam \<noteq> None"
  "find_instance ''i2'' demo_ipam \<noteq> None"
  by (simp_all add: demo_ipam_defs allocs_inv_def alloc_wf_def find_instance_def sql_find_def)

lemma demo_inet: "inet_key ''10.0.0.10'' = [10, 0, 0, 10]" "inet_key ''10.0.0.9'' = [10, 0, 0, 9]"
  by code_simp+

lemma demo_reserve1:
  "ReserveNextFree (\<lambda>_. False) ''s1'' ''i1'' 60 demo_ipam =
     (Inr (reserve_row ''i1'' 60 1000 (demo_alloc ''a2'' ''10.0.0.9'')),
      put_allocs [demo_alloc ''a1'' ''10.0.0.10'', reserve_row ''i1'' 60 1000 (demo_alloc ''a2'' ''10.0.0.9'')] demo_ipam)"
  by (subst ReserveNextFree_healthy[OF demo_ipam_ok(1-3)])
     (simp add: select_free_def sql_first_def free_row_def demo_ipam_defs sql_update_def demo_inet)

theorem reserve_takes_the_lowest_free_address_witness:
  "case ReserveNextFree (\<lambda>_. False) ''s1'' ''i1'' 60 demo_ipam of (Inl e, d') \<Rightarrow> False
   | (Inr a', d') \<Rightarrow> ipa_address a' = ''10.0.0.9'' \<and> ipa_instance a' = Some ''i1''"
  using reserve_takes_the_lowest_free_address[OF demo_ipam_ok(1-3), of "\<lambda>_. False" "''s1''" 60]
  unfolding demo_reserve1 prod.case sum.case by (simp add: reserve_row_def demo_alloc_def)

text \<open>An expired reservation and one that still runs.\<close>

definition demo_expired :: db where
  "demo_expired = demo_ipam\<lparr>db_allocs := [reserve_row ''i1'' 60 0 (demo_alloc ''a1'' ''10.0.0.10''),
     reserve_row ''i2'' 60 1000 (demo_alloc ''a2'' ''10.0.0.9'')]\<rparr>"

lemma demo_expired_ok: "allocs_inv demo_expired" "map (reapable demo_expired) (db_allocs demo_expired) = [True, False]"
  by (simp_all add: demo_expired_def reserve_row_def demo_ipam_defs allocs_inv_def alloc_wf_def reapable_def active_job_of_def)

lemma demo_reaped: "fst (ReleaseExpiredReservations (\<lambda>_. False) demo_expired) = Inr 1"
  by code_simp

theorem reaper_frees_expired_reservations_only_witness:
  "\<exists>d' e. ReleaseExpiredReservations (\<lambda>_. False) demo_expired = (Inr 1, d') \<and>
     map ipa_state (db_allocs d') = [AllocationFree, AllocationReserved] \<and>
     db_audit d' = [e] \<and> event_core e = reap_event ''a1'' ''i1''"
proof -
  obtain d' where run: "ReleaseExpiredReservations (\<lambda>_. False) demo_expired = (Inr 1, d')"
    using demo_reaped by (cases "ReleaseExpiredReservations (\<lambda>_. False) demo_expired") auto
  have c: "reap_candidates (\<lambda>_. False) demo_expired = [(''a1'', ''i1'')]"
    "map ipa_state (sql_update (\<lambda>a. reapable demo_expired a) (reap_row 1000) (db_allocs demo_expired)) =
       [AllocationFree, AllocationReserved]"
    using demo_expired_ok(2)
    by (simp_all add: demo_expired_def reap_candidates_def sql_update_def reserve_row_def reap_row_def demo_alloc_def)
  from reaper_frees_expired_reservations_only[OF demo_expired_ok(1), of "\<lambda>_. False"] c
  show ?thesis unfolding run
    by (auto simp: same_tables_fields demo_expired_def demo_ipam_def demo_db_def map_eq_Cons_conv)
qed


theorem hostnames_are_unique_witness:
  "distinct (next_names [''vm'', ''vm'', ''vm-0001'', ''vm''] demo_ipam) \<and>
   next_names [''vm'', ''vm''] demo_ipam = [''vm-0001'', ''vm-0002'']"
proof
  have "sequences_ok demo_ipam" by (simp add: sequences_ok_def last_seq_def demo_ipam_defs)
  then show "distinct (next_names [''vm'', ''vm'', ''vm-0001'', ''vm''] demo_ipam)"
    by (rule hostnames_are_unique)
  show "next_names [''vm'', ''vm''] demo_ipam = [''vm-0001'', ''vm-0002'']"
  proof -
    have "itoa 1 = ''1''" "itoa 2 = ''2''" by code_simp+
    then show ?thesis
      by (simp add: hostnames_Next_def hostname_upsert_def eff_defs demo_ipam_defs format_hostname_def
          pad_zero_def numeral_eq_Suc)
  qed
qed

theorem capacity_counts_the_segment_witness:
  "\<exists>c. segments_Capacity ''s1'' demo_ipam = (Inr c, demo_ipam) \<and> cap_total c = 2"
  using capacity_counts_the_segment[OF demo_ipam_ok(2), of "''s1''"]
  by (auto simp: sql_count_def demo_ipam_defs)

end
