(* ===== verification/Records.thy ===== *)
theory Records
  imports Ipam Jobs
begin

text \<open>
  The remaining tables of \<open>internal/storage\<close>: identity observations, validation runs, findings and
  alerts; and the consistency scanner of \<open>internal/ipam/scanner.go\<close> that turns what it sees in the
  instances and the allocations into findings.
\<close>

section \<open>Identity observations\<close>

text \<open>
  The columns \<open>mac_addresses\<close> and \<open>ip_addresses\<close> are arrays of \<open>macaddr\<close> and \<open>inet\<close>; the casts of the
  server are parameters, as in \<open>Ipam\<close>.
\<close>

definition new_obs :: "string \<Rightarrow> time \<Rightarrow> string list \<Rightarrow> string list \<Rightarrow> identity_obs \<Rightarrow> identity_obs" where
  "new_obs u now macs ips ob = ob\<lparr>obs_id := u, obs_macs := macs, obs_ips := ips,
     obs_facts := or_empty_object (obs_facts ob), obs_at := now\<rparr>"

definition identity_Create :: "(string \<Rightarrow> string option) \<Rightarrow> (string \<Rightarrow> string option) \<Rightarrow> identity_obs \<Rightarrow> identity_obs dbm" where
  "identity_Create pg_mac pg_inet ob = scanE ''storage: scan identity observation'' (bindE gen_random_uuid (\<lambda>u d.
     (case (all_some (map pg_mac (dns_array (obs_macs ob))), all_some (map pg_inet (dns_array (obs_ips ob)))) of
        (Some macs, Some ips) \<Rightarrow>
          (if find_instance (obs_instance ob) d = None
           then (Inl (constraint_error ''identity_observations_instance_id_fkey''), d)
           else (let r = new_obs u (db_now d) macs ips ob in (Inr r, d\<lparr>db_obs := db_obs d @ [r]\<rparr>)))
      | _ \<Rightarrow> (Inl (ErrDriver ''ERROR: invalid input syntax''), d))))"

definition identity_LatestByInstance :: "string \<Rightarrow> identity_obs dbm" where
  "identity_LatestByInstance iid = scanE ''storage: scan identity observation'' (\<lambda>d. scan_row
     (sql_first (\<lambda>ob. - obs_at ob) (\<lambda>ob. obs_instance ob = iid) (db_obs d)) d)"

record duplicate_match =
  dup_instance :: string
  dup_generation :: int
  dup_at :: time
  dup_retired :: bool

text \<open>\<open>DISTINCT ON (instance_id) ... ORDER BY instance_id, observed_at DESC\<close>, joined with the instance.\<close>

definition find_duplicates :: "(identity_obs \<Rightarrow> string) \<Rightarrow> string \<Rightarrow> string \<Rightarrow> db \<Rightarrow> duplicate_match list" where
  "find_duplicates col v excl d =
     (let others = filter (\<lambda>i. i \<noteq> excl) (sort (remdups (map obs_instance (filter (\<lambda>ob. col ob = v) (db_obs d))))) in
      concat (map (\<lambda>iid. case (find_instance iid d,
            sql_first (\<lambda>ob. - obs_at ob) (\<lambda>ob. col ob = v \<and> obs_instance ob = iid) (db_obs d)) of
          (Some i, Some ob') \<Rightarrow> [\<lparr>dup_instance = iid, dup_generation = obs_generation ob', dup_at = obs_at ob',
              dup_retired = IsRetired i\<rparr>]
        | _ \<Rightarrow> []) others))"

definition FindDuplicateMachineDigest :: "string \<Rightarrow> string \<Rightarrow> duplicate_match list dbm" where
  "FindDuplicateMachineDigest digest excl =
     queryE ''storage: find duplicate by machine_id_digest'' (find_duplicates obs_digest digest excl)"

definition FindDuplicateSSHFingerprint :: "string \<Rightarrow> string \<Rightarrow> duplicate_match list dbm" where
  "FindDuplicateSSHFingerprint fp excl =
     queryE ''storage: find duplicate by ssh_host_fingerprint'' (find_duplicates obs_ssh fp excl)"

section \<open>Validation runs\<close>

definition runs_Create :: "validation_run \<Rightarrow> validation_run dbm" where
  "runs_Create run = scanE ''storage: scan validation run'' (bindE gen_random_uuid (\<lambda>u d.
     (if find_instance (run_instance run) d = None
      then (Inl (constraint_error ''validation_runs_instance_id_fkey''), d)
      else if (case run_job run of None \<Rightarrow> False | Some jid \<Rightarrow> \<forall>j \<in> set (db_jobs d). job_id j \<noteq> jid)
      then (Inl (constraint_error ''validation_runs_job_id_fkey''), d)
      else (let r = run\<lparr>run_id := u, run_evidence := or_empty_object (run_evidence run),
                run_finished := (case run_finished run of None \<Rightarrow> Some (run_started run) | Some t \<Rightarrow> Some t)\<rparr>
            in (Inr r, d\<lparr>db_runs := db_runs d @ [r]\<rparr>)))))"

definition runs_LatestByType :: "string \<Rightarrow> string \<Rightarrow> validation_run dbm" where
  "runs_LatestByType iid ty = scanE ''storage: scan validation run'' (\<lambda>d. scan_row
     (sql_first (\<lambda>r. - run_started r) (\<lambda>r. run_instance r = iid \<and> run_type r = ty) (db_runs d)) d)"

definition latest_per_type :: "string \<Rightarrow> db \<Rightarrow> validation_run list" where
  "latest_per_type iid d =
     (let tys = sort (remdups (map run_type (filter (\<lambda>r. run_instance r = iid) (db_runs d)))) in
      concat (map (\<lambda>ty. case sql_first (\<lambda>r. - run_started r) (\<lambda>r. run_instance r = iid \<and> run_type r = ty) (db_runs d) of
          None \<Rightarrow> [] | Some r \<Rightarrow> [r]) tys))"

definition runs_LatestPerType :: "string \<Rightarrow> validation_run list dbm" where
  "runs_LatestPerType iid = queryE ''storage: latest validation runs per type'' (latest_per_type iid)"

record run_filter =
  rf_instance :: string
  rf_result :: string
  rf_type :: string

definition run_matches :: "run_filter \<Rightarrow> validation_run \<Rightarrow> bool" where
  "run_matches f r \<longleftrightarrow> (rf_instance f = [] \<or> run_instance r = rf_instance f) \<and>
     (rf_result f = [] \<or> validation_result_str (run_result r) = rf_result f) \<and>
     (rf_type f = [] \<or> run_type r = rf_type f)"

definition runs_page :: "run_filter \<Rightarrow> db \<Rightarrow> time \<Rightarrow> string \<Rightarrow> nat \<Rightarrow> validation_run list" where
  "runs_page f d t i n = keyset_page (\<lambda>r. (run_started r, run_id r)) (run_matches f) t i n (db_runs d)"

definition runs_List :: "run_filter \<Rightarrow> time \<Rightarrow> string \<Rightarrow> nat \<Rightarrow> validation_run list dbm" where
  "runs_List f t i n = queryE ''storage: list validation runs'' (\<lambda>d. runs_page f d t i n)"

section \<open>Findings\<close>

text \<open>
  \<open>ON CONFLICT ... WHERE state = 'OPEN' DO NOTHING\<close>; two \<open>NULL\<close>s of the index do not conflict.
  The result is the new row, or \<open>None\<close> when an open finding of the same resource exists.
\<close>

definition findings_conflict :: "finding \<Rightarrow> finding \<Rightarrow> bool" where
  "findings_conflict f g \<longleftrightarrow> fnd_state f = FindingOpen \<and> fnd_state g = FindingOpen \<and>
     fnd_category f = fnd_category g \<and> fnd_rtype f \<noteq> None \<and> fnd_rtype f = fnd_rtype g \<and>
     fnd_rid f \<noteq> None \<and> fnd_rid f = fnd_rid g"

definition new_finding :: "string \<Rightarrow> time \<Rightarrow> finding \<Rightarrow> finding" where
  "new_finding u now f = f\<lparr>fnd_id := u, fnd_details := or_empty_object (fnd_details f), fnd_state := FindingOpen,
     fnd_detected := now, fnd_resolved := None\<rparr>"

definition insert_finding :: "finding \<Rightarrow> finding dbm" where
  "insert_finding f = bindE gen_random_uuid (\<lambda>u d. let r = new_finding u (db_now d) f in
     if \<exists>g \<in> set (db_findings d). findings_conflict g r then (Inl ErrNotFound, d)
     else (Inr r, d\<lparr>db_findings := db_findings d @ [r]\<rparr>))"

definition findings_Create :: "finding \<Rightarrow> finding option dbm" where
  "findings_Create f = tryE (scanE ''storage: scan finding'' (insert_finding f)) (\<lambda>r. case r of
       Inl e \<Rightarrow> if errors_is e ErrNotFound then retE None else failE e
     | Inr x \<Rightarrow> retE (Some x))"

definition findings_List :: "finding_state option \<Rightarrow> finding list dbm" where
  "findings_List st = queryE ''storage: list findings'' (\<lambda>d. sort_key (\<lambda>f. - fnd_detected f)
     (filter (\<lambda>f. case st of None \<Rightarrow> True | Some s \<Rightarrow> fnd_state f = s) (db_findings d)))"

section \<open>The scanner\<close>

definition mk_finding :: "string \<Rightarrow> string \<Rightarrow> string \<Rightarrow> string \<Rightarrow> (string \<times> json) list \<Rightarrow> finding" where
  "mk_finding cat rty rid summary details =
     \<lparr>fnd_id = [], fnd_category = cat, fnd_severity = FindingWarning, fnd_rtype = Some rty, fnd_rid = Some rid,
      fnd_summary = summary, fnd_details = Some (JObj details), fnd_state = FindingOpen, fnd_detected = 0,
      fnd_resolved = None\<rparr>"

text \<open>The summaries are Vietnamese; the bytes are those of the UTF-8 source text.\<close>

definition ready_summary :: "string \<Rightarrow> string" where
  "ready_summary h = ''Instance '' @ h @ '' '' @ [CHR 0xE1, CHR 0xBB, CHR 0x9F] @ '' state READY nh'' @
     [CHR 0xC6, CHR 0xB0] @ ''ng kh'' @ [CHR 0xC3, CHR 0xB4] @ ''ng c'' @ [CHR 0xC3, CHR 0xB3] @
     '' IP allocation ASSIGNED''"

definition orphan_summary :: "string \<Rightarrow> string" where
  "orphan_summary a = ''IP '' @ a @ '' '' @ [CHR 0xC4, CHR 0x91] @ ''ang RESERVED/ASSIGNED nh'' @
     [CHR 0xC6, CHR 0xB0] @ ''ng instance s'' @ [CHR 0xE1, CHR 0xBB, CHR 0x9F] @ '' h'' @ [CHR 0xE1, CHR 0xBB, CHR 0xAF] @
     ''u kh'' @ [CHR 0xC3, CHR 0xB4] @ ''ng t'' @ [CHR 0xE1, CHR 0xBB, CHR 0x93] @ ''n t'' @ [CHR 0xE1, CHR 0xBA, CHR 0xA1] @
     ''i ho'' @ [CHR 0xE1, CHR 0xBA, CHR 0xB7] @ ''c '' @ [CHR 0xC4, CHR 0x91, CHR 0xC3, CHR 0xA3] @ '' retired''"

definition ready_without_ip :: "db \<Rightarrow> finding list" where
  "ready_without_ip d = map (\<lambda>i. mk_finding ''ready_instance_without_assigned_ip'' ''vm_instance'' (inst_id i)
       (ready_summary (inst_hostname i)) [(''hostname'', JStr (inst_hostname i))])
     (filter (\<lambda>i. inst_state i = InstanceReady \<and>
        (\<forall>a \<in> set (db_allocs d). \<not> (ipa_instance a = Some (inst_id i) \<and> ipa_state a = AllocationAssigned)))
       (db_instances d))"

definition orphaned :: "db \<Rightarrow> ip_alloc \<Rightarrow> bool" where
  "orphaned d a \<longleftrightarrow> ipa_state a \<in> {AllocationReserved, AllocationAssigned} \<and>
     (case ipa_instance a of None \<Rightarrow> True | Some iid \<Rightarrow>
        (case find_instance iid d of None \<Rightarrow> True | Some i \<Rightarrow> IsRetired i))"

definition orphaned_allocations :: "db \<Rightarrow> finding list" where
  "orphaned_allocations d = map (\<lambda>a. mk_finding ''orphaned_ip_allocation'' ''ip_allocation'' (ipa_id a)
       (orphan_summary (ipa_address a)) [(''address'', JStr (ipa_address a))])
     (filter (orphaned d) (db_allocs d))"

text \<open>One check: select the rows, then create their findings one after the other, counting the new ones.\<close>

fun create_findings :: "finding list \<Rightarrow> nat \<Rightarrow> nat dbm" where
  "create_findings [] n = retE n"
| "create_findings (f # fs) n = bindE (findings_Create f) (\<lambda>r.
     create_findings fs (case r of None \<Rightarrow> n | Some _ \<Rightarrow> n + 1))"

definition run_check :: "(db \<Rightarrow> finding list) \<Rightarrow> nat dbm" where
  "run_check sel = bindE (stmt (getE sel)) (\<lambda>fs. create_findings fs 0)"

definition Scan :: "nat dbm" where
  "Scan = bindE (wrapE ''ipam: scan ready_instance_without_assigned_ip'' (run_check ready_without_ip)) (\<lambda>n.
     bindE (wrapE ''ipam: scan orphaned_ip_allocation'' (run_check orphaned_allocations)) (\<lambda>m. retE (n + m)))"

section \<open>Alerts\<close>

definition upsert_alert_stmt :: "alert \<Rightarrow> unit dbm" where
  "upsert_alert_stmt a = bindE gen_random_uuid (\<lambda>u d.
     (if \<exists>r \<in> set (db_alerts d). alr_fingerprint r = alr_fingerprint a
      then (Inr (), put_alerts (sql_update (\<lambda>r. alr_fingerprint r = alr_fingerprint a)
        (\<lambda>r. r\<lparr>alr_updated := db_now d, alr_description := alr_description a,
             alr_status := (if alr_status r = AlertResolved then AlertFiring else alr_status r),
             alr_version := alr_version r + 1\<rparr>) (db_alerts d)) d)
      else if \<exists>r \<in> set (db_alerts d). alr_id r = u then (Inl (constraint_error ''alerts_pkey''), d)
      else (Inr (), put_alerts (db_alerts d @ [\<lparr>alr_id = u, alr_fingerprint = alr_fingerprint a,
             alr_status = AlertFiring, alr_severity = alr_severity a, alr_rtype = alr_rtype a, alr_rid = alr_rid a,
             alr_title = alr_title a, alr_description = alr_description a, alr_created = db_now d,
             alr_updated = db_now d, alr_ack_at = None, alr_ack_by = None, alr_ack_note = None, alr_version = 1\<rparr>]) d)))"

definition alerts_Upsert :: "alert \<Rightarrow> unit dbm" where
  "alerts_Upsert a = wrapE ''storage: upsert alert'' (stmt (upsert_alert_stmt a))"

definition find_alert :: "string \<Rightarrow> db \<Rightarrow> alert option" where
  "find_alert aid d = sql_find (\<lambda>a. alr_id a = aid) (db_alerts d)"

definition alerts_Get :: "string \<Rightarrow> alert dbm" where
  "alerts_Get aid = scanE ''storage: scan alert'' (\<lambda>d. scan_row (find_alert aid d) d)"

definition ack_row :: "string \<Rightarrow> string option \<Rightarrow> time \<Rightarrow> alert \<Rightarrow> alert" where
  "ack_row actor note now a = a\<lparr>alr_status := AlertAcknowledged, alr_ack_at := Some now, alr_ack_by := Some actor,
     alr_ack_note := note, alr_updated := now, alr_version := alr_version a + 1\<rparr>"

definition ack_stmt :: "string \<Rightarrow> string \<Rightarrow> string option \<Rightarrow> int \<Rightarrow> alert dbm" where
  "ack_stmt aid actor note ver d =
     (let p = (\<lambda>a. alr_id a = aid \<and> (ver > 0 \<longrightarrow> alr_version a = ver)) in
      case sql_find p (db_alerts d) of
        None \<Rightarrow> (Inl ErrNotFound, d)
      | Some a \<Rightarrow> (Inr (ack_row actor note (db_now d) a),
          put_alerts (sql_update p (ack_row actor note (db_now d)) (db_alerts d)) d))"

definition alerts_Acknowledge :: "string \<Rightarrow> string \<Rightarrow> string option \<Rightarrow> int \<Rightarrow> alert dbm" where
  "alerts_Acknowledge aid actor note ver = tryE (scanE ''storage: scan alert'' (ack_stmt aid actor note ver)) (\<lambda>r. case r of
       Inr a \<Rightarrow> retE a
     | Inl e \<Rightarrow> if errors_is e ErrNotFound \<and> ver > 0
         then tryE (alerts_Get aid) (\<lambda>g. case g of Inr _ \<Rightarrow> failE ErrVersionConflict | Inl _ \<Rightarrow> failE e)
         else failE e)"

record alert_filter =
  af_status :: string
  af_severity :: string
  af_rtype :: string

fun alert_status_str :: "alert_status \<Rightarrow> string" where
  "alert_status_str AlertFiring = ''firing''"
| "alert_status_str AlertAcknowledged = ''acknowledged''"
| "alert_status_str AlertResolved = ''resolved''"

definition alert_matches :: "alert_filter \<Rightarrow> alert \<Rightarrow> bool" where
  "alert_matches f a \<longleftrightarrow> (af_status f = [] \<or> alert_status_str (alr_status a) = af_status f) \<and>
     (af_severity f = [] \<or> alr_severity a = af_severity f) \<and> (af_rtype f = [] \<or> alr_rtype a = af_rtype f)"

definition alerts_page :: "alert_filter \<Rightarrow> db \<Rightarrow> time \<Rightarrow> string \<Rightarrow> nat \<Rightarrow> alert list" where
  "alerts_page f d t i n = keyset_page (\<lambda>a. (alr_created a, alr_id a)) (alert_matches f) t i n (db_alerts d)"

definition alerts_List :: "alert_filter \<Rightarrow> time \<Rightarrow> string \<Rightarrow> nat \<Rightarrow> alert list dbm" where
  "alerts_List f t i n = queryE ''storage: list alerts'' (\<lambda>d. alerts_page f d t i n)"

section \<open>Audit events\<close>

record audit_filter =
  uf_actor :: string
  uf_action :: string
  uf_rtype :: string
  uf_rid :: string
  uf_from :: time
  uf_to :: time
  uf_q :: string

text \<open>\<open>ILIKE '%q%'\<close>: the pattern language of \<open>LIKE\<close> is a parameter, it is the server's.\<close>

definition audit_matches :: "(string \<Rightarrow> string \<Rightarrow> bool) \<Rightarrow> audit_filter \<Rightarrow> audit_event \<Rightarrow> bool" where
  "audit_matches ilike f e \<longleftrightarrow> (uf_actor f = [] \<or> aud_actor e = uf_actor f) \<and>
     (uf_action f = [] \<or> aud_action e = uf_action f) \<and> (uf_rtype f = [] \<or> aud_rtype e = uf_rtype f) \<and>
     (uf_rid f = [] \<or> aud_rid e = uf_rid f) \<and> (uf_from f = zero_time \<or> uf_from f \<le> aud_at e) \<and>
     (uf_to f = zero_time \<or> aud_at e \<le> uf_to f) \<and>
     (uf_q f = [] \<or> (let pat = ''%'' @ uf_q f @ ''%'' in
        ilike (aud_action e) pat \<or> ilike (aud_rtype e) pat \<or> ilike (aud_rid e) pat))"

definition audit_page :: "(string \<Rightarrow> string \<Rightarrow> bool) \<Rightarrow> audit_filter \<Rightarrow> db \<Rightarrow> time \<Rightarrow> string \<Rightarrow> nat \<Rightarrow> audit_event list" where
  "audit_page ilike f d t i n = keyset_page (\<lambda>e. (aud_at e, aud_id e)) (audit_matches ilike f) t i n (db_audit d)"

definition audit_List :: "(string \<Rightarrow> string \<Rightarrow> bool) \<Rightarrow> audit_filter \<Rightarrow> time \<Rightarrow> string \<Rightarrow> nat \<Rightarrow> audit_event list dbm" where
  "audit_List ilike f t i n = queryE ''audit: list'' (\<lambda>d. audit_page ilike f d t i n)"

definition audit_resource_page :: "string \<Rightarrow> string \<Rightarrow> db \<Rightarrow> time \<Rightarrow> string \<Rightarrow> nat \<Rightarrow> audit_event list" where
  "audit_resource_page rty rid d t i n =
     keyset_page (\<lambda>e. (aud_at e, aud_id e)) (\<lambda>e. aud_rtype e = rty \<and> aud_rid e = rid) t i n (db_audit d)"

definition audit_ListByResource :: "string \<Rightarrow> string \<Rightarrow> time \<Rightarrow> string \<Rightarrow> nat \<Rightarrow> audit_event list dbm" where
  "audit_ListByResource rty rid t i n = queryE ''audit: list by resource'' (\<lambda>d. audit_resource_page rty rid d t i n)"

section \<open>The listings\<close>

interpretation run_list: listing "\<lambda>d. rows_keyed run_started run_id (db_runs d)"
  "\<lambda>d. newest_first (\<lambda>r. (run_started r, run_id r)) (filter (run_matches f) (db_runs d))"
  "runs_page f" run_started run_id for f
  unfolding runs_page_def[abs_def] by (rule keyed_listing)

interpretation alert_list: listing "\<lambda>d. rows_keyed alr_created alr_id (db_alerts d)"
  "\<lambda>d. newest_first (\<lambda>r. (alr_created r, alr_id r)) (filter (alert_matches f) (db_alerts d))"
  "alerts_page f" alr_created alr_id for f
  unfolding alerts_page_def[abs_def] by (rule keyed_listing)

interpretation audit_list: listing "\<lambda>d. rows_keyed aud_at aud_id (db_audit d)"
  "\<lambda>d. newest_first (\<lambda>r. (aud_at r, aud_id r)) (filter (audit_matches ilike f) (db_audit d))"
  "audit_page ilike f" aud_at aud_id for ilike f
  unfolding audit_page_def[abs_def] by (rule keyed_listing)

interpretation resource_events: listing "\<lambda>d. rows_keyed aud_at aud_id (db_audit d)"
  "\<lambda>d. newest_first (\<lambda>r. (aud_at r, aud_id r)) (filter (\<lambda>e. aud_rtype e = rty \<and> aud_rid e = rid) (db_audit d))"
  "audit_resource_page rty rid" aud_at aud_id for rty rid
  unfolding audit_resource_page_def[abs_def] by (rule keyed_listing)


section \<open>The scanner is idempotent\<close>

text \<open>Whether an open finding of the category and resource of \<open>f\<close> exists.\<close>

definition reported :: "finding \<Rightarrow> db \<Rightarrow> bool" where
  "reported f d \<longleftrightarrow> (\<exists>g \<in> set (db_findings d). fnd_state g = FindingOpen \<and> fnd_category g = fnd_category f \<and>
     fnd_rtype g = fnd_rtype f \<and> fnd_rid g = fnd_rid f)"

definition names_resource :: "finding \<Rightarrow> bool" where
  "names_resource f \<longleftrightarrow> fnd_rtype f \<noteq> None \<and> fnd_rid f \<noteq> None"

lemma conflict_reported:
  "names_resource f \<Longrightarrow> (\<exists>g \<in> set (db_findings d). findings_conflict g (new_finding u t f)) \<longleftrightarrow> reported f d"
  by (auto simp: findings_conflict_def new_finding_def reported_def names_resource_def)

lemma findings_Create_healthy:
  assumes "db_faults d = []" "names_resource f"
  shows "findings_Create f d = (if reported f d then (Inr None, d\<lparr>db_draws := Suc (db_draws d)\<rparr>)
    else (Inr (Some (new_finding (db_uuid d (db_draws d)) (db_now d) f)),
      d\<lparr>db_draws := Suc (db_draws d), db_findings := db_findings d @ [new_finding (db_uuid d (db_draws d)) (db_now d) f]\<rparr>))"
proof -
  have r: "reported f (d\<lparr>db_draws := n\<rparr>) = reported f d" for n by (simp add: reported_def)
  show ?thesis
    using assms(1) conflict_reported[OF assms(2), of "d\<lparr>db_draws := Suc (db_draws d)\<rparr>"]
    by (simp add: findings_Create_def tryE_def scanE_def onErr_def insert_finding_def bindE_def gen_random_uuid_def
        Let_def retE_def r)
qed

text \<open>What a check leaves: the same database but for the findings and the draws, and every finding of the list reported.\<close>

definition scanned :: "db \<Rightarrow> db \<Rightarrow> bool" where
  "scanned d d' \<longleftrightarrow> (\<exists>n fs. d' = d\<lparr>db_draws := n, db_findings := db_findings d @ fs\<rparr>)"

lemma scanned_refl: "scanned d (d\<lparr>db_draws := n\<rparr>)"
  unfolding scanned_def by (rule exI[of _ n], rule exI[of _ "[]"]) simp

lemma scanned_trans: "scanned a b \<Longrightarrow> scanned b c \<Longrightarrow> scanned a c"
  unfolding scanned_def by fastforce

lemma scanned_reported: "scanned d d' \<Longrightarrow> reported f d \<Longrightarrow> reported f d'"
  by (auto simp: scanned_def reported_def)

lemma create_findings_healthy:
  assumes "db_faults d = []" "\<forall>f \<in> set fs. names_resource f"
  shows "\<exists>n d'. create_findings fs k d = (Inr (k + n), d') \<and> scanned d d' \<and>
    length (db_findings d') = length (db_findings d) + n \<and> (\<forall>f \<in> set fs. reported f d')"
  using assms
proof (induction fs arbitrary: d k)
  case Nil
  then show ?case using scanned_refl[of d "db_draws d"] by (auto simp: retE_def)
next
  case (Cons f fs)
  have f: "names_resource f" using Cons.prems(2) by simp
  show ?case
  proof (cases "reported f d")
    case True
    let ?d = "d\<lparr>db_draws := Suc (db_draws d)\<rparr>"
    from Cons.IH[of ?d k] Cons.prems obtain n d' where r: "create_findings fs k ?d = (Inr (k + n), d')"
      "scanned ?d d'" "length (db_findings d') = length (db_findings d) + n" "\<forall>f \<in> set fs. reported f d'" by auto
    have s: "scanned d d'" using scanned_trans[OF scanned_refl r(2)] .
    with True r show ?thesis
      using scanned_reported[OF s True] by (simp add: bindE_def findings_Create_healthy[OF Cons.prems(1) f])
  next
    case False
    let ?f = "new_finding (db_uuid d (db_draws d)) (db_now d) f"
    let ?d = "d\<lparr>db_draws := Suc (db_draws d), db_findings := db_findings d @ [?f]\<rparr>"
    from Cons.IH[of ?d "k + 1"] Cons.prems obtain n d' where r: "create_findings fs (k + 1) ?d = (Inr (k + 1 + n), d')"
      "scanned ?d d'" "length (db_findings d') = length (db_findings d) + 1 + n" "\<forall>f \<in> set fs. reported f d'" by auto
    have sd: "scanned d ?d" unfolding scanned_def by blast
    have "reported f ?d" by (auto simp: reported_def new_finding_def)
    then have "reported f d'" by (rule scanned_reported[OF r(2)])
    with False r scanned_trans[OF sd r(2)] show ?thesis
      by (intro exI[of _ "n + 1"] exI[of _ d']) (simp add: bindE_def findings_Create_healthy[OF Cons.prems(1) f])
  qed
qed

lemma create_findings_again:
  assumes "db_faults d = []" "\<forall>f \<in> set fs. names_resource f" "\<forall>f \<in> set fs. reported f d"
  shows "\<exists>n. create_findings fs k d = (Inr k, d\<lparr>db_draws := n\<rparr>)"
  using assms
proof (induction fs arbitrary: d)
  case Nil
  then show ?case by (intro exI[of _ "db_draws d"]) (simp add: retE_def)
next
  case (Cons f fs)
  let ?d = "d\<lparr>db_draws := Suc (db_draws d)\<rparr>"
  have "\<forall>f \<in> set fs. reported f ?d" using Cons.prems(3) by (simp add: reported_def)
  then obtain n where "create_findings fs k ?d = (Inr k, ?d\<lparr>db_draws := n\<rparr>)"
    using Cons.IH[of ?d] Cons.prems(1,2) by auto
  with Cons.prems show ?case by (simp add: bindE_def findings_Create_healthy) blast
qed

lemma scanner_names:
  "\<forall>f \<in> set (ready_without_ip d). names_resource f" "\<forall>f \<in> set (orphaned_allocations d). names_resource f"
  by (simp_all add: ready_without_ip_def orphaned_allocations_def names_resource_def mk_finding_def)

lemma scanner_sees:
  assumes "scanned d d'"
  shows "ready_without_ip d' = ready_without_ip d" "orphaned_allocations d' = orphaned_allocations d" "db_faults d' = db_faults d"
proof -
  from assms obtain n fs where d': "d' = d\<lparr>db_draws := n, db_findings := db_findings d @ fs\<rparr>" by (auto simp: scanned_def)
  have "find_instance iid d' = find_instance iid d" for iid by (simp add: d' find_instance_def)
  then have "orphaned d' a = orphaned d a" for a by (auto simp: orphaned_def split: option.split)
  then have "orphaned d' = orphaned d" by (simp add: fun_eq_iff)
  then show "orphaned_allocations d' = orphaned_allocations d" by (simp add: orphaned_allocations_def d')
  show "ready_without_ip d' = ready_without_ip d" "db_faults d' = db_faults d" by (simp_all add: ready_without_ip_def d')
qed

lemma run_check_healthy: "db_faults d = [] \<Longrightarrow> run_check sel d = create_findings (sel d) 0 d"
  by (simp add: run_check_def bindE_def getE_def)

lemma Scan_healthy:
  assumes "db_faults d = []"
  shows "\<exists>n d'. Scan d = (Inr n, d') \<and> scanned d d' \<and> length (db_findings d') = length (db_findings d) + n \<and>
    (\<forall>f \<in> set (ready_without_ip d) \<union> set (orphaned_allocations d). reported f d')"
proof -
  from create_findings_healthy[OF assms scanner_names(1)[of d], where k = 0] obtain n d1 where
    r1: "create_findings (ready_without_ip d) 0 d = (Inr n, d1)" "scanned d d1"
      "length (db_findings d1) = length (db_findings d) + n" "\<forall>f \<in> set (ready_without_ip d). reported f d1" by auto
  note s1 = scanner_sees[OF r1(2)]
  have h1: "db_faults d1 = []" using s1 assms by simp
  from create_findings_healthy[OF h1 scanner_names(2)[of d1], where k = 0] obtain m d2 where
    r2: "create_findings (orphaned_allocations d1) 0 d1 = (Inr m, d2)" "scanned d1 d2"
      "length (db_findings d2) = length (db_findings d1) + m" "\<forall>f \<in> set (orphaned_allocations d1). reported f d2" by auto
  have "Scan d = (Inr (n + m), d2)"
    using r1(1) r2(1) by (simp add: Scan_def bindE_def onErr_def run_check_healthy assms h1 retE_def)
  moreover have "scanned d d2" by (rule scanned_trans[OF r1(2) r2(2)])
  moreover have "reported f d2" if "f \<in> set (ready_without_ip d)" for f
    using scanned_reported[OF r2(2)] r1(4) that by blast
  moreover have "reported f d2" if "f \<in> set (orphaned_allocations d)" for f
    using r2(4) that s1(2) by simp
  ultimately show ?thesis using r1(3) r2(3) by auto
qed

text \<open>
  C39.  The scanner on a healthy connection adds findings and nothing else: as many rows as it
  reports, one at least for each anomaly it sees; and running it again over the same data finds
  nothing new and changes no table.
\<close>

theorem scan_is_idempotent:
  assumes "db_faults d = []"
  shows "\<exists>n d1 d2 fs. Scan d = (Inr n, d1) \<and> same_tables (d\<lparr>db_findings := db_findings d @ fs\<rparr>) d1 \<and> length fs = n \<and>
    (\<forall>f \<in> set (ready_without_ip d) \<union> set (orphaned_allocations d). reported f d1) \<and>
    Scan d1 = (Inr 0, d2) \<and> same_tables d1 d2"
proof -
  from Scan_healthy[OF assms] obtain n d1 where s: "Scan d = (Inr n, d1)" "scanned d d1"
    "length (db_findings d1) = length (db_findings d) + n"
    "\<forall>f \<in> set (ready_without_ip d) \<union> set (orphaned_allocations d). reported f d1" by blast
  from s(2) obtain k fs where d1: "d1 = d\<lparr>db_draws := k, db_findings := db_findings d @ fs\<rparr>" by (auto simp: scanned_def)
  note sees = scanner_sees[OF s(2)]
  have h: "db_faults d1 = []" using sees assms by simp
  obtain k1 where r1: "create_findings (ready_without_ip d1) 0 d1 = (Inr 0, d1\<lparr>db_draws := k1\<rparr>)"
    using create_findings_again[OF h scanner_names(1)] s(4) sees(1) by (metis UnCI)
  let ?d = "d1\<lparr>db_draws := k1\<rparr>"
  have sd: "scanned d1 ?d" by (rule scanned_refl)
  have "\<forall>f \<in> set (orphaned_allocations ?d). reported f ?d"
    using s(4) sees(2) scanner_sees(2)[OF sd] scanned_reported[OF sd] by auto
  moreover have h2: "db_faults ?d = []" using h by simp
  ultimately obtain k2 where r2: "create_findings (orphaned_allocations ?d) 0 ?d = (Inr 0, ?d\<lparr>db_draws := k2\<rparr>)"
    using create_findings_again[OF h2 scanner_names(2), of ?d 0] by blast
  have "Scan d1 = (Inr 0, ?d\<lparr>db_draws := k2\<rparr>)"
    by (simp only: Scan_def bindE_def onErr_def run_check_healthy[OF h] run_check_healthy[OF h2] r1 r2 prod.case sum.case retE_def add_0)
  moreover have "same_tables d1 (?d\<lparr>db_draws := k2\<rparr>)" by (simp add: same_tables_def tables_def)
  moreover have "same_tables (d\<lparr>db_findings := db_findings d @ fs\<rparr>) d1" by (simp add: d1 same_tables_def tables_def)
  moreover have "length fs = n" using s(3) by (simp add: d1)
  ultimately show ?thesis using s(1,4) by blast
qed

section \<open>Alerts: nobody acknowledges on a stale screen\<close>

definition alerts_inv :: "db \<Rightarrow> bool" where
  "alerts_inv d \<longleftrightarrow> distinct (map alr_id (db_alerts d)) \<and> distinct (map alr_fingerprint (db_alerts d)) \<and>
     (\<forall>a \<in> set (db_alerts d). 1 \<le> alr_version a)"

definition alert_version :: "string \<Rightarrow> db \<Rightarrow> int" where
  "alert_version aid d = (case find_alert aid d of None \<Rightarrow> 0 | Some a \<Rightarrow> alr_version a)"

inductive alert_step :: "db \<Rightarrow> db \<Rightarrow> bool" where
  upsert: "alerts_Upsert a d = (r, d') \<Longrightarrow> alert_step d d'"
| acknowledge: "alerts_Acknowledge aid actor note v d = (r, d') \<Longrightarrow> alert_step d d'"
| elsewhere: "db_alerts d' = db_alerts d \<Longrightarrow> alert_step d d'"

text \<open>The effect of a statement on the alerts: rows updated in place with a higher version, or one appended.\<close>

definition alerts_grow :: "db \<Rightarrow> db \<Rightarrow> bool" where
  "alerts_grow d d' \<longleftrightarrow> (alerts_inv d \<longrightarrow> alerts_inv d' \<and> (\<forall>aid. alert_version aid d \<le> alert_version aid d'))"

lemma alerts_grow_rel: "reflp alerts_grow" "transp alerts_grow"
proof -
  show "reflp alerts_grow" by (simp add: reflpI alerts_grow_def)
  show "transp alerts_grow" by (rule transpI) (metis (no_types) alerts_grow_def order.trans)
qed

lemma alerts_grow_tables: "table_rel alerts_grow"
proof -
  have "alerts_inv d' = alerts_inv d \<and> alert_version aid d' = alert_version aid d" if "same_tables d d'" for d d' aid
    using same_tables_fields(12,13)[OF that] by (simp add: alerts_inv_def alert_version_def find_alert_def)
  then show ?thesis unfolding table_rel_def alerts_grow_def by (metis (no_types))
qed

lemma alerts_grow_update:
  assumes "db_alerts d' = sql_update p f (db_alerts d)"
    and "\<And>a. alr_id (f a) = alr_id a \<and> alr_fingerprint (f a) = alr_fingerprint a \<and> alr_version (f a) = alr_version a + 1"
  shows "alerts_grow d d'"
proof -
  have v: "alert_version aid d \<le> alert_version aid d'" for aid
    using assms by (auto simp: alert_version_def find_alert_def sql_find_update split: option.split)
  have "alerts_inv d'" if "alerts_inv d"
    using that assms by (auto simp: alerts_inv_def map_key_sql_update elim!: sql_updateE)
  with v show ?thesis by (simp add: alerts_grow_def)
qed

lemma keeps_upsert_stmt: "keeps alerts_grow (upsert_alert_stmt a)"
proof (rule keepsI)
  fix d :: db
  let ?d1 = "d\<lparr>db_draws := Suc (db_draws d)\<rparr>"
  have g: "gen_random_uuid d = (Inr (db_uuid d (db_draws d)), ?d1)" by (simp add: gen_random_uuid_def)
  show "alerts_grow d (snd (upsert_alert_stmt a d))"
  proof (cases "\<exists>r \<in> set (db_alerts d). alr_fingerprint r = alr_fingerprint a")
    case True
    then show ?thesis
      by (intro alerts_grow_update) (auto simp: upsert_alert_stmt_def bindE_def g)
  next
    case False
    show ?thesis
    proof (cases "\<exists>r \<in> set (db_alerts d). alr_id r = db_uuid d (db_draws d)")
      case True
      with False show ?thesis
        by (auto simp: upsert_alert_stmt_def bindE_def g alerts_grow_def alerts_inv_def alert_version_def find_alert_def)
    next
      case fresh: False
      have v: "alert_version aid d \<le> alert_version aid (d\<lparr>db_draws := n, db_alerts := db_alerts d @ [x]\<rparr>)"
        if "1 \<le> alr_version x" for aid n x
        using that by (auto simp: alert_version_def find_alert_def sql_find_append sql_find_single split: option.split)
      show ?thesis
        using False fresh v
        by (auto simp: upsert_alert_stmt_def bindE_def g alerts_grow_def alerts_inv_def)
    qed
  qed
qed

lemma keeps_ack_stmt: "keeps alerts_grow (ack_stmt aid actor note v)"
proof (rule keepsI)
  fix d
  show "alerts_grow d (snd (ack_stmt aid actor note v d))"
  proof (cases "sql_find (\<lambda>a. alr_id a = aid \<and> (v > 0 \<longrightarrow> alr_version a = v)) (db_alerts d)")
    case None
    then show ?thesis using alerts_grow_rel(1) by (simp add: ack_stmt_def reflpD)
  next
    case (Some a)
    then show ?thesis
      by (intro alerts_grow_update[of _ "\<lambda>a. alr_id a = aid \<and> (v > 0 \<longrightarrow> alr_version a = v)" "ack_row actor note (db_now d)"])
         (simp_all add: ack_stmt_def ack_row_def)
  qed
qed

lemma keeps_alert_ops: "keeps alerts_grow (alerts_Upsert a)" "keeps alerts_grow (alerts_Acknowledge aid actor note v)"
  "keeps alerts_grow (alerts_Get aid)"
proof -
  note rel = alerts_grow_rel table_rel_insensitive[OF alerts_grow_tables]
  show g: "keeps alerts_grow (alerts_Get aid)" for aid
    unfolding alerts_Get_def by (intro keeps_scanE rel keepsI)
      (use alerts_grow_rel(1) in \<open>auto simp: scan_row_def eff_defs reflpD split: option.split\<close>)
  show "keeps alerts_grow (alerts_Upsert a)"
    unfolding alerts_Upsert_def by (intro keeps_onErr keeps_stmt keeps_upsert_stmt rel)
  show "keeps alerts_grow (alerts_Acknowledge aid actor note v)"
    unfolding alerts_Acknowledge_def
    by (intro keeps_try keeps_sum keeps_scanE keeps_ack_stmt keeps_ret keeps_fail keeps_if g rel)
qed

lemma alert_step_grow:
  assumes "alert_step d d'"
  shows "alerts_grow d d'"
  using assms
proof cases
  case upsert then show ?thesis by (rule keepsD[OF keeps_alert_ops(1)])
next
  case acknowledge then show ?thesis by (rule keepsD[OF keeps_alert_ops(2)])
next
  case elsewhere
  then show ?thesis by (simp add: alerts_grow_def alerts_inv_def alert_version_def find_alert_def)
qed

lemma alert_run_grow: "alert_step\<^sup>*\<^sup>* d d' \<Longrightarrow> alerts_grow d d'"
  by (induction rule: rtranclp_induct)
     (use alerts_grow_rel alert_step_grow in \<open>blast dest: reflpD transpD\<close>)+

lemma Acknowledge_version:
  assumes "alerts_Acknowledge aid actor note v d = (Inr a, d')" "alerts_inv d" "0 < v"
  shows "alert_version aid d = v" "alert_version aid d' = v + 1" "alerts_inv d'"
proof -
  let ?p = "\<lambda>a. alr_id a = aid \<and> (v > 0 \<longrightarrow> alr_version a = v)"
  obtain r d1 where s: "scanE ''storage: scan alert'' (ack_stmt aid actor note v) d = (r, d1)" by fastforce
  have r: "r = Inr a" "d1 = d'"
    using assms(1) s by (auto simp: alerts_Acknowledge_def tryE_def retE_def failE_def split: sum.splits if_splits prod.splits)
  from s[unfolded r] obtain fs where q: "ack_stmt aid actor note v (d\<lparr>db_faults := fs\<rparr>) = (Inr a, d')"
    by (rule scanE_InrE)
  then obtain b where b: "sql_find ?p (db_alerts d) = Some b"
    and u: "db_alerts d' = sql_update ?p (ack_row actor note (db_now d)) (db_alerts d)"
    by (auto simp: ack_stmt_def Let_def split: option.splits)
  have b': "b \<in> set (db_alerts d)" "alr_id b = aid" "alr_version b = v"
    using sql_find_in[OF b] sql_find_holds[OF b] assms(3) by auto
  have f: "find_alert aid d = Some b"
    unfolding find_alert_def
    by (rule sql_find_key[of alr_id]) (use assms(2) b' in \<open>simp_all add: alerts_inv_def\<close>)
  then show "alert_version aid d = v" using b'(3) by (simp add: alert_version_def)
  have "find_alert aid d' = Some (ack_row actor note (db_now d) b)"
    using f b' by (simp add: find_alert_def u sql_find_update ack_row_def)
  then show "alert_version aid d' = v + 1" using b'(3) by (simp add: alert_version_def ack_row_def)
  show "alerts_inv d'" using keepsD[OF keeps_alert_ops(2) assms(1)] assms(2) by (simp add: alerts_grow_def)
qed

text \<open>
  C38.  Acknowledging is optimistic: of all the operators that saw an alert at one version, at most
  one acknowledges it, whatever the deriver and the other operators do in between and whatever
  fails.
\<close>

theorem alert_acknowledged_once_per_version:
  assumes "alerts_inv d0" "0 < v" "alerts_Acknowledge aid w1 n1 v d0 = (Inr a1, d1)" "alert_step\<^sup>*\<^sup>* d1 d2"
  shows "alerts_Acknowledge aid w2 n2 v d2 \<noteq> (Inr a2, d3)"
proof
  assume again: "alerts_Acknowledge aid w2 n2 v d2 = (Inr a2, d3)"
  note first = Acknowledge_version[OF assms(3,1,2)]
  from alert_run_grow[OF assms(4)] first have g: "alerts_inv d2" "v + 1 \<le> alert_version aid d2"
    unfolding alerts_grow_def by metis+
  from Acknowledge_version(1)[OF again g(1) assms(2)] g(2) show False by simp
qed

subsection \<open>Witnesses\<close>

definition demo_alert :: alert where
  "demo_alert = \<lparr>alr_id = ''al1'', alr_fingerprint = ''f'', alr_status = AlertFiring, alr_severity = ''critical'',
     alr_rtype = ''vm_instance'', alr_rid = ''i1'', alr_title = ''t'', alr_description = ''x'', alr_created = 0,
     alr_updated = 0, alr_ack_at = None, alr_ack_by = None, alr_ack_note = None, alr_version = 1\<rparr>"

definition demo_alerts :: db where
  "demo_alerts = demo_db\<lparr>db_alerts := [demo_alert]\<rparr>"

lemma demo_ack: "alerts_Acknowledge ''al1'' ''ann'' None 1 demo_alerts =
  (Inr (ack_row ''ann'' None 1000 demo_alert), demo_alerts\<lparr>db_alerts := [ack_row ''ann'' None 1000 demo_alert]\<rparr>)"
  by (simp add: alerts_Acknowledge_def tryE_def scanE_def onErr_def ack_stmt_def sql_find_def sql_update_def retE_def
      demo_alerts_def demo_alert_def demo_db_def)

definition demo_alert_page :: db where
  "demo_alert_page = demo_db\<lparr>db_alerts := map (\<lambda>(i, t). demo_alert\<lparr>alr_id := i, alr_created := t\<rparr>)
     [(''al1'', 5), (''al2'', 9), (''al3'', 5)]\<rparr>"


theorem alert_acknowledged_once_per_version_witness:
  "\<exists>a1 d1. alerts_Acknowledge ''al1'' ''ann'' None 1 demo_alerts = (Inr a1, d1) \<and> alr_version a1 = 2 \<and>
     (\<forall>a2 d3. alerts_Acknowledge ''al1'' ''bob'' None 1 d1 \<noteq> (Inr a2, d3))"
proof -
  have i: "alerts_inv demo_alerts" by (simp add: alerts_inv_def demo_alerts_def demo_alert_def)
  have "alerts_Acknowledge ''al1'' ''bob'' None 1 (demo_alerts\<lparr>db_alerts := [ack_row ''ann'' None 1000 demo_alert]\<rparr>) \<noteq> (Inr a2, d3)"
    for a2 d3
    by (rule alert_acknowledged_once_per_version[OF i _ demo_ack rtranclp.rtrancl_refl]) simp
  then show ?thesis using demo_ack by (auto simp: ack_row_def demo_alert_def)
qed

definition demo_unassigned :: db where
  "demo_unassigned = demo_ipam\<lparr>db_instances := [(demo_instance ''i1'')\<lparr>inst_state := InstanceReady\<rparr>]\<rparr>"

theorem scan_is_idempotent_witness:
  "\<exists>d1. Scan demo_unassigned = (Inr 1, d1) \<and> map fnd_rid (db_findings d1) = [Some ''i1''] \<and> fst (Scan d1) = Inr 0"
proof -
  have ok: "db_faults demo_unassigned = []" by (simp add: demo_unassigned_def demo_ipam_defs)
  have one: "fst (Scan demo_unassigned) = Inr 1" "map fnd_rid (db_findings (snd (Scan demo_unassigned))) = [Some ''i1'']"
    by code_simp+
  show ?thesis using scan_is_idempotent[OF ok] one by fastforce
qed

end
