(* ===== verification/Proxmox.thy ===== *)
theory Proxmox
  imports Domain
begin

text \<open>
  The Proxmox adapter, \<open>internal/proxmox\<close>: classifying errors, the HTTP client, the operations on
  VMs and tasks, the guest agent, and the two polling loops.

  What is not under \<open>src/\<close> is the environment \<open>env\<close>: the transport (\<open>http.Client\<close> with the cluster
  behind it), the clock and sleeping, over a state \<open>'x\<close> of the outside world that the model does not
  look into.  Of a response body, \<open>rs_text\<close> is the text and \<open>rs_json\<close> its value when it is a JSON
  document.  The metrics hook of the client has no effect on the program and is left out.
\<close>

section \<open>The environment\<close>

record http_request =
  rq_method :: string
  rq_path :: string
  rq_params :: "(string \<times> string) list"

record http_response =
  rs_status :: int
  rs_text :: string
  rs_json :: raw_json

text \<open>
  \<open>e_sleep\<close> waits for the duration or until the context is cancelled, and says whether it was
  cancelled. \<open>e_fuel\<close> bounds the rounds of a polling loop.
\<close>

record 'x env =
  e_http :: "http_request \<Rightarrow> 'x \<Rightarrow> (err + http_response) \<times> 'x"
  e_now :: "'x \<Rightarrow> time"
  e_sleep :: "duration \<Rightarrow> 'x \<Rightarrow> bool \<times> 'x"
  e_fuel :: nat

section \<open>Types\<close>

record vm_ref =
  vr_node :: string
  vr_vmid :: int

record task_ref =
  tr_node :: string
  tr_upid :: string

record task_status =
  ts_status :: string
  ts_exit :: string

definition Done :: "task_status \<Rightarrow> bool" where
  "Done s \<longleftrightarrow> ts_status s = ''stopped''"

definition Success :: "task_status \<Rightarrow> bool" where
  "Success s \<longleftrightarrow> Done s \<and> ts_exit s = ''OK''"

text \<open>The text of \<open>%+v\<close> of a status.\<close>

definition status_text :: "task_status \<Rightarrow> string" where
  "status_text s = ''{Status:'' @ ts_status s @ '' ExitStatus:'' @ ts_exit s @ ''}''"

record clone_request =
  cr_source_node :: string
  cr_source_vmid :: int
  cr_target_node :: string
  cr_target_vmid :: int
  cr_name :: string
  cr_storage :: string
  cr_pool :: string
  cr_full :: bool
  cr_description :: string

record net_config =
  nc_bridge :: string
  nc_firewall :: bool

record configure_request =
  cf_ref :: vm_ref
  cf_cores :: int
  cf_sockets :: int
  cf_memory :: int
  cf_cpu :: string
  cf_agent :: bool
  cf_onboot :: bool
  cf_net0 :: net_config
  cf_ipconfig0 :: string

record vm_observed =
  vo_ref :: vm_ref
  vo_name :: string
  vo_status :: string
  vo_locked :: string

definition IsRunning :: "vm_observed \<Rightarrow> bool" where
  "IsRunning v \<longleftrightarrow> vo_status v = ''running''"

section \<open>Errors\<close>

definition CodeAuthFailed :: string where "CodeAuthFailed = ''PVE_AUTH_FAILED''"
definition CodeVMIDConflict :: string where "CodeVMIDConflict = ''PVE_VMID_CONFLICT''"
definition CodeBridgeNotFound :: string where "CodeBridgeNotFound = ''PVE_BRIDGE_NOT_FOUND''"
definition CodeStorageCapacity :: string where "CodeStorageCapacity = ''PVE_STORAGE_CAPACITY''"
definition CodeTaskUnknown :: string where "CodeTaskUnknown = ''PVE_TASK_UNKNOWN''"
definition CodeVMLocked :: string where "CodeVMLocked = ''PVE_VM_LOCKED''"
definition CodeTemplateInvalid :: string where "CodeTemplateInvalid = ''PVE_TEMPLATE_INVALID''"
definition CodeGuestAgentUnavail :: string where "CodeGuestAgentUnavail = ''GUEST_AGENT_UNAVAILABLE''"
definition CodeUnknown :: string where "CodeUnknown = ''PVE_UNKNOWN''"

lemmas pve_codes = CodeAuthFailed_def CodeVMIDConflict_def CodeBridgeNotFound_def CodeStorageCapacity_def
  CodeTaskUnknown_def CodeVMLocked_def CodeTemplateInvalid_def CodeGuestAgentUnavail_def CodeUnknown_def

text \<open>The cases in the order of the source, on the lower-cased body.\<close>

definition classify_code :: "int \<Rightarrow> string \<Rightarrow> string" where
  "classify_code httpStatus lower =
     (if httpStatus = 401 \<or> httpStatus = 403 then CodeAuthFailed
      else if contains_str lower ''already exists'' then CodeVMIDConflict
      else if contains_str lower ''bridge'' \<and> (contains_str lower ''does not exist'' \<or> contains_str lower ''not found'')
      then CodeBridgeNotFound
      else if contains_str lower ''no space left'' \<or> contains_str lower ''not enough space'' \<or> contains_str lower ''insufficient''
      then CodeStorageCapacity
      else if contains_str lower ''locked'' then CodeVMLocked
      else if contains_str lower ''unable to parse'' \<and> contains_str lower ''config'' then CodeTemplateInvalid
      else CodeUnknown)"

definition classifyError :: "int \<Rightarrow> string \<Rightarrow> err" where
  "classifyError httpStatus body = PveErr (classify_code httpStatus (to_lower body)) body httpStatus"

definition newGuestAgentUnavailableError :: "string \<Rightarrow> err" where
  "newGuestAgentUnavailableError body = PveErr CodeGuestAgentUnavail body 500"

section \<open>The client\<close>

text \<open>\<open>map[string]json.RawMessage\<close>: \<open>null\<close> leaves the map as it is.\<close>

definition error_doc_step :: "string \<Rightarrow> json \<Rightarrow> (string \<times> (string \<times> json) list) \<times> bool \<Rightarrow> (string \<times> (string \<times> json) list) \<times> bool" where
  "error_doc_step k v st =
     (if jkey k ''message'' then set_str v (\<lambda>s r. (s, snd r)) st
      else if jkey k ''errors'' then (case v of
          JObj kvs \<Rightarrow> ((fst (fst st), snd (fst st) @ kvs), snd st)
        | JNull \<Rightarrow> st
        | _ \<Rightarrow> (fst st, False))
      else st)"

definition extractErrorMessage :: "http_response \<Rightarrow> string" where
  "extractErrorMessage rs = (case unmarshal_with error_doc_step (rs_json rs) ([], []) of ((msg, errs), ok) \<Rightarrow>
     if \<not> ok \<or> (msg = [] \<and> errs = []) then rs_text rs
     else if errs \<noteq> [] then msg @ '' '' @ json_text (json_of_map errs)
     else msg)"

text \<open>The error \<open>encoding/json\<close> returns; its text is the library's.\<close>

definition json_error :: err where
  "json_error = Errf ''json: cannot unmarshal''"

text \<open>\<open>{"data": ...}\<close>: a \<open>RawMessage\<close> keeps \<open>null\<close> as a value, and is empty when the key is absent.\<close>

definition envelope_step :: "string \<Rightarrow> json \<Rightarrow> raw_json \<times> bool \<Rightarrow> raw_json \<times> bool" where
  "envelope_step k v st = (if jkey k ''data'' then (Some v, snd st) else st)"

definition doRequest :: "'x env \<Rightarrow> string \<Rightarrow> string \<Rightarrow> (string \<times> string) list \<Rightarrow> ('x, err, raw_json) eff" where
  "doRequest env meth path params = bindE
     (wrapE (''proxmox: request '' @ meth @ '' '' @ path)
        (e_http env \<lparr>rq_method = meth, rq_path = path, rq_params = params\<rparr>))
     (\<lambda>rs. if rs_status rs \<ge> 300 then failE (classifyError (rs_status rs) (extractErrorMessage rs))
       else case unmarshal_with envelope_step (rs_json rs) None of
           (d, True) \<Rightarrow> retE d
         | (d, False) \<Rightarrow> failE (Wrap (''proxmox: decode envelope '' @ meth @ '' '' @ path) json_error))"

section \<open>Decoding results\<close>

definition parseUPID :: "raw_json \<Rightarrow> err + string" where
  "parseUPID data = (case data of
       Some (JStr s) \<Rightarrow> if s = [] then Inl (Errf ''proxmox: empty upid in response'') else Inr s
     | Some JNull \<Rightarrow> Inl (Errf ''proxmox: empty upid in response'')
     | _ \<Rightarrow> Inl (Wrap ''proxmox: decode upid'' json_error))"

definition raw_text :: "raw_json \<Rightarrow> string" where
  "raw_text d = (case d of None \<Rightarrow> [] | Some v \<Rightarrow> json_text v)"

definition unrecognized_nextid :: "raw_json \<Rightarrow> err" where
  "unrecognized_nextid data = Errf (''proxmox: unrecognized nextid response: '' @ raw_text data)"

text \<open>An integer, a string that \<open>Atoi\<close> accepts, or \<open>null\<close>, which leaves the zero value.\<close>

definition parseFlexibleInt :: "raw_json \<Rightarrow> err + int" where
  "parseFlexibleInt data = (case data of
       Some (JNum n) \<Rightarrow> if - (2 ^ 63) \<le> n \<and> n < 2 ^ 63 then Inr n else Inl (unrecognized_nextid data)
     | Some JNull \<Rightarrow> Inr 0
     | Some (JStr s) \<Rightarrow> (case atoi s of
           Some n \<Rightarrow> Inr n
         | None \<Rightarrow> Inl (Wrap (''proxmox: parse nextid string '' @ json_quote s) (Errf ''strconv.Atoi'')))
     | _ \<Rightarrow> Inl (unrecognized_nextid data))"

definition boolParam :: "bool \<Rightarrow> string" where
  "boolParam b = (if b then ''1'' else ''0'')"

definition buildNet0 :: "net_config \<Rightarrow> string" where
  "buildNet0 n = ''virtio,bridge='' @ nc_bridge n @ (if nc_firewall n then '',firewall=1'' else [])"

definition parseNet0MAC :: "string \<Rightarrow> string" where
  "parseNet0MAC net0 = (let firstField = (case cut_at CHR '','' net0 of None \<Rightarrow> net0 | Some (a, _) \<Rightarrow> a) in
     case cut_at CHR ''='' firstField of None \<Rightarrow> [] | Some (_, mac) \<Rightarrow> to_lower mac)"

text \<open>A result that a pure decoder turns into a value or an error.\<close>

definition ofE :: "'e + 'a \<Rightarrow> ('s, 'e, 'a) eff" where
  "ofE r s = (r, s)"

definition qemu_path :: "vm_ref \<Rightarrow> string \<Rightarrow> string" where
  "qemu_path r rest = ''/nodes/'' @ vr_node r @ ''/qemu/'' @ itoa (vr_vmid r) @ rest"

section \<open>The adapter\<close>

definition AllocateNextVMID :: "'x env \<Rightarrow> ('x, err, int) eff" where
  "AllocateNextVMID env = bindE (doRequest env ''GET'' ''/cluster/nextid'' []) (\<lambda>data. ofE (parseFlexibleInt data))"

definition task_call :: "'x env \<Rightarrow> string \<Rightarrow> string \<Rightarrow> (string \<times> string) list \<Rightarrow> string \<Rightarrow> ('x, err, task_ref) eff" where
  "task_call env meth path params node = bindE (doRequest env meth path params) (\<lambda>data.
     bindE (ofE (parseUPID data)) (\<lambda>upid. retE \<lparr>tr_node = node, tr_upid = upid\<rparr>))"

definition opt_param :: "string \<Rightarrow> string \<Rightarrow> (string \<times> string) list" where
  "opt_param k v = (if v \<noteq> [] then [(k, v)] else [])"

definition pve_Clone :: "'x env \<Rightarrow> clone_request \<Rightarrow> ('x, err, task_ref) eff" where
  "pve_Clone env rq = task_call env ''POST''
     (qemu_path \<lparr>vr_node = cr_source_node rq, vr_vmid = cr_source_vmid rq\<rparr> ''/clone'')
     ([(''newid'', itoa (cr_target_vmid rq)), (''full'', boolParam (cr_full rq))]
      @ opt_param ''name'' (cr_name rq) @ opt_param ''storage'' (cr_storage rq) @ opt_param ''pool'' (cr_pool rq)
      @ opt_param ''description'' (cr_description rq)
      @ (if cr_target_node rq \<noteq> [] \<and> cr_target_node rq \<noteq> cr_source_node rq
         then [(''target'', cr_target_node rq)] else []))
     (cr_source_node rq)"

definition pos_param :: "string \<Rightarrow> int \<Rightarrow> (string \<times> string) list" where
  "pos_param k n = (if n > 0 then [(k, itoa n)] else [])"

definition pve_Configure :: "'x env \<Rightarrow> configure_request \<Rightarrow> ('x, err, task_ref) eff" where
  "pve_Configure env rq = task_call env ''POST'' (qemu_path (cf_ref rq) ''/config'')
     (pos_param ''cores'' (cf_cores rq) @ pos_param ''sockets'' (cf_sockets rq) @ pos_param ''memory'' (cf_memory rq)
      @ opt_param ''cpu'' (cf_cpu rq)
      @ [(''agent'', boolParam (cf_agent rq)), (''onboot'', boolParam (cf_onboot rq))]
      @ (if nc_bridge (cf_net0 rq) \<noteq> [] then [(''net0'', buildNet0 (cf_net0 rq))] else [])
      @ opt_param ''ipconfig0'' (cf_ipconfig0 rq))
     (vr_node (cf_ref rq))"

definition statusAction :: "'x env \<Rightarrow> vm_ref \<Rightarrow> string \<Rightarrow> ('x, err, task_ref) eff" where
  "statusAction env r action = task_call env ''POST'' (qemu_path r (''/status/'' @ action)) [] (vr_node r)"

definition pve_Start :: "'x env \<Rightarrow> vm_ref \<Rightarrow> ('x, err, task_ref) eff" where
  "pve_Start env r = statusAction env r ''start''"

definition pve_Stop :: "'x env \<Rightarrow> vm_ref \<Rightarrow> ('x, err, task_ref) eff" where
  "pve_Stop env r = statusAction env r ''stop''"

definition pve_Delete :: "'x env \<Rightarrow> vm_ref \<Rightarrow> bool \<Rightarrow> ('x, err, task_ref) eff" where
  "pve_Delete env r purge = task_call env ''DELETE'' (qemu_path r []) [(''purge'', boolParam purge)] (vr_node r)"

definition task_doc_step :: "string \<Rightarrow> json \<Rightarrow> task_status \<times> bool \<Rightarrow> task_status \<times> bool" where
  "task_doc_step k v st =
     (if jkey k ''status'' then set_str v (\<lambda>s r. r\<lparr>ts_status := s\<rparr>) st
      else if jkey k ''exitstatus'' then set_str v (\<lambda>s r. r\<lparr>ts_exit := s\<rparr>) st
      else st)"

definition decode_or :: "string \<Rightarrow> 'r \<times> bool \<Rightarrow> err + 'r" where
  "decode_or m d = (if snd d then Inr (fst d) else Inl (Wrap m json_error))"

definition GetTask :: "'x env \<Rightarrow> task_ref \<Rightarrow> ('x, err, task_status) eff" where
  "GetTask env t = bindE
     (doRequest env ''GET'' (''/nodes/'' @ tr_node t @ ''/tasks/'' @ tr_upid t @ ''/status'') [])
     (\<lambda>data. ofE (decode_or ''proxmox: decode task status''
        (unmarshal_with task_doc_step data \<lparr>ts_status = [], ts_exit = []\<rparr>)))"

definition vm_doc_step :: "string \<Rightarrow> json \<Rightarrow> vm_observed \<times> bool \<Rightarrow> vm_observed \<times> bool" where
  "vm_doc_step k v st =
     (if jkey k ''name'' then set_str v (\<lambda>s r. r\<lparr>vo_name := s\<rparr>) st
      else if jkey k ''status'' then set_str v (\<lambda>s r. r\<lparr>vo_status := s\<rparr>) st
      else if jkey k ''lock'' then set_str v (\<lambda>s r. r\<lparr>vo_locked := s\<rparr>) st
      else st)"

definition GetVM :: "'x env \<Rightarrow> vm_ref \<Rightarrow> ('x, err, vm_observed) eff" where
  "GetVM env r = bindE (doRequest env ''GET'' (qemu_path r ''/status/current'') [])
     (\<lambda>data. ofE (decode_or ''proxmox: decode vm status''
        (unmarshal_with vm_doc_step data \<lparr>vo_ref = r, vo_name = [], vo_status = [], vo_locked = []\<rparr>)))"

definition net0_doc_step :: "string \<Rightarrow> json \<Rightarrow> string \<times> bool \<Rightarrow> string \<times> bool" where
  "net0_doc_step k v st = (if jkey k ''net0'' then set_str v (\<lambda>s r. s) st else st)"

text \<open>\<open>VMConfig\<close> has the one field \<open>Net0MAC\<close>.\<close>

definition GetConfig :: "'x env \<Rightarrow> vm_ref \<Rightarrow> ('x, err, string) eff" where
  "GetConfig env r = bindE (doRequest env ''GET'' (qemu_path r ''/config'') [])
     (\<lambda>data. bindE (ofE (decode_or ''proxmox: decode vm config'' (unmarshal_with net0_doc_step data [])))
        (\<lambda>net0. retE (parseNet0MAC net0)))"

definition GuestPing :: "'x env \<Rightarrow> vm_ref \<Rightarrow> ('x, err, unit) eff" where
  "GuestPing env r = tryE (doRequest env ''POST'' (qemu_path r ''/agent/ping'') []) (\<lambda>res. case res of
       Inr _ \<Rightarrow> retE ()
     | Inl e \<Rightarrow> (case errors_as_pve e of
           Some (code, msg, _) \<Rightarrow> if code = CodeUnknown then failE (newGuestAgentUnavailableError msg) else failE e
         | None \<Rightarrow> failE e))"

section \<open>Waiting for a task\<close>

definition backoff_waits :: "int list" where
  "backoff_waits = [1, 2, 3, 5, 8]"

definition wait_before :: "nat \<Rightarrow> duration" where
  "wait_before attempt = seconds (if attempt < length backoff_waits then backoff_waits ! attempt else 10)"

fun wait_loop :: "'x env \<Rightarrow> task_ref \<Rightarrow> time \<Rightarrow> nat \<Rightarrow> nat \<Rightarrow> ('x, err, task_status) eff" where
  "wait_loop env t deadline 0 attempt = failE OutOfFuel"
| "wait_loop env t deadline (Suc fuel) attempt = bindE (GetTask env t) (\<lambda>status.
     if Done status then retE status
     else bindE (getE (e_now env)) (\<lambda>now.
       if now > deadline then failE (PveErr CodeTaskUnknown ''task did not finish within timeout'' 0)
       else (\<lambda>x. case e_sleep env (wait_before attempt) x of
           (True, x') \<Rightarrow> (Inl CtxDone, x')
         | (False, x') \<Rightarrow> wait_loop env t deadline fuel (attempt + 1) x')))"

definition WaitForTask :: "'x env \<Rightarrow> task_ref \<Rightarrow> duration \<Rightarrow> ('x, err, task_status) eff" where
  "WaitForTask env t overallTimeout = bindE (getE (e_now env)) (\<lambda>now.
     wait_loop env t (now + overallTimeout) (e_fuel env) 0)"

section \<open>The guest agent\<close>

record exec_result =
  ex_exited :: bool
  ex_code :: int
  ex_stdout :: string
  ex_stderr :: string

definition pid_doc_step :: "string \<Rightarrow> json \<Rightarrow> int \<times> bool \<Rightarrow> int \<times> bool" where
  "pid_doc_step k v st = (if jkey k ''pid'' then set_int v (\<lambda>n r. n) st else st)"

definition guest_Exec :: "'x env \<Rightarrow> vm_ref \<Rightarrow> string list \<Rightarrow> ('x, err, int) eff" where
  "guest_Exec env r command = bindE (doRequest env ''POST'' (qemu_path r ''/agent/exec'') (map (\<lambda>c. (''command'', c)) command))
     (\<lambda>data. ofE (decode_or ''proxmox: decode exec pid'' (unmarshal_with pid_doc_step data 0)))"

text \<open>\<open>exited\<close> arrives as an integer.\<close>

definition exec_doc_step :: "string \<Rightarrow> json \<Rightarrow> exec_result \<times> bool \<Rightarrow> exec_result \<times> bool" where
  "exec_doc_step k v st =
     (if jkey k ''exited'' then set_int v (\<lambda>n r. r\<lparr>ex_exited := n \<noteq> 0\<rparr>) st
      else if jkey k ''exitcode'' then set_int v (\<lambda>n r. r\<lparr>ex_code := n\<rparr>) st
      else if jkey k ''out-data'' then set_str v (\<lambda>s r. r\<lparr>ex_stdout := s\<rparr>) st
      else if jkey k ''err-data'' then set_str v (\<lambda>s r. r\<lparr>ex_stderr := s\<rparr>) st
      else st)"

definition guest_ExecStatus :: "'x env \<Rightarrow> vm_ref \<Rightarrow> int \<Rightarrow> ('x, err, exec_result) eff" where
  "guest_ExecStatus env r pid = bindE (doRequest env ''GET'' (qemu_path r ''/agent/exec-status'') [(''pid'', itoa pid)])
     (\<lambda>data. ofE (decode_or ''proxmox: decode exec-status'' (unmarshal_with exec_doc_step data
        \<lparr>ex_exited = False, ex_code = 0, ex_stdout = [], ex_stderr = []\<rparr>)))"

text \<open>\<open>encoding/base64\<close> with padding, over the bytes of the content.\<close>

definition b64_char :: "nat \<Rightarrow> char" where
  "b64_char n = (if n < 26 then char_of (65 + n) else if n < 52 then char_of (71 + n)
     else if n < 62 then char_of (n - 4) else if n = 62 then CHR ''+'' else CHR 0x2F)"

fun base64 :: "string \<Rightarrow> string" where
  "base64 [] = []"
| "base64 [a] = (let n = of_char a * 65536 in
     [b64_char (n div 262144), b64_char (n div 4096 mod 64), CHR ''='', CHR ''=''])"
| "base64 [a, b] = (let n = of_char a * 65536 + of_char b * 256 in
     [b64_char (n div 262144), b64_char (n div 4096 mod 64), b64_char (n div 64 mod 64), CHR ''=''])"
| "base64 (a # b # c # s) = (let n = of_char a * 65536 + of_char b * 256 + of_char c in
     [b64_char (n div 262144), b64_char (n div 4096 mod 64), b64_char (n div 64 mod 64), b64_char (n mod 64)] @ base64 s)"

definition WriteGuestFile :: "'x env \<Rightarrow> vm_ref \<Rightarrow> string \<Rightarrow> string \<Rightarrow> ('x, err, unit) eff" where
  "WriteGuestFile env r path content = bindE
     (wrapE (''proxmox: write guest file '' @ path) (doRequest env ''POST'' (qemu_path r ''/agent/file-write'')
       [(''file'', path), (''content'', base64 content), (''encode'', ''0'')]))
     (\<lambda>_. retE ())"

fun exec_loop :: "'x env \<Rightarrow> vm_ref \<Rightarrow> int \<Rightarrow> time \<Rightarrow> nat \<Rightarrow> ('x, err, exec_result) eff" where
  "exec_loop env r pid deadline 0 = failE OutOfFuel"
| "exec_loop env r pid deadline (Suc fuel) = bindE (guest_ExecStatus env r pid) (\<lambda>result.
     if ex_exited result then retE result
     else bindE (getE (e_now env)) (\<lambda>now.
       if now > deadline then failE (Errf (''proxmox: exec pid '' @ itoa pid @ '' did not finish within timeout''))
       else (\<lambda>x. case e_sleep env (seconds 1) x of
           (True, x') \<Rightarrow> (Inl CtxDone, x')
         | (False, x') \<Rightarrow> exec_loop env r pid deadline fuel x')))"

definition WaitExec :: "'x env \<Rightarrow> vm_ref \<Rightarrow> string list \<Rightarrow> duration \<Rightarrow> ('x, err, exec_result) eff" where
  "WaitExec env r command timeout = bindE (guest_Exec env r command) (\<lambda>pid.
     bindE (getE (e_now env)) (\<lambda>now. exec_loop env r pid (now + timeout) (e_fuel env)))"

section \<open>The polling loops return\<close>

text \<open>
  What the loops rely on: requests do not turn the clock back, sleeping that is not cancelled takes at
  least its duration, and the transport fails with errors of its own.  \<open>ok\<close> is an invariant of the
  outside world.
\<close>

locale wall_clock =
  fixes env :: "'x env" and ok :: "'x \<Rightarrow> bool"
  assumes http_ok: "ok x \<Longrightarrow> e_http env rq x = (r, x') \<Longrightarrow> ok x' \<and> e_now env x \<le> e_now env x'"
    and http_err: "ok x \<Longrightarrow> e_http env rq x = (Inl e, x') \<Longrightarrow> \<not> errors_is e OutOfFuel"
    and sleep_ok: "ok x \<Longrightarrow> e_sleep env dur x = (c, x') \<Longrightarrow> ok x' \<and> e_now env x \<le> e_now env x' \<and>
      (\<not> c \<longrightarrow> e_now env x + dur \<le> e_now env x')"
begin

definition steady :: "('x, err, 'a) eff \<Rightarrow> bool" where
  "steady m \<longleftrightarrow> (\<forall>x r x'. ok x \<longrightarrow> m x = (r, x') \<longrightarrow> ok x' \<and> e_now env x \<le> e_now env x' \<and>
     (\<forall>e. r = Inl e \<longrightarrow> \<not> errors_is e OutOfFuel))"

lemma steadyD: "steady m \<Longrightarrow> ok x \<Longrightarrow> m x = (r, x') \<Longrightarrow> ok x' \<and> e_now env x \<le> e_now env x'"
  unfolding steady_def by blast

lemma steady_no_fuel: "steady m \<Longrightarrow> ok x \<Longrightarrow> m x = (Inl e, x') \<Longrightarrow> \<not> errors_is e OutOfFuel"
  unfolding steady_def by blast

lemma steady_ret: "steady (retE v)"
  by (simp add: steady_def retE_def)

lemma steady_fail: "\<not> errors_is e OutOfFuel \<Longrightarrow> steady (failE e)"
  by (simp add: steady_def failE_def)

lemma steady_ofE: "(\<And>e. r = Inl e \<Longrightarrow> \<not> errors_is e OutOfFuel) \<Longrightarrow> steady (ofE r)"
  by (simp add: steady_def ofE_def)

lemma steady_bind:
  assumes "steady m" "\<And>v. steady (k v)"
  shows "steady (bindE m k)"
  unfolding steady_def
proof (intro allI impI)
  fix x r x'
  assume x: "ok x" and run: "bindE m k x = (r, x')"
  obtain v y where m: "m x = (v, y)" by fastforce
  note y = steadyD[OF assms(1) x m]
  show "ok x' \<and> e_now env x \<le> e_now env x' \<and> (\<forall>e. r = Inl e \<longrightarrow> \<not> errors_is e OutOfFuel)"
  proof (cases v)
    case (Inl e)
    with m run y steady_no_fuel[OF assms(1) x] show ?thesis by (auto simp: bindE_def)
  next
    case (Inr w)
    then have k: "k w y = (r, x')" using m run by (simp add: bindE_def)
    from y have "ok y" by simp
    from steadyD[OF assms(2) this k] steady_no_fuel[OF assms(2) this] k y show ?thesis by fastforce
  qed
qed

lemma steady_wrap: "steady m \<Longrightarrow> steady (wrapE msg m)"
  unfolding steady_def onErr_def by (fastforce split: prod.splits sum.splits)

lemma steady_http: "steady (e_http env rq)"
  unfolding steady_def using http_ok http_err by blast

lemma classify_no_fuel: "\<not> errors_is (classifyError st body) OutOfFuel"
  by (simp add: classifyError_def)

lemma steady_request: "steady (doRequest env meth path params)"
  unfolding doRequest_def
proof (intro steady_bind steady_wrap steady_http)
  fix rs
  show "steady (if 300 \<le> rs_status rs then failE (classifyError (rs_status rs) (extractErrorMessage rs))
       else case unmarshal_with envelope_step (rs_json rs) None of
           (d, True) \<Rightarrow> retE d
         | (d, False) \<Rightarrow> failE (Wrap (''proxmox: decode envelope '' @ meth @ '' '' @ path) json_error))"
    by (auto simp: json_error_def classify_no_fuel split: prod.split bool.split intro!: steady_ret steady_fail)
qed

lemma decode_no_fuel: "decode_or m d = Inl e \<Longrightarrow> \<not> errors_is e OutOfFuel"
  by (auto simp: decode_or_def json_error_def split: if_splits)

lemma steady_GetTask: "steady (GetTask env t)"
  unfolding GetTask_def by (intro steady_bind steady_request steady_ofE decode_no_fuel)

lemma steady_ExecStatus: "steady (guest_ExecStatus env r pid)"
  unfolding guest_ExecStatus_def by (intro steady_bind steady_request steady_ofE decode_no_fuel)

lemma steady_Exec: "steady (guest_Exec env r cmd)"
  unfolding guest_Exec_def by (intro steady_bind steady_request steady_ofE decode_no_fuel)

lemma wait_before_ge: "seconds 1 \<le> wait_before k"
proof -
  have "\<forall>i < 5. backoff_waits ! i \<ge> 1"
    by (simp add: backoff_waits_def nth_Cons' numeral_eq_Suc less_Suc_eq)
  then show ?thesis by (auto simp: wait_before_def seconds_def backoff_waits_def)
qed

text \<open>One second at least passes in every round, so the rounds left bound the time left.\<close>

lemma poll_left:
  assumes "\<not> now > deadline" "deadline - now < seconds (int (Suc fuel) - 1)" "now + seconds 1 \<le> now'"
  shows "0 < fuel" "deadline - now' < seconds (int fuel - 1)"
  using assms by (auto simp: seconds_def)

lemma wait_loop_returns:
  assumes "ok x" "0 < fuel" "deadline - e_now env x < seconds (int fuel - 1)" "wait_loop env t deadline fuel k x = (r, x')"
  shows "ok x' \<and> e_now env x \<le> e_now env x' \<and> (\<forall>e. r = Inl e \<longrightarrow> \<not> errors_is e OutOfFuel) \<and>
    (\<forall>s. r = Inr s \<longrightarrow> Done s)"
  using assms
proof (induction fuel arbitrary: x k)
  case 0
  then show ?case by simp
next
  case (Suc fuel)
  obtain g y where g: "GetTask env t x = (g, y)" by fastforce
  note y = steadyD[OF steady_GetTask Suc.prems(1) g]
  show ?case
  proof (cases g)
    case (Inl e)
    with g Suc.prems(4) y steady_no_fuel[OF steady_GetTask Suc.prems(1)] show ?thesis by (auto simp: bindE_def)
  next
    case (Inr s)
    show ?thesis
    proof (cases "Done s \<or> e_now env y > deadline")
      case True
      with g Inr Suc.prems(4) y show ?thesis
        by (auto simp: bindE_def retE_def getE_def failE_def split: if_splits)
    next
      case False
      obtain c z where z: "e_sleep env (wait_before k) y = (c, z)" by fastforce
      from sleep_ok[OF _ z] y have z': "ok z" "e_now env y \<le> e_now env z"
        "\<not> c \<Longrightarrow> e_now env y + wait_before k \<le> e_now env z" by blast+
      show ?thesis
      proof (cases c)
        case True
        with False g Inr z Suc.prems(4) y z' show ?thesis by (auto simp: bindE_def getE_def)
      next
        case nc: False
        have w: "wait_loop env t deadline fuel (k + 1) z = (r, x')"
          using False g Inr z nc Suc.prems(4) by (simp add: bindE_def getE_def)
        have "e_now env x + seconds 1 \<le> e_now env z" using y z'(3)[OF nc] wait_before_ge[of k] by linarith
        with poll_left[of deadline "e_now env x" fuel "e_now env z"] False y Suc.prems(3)
        have "0 < fuel" "deadline - e_now env z < seconds (int fuel - 1)" by auto
        from Suc.IH[OF z'(1) this w] y z'(2) show ?thesis by auto
      qed
    qed
  qed
qed

lemma exec_loop_returns:
  assumes "ok x" "0 < fuel" "deadline - e_now env x < seconds (int fuel - 1)" "exec_loop env v pid deadline fuel x = (r, x')"
  shows "ok x' \<and> e_now env x \<le> e_now env x' \<and> (\<forall>e. r = Inl e \<longrightarrow> \<not> errors_is e OutOfFuel) \<and>
    (\<forall>s. r = Inr s \<longrightarrow> ex_exited s)"
  using assms
proof (induction fuel arbitrary: x)
  case 0
  then show ?case by simp
next
  case (Suc fuel)
  obtain g y where g: "guest_ExecStatus env v pid x = (g, y)" by fastforce
  note y = steadyD[OF steady_ExecStatus Suc.prems(1) g]
  show ?case
  proof (cases g)
    case (Inl e)
    with g Suc.prems(4) y steady_no_fuel[OF steady_ExecStatus Suc.prems(1)] show ?thesis by (auto simp: bindE_def)
  next
    case (Inr s)
    show ?thesis
    proof (cases "ex_exited s \<or> e_now env y > deadline")
      case True
      with g Inr Suc.prems(4) y show ?thesis
        by (auto simp: bindE_def retE_def getE_def failE_def split: if_splits)
    next
      case False
      obtain c z where z: "e_sleep env (seconds 1) y = (c, z)" by fastforce
      from sleep_ok[OF _ z] y have z': "ok z" "e_now env y \<le> e_now env z"
        "\<not> c \<Longrightarrow> e_now env y + seconds 1 \<le> e_now env z" by blast+
      show ?thesis
      proof (cases c)
        case True
        with False g Inr z Suc.prems(4) y z' show ?thesis by (auto simp: bindE_def getE_def)
      next
        case nc: False
        have w: "exec_loop env v pid deadline fuel z = (r, x')"
          using False g Inr z nc Suc.prems(4) by (simp add: bindE_def getE_def)
        have "e_now env x + seconds 1 \<le> e_now env z" using y z'(3)[OF nc] by linarith
        with poll_left[of deadline "e_now env x" fuel "e_now env z"] False y Suc.prems(3)
        have "0 < fuel" "deadline - e_now env z < seconds (int fuel - 1)" by auto
        from Suc.IH[OF z'(1) this w] y z'(2) show ?thesis by auto
      qed
    qed
  qed
qed

text \<open>Fuel for two rounds more than the timeout has seconds.\<close>

lemma WaitForTask_returns:
  assumes "ok x" "0 < e_fuel env" "overall < seconds (int (e_fuel env) - 1)" "WaitForTask env t overall x = (r, x')"
  shows "ok x'" "e_now env x \<le> e_now env x'" "r = Inl e \<Longrightarrow> \<not> errors_is e OutOfFuel" "r = Inr s \<Longrightarrow> Done s"
proof -
  have "wait_loop env t (e_now env x + overall) (e_fuel env) 0 x = (r, x')"
    using assms(4) by (simp add: WaitForTask_def bindE_def getE_def)
  from wait_loop_returns[OF assms(1,2) _ this] assms(3)
  show "ok x'" "e_now env x \<le> e_now env x'" "r = Inl e \<Longrightarrow> \<not> errors_is e OutOfFuel" "r = Inr s \<Longrightarrow> Done s" by auto
qed

lemma WaitExec_returns:
  assumes "ok x" "0 < e_fuel env" "timeout < seconds (int (e_fuel env) - 1)" "WaitExec env v cmd timeout x = (r, x')"
  shows "ok x'" "e_now env x \<le> e_now env x'" "r = Inl e \<Longrightarrow> \<not> errors_is e OutOfFuel" "r = Inr s \<Longrightarrow> ex_exited s"
proof -
  obtain g y where g: "guest_Exec env v cmd x = (g, y)" by fastforce
  note y = steadyD[OF steady_Exec assms(1) g]
  have *: "ok x' \<and> e_now env x \<le> e_now env x' \<and> (\<forall>e. r = Inl e \<longrightarrow> \<not> errors_is e OutOfFuel) \<and>
    (\<forall>s. r = Inr s \<longrightarrow> ex_exited s)"
  proof (cases g)
    case (Inl e)
    with g assms(4) y steady_no_fuel[OF steady_Exec assms(1)] show ?thesis by (auto simp: WaitExec_def bindE_def)
  next
    case (Inr pid)
    have "exec_loop env v pid (e_now env y + timeout) (e_fuel env) y = (r, x')"
      using assms(4) g Inr by (simp add: WaitExec_def bindE_def getE_def)
    from exec_loop_returns[OF _ assms(2) _ this] y assms(3) show ?thesis by auto
  qed
  then show "ok x'" "e_now env x \<le> e_now env x'" "r = Inl e \<Longrightarrow> \<not> errors_is e OutOfFuel" "r = Inr s \<Longrightarrow> ex_exited s" by auto
qed

end

end
