(* ===== verification/MockPve.thy ===== *)
theory MockPve
  imports Proxmox "HOL-Library.AList"
begin

text \<open>
  The mock Proxmox server of the test lab, \<open>testlab/proxmoxmock/server.go\<close>, as a transport: the
  concrete cluster on which the hypotheses about the outside world hold and the properties are
  evaluated.  It counts the side effects it is asked for.  Injected error bodies are plain text.
\<close>

section \<open>State\<close>

record mock_vm =
  mv_node :: string
  mv_running :: bool
  mv_locked :: string
  mv_net0mac :: string

record mock_task =
  mt_node :: string
  mt_polls :: nat
  mt_final :: string

record injected_error =
  ie_status :: int
  ie_body :: string

record mock_server =
  ms_vms :: "(int \<times> mock_vm) list"
  ms_tasks :: "(string \<times> mock_task) list"
  ms_seq :: nat
  ms_next :: int
  ms_clone_calls :: nat
  ms_configure_calls :: nat
  ms_start_calls :: nat
  ms_stop_calls :: nat
  ms_delete_calls :: nat
  ms_clone_err :: "injected_error option"
  ms_configure_err :: "injected_error option"

definition NewServer :: mock_server where
  "NewServer = \<lparr>ms_vms = [], ms_tasks = [], ms_seq = 0, ms_next = 900, ms_clone_calls = 0, ms_configure_calls = 0,
     ms_start_calls = 0, ms_stop_calls = 0, ms_delete_calls = 0, ms_clone_err = None, ms_configure_err = None\<rparr>"

definition RegisterVM :: "int \<Rightarrow> string \<Rightarrow> bool \<Rightarrow> mock_server \<Rightarrow> mock_server" where
  "RegisterVM vmid node running s = s\<lparr>ms_vms := AList.update vmid
     \<lparr>mv_node = node, mv_running = running, mv_locked = [], mv_net0mac = []\<rparr> (ms_vms s)\<rparr>"

definition RegisterCompletedTask :: "string \<Rightarrow> string \<Rightarrow> string \<Rightarrow> mock_server \<Rightarrow> mock_server" where
  "RegisterCompletedTask upid node final s = s\<lparr>ms_tasks := AList.update upid
     \<lparr>mt_node = node, mt_polls = 0, mt_final = final\<rparr> (ms_tasks s)\<rparr>"

section \<open>Replies\<close>

text \<open>\<open>%08X\<close>.\<close>

definition hex_upper :: "nat \<Rightarrow> char" where
  "hex_upper n = (if n < 10 then char_of (48 + n) else char_of (55 + n))"

fun hex_of :: "nat \<Rightarrow> string" where
  "hex_of n = (if n < 16 then [hex_upper n] else hex_of (n div 16) @ [hex_upper (n mod 16)])"

declare hex_of.simps [simp del]

definition mock_upid :: "string \<Rightarrow> nat \<Rightarrow> string" where
  "mock_upid node n = ''UPID:'' @ node @ '':MOCK:'' @ pad_zero 8 (hex_of n) @ ''::qmclone:mock:root@pam:''"

definition newTask :: "string \<Rightarrow> string \<Rightarrow> mock_server \<Rightarrow> string \<times> mock_server" where
  "newTask node final s = (let n = ms_seq s + 1; upid = mock_upid node n in
     (upid, s\<lparr>ms_seq := n, ms_tasks := AList.update upid
        \<lparr>mt_node = node, mt_polls = 1, mt_final = final\<rparr> (ms_tasks s)\<rparr>))"

definition writeError :: "int \<Rightarrow> string \<Rightarrow> http_response" where
  "writeError st body = \<lparr>rs_status = st, rs_text = body, rs_json = None\<rparr>"

definition writeData :: "json \<Rightarrow> http_response" where
  "writeData v = (let doc = JObj [(''data'', v)] in \<lparr>rs_status = 200, rs_text = json_text doc, rs_json = Some doc\<rparr>)"

text \<open>\<open>fmt.Sscanf(s, "%d", &n)\<close>, whose error is ignored: the leading number, or 0.\<close>

definition sscanf_d :: "string \<Rightarrow> int" where
  "sscanf_d s = (if has_prefix ''-'' s then - int (digits_val (takeWhile is_digit (tl s)))
     else int (digits_val (takeWhile is_digit (if has_prefix ''+'' s then tl s else s))))"

definition form_get :: "string \<Rightarrow> (string \<times> string) list \<Rightarrow> string" where
  "form_get k ps = (case map_of ps k of None \<Rightarrow> [] | Some v \<Rightarrow> v)"

section \<open>Handlers\<close>

type_synonym mock_handler = "mock_server \<Rightarrow> http_response \<times> mock_server"

definition handleNextID :: mock_handler where
  "handleNextID s = (let n = ms_next s + 1 in (writeData (JNum n), s\<lparr>ms_next := n\<rparr>))"

definition handleClone :: "string \<Rightarrow> (string \<times> string) list \<Rightarrow> mock_handler" where
  "handleClone node params s0 = (let s = s0\<lparr>ms_clone_calls := ms_clone_calls s0 + 1\<rparr> in
     case ms_clone_err s of
       Some e \<Rightarrow> (writeError (ie_status e) (ie_body e), s\<lparr>ms_clone_err := None\<rparr>)
     | None \<Rightarrow>
       (let newID = sscanf_d (form_get ''newid'' params) in
        if map_of (ms_vms s) newID \<noteq> None
        then (writeError 500 (''unable to create VM '' @ itoa newID @ '' - VM '' @ itoa newID @ '' already exists''), s)
        else (case newTask node ''OK'' (s\<lparr>ms_vms := AList.update newID
                 \<lparr>mv_node = node, mv_running = False, mv_locked = [], mv_net0mac = []\<rparr> (ms_vms s)\<rparr>) of
            (upid, s') \<Rightarrow> (writeData (JStr upid), s'))))"

definition mock_mac :: string where
  "mock_mac = ''de:ad:be:ef:00:01''"

definition handleConfigurePost :: "string \<Rightarrow> int \<Rightarrow> mock_handler" where
  "handleConfigurePost node vmid s0 = (let s = s0\<lparr>ms_configure_calls := ms_configure_calls s0 + 1\<rparr> in
     case ms_configure_err s of
       Some e \<Rightarrow> (writeError (ie_status e) (ie_body e), s\<lparr>ms_configure_err := None\<rparr>)
     | None \<Rightarrow>
       (let s1 = (case map_of (ms_vms s) vmid of
            None \<Rightarrow> s
          | Some vm \<Rightarrow> s\<lparr>ms_vms := AList.update vmid (vm\<lparr>mv_net0mac := mock_mac\<rparr>) (ms_vms s)\<rparr>)
        in case newTask node ''OK'' s1 of (upid, s') \<Rightarrow> (writeData (JStr upid), s')))"

definition handleConfigureGet :: "int \<Rightarrow> mock_handler" where
  "handleConfigureGet vmid s = (let mac = (case map_of (ms_vms s) vmid of
         None \<Rightarrow> mock_mac
       | Some vm \<Rightarrow> if mv_net0mac vm \<noteq> [] then mv_net0mac vm else mock_mac)
     in (writeData (JObj [(''net0'', JStr (''virtio='' @ mac @ '',bridge=vmbr0,firewall=1''))]), s))"

definition handleStatusAction :: "string \<Rightarrow> string \<Rightarrow> int \<Rightarrow> mock_handler" where
  "handleStatusAction action node vmid s0 =
     (let s = (if action = ''start'' then s0\<lparr>ms_start_calls := ms_start_calls s0 + 1\<rparr>
               else if action = ''stop'' then s0\<lparr>ms_stop_calls := ms_stop_calls s0 + 1\<rparr> else s0)
      in case newTask node ''OK'' s of (upid, s1) \<Rightarrow>
        (writeData (JStr upid), (case map_of (ms_vms s1) vmid of
            None \<Rightarrow> s1
          | Some vm \<Rightarrow> s1\<lparr>ms_vms := AList.update vmid (vm\<lparr>mv_running := (action = ''start'')\<rparr>) (ms_vms s1)\<rparr>)))"

definition handleDelete :: "string \<Rightarrow> int \<Rightarrow> mock_handler" where
  "handleDelete node vmid s0 = (let s = s0\<lparr>ms_delete_calls := ms_delete_calls s0 + 1\<rparr> in
     if map_of (ms_vms s) vmid = None
     then (writeError 500 (''Configuration file '' @ [CHR 0x27] @ ''nodes/'' @ node @ ''/qemu/'' @ itoa vmid @ ''.conf''
             @ [CHR 0x27] @ '' does not exist''), s)
     else (case newTask node ''OK'' (s\<lparr>ms_vms := AList.delete vmid (ms_vms s)\<rparr>) of
         (upid, s') \<Rightarrow> (writeData (JStr upid), s')))"

definition handleStatusCurrent :: "int \<Rightarrow> mock_handler" where
  "handleStatusCurrent vmid s = (case map_of (ms_vms s) vmid of
       None \<Rightarrow> (writeError 500 (''no such VM '' @ itoa vmid), s)
     | Some vm \<Rightarrow> (writeData (JObj [(''lock'', JStr (mv_locked vm)), (''name'', JStr (''mock-vm-'' @ itoa vmid)),
         (''status'', JStr (if mv_running vm then ''running'' else ''stopped''))]), s))"

definition handleTaskStatus :: "string \<Rightarrow> mock_handler" where
  "handleTaskStatus upid s = (case map_of (ms_tasks s) upid of
       None \<Rightarrow> (writeError 500 ''no such task'', s)
     | Some t \<Rightarrow> if mt_polls t > 0
         then (writeData (JObj [(''exitstatus'', JStr []), (''status'', JStr ''running'')]),
               s\<lparr>ms_tasks := AList.update upid (t\<lparr>mt_polls := mt_polls t - 1\<rparr>) (ms_tasks s)\<rparr>)
         else (writeData (JObj [(''exitstatus'', JStr (mt_final t)), (''status'', JStr ''stopped'')]), s))"

text \<open>The routes of the mux, on the segments of the path; any other request is its 404.\<close>

definition mock_route :: "http_request \<Rightarrow> mock_handler" where
  "mock_route rq s = (let m = rq_method rq; segs = tl (split_at CHR 0x2F (rq_path rq));
       none = (writeError 404 (''404 page not found'' @ [CHR 0x0A]), s) in
     case segs of
       [a, b] \<Rightarrow> if m = ''GET'' \<and> a = ''cluster'' \<and> b = ''nextid'' then handleNextID s else none
     | [a, node, b, v] \<Rightarrow> if a = ''nodes'' \<and> b = ''qemu'' \<and> m = ''DELETE'' then handleDelete node (sscanf_d v) s else none
     | [a, node, b, v, c] \<Rightarrow>
         if a = ''nodes'' \<and> b = ''qemu'' \<and> c = ''clone'' \<and> m = ''POST'' then handleClone node (rq_params rq) s
         else if a = ''nodes'' \<and> b = ''qemu'' \<and> c = ''config'' \<and> m = ''POST'' then handleConfigurePost node (sscanf_d v) s
         else if a = ''nodes'' \<and> b = ''qemu'' \<and> c = ''config'' \<and> m = ''GET'' then handleConfigureGet (sscanf_d v) s
         else if a = ''nodes'' \<and> b = ''tasks'' \<and> c = ''status'' \<and> m = ''GET'' then handleTaskStatus v s
         else none
     | [a, node, b, v, c, act] \<Rightarrow>
         if a = ''nodes'' \<and> b = ''qemu'' \<and> c = ''status'' \<and> m = ''POST'' \<and> act \<in> {''start'', ''stop''}
         then handleStatusAction act node (sscanf_d v) s
         else if a = ''nodes'' \<and> b = ''qemu'' \<and> c = ''status'' \<and> m = ''GET'' \<and> act = ''current''
         then handleStatusCurrent (sscanf_d v) s
         else none
     | _ \<Rightarrow> none)"

section \<open>The mock as the outside world\<close>

text \<open>The server and a clock that moves when somebody sleeps.\<close>

type_synonym lab = "mock_server \<times> time"

definition lab_env :: "nat \<Rightarrow> lab env" where
  "lab_env fuel = \<lparr>e_http = (\<lambda>rq x. (case mock_route rq (fst x) of (rs, s) \<Rightarrow> (Inr rs, (s, snd x)))),
     e_now = snd, e_sleep = (\<lambda>dur x. (False, (fst x, snd x + max 0 dur))), e_fuel = fuel\<rparr>"

interpretation lab: wall_clock "lab_env fuel" "\<lambda>_. True" for fuel
  by unfold_locales (auto simp: lab_env_def split: prod.splits)

text \<open>
  C35.  Polling a task ends.  Over any transport and clock that move forward, with two rounds of fuel
  more than the timeout has seconds, \<open>WaitForTask\<close> returns: with a terminal status, or with an error
  that is not exhaustion of the fuel; and the clock has not gone back.
\<close>

theorem WaitForTask_terminates:
  assumes "wall_clock env ok" "ok x" "0 < e_fuel env" "overall < seconds (int (e_fuel env) - 1)"
  shows "case WaitForTask env t overall x of
      (Inr s, x') \<Rightarrow> Done s \<and> ok x' \<and> e_now env x \<le> e_now env x'
    | (Inl e, x') \<Rightarrow> \<not> errors_is e OutOfFuel \<and> ok x' \<and> e_now env x \<le> e_now env x'"
proof -
  obtain r x' where w: "WaitForTask env t overall x = (r, x')" by fastforce
  show ?thesis
    using wall_clock.WaitForTask_returns[OF assms(1-4) w] by (cases r) (simp_all add: w)
qed

text \<open>A cluster with one finished task, evaluated.\<close>

definition demo_lab :: lab where
  "demo_lab = (RegisterCompletedTask ''U'' ''pve'' ''OK'' NewServer, 0)"

lemma demo_lab_route:
  "mock_route \<lparr>rq_method = ''GET'', rq_path = ''/nodes/pve/tasks/U/status'', rq_params = []\<rparr> (fst demo_lab) =
    (writeData (JObj [(''exitstatus'', JStr ''OK''), (''status'', JStr ''stopped'')]), fst demo_lab)"
  by (simp add: mock_route_def demo_lab_def handleTaskStatus_def RegisterCompletedTask_def NewServer_def)

theorem WaitForTask_terminates_witness:
  "\<exists>s x'. WaitForTask (lab_env 400) \<lparr>tr_node = ''pve'', tr_upid = ''U''\<rparr> (seconds 300) demo_lab = (Inr s, x') \<and> Done s"
proof -
  have f: "0 < e_fuel (lab_env 400)" "seconds 300 < seconds (int (e_fuel (lab_env 400)) - 1)"
    by (simp_all add: lab_env_def seconds_def)
  obtain r x' where w: "WaitForTask (lab_env 400) \<lparr>tr_node = ''pve'', tr_upid = ''U''\<rparr> (seconds 300) demo_lab = (r, x')"
    by (rule prod.exhaust)
  have "\<exists>s. r = Inr s"
  proof -
    have "GetTask (lab_env 400) \<lparr>tr_node = ''pve'', tr_upid = ''U''\<rparr> demo_lab =
        (Inr \<lparr>ts_status = ''stopped'', ts_exit = ''OK''\<rparr>, demo_lab)"
      using demo_lab_route
      by (simp add: GetTask_def doRequest_def bindE_def onErr_def lab_env_def writeData_def Let_def unmarshal_with_def
          envelope_step_def jkey_def to_lower_def lower_char_def task_doc_step_def set_str_def decode_or_def ofE_def retE_def)
    then show ?thesis
      using w by (auto simp: WaitForTask_def bindE_def getE_def lab_env_def Done_def retE_def numeral_eq_Suc)
  qed
  with WaitForTask_terminates[OF lab.wall_clock_axioms TrueI f, where t = "\<lparr>tr_node = ''pve'', tr_upid = ''U''\<rparr>" and x = demo_lab] w
  show ?thesis by auto
qed

end
