(* ===== verification/World.thy ===== *)
theory World
  imports Database Proxmox
begin

text \<open>
  The state a worker acts on: the database and the rest of the outside world, which the environment of
  \<open>Proxmox\<close> describes.  A database call sees the world's clock as its \<open>now()\<close>.
\<close>

record 'x world =
  w_db :: db
  w_ext :: 'x

type_synonym ('x, 'a) wm = "('x world, err, 'a) eff"

definition onDB :: "'x env \<Rightarrow> 'a dbm \<Rightarrow> ('x, 'a) wm" where
  "onDB env m w = (case m ((w_db w)\<lparr>db_now := e_now env (w_ext w)\<rparr>) of (r, d) \<Rightarrow> (r, w\<lparr>w_db := d\<rparr>))"

definition onExt :: "('x, err, 'a) eff \<Rightarrow> ('x, 'a) wm" where
  "onExt m w = (case m (w_ext w) of (r, x) \<Rightarrow> (r, w\<lparr>w_ext := x\<rparr>))"

text \<open>\<open>time.Now()\<close>.\<close>

definition nowE :: "'x env \<Rightarrow> ('x, time) wm" where
  "nowE env = onExt (getE (e_now env))"

lemma onDB_run:
  assumes "onDB env m w = (r, w')"
  obtains d where "m ((w_db w)\<lparr>db_now := e_now env (w_ext w)\<rparr>) = (r, d)" "w' = w\<lparr>w_db := d\<rparr>"
  using assms by (auto simp: onDB_def split: prod.splits)

lemma onExt_run:
  assumes "onExt m w = (r, w')"
  obtains x where "m (w_ext w) = (r, x)" "w' = w\<lparr>w_ext := x\<rparr>"
  using assms by (auto simp: onExt_def split: prod.splits)

lemma keeps_onExt: "(\<And>w x. R w (w\<lparr>w_ext := x\<rparr>)) \<Longrightarrow> keeps R (onExt m)"
  by (auto simp: keeps_def onExt_def split: prod.splits)

lemma keeps_onDB:
  assumes "keeps Q m" "\<And>w d. Q ((w_db w)\<lparr>db_now := e_now env (w_ext w)\<rparr>) d \<Longrightarrow> R w (w\<lparr>w_db := d\<rparr>)"
  shows "keeps R (onDB env m)"
  using assms by (auto simp: keeps_def onDB_def split: prod.splits) (metis snd_conv)

lemma nowE_run: "nowE env w = (Inr (e_now env (w_ext w)), w)"
  by (simp add: nowE_def onExt_def getE_def)

lemma same_tables_now [simp]: "same_tables d (d\<lparr>db_now := t\<rparr>)"
  by (simp add: same_tables_def tables_def)

text \<open>An invariant of the tables is kept by what happens outside, and by a database call that keeps it.\<close>

abbreviation w_preserves :: "(db \<Rightarrow> bool) \<Rightarrow> ('x, 'a) wm \<Rightarrow> bool" where
  "w_preserves I \<equiv> keeps (\<lambda>w w'. I (w_db w) \<longrightarrow> I (w_db w'))"

lemma w_preserves_onExt: "w_preserves I (onExt m)"
  by (rule keeps_onExt) simp

lemma tab_inv_now: "tab_inv I \<Longrightarrow> I (d\<lparr>db_now := t\<rparr>) = I d"
  unfolding tab_inv_def using same_tables_now by blast

lemma w_preserves_onDB: "tab_inv I \<Longrightarrow> preserves I m \<Longrightarrow> w_preserves I (onDB env m)"
  by (erule keeps_onDB) (simp add: tab_inv_now)

lemma reflp_w_inv: "reflp (\<lambda>w w'. I (w_db w) \<longrightarrow> I (w_db w'))"
  by (simp add: reflpI)

lemma transp_w_inv: "transp (\<lambda>w w'. I (w_db w) \<longrightarrow> I (w_db w'))"
  by (auto intro: transpI)

end
