(* ===== verification/Golib.thy ===== *)
theory Golib
  imports Domain
begin

text \<open>
  What the program uses of Go's standard library beyond strings and JSON: \<open>time\<close> (the RFC 3339 text of an
  instant, \<open>Duration.String\<close>, \<open>Time.Sub\<close>) and \<open>net.ParseIP\<close> with the two predicates asked of an address.
  Instants are written in UTC, the zone of the containers the program runs in.
\<close>

section \<open>Dates\<close>

text \<open>
  Days since the epoch and dates of the proleptic Gregorian calendar, by eras of 400 years that begin
  on 1 March.
\<close>

definition days_from_civil :: "int \<Rightarrow> int \<Rightarrow> int \<Rightarrow> int" where
  "days_from_civil y m d = (let y' = (if m \<le> 2 then y - 1 else y); era = y' div 400; yoe = y' mod 400;
     doy = (153 * (if m > 2 then m - 3 else m + 9) + 2) div 5 + d - 1;
     doe = yoe * 365 + yoe div 4 - yoe div 100 + doy
   in era * 146097 + doe - 719468)"

definition civil_from_days :: "int \<Rightarrow> int \<times> int \<times> int" where
  "civil_from_days n = (let z = n + 719468; era = z div 146097; doe = z mod 146097;
     yoe = (doe - doe div 1460 + doe div 36524 - doe div 146096) div 365;
     doy = doe - (365 * yoe + yoe div 4 - yoe div 100); mp = (5 * doy + 2) div 153;
     d = doy - (153 * mp + 2) div 5 + 1; m = (if mp < 10 then mp + 3 else mp - 9)
   in (yoe + era * 400 + (if m \<le> 2 then 1 else 0), m, d))"

definition leap_year :: "int \<Rightarrow> bool" where
  "leap_year y \<longleftrightarrow> y mod 4 = 0 \<and> (y mod 100 \<noteq> 0 \<or> y mod 400 = 0)"

definition days_in :: "int \<Rightarrow> int \<Rightarrow> int" where
  "days_in m y = (if m = 2 then (if leap_year y then 29 else 28) else if m \<in> {4, 6, 9, 11} then 30 else 31)"

section \<open>RFC 3339\<close>

fun trim_zeros :: "string \<Rightarrow> string" where
  "trim_zeros s = rev (dropWhile (\<lambda>c. c = CHR ''0'') (rev s))"

definition pad_int :: "nat \<Rightarrow> int \<Rightarrow> string" where
  "pad_int w n = pad_zero w (digits_of (nat n))"

text \<open>\<open>Time.MarshalJSON\<close>: RFC 3339 with nanoseconds, for years 0 to 9999.\<close>

definition year_of :: "time \<Rightarrow> int" where
  "year_of t = fst (civil_from_days (t div 86400000000000))"

definition time_text :: "time \<Rightarrow> string" where
  "time_text t = (case civil_from_days (t div 86400000000000) of (y, m, d) \<Rightarrow>
     let sec = (t div 1000000000) mod 86400; ns = t mod 1000000000 in
     pad_int 4 y @ ''-'' @ pad_int 2 m @ ''-'' @ pad_int 2 d @ ''T'' @ pad_int 2 (sec div 3600) @ '':''
     @ pad_int 2 (sec div 60 mod 60) @ '':'' @ pad_int 2 (sec mod 60)
     @ (if ns = 0 then [] else ''.'' @ trim_zeros (pad_int 9 ns)) @ ''Z'')"

definition marshal_time :: "time \<Rightarrow> err + json" where
  "marshal_time t = (if 0 \<le> year_of t \<and> year_of t \<le> 9999 then Inr (JStr (time_text t))
     else Inl (Errf ''json: error calling MarshalJSON for type time.Time: year outside of range [0,9999]''))"

text \<open>\<open>time.Parse(time.RFC3339, s)\<close>, with what it tolerates: an hour of one digit, and a fraction of
  the second after a point or a comma.\<close>

definition get2 :: "string \<Rightarrow> (int \<times> string) option" where
  "get2 s = (case s of a # b # r \<Rightarrow> if is_digit a \<and> is_digit b then Some (int (digits_val [a, b]), r) else None
     | _ \<Rightarrow> None)"

definition get12 :: "string \<Rightarrow> (int \<times> string) option" where
  "get12 s = (case s of [] \<Rightarrow> None
     | a # r \<Rightarrow> if \<not> is_digit a then None else (case get2 s of Some v \<Rightarrow> Some v | None \<Rightarrow> Some (int (digits_val [a]), r)))"

definition get_lit :: "char \<Rightarrow> string \<Rightarrow> string option" where
  "get_lit c s = (case s of [] \<Rightarrow> None | a # r \<Rightarrow> if a = c then Some r else None)"

definition get_fraction :: "string \<Rightarrow> int \<times> string" where
  "get_fraction s = (case s of
       c # d # r \<Rightarrow> if (c = CHR ''.'' \<or> c = CHR '','') \<and> is_digit d
         then (let ds = takeWhile is_digit (d # r); kept = take 9 ds in
           (int (digits_val (kept @ replicate (9 - length kept) CHR ''0'')), dropWhile is_digit (d # r)))
         else (0, s)
     | _ \<Rightarrow> (0, s))"

definition get_zone :: "string \<Rightarrow> (int \<times> string) option" where
  "get_zone s = (case s of
       c # r \<Rightarrow> if c = CHR ''Z'' then Some (0, r)
         else Option.bind (get2 r) (\<lambda>(hh, r1). Option.bind (get_lit CHR '':'' r1) (\<lambda>r2. Option.bind (get2 r2) (\<lambda>(mm, r3).
           if hh > 24 \<or> mm > 60 then None
           else if c = CHR ''+'' then Some ((hh * 60 + mm) * 60, r3)
           else if c = CHR ''-'' then Some (- ((hh * 60 + mm) * 60), r3) else None)))
     | [] \<Rightarrow> None)"

definition parse_rfc3339 :: "string \<Rightarrow> time option" where
  "parse_rfc3339 s =
     (if length s < 4 \<or> \<not> list_all is_digit (take 4 s) then None
      else let y = int (digits_val (take 4 s)) in
        Option.bind (get_lit CHR ''-'' (drop 4 s)) (\<lambda>s1. Option.bind (get2 s1) (\<lambda>(m, s2).
        if m \<le> 0 \<or> 12 < m then None else
        Option.bind (get_lit CHR ''-'' s2) (\<lambda>s3. Option.bind (get2 s3) (\<lambda>(d, s4).
        Option.bind (get_lit CHR ''T'' s4) (\<lambda>s5. Option.bind (get12 s5) (\<lambda>(hh, s6).
        if 24 \<le> hh then None else
        Option.bind (get_lit CHR '':'' s6) (\<lambda>s7. Option.bind (get2 s7) (\<lambda>(mi, s8).
        if 60 \<le> mi then None else
        Option.bind (get_lit CHR '':'' s8) (\<lambda>s9. Option.bind (get2 s9) (\<lambda>(se, s10).
        if 60 \<le> se then None else
        case get_fraction s10 of (ns, s11) \<Rightarrow>
        Option.bind (get_zone s11) (\<lambda>(off, s12).
        if s12 \<noteq> [] \<or> d < 1 \<or> d > days_in m y then None
        else Some ((days_from_civil y m d * 86400 + hh * 3600 + mi * 60 + se - off) * 1000000000 + ns)))))))))))))"

section \<open>Durations\<close>

definition max_duration :: int where "max_duration = 2 ^ 63 - 1"

text \<open>\<open>Time.Sub\<close> saturates.\<close>

definition time_sub :: "time \<Rightarrow> time \<Rightarrow> duration" where
  "time_sub t u = max (- (2 ^ 63)) (min max_duration (t - u))"

text \<open>The fraction \<open>v mod 10 ^ prec\<close> in \<open>prec\<close> digits without trailing zeros, and its point.\<close>

definition frac_text :: "nat \<Rightarrow> int \<Rightarrow> string" where
  "frac_text prec v = (let s = trim_zeros (pad_int prec (v mod 10 ^ prec)) in if s = [] then [] else ''.'' @ s)"

definition duration_text :: "duration \<Rightarrow> string" where
  "duration_text d = (let u = abs d; s = u div 1000000000 in
     (if d < 0 then ''-'' else []) @
     (if u = 0 then ''0s''
      else if u < 1000 then itoa u @ ''ns''
      else if u < 1000000 then itoa (u div 1000) @ frac_text 3 u @ [CHR 0xC2, CHR 0xB5] @ ''s''
      else if u < 1000000000 then itoa (u div 1000000) @ frac_text 6 u @ ''ms''
      else (if s \<ge> 3600 then itoa (s div 3600) @ ''h'' else []) @
           (if s \<ge> 60 then itoa (s div 60 mod 60) @ ''m'' else []) @
           itoa (s mod 60) @ frac_text 9 u @ ''s''))"

section \<open>IP addresses\<close>

text \<open>\<open>net.ParseIP\<close>: the eight groups of an IPv6 address, an IPv4 address as its mapped one.\<close>

fun v4_fields :: "string list \<Rightarrow> nat list option" where
  "v4_fields [] = Some []"
| "v4_fields (f # fs) =
     (if f = [] \<or> \<not> list_all is_digit f \<or> length f > 3 \<or> (length f > 1 \<and> hd f = CHR ''0'') \<or> digits_val f > 255 then None
      else map_option (\<lambda>r. digits_val f # r) (v4_fields fs))"

definition parse_v4 :: "string \<Rightarrow> (nat \<times> nat) option" where
  "parse_v4 s = (case v4_fields (split_at CHR ''.'' s) of Some [a, b, c, d] \<Rightarrow> Some (a * 256 + b, c * 256 + d) | _ \<Rightarrow> None)"

definition hex_val :: "char \<Rightarrow> nat option" where
  "hex_val c = (if is_digit c then Some (of_char c - 48)
     else if CHR ''a'' \<le> c \<and> c \<le> CHR ''f'' then Some (of_char c - 87)
     else if CHR ''A'' \<le> c \<and> c \<le> CHR ''F'' then Some (of_char c - 55) else None)"

definition hex_group :: "string \<Rightarrow> nat option" where
  "hex_group s = (if s = [] \<or> length s > 4 then None
     else foldl (\<lambda>acc c. case (acc, hex_val c) of (Some n, Some v) \<Rightarrow> Some (16 * n + v) | _ \<Rightarrow> None) (Some 0) s)"

text \<open>Groups between colons; the last may be a dotted address, which counts for two.\<close>

fun v6_groups :: "string list \<Rightarrow> nat list option" where
  "v6_groups [] = Some []"
| "v6_groups [w] = (if CHR ''.'' \<in> set w then map_option (\<lambda>(a, b). [a, b]) (parse_v4 w) else map_option (\<lambda>g. [g]) (hex_group w))"
| "v6_groups (w # ws) = (case (hex_group w, v6_groups ws) of (Some g, Some gs) \<Rightarrow> Some (g # gs) | _ \<Rightarrow> None)"

fun cut_double_colon :: "string \<Rightarrow> (string \<times> string) option" where
  "cut_double_colon (a # b # s) = (if a = CHR '':'' \<and> b = CHR '':'' then Some ([], s)
     else map_option (\<lambda>(x, y). (a # x, y)) (cut_double_colon (b # s)))"
| "cut_double_colon s = None"

definition colon_groups :: "string \<Rightarrow> nat list option" where
  "colon_groups s = (if s = [] then Some [] else v6_groups (split_at CHR '':'' s))"

definition parse_v6 :: "string \<Rightarrow> nat list option" where
  "parse_v6 s = (case cut_double_colon s of
       None \<Rightarrow> (case v6_groups (split_at CHR '':'' s) of Some gs \<Rightarrow> if length gs = 8 then Some gs else None | None \<Rightarrow> None)
     | Some (a, b) \<Rightarrow> (case (if CHR ''.'' \<in> set a then None else colon_groups a, colon_groups b) of
           (Some gs, Some hs) \<Rightarrow> if length gs + length hs \<le> 7
             then Some (gs @ replicate (8 - length gs - length hs) 0 @ hs) else None
         | _ \<Rightarrow> None))"

fun first_of :: "string \<Rightarrow> char option" where
  "first_of [] = None"
| "first_of (c # s) = (if c \<in> {CHR ''.'', CHR '':'', CHR ''%''} then Some c else first_of s)"

definition ParseIP :: "string \<Rightarrow> nat list option" where
  "ParseIP s = (case first_of s of
       Some c \<Rightarrow> if c = CHR ''.'' then map_option (\<lambda>(a, b). [0, 0, 0, 0, 0, 65535, a, b]) (parse_v4 s)
         else if c = CHR '':'' then parse_v6 s else None
     | None \<Rightarrow> None)"

definition is_mapped_v4 :: "nat list \<Rightarrow> bool" where
  "is_mapped_v4 gs \<longleftrightarrow> take 6 gs = [0, 0, 0, 0, 0, 65535]"

definition IsLinkLocalUnicast :: "nat list \<Rightarrow> bool" where
  "IsLinkLocalUnicast gs \<longleftrightarrow> (if is_mapped_v4 gs then gs ! 6 = 0xA9FE else 0xFE80 \<le> hd gs \<and> hd gs \<le> 0xFEBF)"

definition IsLoopback :: "nat list \<Rightarrow> bool" where
  "IsLoopback gs \<longleftrightarrow> (if is_mapped_v4 gs then gs ! 6 div 256 = 127 else gs = [0, 0, 0, 0, 0, 0, 0, 1])"

end
