(* ===== verification/Guest.thy ===== *)
theory Guest
  imports Golib Proxmox "HOL-Library.AList"
begin

text \<open>
  The guest facts, \<open>internal/guest/facts.go\<close>: one script run through the guest agent, its JSON output
  decoded and flattened.  \<open>parse\<close> is the reader of JSON text: the value of a document, \<open>None\<close> when the
  text is not one.  The iteration order of a Go map is arbitrary: \<open>order\<close> puts its entries in the order
  of one \<open>range\<close> loop.  \<open>fc_ssh_made\<close> says whether the map of fingerprints was made, or is still nil.
\<close>

section \<open>Facts\<close>

definition factsScript :: string where
  "factsScript =
    [CHR 0x0A] @ ''mid=$(cat /etc/machine-id 2>/dev/null || echo '' @ [CHR 0x22, CHR 0x22] @ '')'' @ [CHR 0x0A]
    @ ''bootid=$(cat /proc/sys/kernel/random/boot_id 2>/dev/null || echo '' @ [CHR 0x22, CHR 0x22] @ '')'' @ [CHR 0x0A]
    @ ''host=$(hostname 2>/dev/null || echo '' @ [CHR 0x22, CHR 0x22] @ '')'' @ [CHR 0x0A]
    @ ''ci_id=$(cat /var/lib/cloud/data/instance-id 2>/dev/null || echo '' @ [CHR 0x22, CHR 0x22] @ '')'' @ [CHR 0x0A]
    @ ''ssh_fps=$(for k in /etc/ssh/ssh_host_*_key.pub; do [ -f '' @ [CHR 0x22] @ ''$k'' @ [CHR 0x22] @ '' ] && printf ''
    @ [CHR 0x27] @ ''%s:%s,'' @ [CHR 0x27] @ '' '' @ [CHR 0x22] @ ''$(basename '' @ [CHR 0x22] @ ''$k'' @ [CHR 0x22] @ '')''
    @ [CHR 0x22] @ '' '' @ [CHR 0x22] @ ''$(ssh-keygen -lf '' @ [CHR 0x22] @ ''$k'' @ [CHR 0x22] @ '' 2>/dev/null | awk ''
    @ [CHR 0x27] @ ''{print $2}'' @ [CHR 0x27] @ '')'' @ [CHR 0x22] @ ''; done | sed '' @ [CHR 0x27] @ ''s/,$//''
    @ [CHR 0x27] @ '' 2>/dev/null || echo '' @ [CHR 0x22, CHR 0x22] @ '')'' @ [CHR 0x0A]
    @ ''osrel=$( (. /etc/os-release 2>/dev/null && echo '' @ [CHR 0x22] @ ''$PRETTY_NAME'' @ [CHR 0x22] @ '') || echo ''
    @ [CHR 0x22, CHR 0x22] @ '')'' @ [CHR 0x0A] @ ''kernel=$(uname -r 2>/dev/null || echo '' @ [CHR 0x22, CHR 0x22] @ '')''
    @ [CHR 0x0A] @ ''nic_count=$(ip -o link show 2>/dev/null | grep -v '' @ [CHR 0x27] @ '' lo:'' @ [CHR 0x27]
    @ '' | wc -l)'' @ [CHR 0x0A] @ ''def4=$(ip -4 route show default 2>/dev/null | wc -l)'' @ [CHR 0x0A]
    @ ''def6=$(ip -6 route show default 2>/dev/null | wc -l)'' @ [CHR 0x0A]
    @ ''link_json=$(ip -j link show 2>/dev/null || echo '' @ [CHR 0x27] @ ''[]'' @ [CHR 0x27] @ '')'' @ [CHR 0x0A]
    @ ''addr_json=$(ip -j addr show 2>/dev/null || echo '' @ [CHR 0x27] @ ''[]'' @ [CHR 0x27] @ '')'' @ [CHR 0x0A]
    @ ''route4_json=$(ip -4 -j route show default 2>/dev/null || echo '' @ [CHR 0x27] @ ''[]'' @ [CHR 0x27] @ '')''
    @ [CHR 0x0A] @ ''printf '' @ [CHR 0x27] @ ''{'' @ [CHR 0x22] @ ''machine_id'' @ [CHR 0x22] @ '':'' @ [CHR 0x22] @ ''%s''
    @ [CHR 0x22] @ '','' @ [CHR 0x22] @ ''boot_id'' @ [CHR 0x22] @ '':'' @ [CHR 0x22] @ ''%s'' @ [CHR 0x22] @ '',''
    @ [CHR 0x22] @ ''hostname'' @ [CHR 0x22] @ '':'' @ [CHR 0x22] @ ''%s'' @ [CHR 0x22] @ '','' @ [CHR 0x22]
    @ ''cloud_init_instance_id'' @ [CHR 0x22] @ '':'' @ [CHR 0x22] @ ''%s'' @ [CHR 0x22] @ '','' @ [CHR 0x22]
    @ ''ssh_host_key_fingerprints'' @ [CHR 0x22] @ '':'' @ [CHR 0x22] @ ''%s'' @ [CHR 0x22] @ '','' @ [CHR 0x22]
    @ ''os_release'' @ [CHR 0x22] @ '':'' @ [CHR 0x22] @ ''%s'' @ [CHR 0x22] @ '','' @ [CHR 0x22] @ ''kernel_version''
    @ [CHR 0x22] @ '':'' @ [CHR 0x22] @ ''%s'' @ [CHR 0x22] @ '','' @ [CHR 0x22] @ ''nic_count'' @ [CHR 0x22] @ '':%s,''
    @ [CHR 0x22] @ ''default_route_v4_count'' @ [CHR 0x22] @ '':%s,'' @ [CHR 0x22] @ ''default_route_v6_count'' @ [CHR 0x22]
    @ '':%s,'' @ [CHR 0x22] @ ''link_json'' @ [CHR 0x22] @ '':%s,'' @ [CHR 0x22] @ ''addr_json'' @ [CHR 0x22] @ '':%s,''
    @ [CHR 0x22] @ ''route4_json'' @ [CHR 0x22] @ '':%s}'' @ [CHR 0x27] @ '' '' @ [CHR 0x5C, CHR 0x0A] @ ''  '' @ [CHR 0x22]
    @ ''$mid'' @ [CHR 0x22] @ '' '' @ [CHR 0x22] @ ''$bootid'' @ [CHR 0x22] @ '' '' @ [CHR 0x22] @ ''$host'' @ [CHR 0x22]
    @ '' '' @ [CHR 0x22] @ ''$ci_id'' @ [CHR 0x22] @ '' '' @ [CHR 0x22] @ ''$ssh_fps'' @ [CHR 0x22] @ '' '' @ [CHR 0x22]
    @ ''$osrel'' @ [CHR 0x22] @ '' '' @ [CHR 0x22] @ ''$kernel'' @ [CHR 0x22] @ '' '' @ [CHR 0x22] @ ''$nic_count''
    @ [CHR 0x22] @ '' '' @ [CHR 0x22] @ ''$def4'' @ [CHR 0x22] @ '' '' @ [CHR 0x22] @ ''$def6'' @ [CHR 0x22] @ '' ''
    @ [CHR 0x22] @ ''$link_json'' @ [CHR 0x22] @ '' '' @ [CHR 0x22] @ ''$addr_json'' @ [CHR 0x22] @ '' '' @ [CHR 0x22]
    @ ''$route4_json'' @ [CHR 0x22, CHR 0x0A]"

type_synonym map_order = "(string \<times> string) list \<Rightarrow> (string \<times> string) list"

record facts =
  fc_machine_id :: string
  fc_boot_id :: string
  fc_hostname :: string
  fc_cloud_init :: string
  fc_ssh :: "(string \<times> string) list"
  fc_macs :: "string list"
  fc_ipv4 :: "string list"
  fc_ipv6 :: "string list"
  fc_os :: string
  fc_kernel :: string
  fc_nics :: int
  fc_routes4 :: int
  fc_routes6 :: int
  fc_gateway4 :: string
  fc_collected :: time
  fc_ssh_made :: bool

definition sshKeyPreference :: "string list" where
  "sshKeyPreference = [''ssh_host_ed25519_key.pub'', ''ssh_host_ecdsa_key.pub'', ''ssh_host_rsa_key.pub'']"

definition CanonicalSSHFingerprint :: "map_order \<Rightarrow> facts \<Rightarrow> string" where
  "CanonicalSSHFingerprint order f =
     (case find (\<lambda>key. case map_of (fc_ssh f) key of Some fp \<Rightarrow> fp \<noteq> [] | None \<Rightarrow> False) sshKeyPreference of
        Some key \<Rightarrow> the (map_of (fc_ssh f) key)
      | None \<Rightarrow> (case find (\<lambda>fp. fp \<noteq> []) (map snd (order (fc_ssh f))) of Some fp \<Rightarrow> fp | None \<Rightarrow> []))"

section \<open>Decoding\<close>

record raw_facts =
  rf_machine_id :: string
  rf_boot_id :: string
  rf_hostname :: string
  rf_cloud_init :: string
  rf_ssh :: string
  rf_os :: string
  rf_kernel :: string
  rf_nics :: int
  rf_routes4 :: int
  rf_routes6 :: int
  rf_links :: raw_json
  rf_addrs :: raw_json
  rf_routes :: raw_json

definition empty_raw_facts :: raw_facts where
  "empty_raw_facts = \<lparr>rf_machine_id = [], rf_boot_id = [], rf_hostname = [], rf_cloud_init = [], rf_ssh = [],
     rf_os = [], rf_kernel = [], rf_nics = 0, rf_routes4 = 0, rf_routes6 = 0, rf_links = None, rf_addrs = None,
     rf_routes = None\<rparr>"

definition facts_doc_step :: "string \<Rightarrow> json \<Rightarrow> raw_facts \<times> bool \<Rightarrow> raw_facts \<times> bool" where
  "facts_doc_step k v st =
     (if jkey k ''machine_id'' then set_str v (\<lambda>s r. r\<lparr>rf_machine_id := s\<rparr>) st
      else if jkey k ''boot_id'' then set_str v (\<lambda>s r. r\<lparr>rf_boot_id := s\<rparr>) st
      else if jkey k ''hostname'' then set_str v (\<lambda>s r. r\<lparr>rf_hostname := s\<rparr>) st
      else if jkey k ''cloud_init_instance_id'' then set_str v (\<lambda>s r. r\<lparr>rf_cloud_init := s\<rparr>) st
      else if jkey k ''ssh_host_key_fingerprints'' then set_str v (\<lambda>s r. r\<lparr>rf_ssh := s\<rparr>) st
      else if jkey k ''os_release'' then set_str v (\<lambda>s r. r\<lparr>rf_os := s\<rparr>) st
      else if jkey k ''kernel_version'' then set_str v (\<lambda>s r. r\<lparr>rf_kernel := s\<rparr>) st
      else if jkey k ''nic_count'' then set_int v (\<lambda>n r. r\<lparr>rf_nics := n\<rparr>) st
      else if jkey k ''default_route_v4_count'' then set_int v (\<lambda>n r. r\<lparr>rf_routes4 := n\<rparr>) st
      else if jkey k ''default_route_v6_count'' then set_int v (\<lambda>n r. r\<lparr>rf_routes6 := n\<rparr>) st
      else if jkey k ''link_json'' then (fst st\<lparr>rf_links := Some v\<rparr>, snd st)
      else if jkey k ''addr_json'' then (fst st\<lparr>rf_addrs := Some v\<rparr>, snd st)
      else if jkey k ''route4_json'' then (fst st\<lparr>rf_routes := Some v\<rparr>, snd st)
      else st)"

text \<open>
  A slice of structs.  An element of the wrong type stays the zero struct and decoding goes on, so that
  a caller that ignores the error still sees the elements.
\<close>

definition unmarshal_slice :: "(string \<Rightarrow> json \<Rightarrow> 'r \<times> bool \<Rightarrow> 'r \<times> bool) \<Rightarrow> 'r \<Rightarrow> raw_json \<Rightarrow> 'r list \<times> bool" where
  "unmarshal_slice step z raw = (case raw of
       Some (JArr vs) \<Rightarrow> (map (\<lambda>v. fst (unmarshal_with step (Some v) z)) vs,
         list_all (\<lambda>v. snd (unmarshal_with step (Some v) z)) vs)
     | Some JNull \<Rightarrow> ([], True)
     | _ \<Rightarrow> ([], False))"

text \<open>The entries of \<open>ip -j\<close>: (ifname, address), (family, local), (ifname, addr_info), gateway.\<close>

definition link_step :: "string \<Rightarrow> json \<Rightarrow> (string \<times> string) \<times> bool \<Rightarrow> (string \<times> string) \<times> bool" where
  "link_step k v st = (if jkey k ''ifname'' then set_str v (\<lambda>s r. (s, snd r)) st
     else if jkey k ''address'' then set_str v (\<lambda>s r. (fst r, s)) st else st)"

definition info_step :: "string \<Rightarrow> json \<Rightarrow> (string \<times> string) \<times> bool \<Rightarrow> (string \<times> string) \<times> bool" where
  "info_step k v st = (if jkey k ''family'' then set_str v (\<lambda>s r. (s, snd r)) st
     else if jkey k ''local'' then set_str v (\<lambda>s r. (fst r, s)) st else st)"

definition addr_step :: "string \<Rightarrow> json \<Rightarrow> (string \<times> (string \<times> string) list) \<times> bool \<Rightarrow> (string \<times> (string \<times> string) list) \<times> bool" where
  "addr_step k v st = (if jkey k ''ifname'' then set_str v (\<lambda>s r. (s, snd r)) st
     else if jkey k ''addr_info'' then (case unmarshal_slice info_step ([], []) (Some v) of (infos, ok) \<Rightarrow>
       (case v of JArr _ \<Rightarrow> (fst (fst st), infos) | JNull \<Rightarrow> (fst (fst st), infos) | _ \<Rightarrow> fst st, snd st \<and> ok))
     else st)"

definition route_step :: "string \<Rightarrow> json \<Rightarrow> string \<times> bool \<Rightarrow> string \<times> bool" where
  "route_step k v st = (if jkey k ''gateway'' then set_str v (\<lambda>s r. s) st else st)"

definition global_v6 :: "string \<Rightarrow> bool" where
  "global_v6 s = (case ParseIP s of None \<Rightarrow> False | Some ip \<Rightarrow> \<not> IsLinkLocalUnicast ip \<and> \<not> IsLoopback ip)"

definition parse_fingerprints :: "string \<Rightarrow> (string \<times> string) list" where
  "parse_fingerprints s = (if s = [] then []
     else foldl (\<lambda>m entry. case cut_at CHR '':'' entry of
           Some (key, fp) \<Rightarrow> if key = [] \<or> fp = [] then m else AList.update key fp m
         | None \<Rightarrow> m) [] (split_at CHR '','' s))"

definition normalizeFacts :: "raw_facts \<Rightarrow> facts" where
  "normalizeFacts raw =
     (let links = fst (unmarshal_slice link_step ([], []) (rf_links raw));
          addrs = fst (unmarshal_slice addr_step ([], []) (rf_addrs raw));
          routes4 = fst (unmarshal_slice route_step [] (rf_routes raw));
          infos = concat (map snd (filter (\<lambda>a. fst a \<noteq> ''lo'') addrs))
      in \<lparr>fc_machine_id = rf_machine_id raw, fc_boot_id = rf_boot_id raw, fc_hostname = rf_hostname raw,
          fc_cloud_init = rf_cloud_init raw, fc_ssh = parse_fingerprints (rf_ssh raw),
          fc_macs = map snd (filter (\<lambda>l. fst l \<noteq> ''lo'' \<and> snd l \<noteq> []) links),
          fc_ipv4 = map snd (filter (\<lambda>i. fst i = ''inet'') infos),
          fc_ipv6 = filter global_v6 (map snd (filter (\<lambda>i. fst i = ''inet6'') infos)),
          fc_os = rf_os raw, fc_kernel = rf_kernel raw, fc_nics = rf_nics raw, fc_routes4 = rf_routes4 raw,
          fc_routes6 = rf_routes6 raw, fc_gateway4 = (case routes4 of [] \<Rightarrow> [] | r # _ \<Rightarrow> r), fc_collected = zero_time,
          fc_ssh_made = (rf_ssh raw \<noteq> [])\<rparr>)"

section \<open>Collecting\<close>

definition Collect_facts :: "'x env \<Rightarrow> (string \<Rightarrow> raw_json) \<Rightarrow> vm_ref \<Rightarrow> duration \<Rightarrow> ('x, err, facts) eff" where
  "Collect_facts env parse ref timeout = bindE
     (wrapE ''guest: collect facts exec'' (WaitExec env ref [''bash'', ''-c'', factsScript] timeout))
     (\<lambda>result. if ex_code result \<noteq> 0
       then failE (Errf (''guest: facts script exited '' @ itoa (ex_code result) @ '': stderr='' @ ex_stderr result))
       else bindE (ofE (decode_or (''guest: parse facts (stdout='' @ json_quote (ex_stdout result) @ '')'')
              (unmarshal_with facts_doc_step (parse (ex_stdout result)) empty_raw_facts)))
         (\<lambda>raw. bindE (getE (e_now env)) (\<lambda>now. retE (normalizeFacts raw\<lparr>fc_collected := now\<rparr>))))"

text \<open>The addresses and keys the rules look at come from the guest, without those of the loopback.\<close>

lemma ipv6_are_global: "a \<in> set (fc_ipv6 (normalizeFacts raw)) \<Longrightarrow> global_v6 a"
  by (auto simp: normalizeFacts_def Let_def)

lemma normalize_keeps: "fc_machine_id (normalizeFacts raw) = rf_machine_id raw"
  "fc_hostname (normalizeFacts raw) = rf_hostname raw" "fc_nics (normalizeFacts raw) = rf_nics raw"
  by (simp_all add: normalizeFacts_def Let_def)

lemma AList_update_nonempty:
  assumes "\<forall>kv \<in> set m. snd kv \<noteq> []" "v \<noteq> []"
  shows "\<forall>kv \<in> set (AList.update k v m). snd kv \<noteq> []"
  using assms by (induction m) auto

text \<open>A fingerprint is empty only when the guest reported none, whatever the order of the map.\<close>

lemma fingerprints_nonempty:
  "\<forall>kv \<in> set m. snd kv \<noteq> [] \<Longrightarrow> \<forall>kv \<in> set (foldl (\<lambda>m entry. case cut_at CHR '':'' entry of
       Some (key, fp) \<Rightarrow> if key = [] \<or> fp = [] then m else AList.update key fp m
     | None \<Rightarrow> m) m es). snd kv \<noteq> []"
proof (induction es arbitrary: m)
  case (Cons e es)
  show ?case
  proof (cases "cut_at CHR '':'' e")
    case None
    with Cons show ?thesis by simp
  next
    case (Some kf)
    then show ?thesis using Cons.IH[OF AList_update_nonempty[OF Cons.prems]] Cons.IH[OF Cons.prems]
      by (cases kf) (simp; blast)
  qed
qed simp

lemma parse_fingerprints_nonempty: "\<forall>kv \<in> set (parse_fingerprints s). snd kv \<noteq> []"
  using fingerprints_nonempty[of "[]"] by (simp add: parse_fingerprints_def)

lemma canonical_fingerprint_empty:
  assumes "set (order (fc_ssh f)) = set (fc_ssh f)" "\<forall>kv \<in> set (fc_ssh f). snd kv \<noteq> []"
  shows "CanonicalSSHFingerprint order f = [] \<longleftrightarrow> fc_ssh f = []"
proof (cases "find (\<lambda>key. case map_of (fc_ssh f) key of Some fp \<Rightarrow> fp \<noteq> [] | None \<Rightarrow> False) sshKeyPreference")
  case (Some key)
  then have "case map_of (fc_ssh f) key of Some fp \<Rightarrow> fp \<noteq> [] | None \<Rightarrow> False" by (auto simp: find_Some_iff)
  with Some show ?thesis by (auto simp: CanonicalSSHFingerprint_def split: option.splits)
next
  case None
  show ?thesis
  proof (cases "fc_ssh f")
    case Nil
    with None assms(1) show ?thesis by (simp add: CanonicalSSHFingerprint_def)
  next
    case (Cons kv kvs)
    with assms(1) obtain o' os where o: "order (fc_ssh f) = o' # os" "o' \<in> set (fc_ssh f)"
      by (cases "order (fc_ssh f)") auto
    with None assms(2) Cons show ?thesis by (auto simp: CanonicalSSHFingerprint_def)
  qed
qed

end
