(* ===== verification/Pgw.thy ===== *)
theory Pgw
  imports Domain
begin

text \<open>
  The egress gateway, \<open>internal/pgw/pgw.go\<close>.  \<open>Adapter\<close> is a port: a record of operations on the outside
  world \<open>'x\<close>.  \<open>NoopAdapter\<close>, the only implementation of the repository, answers without a gateway and
  marks what it answers.
\<close>

record client_request =
  cl_name :: string
  cl_ip_cidr :: string
  cl_mac :: string
  cl_vlan :: int
  cl_enabled :: bool
  cl_metadata :: "(string \<times> string) list"

record mapping_request =
  mq_client :: string
  mq_policy :: string

record egress_evidence =
  ev_client :: string
  ev_mapping :: string
  ev_result :: string
  ev_checked :: string
  ev_ipv4 :: string
  ev_ipv6 :: string
  ev_policy :: string
  ev_leaks :: int
  ev_health :: string
  ev_generation :: int

text \<open>\<open>ClientRef\<close> and \<open>MappingRef\<close> are their one field, an identifier.\<close>

record 'x pgw_adapter =
  pg_CreateClient :: "client_request \<Rightarrow> ('x, err, string) eff"
  pg_CreateMapping :: "mapping_request \<Rightarrow> ('x, err, string) eff"
  pg_ActivateMapping :: "string \<Rightarrow> ('x, err, int) eff"
  pg_SuspendMapping :: "string \<Rightarrow> ('x, err, unit) eff"
  pg_DeleteMapping :: "string \<Rightarrow> ('x, err, unit) eff"
  pg_EgressProof :: "string \<Rightarrow> ('x, err, egress_evidence) eff"

definition simulatedMarker :: string where
  "simulatedMarker = ''SIMULATED-NOOP-NOT-REAL-PGW''"

definition noop_CreateClient :: "client_request \<Rightarrow> ('x, err, string) eff" where
  "noop_CreateClient rq = retE (''noop-client-'' @ cl_name rq)"

definition noop_CreateMapping :: "mapping_request \<Rightarrow> ('x, err, string) eff" where
  "noop_CreateMapping rq = retE (''noop-mapping-'' @ mq_client rq)"

definition noop_ActivateMapping :: "string \<Rightarrow> ('x, err, int) eff" where
  "noop_ActivateMapping mid = retE 1"

definition noop_SuspendMapping :: "string \<Rightarrow> ('x, err, unit) eff" where
  "noop_SuspendMapping mid = retE ()"

definition noop_DeleteMapping :: "string \<Rightarrow> ('x, err, unit) eff" where
  "noop_DeleteMapping mid = retE ()"

definition noop_evidence :: "string \<Rightarrow> egress_evidence" where
  "noop_evidence client = \<lparr>ev_client = client, ev_mapping = [], ev_result = simulatedMarker, ev_checked = [],
     ev_ipv4 = [], ev_ipv6 = [], ev_policy = simulatedMarker, ev_leaks = 0, ev_health = [], ev_generation = 0\<rparr>"

definition noop_EgressProof :: "string \<Rightarrow> ('x, err, egress_evidence) eff" where
  "noop_EgressProof client = retE (noop_evidence client)"

definition NoopAdapter :: "'x pgw_adapter" where
  "NoopAdapter = \<lparr>pg_CreateClient = noop_CreateClient, pg_CreateMapping = noop_CreateMapping,
     pg_ActivateMapping = noop_ActivateMapping, pg_SuspendMapping = noop_SuspendMapping,
     pg_DeleteMapping = noop_DeleteMapping, pg_EgressProof = noop_EgressProof\<rparr>"

lemmas noop_defs = NoopAdapter_def noop_CreateClient_def noop_CreateMapping_def noop_ActivateMapping_def
  noop_SuspendMapping_def noop_DeleteMapping_def noop_EgressProof_def

text \<open>
  A gateway is simulated when every proof it returns carries the marker, and its operations do not look at
  or change the outside world.  Clients that use one as if it were real must not accept its proofs.
\<close>

locale simulated_gateway =
  fixes gw :: "'x pgw_adapter"
  assumes proof_marked: "pg_EgressProof gw c x = (Inr ev, x') \<Longrightarrow> ev_result ev = simulatedMarker"
    and proof_inert: "pg_EgressProof gw c x = (r, x') \<Longrightarrow> x' = x"
begin

lemma proof_not_pass: "pg_EgressProof gw c x = (Inr ev, x') \<Longrightarrow> ev_result ev \<noteq> ''PASS''"
  by (drule proof_marked) (simp add: simulatedMarker_def)

end

interpretation noop: simulated_gateway NoopAdapter
  by unfold_locales (auto simp: noop_defs noop_evidence_def retE_def)

end
