(* ===== verification/Validation.thy ===== *)
theory Validation
  imports World Guest Pgw Records
begin

text \<open>
  The rules an instance must pass before it is \<open>READY\<close>, \<open>internal/validation\<close>: checks and their evidence,
  the identity and network rules, the egress rules, and the drift scan of a \<open>READY\<close> instance.  \<open>hmac\<close> is
  HMAC-SHA256 in hexadecimal.
\<close>

section \<open>Checks\<close>

definition RulesetVersion :: string where
  "RulesetVersion = ''identity-network-egress-1.0''"

definition collectorName :: string where
  "collectorName = ''vmf-worker''"

datatype severity = SeverityBlock | SeverityWarn

fun severity_str :: "severity \<Rightarrow> string" where
  "severity_str SeverityBlock = ''BLOCK''"
| "severity_str SeverityWarn = ''WARN''"

record check =
  ck_rule :: string
  ck_version :: string
  ck_severity :: severity
  ck_expected :: string
  ck_observed :: string
  ck_result :: string
  ck_collected :: time
  ck_collector :: string

definition newCheck :: "string \<Rightarrow> severity \<Rightarrow> string \<Rightarrow> string \<Rightarrow> bool \<Rightarrow> time \<Rightarrow> check" where
  "newCheck rule sev expected observed pass at =
     \<lparr>ck_rule = rule, ck_version = RulesetVersion, ck_severity = sev, ck_expected = expected, ck_observed = observed,
      ck_result = (if pass then ''PASS'' else ''FAIL''), ck_collected = at, ck_collector = collectorName\<rparr>"

definition aggregate_step :: "check \<Rightarrow> bool \<times> bool \<Rightarrow> bool \<times> bool" where
  "aggregate_step c st = (if ck_result c = ''PASS'' then st
     else if ck_severity c = SeverityBlock then (True, snd st) else (fst st, True))"

text \<open>(pass, hasWarnFailure)\<close>

definition Aggregate :: "check list \<Rightarrow> bool \<times> bool" where
  "Aggregate checks = (case fold aggregate_step checks (False, False) of (blockFail, warnFail) \<Rightarrow> (\<not> blockFail, warnFail))"

definition isLowerHex :: "string \<Rightarrow> bool" where
  "isLowerHex s \<longleftrightarrow> s \<noteq> [] \<and> list_all (\<lambda>c. is_digit c \<or> (CHR ''a'' \<le> c \<and> c \<le> CHR ''f'')) s"

section \<open>Evidence\<close>

definition marshal_check :: "check \<Rightarrow> err + json" where
  "marshal_check c = (case marshal_time (ck_collected c) of
       Inl e \<Rightarrow> Inl e
     | Inr t \<Rightarrow> Inr (JObj [(''rule_id'', JStr (ck_rule c)), (''version'', JStr (ck_version c)),
         (''severity'', JStr (severity_str (ck_severity c))), (''expected'', JStr (ck_expected c)),
         (''observed'', JStr (ck_observed c)), (''result'', JStr (ck_result c)), (''collected_at'', t),
         (''collector'', JStr (ck_collector c))]))"

fun all_right :: "('e + 'a) list \<Rightarrow> 'e + 'a list" where
  "all_right [] = Inr []"
| "all_right (Inl e # rs) = Inl e"
| "all_right (Inr x # rs) = (case all_right rs of Inl e \<Rightarrow> Inl e | Inr xs \<Rightarrow> Inr (x # xs))"

definition evidence_result :: "check list \<Rightarrow> validation_result" where
  "evidence_result checks = (case Aggregate checks of (pass, warnFail) \<Rightarrow>
     if \<not> pass then ValidationFail else if warnFail then ValidationWarn else ValidationPass)"

text \<open>A Go map is written with its keys sorted; \<open>checks\<close> is never a nil slice at the call sites.\<close>

definition BuildEvidence :: "string \<Rightarrow> check list \<Rightarrow> err + json \<times> validation_result" where
  "BuildEvidence iid checks = (case all_right (map marshal_check checks) of
       Inl e \<Rightarrow> Inl e
     | Inr cs \<Rightarrow> Inr (JObj [(''checks'', JArr cs), (''instance_id'', JStr iid),
         (''result'', JStr (validation_result_str (evidence_result checks))), (''ruleset_version'', JStr RulesetVersion)],
         evidence_result checks))"

section \<open>The identity digest\<close>

type_synonym hmac_fun = "string \<Rightarrow> string \<Rightarrow> string"

definition Digest :: "hmac_fun \<Rightarrow> string \<Rightarrow> string \<Rightarrow> string" where
  "Digest hmac key machineID = ''hmac-sha256:'' @ hmac key machineID"

section \<open>Identity and network rules\<close>

record identity_input =
  ii_facts :: facts
  ii_digest :: string
  ii_machine_dups :: "duplicate_match list"
  ii_ssh_dups :: "duplicate_match list"
  ii_block_retired :: bool
  ii_hostname :: string
  ii_macs :: "string list"
  ii_ipv4 :: string
  ii_gateway :: string
  ii_single_nic :: bool
  ii_single_route :: bool
  ii_deny_v6 :: bool

definition hasBlockingDuplicate :: "duplicate_match list \<Rightarrow> bool \<Rightarrow> bool" where
  "hasBlockingDuplicate matches blockRetired = list_ex (\<lambda>m. \<not> dup_retired m \<or> blockRetired) matches"

definition containsAll :: "string list \<Rightarrow> string list \<Rightarrow> bool" where
  "containsAll have want = list_all (\<lambda>w. w \<in> set have) want"

definition lowerAll :: "string list \<Rightarrow> string list" where
  "lowerAll ss = map to_lower ss"

definition isUUIDLike :: "string \<Rightarrow> bool" where
  "isUUIDLike s \<longleftrightarrow> length s = 36 \<and> list_all (\<lambda>(i, c). if i \<in> {8, 13, 18, 23} then c = CHR ''-''
     else is_digit c \<or> (CHR ''a'' \<le> c \<and> c \<le> CHR ''f'') \<or> (CHR ''A'' \<le> c \<and> c \<le> CHR ''F'')) (zip [0..<36] s)"

definition machine_id_ok :: "string \<Rightarrow> bool" where
  "machine_id_ok m \<longleftrightarrow> length m = 32 \<and> isLowerHex m"

definition ssh_expected :: string where
  "ssh_expected =
     ''fingerprint m'' @ [CHR 0xE1, CHR 0xBB, CHR 0x9B] @ ''i, ch'' @ [CHR 0xC6, CHR 0xB0] @ ''a t''
     @ [CHR 0xE1, CHR 0xBB, CHR 0xAB] @ ''ng th'' @ [CHR 0xE1, CHR 0xBA, CHR 0xA5] @ ''y '' @ [CHR 0xE1, CHR 0xBB, CHR 0x9F]
     @ '' instance kh'' @ [CHR 0xC3, CHR 0xA1] @ ''c''"

definition cloud_init_expected :: string where
  "cloud_init_expected =
     ''non-empty (so kh'' @ [CHR 0xE1, CHR 0xBB, CHR 0x9B] @ ''p generation l'' @ [CHR 0xC3, CHR 0xA0] @ '' gap ''
     @ [CHR 0xC4, CHR 0x91, CHR 0xC3, CHR 0xA3] @ '' bi'' @ [CHR 0xE1, CHR 0xBA, CHR 0xBF] @ ''t)''"

definition commas :: "string list \<Rightarrow> string" where
  "commas ws = join_with '','' ws"

definition identity_checks :: "map_order \<Rightarrow> identity_input \<Rightarrow> time \<Rightarrow> check list" where
  "identity_checks order i now = (let f = ii_facts i; fp = CanonicalSSHFingerprint order f in
    [newCheck ''ID-001'' SeverityBlock ''32 lowercase hex chars'' (ii_digest i) (machine_id_ok (fc_machine_id f)) now,
     newCheck ''ID-002'' SeverityBlock ''unique'' (ii_digest i)
       (\<not> hasBlockingDuplicate (ii_machine_dups i) (ii_block_retired i)) now,
     newCheck ''ID-003'' SeverityBlock ssh_expected fp
       (fp \<noteq> [] \<and> \<not> hasBlockingDuplicate (ii_ssh_dups i) (ii_block_retired i)) now,
     newCheck ''ID-004'' SeverityBlock (ii_hostname i) (fc_hostname f) (fc_hostname f = ii_hostname i) now,
     newCheck ''ID-005'' SeverityBlock (commas (ii_macs i)) (commas (fc_macs f))
       (ii_macs i \<noteq> [] \<and> containsAll (lowerAll (fc_macs f)) (lowerAll (ii_macs i))) now,
     newCheck ''ID-006'' SeverityWarn cloud_init_expected (fc_cloud_init f) (fc_cloud_init f \<noteq> []) now,
     newCheck ''ID-008'' SeverityWarn ''valid UUID'' (fc_boot_id f) (isUUIDLike (fc_boot_id f)) now])"

definition network_checks :: "identity_input \<Rightarrow> time \<Rightarrow> check list" where
  "network_checks i now = (let f = ii_facts i in
    [newCheck ''NET-001'' SeverityBlock ''1'' (itoa (fc_nics f)) (\<not> ii_single_nic i \<or> fc_nics f = 1) now,
     newCheck ''NET-002'' SeverityBlock (ii_ipv4 i) (commas (fc_ipv4 f))
       (ii_ipv4 i \<noteq> [] \<and> containsAll (fc_ipv4 f) [ii_ipv4 i]) now,
     newCheck ''NET-003'' SeverityBlock (''1 route qua '' @ ii_gateway i)
       (itoa (fc_routes4 f) @ '' route, gateway='' @ fc_gateway4 f)
       (\<not> ii_single_route i \<or> (fc_routes4 f = 1 \<and> fc_gateway4 f = ii_gateway i)) now,
     newCheck ''NET-004'' SeverityBlock ''0 (policy deny)'' (itoa (fc_routes6 f)) (\<not> ii_deny_v6 i \<or> fc_routes6 f = 0) now,
     newCheck ''NET-005'' SeverityBlock ''none (policy deny)'' (commas (fc_ipv6 f)) (\<not> ii_deny_v6 i \<or> fc_ipv6 f = []) now,
     newCheck ''NET-009'' SeverityBlock ''absent'' (itoa (fc_nics f) @ '' nic, '' @ itoa (fc_routes4 f) @ '' v4 route'')
       (fc_nics f \<le> 1 \<and> fc_routes4 f \<le> 1) now])"

text \<open>\<open>clock\<close> is \<open>time.Now()\<close>, asked only when the facts carry no time.\<close>

definition EvaluateIdentityAndNetwork :: "map_order \<Rightarrow> time \<Rightarrow> identity_input \<Rightarrow> check list" where
  "EvaluateIdentityAndNetwork order clock i =
     (let now = (if fc_collected (ii_facts i) = zero_time then clock else fc_collected (ii_facts i))
      in identity_checks order i now @ network_checks i now)"

section \<open>Egress rules\<close>

record egress_input =
  ei_evidence :: egress_evidence
  ei_mapping :: string
  ei_generation :: int
  ei_deny_v6 :: bool
  ei_max_age :: duration
  ei_now :: time

definition evaluateProofFreshness :: "string \<Rightarrow> time \<Rightarrow> duration \<Rightarrow> bool \<times> string" where
  "evaluateProofFreshness checkedAt now maxAge = (case parse_rfc3339 checkedAt of
       None \<Rightarrow> (False, ''unparseable checked_at: '' @ checkedAt)
     | Some t \<Rightarrow> (let age = time_sub now t in (0 \<le> age \<and> age \<le> maxAge, ''age='' @ duration_text age)))"

definition exit_ip_expected :: string where
  "exit_ip_expected =
     ''non-empty exit IP (so kh'' @ [CHR 0xE1, CHR 0xBB, CHR 0x9B] @ ''p policy c'' @ [CHR 0xE1, CHR 0xBB, CHR 0xA5]
     @ '' th'' @ [CHR 0xE1, CHR 0xBB, CHR 0x83] @ '' l'' @ [CHR 0xC3, CHR 0xA0] @ '' gap ''
     @ [CHR 0xC4, CHR 0x91, CHR 0xC3, CHR 0xA3] @ '' bi'' @ [CHR 0xE1, CHR 0xBA, CHR 0xBF] @ ''t)''"

definition EvaluateEgress :: "time \<Rightarrow> egress_input \<Rightarrow> check list" where
  "EvaluateEgress clock i = (let now = (if ei_now i = zero_time then clock else ei_now i); ev = ei_evidence i in
    [newCheck ''EGR-001'' SeverityBlock (''PASS, mapping_id='' @ ei_mapping i) (ev_result ev @ '', mapping_id='' @ ev_mapping ev)
       (ev_result ev = ''PASS'' \<and> ev_mapping ev = ei_mapping i) now,
     newCheck ''EGR-002'' SeverityBlock (itoa (ei_generation i)) (itoa (ev_generation ev))
       (ev_generation ev = ei_generation i) now,
     newCheck ''EGR-003'' SeverityBlock exit_ip_expected (ev_ipv4 ev) (ev_ipv4 ev \<noteq> []) now,
     newCheck ''EGR-004'' SeverityBlock ''BLOCKED (policy deny)'' (ev_ipv6 ev) (\<not> ei_deny_v6 i \<or> ev_ipv6 ev = ''BLOCKED'') now,
     newCheck ''EGR-005'' SeverityBlock ''0'' (itoa (ev_leaks ev)) (ev_leaks ev = 0) now,
     newCheck ''EGR-006'' SeverityBlock ''ACTIVE'' (ev_health ev) (ev_health ev = ''ACTIVE'') now,
     newCheck ''EGR-007'' SeverityBlock (''within '' @ duration_text (ei_max_age i))
       (snd (evaluateProofFreshness (ev_checked ev) now (ei_max_age i)))
       (fst (evaluateProofFreshness (ev_checked ev) now (ei_max_age i))) now])"

section \<open>Drift\<close>

datatype drift_class = DriftRepairable | DriftQuarantineWorthy

record drift_finding =
  df_category :: string
  df_class :: drift_class
  df_expected :: string
  df_observed :: string

record drift_input =
  di_instance :: string
  di_vm :: vm_ref
  di_hostname :: string
  di_macs :: "string list"
  di_ipv4 :: string
  di_gateway :: string
  di_single_nic :: bool
  di_single_route :: bool
  di_deny_v6 :: bool
  di_timeout :: duration

definition classifyFailedChecks :: "check list \<Rightarrow> drift_finding list" where
  "classifyFailedChecks checks = map (\<lambda>c. \<lparr>df_category = ck_rule c,
       df_class = (if ck_severity c = SeverityBlock then DriftQuarantineWorthy else DriftRepairable),
       df_expected = ck_expected c, df_observed = ck_observed c\<rparr>)
     (filter (\<lambda>c. ck_result c \<noteq> ''PASS'') checks)"

definition compareDigestStability :: "string \<Rightarrow> string \<Rightarrow> drift_finding option dbm" where
  "compareDigestStability iid freshDigest = tryE (identity_LatestByInstance iid) (\<lambda>r. case r of
       Inl e \<Rightarrow> if errors_is e ErrNotFound then retE None
         else failE (Wrap ''validation: drift load latest identity observation'' e)
     | Inr latest \<Rightarrow> if obs_digest latest = freshDigest then retE None
         else retE (Some \<lparr>df_category = ''identity_digest_stability'', df_class = DriftQuarantineWorthy,
           df_expected = obs_digest latest, df_observed = freshDigest\<rparr>))"

definition drift_identity_input :: "drift_input \<Rightarrow> facts \<Rightarrow> string \<Rightarrow> identity_input" where
  "drift_identity_input i f digest =
     \<lparr>ii_facts = f, ii_digest = digest, ii_machine_dups = [], ii_ssh_dups = [], ii_block_retired = False,
      ii_hostname = di_hostname i, ii_macs = di_macs i, ii_ipv4 = di_ipv4 i, ii_gateway = di_gateway i,
      ii_single_nic = di_single_nic i, ii_single_route = di_single_route i, ii_deny_v6 = di_deny_v6 i\<rparr>"

definition ScanInstance :: "'x env \<Rightarrow> (string \<Rightarrow> raw_json) \<Rightarrow> map_order \<Rightarrow> (string \<Rightarrow> string) \<Rightarrow> drift_input \<Rightarrow>
    ('x, drift_finding list \<times> facts \<times> string) wm" where
  "ScanInstance env parse order digester i =
     bindE (wrapE ''validation: drift collect facts'' (onExt (Collect_facts env parse (di_vm i)
        (if di_timeout i \<le> 0 then seconds 30 else di_timeout i)))) (\<lambda>f.
     let digest = digester (fc_machine_id f) in
     bindE (onDB env (compareDigestStability (di_instance i) digest)) (\<lambda>stability.
     bindE (nowE env) (\<lambda>clock.
     retE ((case stability of None \<Rightarrow> [] | Some s \<Rightarrow> [s])
        @ classifyFailedChecks (EvaluateIdentityAndNetwork order clock (drift_identity_input i f digest)), f, digest))))"

section \<open>What the rules accept\<close>

lemma fold_aggregate:
  "fold aggregate_step cs (b, w) =
     (b \<or> list_ex (\<lambda>c. ck_result c \<noteq> ''PASS'' \<and> ck_severity c = SeverityBlock) cs,
      w \<or> list_ex (\<lambda>c. ck_result c \<noteq> ''PASS'' \<and> ck_severity c \<noteq> SeverityBlock) cs)"
  by (induction cs arbitrary: b w) (auto simp: aggregate_step_def)

lemma Aggregate_eq:
  "Aggregate cs = (\<not> list_ex (\<lambda>c. ck_result c \<noteq> ''PASS'' \<and> ck_severity c = SeverityBlock) cs,
     list_ex (\<lambda>c. ck_result c \<noteq> ''PASS'' \<and> ck_severity c \<noteq> SeverityBlock) cs)"
  by (simp add: Aggregate_def fold_aggregate)

lemma evidence_Fail: "evidence_result cs = ValidationFail \<longleftrightarrow>
    list_ex (\<lambda>c. ck_result c \<noteq> ''PASS'' \<and> ck_severity c = SeverityBlock) cs"
  by (simp add: evidence_result_def Aggregate_eq)

lemma evidence_Pass: "evidence_result cs = ValidationPass \<longleftrightarrow> list_all (\<lambda>c. ck_result c = ''PASS'') cs"
  by (auto simp: evidence_result_def Aggregate_eq list_ex_iff list_all_iff)

lemma evidence_known: "evidence_result cs \<noteq> ValidationUnknown"
  by (simp add: evidence_result_def split: prod.split)

lemma newCheck_result [simp]: "ck_result (newCheck r s e v p t) = ''PASS'' \<longleftrightarrow> p"
  by (simp add: newCheck_def)

lemma newCheck_severity [simp]: "ck_severity (newCheck r s e v p t) = s"
  by (simp add: newCheck_def)

lemma BuildEvidence_result: "BuildEvidence iid cs = Inr (ev, r) \<Longrightarrow> r = evidence_result cs"
  by (auto simp: BuildEvidence_def split: sum.splits)

text \<open>What the block rules ask of the guest.\<close>

definition identity_sound :: "map_order \<Rightarrow> identity_input \<Rightarrow> bool" where
  "identity_sound order i \<longleftrightarrow> (let f = ii_facts i in
     machine_id_ok (fc_machine_id f) \<and> fc_hostname f = ii_hostname i \<and>
     \<not> hasBlockingDuplicate (ii_machine_dups i) (ii_block_retired i) \<and>
     CanonicalSSHFingerprint order f \<noteq> [] \<and> \<not> hasBlockingDuplicate (ii_ssh_dups i) (ii_block_retired i) \<and>
     ii_macs i \<noteq> [] \<and> set (map to_lower (ii_macs i)) \<subseteq> set (map to_lower (fc_macs f)) \<and>
     ii_ipv4 i \<noteq> [] \<and> ii_ipv4 i \<in> set (fc_ipv4 f) \<and>
     fc_nics f \<le> 1 \<and> (if ii_single_nic i then fc_nics f = 1 else True) \<and>
     fc_routes4 f \<le> 1 \<and> (if ii_single_route i then fc_routes4 f = 1 \<and> fc_gateway4 f = ii_gateway i else True) \<and>
     (if ii_deny_v6 i then fc_routes6 f = 0 \<and> fc_ipv6 f = [] else True))"

lemma identity_block: "evidence_result (EvaluateIdentityAndNetwork order clock i) \<noteq> ValidationFail \<longleftrightarrow> identity_sound order i"
  by (auto simp: evidence_Fail EvaluateIdentityAndNetwork_def identity_checks_def network_checks_def Let_def
      identity_sound_def containsAll_def lowerAll_def list_all_iff)

lemma identity_pass: "evidence_result (EvaluateIdentityAndNetwork order clock i) = ValidationPass \<longleftrightarrow>
    identity_sound order i \<and> fc_cloud_init (ii_facts i) \<noteq> [] \<and> isUUIDLike (fc_boot_id (ii_facts i))"
  by (auto simp: evidence_Pass EvaluateIdentityAndNetwork_def identity_checks_def network_checks_def Let_def
      identity_sound_def containsAll_def lowerAll_def list_all_iff)

definition proof_fresh :: "string \<Rightarrow> time \<Rightarrow> duration \<Rightarrow> bool" where
  "proof_fresh checked now maxAge = (case parse_rfc3339 checked of None \<Rightarrow> False | Some t \<Rightarrow> t \<le> now \<and> now - t \<le> maxAge)"

definition egress_sound :: "time \<Rightarrow> egress_input \<Rightarrow> bool" where
  "egress_sound clock i \<longleftrightarrow> (let ev = ei_evidence i in
     ev_result ev = ''PASS'' \<and> ev_mapping ev = ei_mapping i \<and> ev_generation ev = ei_generation i \<and>
     ev_ipv4 ev \<noteq> [] \<and> (if ei_deny_v6 i then ev_ipv6 ev = ''BLOCKED'' else True) \<and> ev_leaks ev = 0 \<and>
     ev_health ev = ''ACTIVE'' \<and> proof_fresh (ev_checked ev) (if ei_now i = zero_time then clock else ei_now i) (ei_max_age i))"

lemma freshness: "maxAge < max_duration \<Longrightarrow> fst (evaluateProofFreshness checked now maxAge) = proof_fresh checked now maxAge"
  by (auto simp: evaluateProofFreshness_def proof_fresh_def time_sub_def max_duration_def Let_def split: option.split)

lemma egress_not_warn: "evidence_result (EvaluateEgress clock i) \<noteq> ValidationWarn"
  by (auto simp: evidence_result_def Aggregate_eq EvaluateEgress_def Let_def)

lemma egress_pass: "ei_max_age i < max_duration \<Longrightarrow>
    evidence_result (EvaluateEgress clock i) = ValidationPass \<longleftrightarrow> egress_sound clock i"
  by (auto simp: evidence_Pass EvaluateEgress_def Let_def egress_sound_def freshness)

lemma egress_pass_result: "evidence_result (EvaluateEgress clock i) = ValidationPass \<Longrightarrow> ev_result (ei_evidence i) = ''PASS''"
  by (auto simp: evidence_Pass EvaluateEgress_def Let_def)

section \<open>Properties\<close>

lemma year_of_1000: "year_of 1000 = 1970"
  by code_simp

definition demo_facts :: facts where
  "demo_facts = \<lparr>fc_machine_id = replicate 32 CHR ''a'', fc_boot_id = replicate 36 CHR ''0'', fc_hostname = ''vm-1'',
     fc_cloud_init = ''i-1'', fc_ssh = [(''ssh_host_ed25519_key.pub'', ''SHA256:x'')], fc_macs = [''de:ad:be:ef:00:01''],
     fc_ipv4 = [''10.0.0.5''], fc_ipv6 = [], fc_os = [], fc_kernel = [], fc_nics = 1, fc_routes4 = 1, fc_routes6 = 0,
     fc_gateway4 = ''10.0.0.1'', fc_collected = 1000,
     fc_ssh_made = True\<rparr>"

definition demo_identity :: identity_input where
  "demo_identity = \<lparr>ii_facts = demo_facts, ii_digest = ''hmac-sha256:d'', ii_machine_dups = [], ii_ssh_dups = [],
     ii_block_retired = True, ii_hostname = ''vm-1'', ii_macs = [''DE:AD:BE:EF:00:01''], ii_ipv4 = ''10.0.0.5'',
     ii_gateway = ''10.0.0.1'', ii_single_nic = True, ii_single_route = True, ii_deny_v6 = True\<rparr>"

lemma BuildEvidence_defined:
  "list_all (\<lambda>c. 0 \<le> year_of (ck_collected c) \<and> year_of (ck_collected c) \<le> 9999) cs \<Longrightarrow> \<exists>ev. BuildEvidence iid cs = Inr (ev, evidence_result cs)"
proof -
  have "\<exists>js. all_right (map marshal_check cs) = Inr js"
    if "list_all (\<lambda>c. 0 \<le> year_of (ck_collected c) \<and> year_of (ck_collected c) \<le> 9999) cs"
    using that by (induction cs) (auto simp: marshal_check_def marshal_time_def)
  then show "list_all (\<lambda>c. 0 \<le> year_of (ck_collected c) \<and> year_of (ck_collected c) \<le> 9999) cs \<Longrightarrow> \<exists>ev. BuildEvidence iid cs = Inr (ev, evidence_result cs)"
    by (auto simp: BuildEvidence_def)
qed

text \<open>
  C17.  The identity and network evidence fails exactly when the guest violates a block rule: a malformed
  machine-id, a duplicate in the active fleet (or a retired one, by policy), a missing host key, a hostname,
  MAC or IPv4 address other than the inventory's, a second NIC or default route, IPv6 where it is denied.
  It passes when the two warning rules hold as well.
\<close>

theorem identity_evidence_exact:
  assumes "BuildEvidence iid (EvaluateIdentityAndNetwork order clock i) = Inr (ev, r)"
  shows "(r = ValidationFail \<longleftrightarrow> \<not> identity_sound order i) \<and>
    (r = ValidationPass \<longleftrightarrow> identity_sound order i \<and> fc_cloud_init (ii_facts i) \<noteq> [] \<and> isUUIDLike (fc_boot_id (ii_facts i)))"
  unfolding BuildEvidence_result[OF assms] using identity_block[of order clock i] identity_pass[of order clock i] by blast

theorem identity_evidence_exact_witness:
  "\<exists>ev. BuildEvidence ''i1'' (EvaluateIdentityAndNetwork id 0 demo_identity) = Inr (ev, ValidationWarn)"
proof -
  have "list_all (\<lambda>c. 0 \<le> year_of (ck_collected c) \<and> year_of (ck_collected c) \<le> 9999) (EvaluateIdentityAndNetwork id 0 demo_identity)"
    by (simp add: EvaluateIdentityAndNetwork_def identity_checks_def network_checks_def Let_def newCheck_def demo_identity_def
        demo_facts_def zero_time_def year_of_1000)
  from BuildEvidence_defined[OF this] obtain ev r where b:
    "BuildEvidence ''i1'' (EvaluateIdentityAndNetwork id 0 demo_identity) = Inr (ev, r)" by blast
  have "identity_sound id demo_identity" by code_simp
  moreover have "\<not> isUUIDLike (fc_boot_id (ii_facts demo_identity))" by code_simp
  ultimately have "r \<noteq> ValidationFail" "r \<noteq> ValidationPass" using identity_evidence_exact[OF b] by blast+
  then have "r = ValidationWarn"
    using BuildEvidence_result[OF b] by (auto simp: evidence_result_def split: prod.splits if_splits)
  with b show ?thesis by blast
qed

text \<open>
  C18.  The egress evidence passes exactly for a \<open>PASS\<close> proof of the mapping and generation asked for, with an
  exit address, no leak, an active proxy, IPv6 blocked where it is denied, and an age between 0 and the
  maximum; anything else, a proof without a readable time included, fails.
\<close>

theorem egress_evidence_exact:
  assumes "ei_max_age i < max_duration" "BuildEvidence iid (EvaluateEgress clock i) = Inr (ev, r)"
  shows "r = (if egress_sound clock i then ValidationPass else ValidationFail)"
  unfolding BuildEvidence_result[OF assms(2)]
  using egress_pass[OF assms(1), of clock] egress_not_warn[of clock i] evidence_known[of "EvaluateEgress clock i"]
  by (cases "evidence_result (EvaluateEgress clock i)") simp_all

definition demo_egress :: egress_input where
  "demo_egress = \<lparr>ei_evidence = noop_evidence ''c'', ei_mapping = ''m'', ei_generation = 1, ei_deny_v6 = True,
     ei_max_age = seconds 300, ei_now = 1000\<rparr>"

definition demo_proof :: egress_evidence where
  "demo_proof = \<lparr>ev_client = ''c'', ev_mapping = ''m'', ev_result = ''PASS'', ev_checked = ''1970-01-01T00:00:00Z'',
     ev_ipv4 = ''203.0.113.7'', ev_ipv6 = ''BLOCKED'', ev_policy = [], ev_leaks = 0, ev_health = ''ACTIVE'', ev_generation = 1\<rparr>"

lemma demo_proof_fresh: "proof_fresh (ev_checked demo_proof) 1000 (seconds 300)"
  by code_simp

theorem egress_evidence_exact_witness:
  "(\<exists>ev. BuildEvidence ''i1'' (EvaluateEgress 0 (demo_egress\<lparr>ei_evidence := demo_proof\<rparr>)) = Inr (ev, ValidationPass)) \<and>
   (\<exists>ev. BuildEvidence ''i1'' (EvaluateEgress 0 demo_egress) = Inr (ev, ValidationFail))"
proof -
  have run: "\<exists>ev. BuildEvidence ''i1'' (EvaluateEgress 0 (demo_egress\<lparr>ei_evidence := p\<rparr>)) =
      Inr (ev, if egress_sound 0 (demo_egress\<lparr>ei_evidence := p\<rparr>) then ValidationPass else ValidationFail)" for p
  proof -
    let ?i = "demo_egress\<lparr>ei_evidence := p\<rparr>"
    have "list_all (\<lambda>c. 0 \<le> year_of (ck_collected c) \<and> year_of (ck_collected c) \<le> 9999) (EvaluateEgress 0 ?i)"
      by (simp add: EvaluateEgress_def Let_def newCheck_def demo_egress_def zero_time_def year_of_1000)
    from BuildEvidence_defined[OF this] obtain ev r where b: "BuildEvidence ''i1'' (EvaluateEgress 0 ?i) = Inr (ev, r)" by blast
    have "ei_max_age ?i < max_duration" by (simp add: demo_egress_def seconds_def max_duration_def)
    from egress_evidence_exact[OF this b] b show ?thesis by simp
  qed
  have "egress_sound 0 (demo_egress\<lparr>ei_evidence := demo_proof\<rparr>)"
    using demo_proof_fresh by (simp add: egress_sound_def demo_egress_def demo_proof_def zero_time_def)
  moreover have "\<not> egress_sound 0 demo_egress" "demo_egress\<lparr>ei_evidence := noop_evidence ''c''\<rparr> = demo_egress"
    by (simp_all add: egress_sound_def Let_def demo_egress_def noop_evidence_def simulatedMarker_def)
  ultimately show ?thesis using run[of demo_proof] run[of "noop_evidence ''c''"] by simp
qed

lemma canonical_machine_id: "CanonicalSSHFingerprint order (f\<lparr>fc_machine_id := m\<rparr>) = CanonicalSSHFingerprint order f"
  by (simp add: CanonicalSSHFingerprint_def cong: option.case_cong)

text \<open>
  C19.  The raw machine-id does not reach the evidence: two guests that differ only in it, both well-formed or
  both not, have the same checks, given the digest.
\<close>

theorem evidence_hides_machine_id:
  assumes "machine_id_ok m = machine_id_ok (fc_machine_id (ii_facts i))"
  shows "BuildEvidence iid (EvaluateIdentityAndNetwork order clock (i\<lparr>ii_facts := ii_facts i\<lparr>fc_machine_id := m\<rparr>\<rparr>)) =
    BuildEvidence iid (EvaluateIdentityAndNetwork order clock i)"
  using assms
  by (simp add: EvaluateIdentityAndNetwork_def identity_checks_def network_checks_def Let_def canonical_machine_id)

theorem evidence_hides_machine_id_witness:
  "BuildEvidence ''i1'' (EvaluateIdentityAndNetwork id 0 (demo_identity\<lparr>ii_facts := ii_facts demo_identity\<lparr>fc_machine_id := replicate 32 CHR ''b''\<rparr>\<rparr>)) =
    BuildEvidence ''i1'' (EvaluateIdentityAndNetwork id 0 demo_identity)"
  by (rule evidence_hides_machine_id) code_simp

lemma digest_stability:
  assumes "compareDigestStability iid dg d = (Inr s, d')"
  shows "same_tables d d' \<and> (s = None \<or> (\<exists>x. s = Some x \<and> df_class x = DriftQuarantineWorthy)) \<and>
    (s \<noteq> None \<longleftrightarrow> (case sql_first (\<lambda>ob. - obs_at ob) (\<lambda>ob. obs_instance ob = iid) (db_obs d) of
        None \<Rightarrow> False | Some ob \<Rightarrow> obs_digest ob \<noteq> dg))"
proof -
  obtain r where r: "identity_LatestByInstance iid d = (r, d')"
    using assms by (auto simp: compareDigestStability_def tryE_def eff_defs split: prod.splits sum.splits if_splits)
  from scan_read[OF r[unfolded identity_LatestByInstance_def]]
  have "same_tables d d'" "case r of
      Inr x \<Rightarrow> sql_first (\<lambda>ob. - obs_at ob) (\<lambda>ob. obs_instance ob = iid) (db_obs d) = Some x
    | Inl e \<Rightarrow> if errors_is e ErrNotFound then sql_first (\<lambda>ob. - obs_at ob) (\<lambda>ob. obs_instance ob = iid) (db_obs d) = None else True"
    by simp_all
  then show ?thesis
    using assms r by (auto simp: compareDigestStability_def tryE_def eff_defs split: sum.splits if_splits)
qed

lemma classified_worthy: "list_ex (\<lambda>d. df_class d = DriftQuarantineWorthy) (classifyFailedChecks cs) \<longleftrightarrow>
    evidence_result cs = ValidationFail"
  by (simp add: evidence_Fail classifyFailedChecks_def list_ex_iff) (metis drift_class.simps(2))

text \<open>
  C20.  A drift scan that succeeds reports something worth a quarantine exactly when the digest of the
  machine-id is not the one observed last, or a block rule fails; and it writes nothing.
\<close>

theorem drift_quarantine_exact:
  assumes "ScanInstance env parse order digester i w = (Inr (findings, f, digest), w')"
  shows "(list_ex (\<lambda>d. df_class d = DriftQuarantineWorthy) findings \<longleftrightarrow>
      (case sql_first (\<lambda>ob. - obs_at ob) (\<lambda>ob. obs_instance ob = di_instance i) (db_obs (w_db w)) of
         None \<Rightarrow> False | Some ob \<Rightarrow> obs_digest ob \<noteq> digest) \<or>
      \<not> identity_sound order (drift_identity_input i f digest)) \<and>
    digest = digester (fc_machine_id f) \<and> same_tables (w_db w) (w_db w')"
proof -
  let ?obs = "\<lambda>d. sql_first (\<lambda>ob. - obs_at ob) (\<lambda>ob. obs_instance ob = di_instance i) (db_obs d)"
  from assms obtain w1 w2 s clock where
    c: "wrapE ''validation: drift collect facts'' (onExt (Collect_facts env parse (di_vm i)
        (if di_timeout i \<le> 0 then seconds 30 else di_timeout i))) w = (Inr f, w1)" and
    s: "onDB env (compareDigestStability (di_instance i) (digester (fc_machine_id f))) w1 = (Inr s, w2)" and
    res: "digest = digester (fc_machine_id f)" "w' = w2" "findings = (case s of None \<Rightarrow> [] | Some s \<Rightarrow> [s])
        @ classifyFailedChecks (EvaluateIdentityAndNetwork order clock (drift_identity_input i f digest))"
    unfolding ScanInstance_def Let_def
    by (elim bindE_Inr_cases) (auto simp: nowE_run retE_def)
  have w1: "w_db w1 = w_db w"
    using c unfolding onErr_Inr_iff by (auto elim: onExt_run)
  from s obtain d where d: "compareDigestStability (di_instance i) digest ((w_db w)\<lparr>db_now := e_now env (w_ext w1)\<rparr>) = (Inr s, d)"
      "w_db w' = d"
    by (rule onDB_run) (simp add: w1 res)
  note st = digest_stability[OF d(1)]
  have worthy: "s = None \<or> (\<exists>x. s = Some x \<and> df_class x = DriftQuarantineWorthy)" using st by blast
  have tabs: "same_tables (w_db w) d" by (rule same_tables_trans[OF same_tables_now]) (use st in blast)
  have "list_ex (\<lambda>d. df_class d = DriftQuarantineWorthy) (case s of None \<Rightarrow> [] | Some s \<Rightarrow> [s]) \<longleftrightarrow> s \<noteq> None"
    using worthy by (cases s) auto
  then have ex: "list_ex (\<lambda>d. df_class d = DriftQuarantineWorthy) findings \<longleftrightarrow>
      s \<noteq> None \<or> \<not> identity_sound order (drift_identity_input i f digest)"
    unfolding res(3) list_ex_append classified_worthy
    using identity_block[of order clock "drift_identity_input i f digest"] by blast
  have "s \<noteq> None \<longleftrightarrow> (case ?obs (w_db w) of None \<Rightarrow> False | Some ob \<Rightarrow> obs_digest ob \<noteq> digest)" using st by simp
  with ex show ?thesis unfolding d(2) using tabs res(1) by blast
qed

text \<open>A guest that answers with another machine-id than the one recorded.\<close>

definition demo_guest :: "string \<Rightarrow> unit env" where
  "demo_guest out = \<lparr>e_http = (\<lambda>rq x. (Inr (if rq_method rq = ''POST''
       then \<lparr>rs_status = 200, rs_text = [], rs_json = Some (JObj [(''data'', JObj [(''pid'', JNum 7)])])\<rparr>
       else \<lparr>rs_status = 200, rs_text = [], rs_json = Some (JObj [(''data'', JObj [(''exited'', JNum 1), (''out-data'', JStr out)])])\<rparr>), x)),
     e_now = (\<lambda>x. 1000), e_sleep = (\<lambda>dur x. (False, x)), e_fuel = 1\<rparr>"

definition demo_parse :: "string \<Rightarrow> raw_json" where
  "demo_parse s = Some (JObj [(''machine_id'', JStr s)])"

definition demo_drift :: drift_input where
  "demo_drift = \<lparr>di_instance = ''i1'', di_vm = \<lparr>vr_node = ''pve'', vr_vmid = 100\<rparr>, di_hostname = ''vm-1'',
     di_macs = [], di_ipv4 = [], di_gateway = [], di_single_nic = False, di_single_route = False, di_deny_v6 = False,
     di_timeout = 0\<rparr>"

lemma demo_guest_now: "e_now (demo_guest out) x = 1000"
  by (simp add: demo_guest_def)

lemma demo_Collect: "\<exists>f. Collect_facts (demo_guest out) demo_parse v t () = (Inr f, ()) \<and> fc_machine_id f = out"
  by (simp add: Collect_facts_def WaitExec_def guest_Exec_def doRequest_def demo_guest_def bindE_def onErr_def
      unmarshal_with_def envelope_step_def jkey_def to_lower_def lower_char_def pid_doc_step_def set_int_def retE_def ofE_def
      decode_or_def getE_def guest_ExecStatus_def exec_doc_step_def set_str_def demo_parse_def facts_doc_step_def
      empty_raw_facts_def normalize_keeps)

theorem drift_quarantine_exact_witness:
  "\<exists>findings f digest w'. ScanInstance (demo_guest ''x'') demo_parse id id demo_drift \<lparr>w_db = demo_db, w_ext = ()\<rparr> =
      (Inr (findings, f, digest), w') \<and> list_ex (\<lambda>d. df_class d = DriftQuarantineWorthy) findings"
proof -
  obtain f where f: "Collect_facts (demo_guest ''x'') demo_parse (di_vm demo_drift) (seconds 30) () = (Inr f, ())" "fc_machine_id f = ''x''"
    using demo_Collect by blast
  have "compareDigestStability ''i1'' ''x'' (demo_db\<lparr>db_now := 1000\<rparr>) = (Inr None, demo_db\<lparr>db_now := 1000\<rparr>)"
    by (simp add: compareDigestStability_def tryE_def identity_LatestByInstance_def scanE_def onErr_def demo_db_def
        scan_row_def sql_first_def eff_defs)
  with f obtain findings w' where s: "ScanInstance (demo_guest ''x'') demo_parse id id demo_drift \<lparr>w_db = demo_db, w_ext = ()\<rparr> =
      (Inr (findings, f, ''x''), w')"
    by (simp add: ScanInstance_def bindE_def onErr_def onExt_def onDB_def demo_drift_def nowE_run retE_def Let_def demo_guest_now)
  have "\<not> identity_sound id (drift_identity_input demo_drift f ''x'')"
    using f(2) by (simp add: identity_sound_def drift_identity_input_def machine_id_ok_def)
  with drift_quarantine_exact[OF s] s show ?thesis by blast
qed

end
