(* ===== verification/Templates.thy ===== *)
theory Templates
  imports Instances
begin

text \<open>
  The template registry, \<open>internal/template/repository.go\<close>: versions of a golden image move from
  \<open>DRAFT\<close> through \<open>CANDIDATE\<close> to \<open>ACTIVE\<close>, and a promotion to \<open>ACTIVE\<close> demotes the version that was.
\<close>

section \<open>Operations\<close>

definition validTransitions :: "template_state \<Rightarrow> template_state list" where
  "validTransitions from = (case from of
       TemplateDraft \<Rightarrow> [TemplateCandidate]
     | TemplateCandidate \<Rightarrow> [TemplateActive, TemplateRevoked]
     | TemplateActive \<Rightarrow> [TemplateDeprecated, TemplateRevoked]
     | TemplateDeprecated \<Rightarrow> [TemplateActive, TemplateRevoked]
     | TemplateRevoked \<Rightarrow> [])"

definition isValidTransition :: "template_state \<Rightarrow> template_state \<Rightarrow> bool" where
  "isValidTransition from to_st \<longleftrightarrow> to_st \<in> set (validTransitions from)"

definition find_template :: "string \<Rightarrow> db \<Rightarrow> template option" where
  "find_template tid d = sql_find (\<lambda>t. tpl_id t = tid) (db_templates d)"

definition templates_Get :: "string \<Rightarrow> template dbm" where
  "templates_Get tid = scanE ''template: scan'' (\<lambda>d. scan_row (find_template tid d) d)"

text \<open>
  \<open>clone_mode_allowed\<close> travels as text joined with commas and comes back split at them; an empty text
  leaves the slice nil.
\<close>

definition clone_modes :: "string list \<Rightarrow> string list" where
  "clone_modes ms = (let csv = join_with '','' (if ms = [] then [''full''] else ms) in
     if csv = [] then [] else split_at CHR '','' csv)"

definition new_template :: "string \<Rightarrow> time \<Rightarrow> template \<Rightarrow> template" where
  "new_template u now t = t\<lparr>tpl_id := u, tpl_clone_modes := clone_modes (tpl_clone_modes t),
     tpl_manifest := or_empty_object (tpl_manifest t), tpl_state := TemplateDraft,
     tpl_validation := ValidationUnknown, tpl_created := now, tpl_updated := now\<rparr>"

text \<open>Two rows the unique constraints allow together; the VM id column is a 32-bit integer.\<close>

definition templates_coexist :: "template \<Rightarrow> template \<Rightarrow> bool" where
  "templates_coexist t r \<longleftrightarrow> tpl_id t = tpl_id r \<or>
     ((tpl_family t, tpl_version t) \<noteq> (tpl_family r, tpl_version r) \<and>
      (tpl_cluster t, tpl_node t, tpl_vmid t) \<noteq> (tpl_cluster r, tpl_node r, tpl_vmid r))"

definition insert_template :: "template \<Rightarrow> template dbm" where
  "insert_template t d =
     (if \<not> (- (2 ^ 31) \<le> tpl_vmid t \<and> tpl_vmid t < 2 ^ 31) then (Inl (ErrDriver ''ERROR: integer out of range''), d)
      else if \<exists>r \<in> set (db_templates d). tpl_id r = tpl_id t then (Inl (constraint_error ''vm_templates_pkey''), d)
      else if tpl_cluster t \<notin> set (db_clusters d) then (Inl (constraint_error ''vm_templates_pve_cluster_id_fkey''), d)
      else if \<exists>r \<in> set (db_templates d). \<not> templates_coexist t r then (Inl (constraint_error ''vm_templates_family_version_key''), d)
      else (Inr t, put_templates (db_templates d @ [t]) d))"

definition templates_Create :: "template \<Rightarrow> template dbm" where
  "templates_Create t = scanE ''template: scan'' (bindE gen_random_uuid (\<lambda>u.
     bindE (getE db_now) (\<lambda>now. insert_template (new_template u now t))))"

definition GetActiveByFamily :: "string \<Rightarrow> template dbm" where
  "GetActiveByFamily fam = scanE ''template: scan'' (\<lambda>d. scan_row
     (sql_find (\<lambda>t. tpl_family t = fam \<and> tpl_state t = TemplateActive) (db_templates d)) d)"

definition templates_page :: "string \<Rightarrow> db \<Rightarrow> time \<Rightarrow> string \<Rightarrow> nat \<Rightarrow> template list" where
  "templates_page fam d t i n = keyset_page (\<lambda>r. (tpl_created r, tpl_id r)) (\<lambda>r. fam = [] \<or> tpl_family r = fam) t i n (db_templates d)"

definition templates_List :: "string \<Rightarrow> time \<Rightarrow> string \<Rightarrow> nat \<Rightarrow> template list dbm" where
  "templates_List fam t i n = queryE ''template: list'' (\<lambda>d. templates_page fam d t i n)"

definition demote_others :: "string \<Rightarrow> string \<Rightarrow> unit dbm" where
  "demote_others fam tid = bindE (wrapE ''template: demote previous active'' (stmt (upd_tab db_templates put_templates
     (\<lambda>now t. tpl_family t = fam \<and> tpl_state t = TemplateActive \<and> tpl_id t \<noteq> tid)
     (\<lambda>now t. t\<lparr>tpl_state := TemplateDeprecated, tpl_updated := now\<rparr>)))) (\<lambda>_. retE ())"

definition set_template_state :: "string \<Rightarrow> template_state \<Rightarrow> unit dbm" where
  "set_template_state tid target = bindE (wrapE ''template: promote'' (stmt (upd_tab db_templates put_templates
     (\<lambda>now t. tpl_id t = tid) (\<lambda>now t. t\<lparr>tpl_state := target, tpl_updated := now\<rparr>)))) (\<lambda>_. retE ())"

definition PromoteTx :: "string \<Rightarrow> template_state \<Rightarrow> template dbm" where
  "PromoteTx tid target = bindE (templates_Get tid) (\<lambda>current.
     if \<not> isValidTransition (tpl_state current) target
     then failE (Suffixed ErrInvalidTransition (template_state_str (tpl_state current) @ '' -> '' @ template_state_str target))
     else bindE (if target = TemplateActive then demote_others (tpl_family current) tid else retE ()) (\<lambda>_.
       bindE (set_template_state tid target) (\<lambda>_. templates_Get tid)))"

definition Promote :: "string \<Rightarrow> template_state \<Rightarrow> template dbm" where
  "Promote tid target = WithTx (PromoteTx tid target)"

definition SetValidationStatus :: "string \<Rightarrow> validation_result \<Rightarrow> unit dbm" where
  "SetValidationStatus tid status = exec_rows ''template: set validation status'' ErrNotFound
     (upd_tab db_templates put_templates (\<lambda>now t. tpl_id t = tid)
       (\<lambda>now t. t\<lparr>tpl_validation := status, tpl_updated := now\<rparr>))"

interpretation template_list: listing "\<lambda>d. rows_keyed tpl_created tpl_id (db_templates d)"
  "\<lambda>d. newest_first (\<lambda>r. (tpl_created r, tpl_id r)) (filter (\<lambda>r. fam = [] \<or> tpl_family r = fam) (db_templates d))"
  "templates_page fam" tpl_created tpl_id for fam
  unfolding templates_page_def[abs_def] by (rule keyed_listing)

section \<open>One active version per family\<close>

definition one_active :: "template list \<Rightarrow> bool" where
  "one_active ts \<longleftrightarrow> (\<forall>t \<in> set ts. \<forall>r \<in> set ts. tpl_family t = tpl_family r \<longrightarrow>
     tpl_state t = TemplateActive \<longrightarrow> tpl_state r = TemplateActive \<longrightarrow> tpl_id t = tpl_id r)"

definition templates_inv :: "db \<Rightarrow> bool" where
  "templates_inv d \<longleftrightarrow> distinct (map tpl_id (db_templates d)) \<and> one_active (db_templates d) \<and>
     (\<forall>t \<in> set (db_templates d). \<forall>r \<in> set (db_templates d). templates_coexist t r)"

lemma tab_inv_templates: "tab_inv templates_inv"
  by (simp add: tab_inv_def templates_inv_def same_tables_fields)

text \<open>The rows after a promotion.\<close>

definition promoted :: "time \<Rightarrow> template \<Rightarrow> template_state \<Rightarrow> template \<Rightarrow> template" where
  "promoted now cur target t =
     (if tpl_id t = tpl_id cur then t\<lparr>tpl_state := target, tpl_updated := now\<rparr>
      else if target = TemplateActive \<and> tpl_family t = tpl_family cur \<and> tpl_state t = TemplateActive
      then t\<lparr>tpl_state := TemplateDeprecated, tpl_updated := now\<rparr> else t)"

lemma templates_Get_Inr:
  assumes "templates_Get tid d = (Inr t, d')"
  shows "find_template tid d = Some t \<and> same_tables d d' \<and> db_now d' = db_now d"
  using scan_read[OF assms[unfolded templates_Get_def]] by (simp add: find_template_def)

lemma demote_rows:
  assumes "demote_others fam tid d = (Inr u, d')"
  shows "db_templates d' = map (\<lambda>t. if tpl_family t = fam \<and> tpl_state t = TemplateActive \<and> tpl_id t \<noteq> tid
      then t\<lparr>tpl_state := TemplateDeprecated, tpl_updated := db_now d\<rparr> else t) (db_templates d) \<and> db_now d' = db_now d \<and>
    same_tables (d\<lparr>db_templates := db_templates d'\<rparr>) d'"
  using assms unfolding demote_others_def
  by (auto elim!: exec_upd_Inr simp: sql_update_def same_tables_def tables_def)

lemma set_state_rows:
  assumes "set_template_state tid target d = (Inr u, d')"
  shows "db_templates d' = map (\<lambda>t. if tpl_id t = tid then t\<lparr>tpl_state := target, tpl_updated := db_now d\<rparr> else t)
      (db_templates d) \<and> db_now d' = db_now d \<and> same_tables (d\<lparr>db_templates := db_templates d'\<rparr>) d'"
  using assms unfolding set_template_state_def
  by (auto elim!: exec_upd_Inr simp: sql_update_def same_tables_def tables_def)

lemma PromoteTx_Inr:
  assumes "PromoteTx tid target d = (Inr t, d')"
  obtains cur where "find_template tid d = Some cur" "isValidTransition (tpl_state cur) target"
    "db_templates d' = map (promoted (db_now d) cur target) (db_templates d)"
    "same_tables (d\<lparr>db_templates := db_templates d'\<rparr>) d'" "find_template tid d' = Some t"
proof -
  from bindE_Inr_cases[OF assms[unfolded PromoteTx_def]] obtain cur d1 where
    g: "templates_Get tid d = (Inr cur, d1)" and
    rest: "(if \<not> isValidTransition (tpl_state cur) target
      then failE (Suffixed ErrInvalidTransition (template_state_str (tpl_state cur) @ '' -> '' @ template_state_str target))
      else bindE (if target = TemplateActive then demote_others (tpl_family cur) tid else retE ()) (\<lambda>_.
        bindE (set_template_state tid target) (\<lambda>_. templates_Get tid))) d1 = (Inr t, d')" .
  have v: "isValidTransition (tpl_state cur) target"
    using rest by (cases "isValidTransition (tpl_state cur) target") (simp_all add: failE_def)
  from v have "\<not> \<not> isValidTransition (tpl_state cur) target" by blast
  from rest[unfolded if_not_P[OF this]]
  obtain u1 d2 u2 d3 where
    dm: "(if target = TemplateActive then demote_others (tpl_family cur) tid else retE ()) d1 = (Inr u1, d2)" and
    st: "set_template_state tid target d2 = (Inr u2, d3)" and g': "templates_Get tid d3 = (Inr t, d')"
    by (elim bindE_Inr_cases)
  note G = templates_Get_Inr[OF g] and S = set_state_rows[OF st] and G' = templates_Get_Inr[OF g']
  have id: "tpl_id cur = tid" using G sql_find_holds by (fastforce simp: find_template_def)
  have dm': "db_templates d2 = map (\<lambda>t. if target = TemplateActive \<and> tpl_family t = tpl_family cur \<and> tpl_state t = TemplateActive \<and> tpl_id t \<noteq> tid
      then t\<lparr>tpl_state := TemplateDeprecated, tpl_updated := db_now d1\<rparr> else t) (db_templates d1) \<and> db_now d2 = db_now d1 \<and>
      same_tables (d1\<lparr>db_templates := db_templates d2\<rparr>) d2"
    using dm demote_rows[of "tpl_family cur" tid d1 u1 d2] by (cases "target = TemplateActive") (auto simp: retE_def)
  have tabs: "db_templates d1 = db_templates d" "db_templates d' = db_templates d3" "db_now d1 = db_now d"
    using G G' same_tables_fields(2) by auto
  have now: "db_now d2 = db_now d" using dm' tabs(3) by simp
  have D: "db_templates d2 = map (\<lambda>t. if target = TemplateActive \<and> tpl_family t = tpl_family cur \<and> tpl_state t = TemplateActive \<and> tpl_id t \<noteq> tid
      then t\<lparr>tpl_state := TemplateDeprecated, tpl_updated := db_now d\<rparr> else t) (db_templates d)"
    using conjunct1[OF dm'] unfolding tabs .
  have S': "db_templates d3 = map (\<lambda>t. if tpl_id t = tid then t\<lparr>tpl_state := target, tpl_updated := db_now d\<rparr> else t) (db_templates d2)"
    using conjunct1[OF S] unfolding now .
  have rows: "db_templates d' = map (promoted (db_now d) cur target) (db_templates d)"
    unfolding tabs(2) S' D map_map by (rule map_cong[OF refl]) (auto simp: promoted_def id)
  have put: "tables (x\<lparr>db_templates := v\<rparr>) = (tables x)\<lparr>db_templates := v\<rparr>" for x v by (simp add: tables_def)
  have t1: "tables d1 = tables d" and t2: "tables d2 = (tables d1)\<lparr>db_templates := db_templates d2\<rparr>"
    and t3: "tables d3 = (tables d2)\<lparr>db_templates := db_templates d3\<rparr>" and t4: "tables d' = tables d3"
    using G G' S dm' by (simp_all add: same_tables_def put)
  have "same_tables (d\<lparr>db_templates := db_templates d'\<rparr>) d'"
    unfolding same_tables_def put t4 t3 t2 t1 tabs(2) by simp
  moreover have "find_template tid d' = Some t"
    using G' by (simp add: find_template_def tabs(2))
  ultimately show ?thesis using that G v rows by blast
qed

lemma promoted_keys [simp]: "tpl_id (promoted now cur target t) = tpl_id t" "tpl_family (promoted now cur target t) = tpl_family t"
  "tpl_version (promoted now cur target t) = tpl_version t" "tpl_cluster (promoted now cur target t) = tpl_cluster t"
  "tpl_node (promoted now cur target t) = tpl_node t" "tpl_vmid (promoted now cur target t) = tpl_vmid t"
  by (simp_all add: promoted_def)

lemma one_activeD: "one_active ts \<Longrightarrow> t \<in> set ts \<Longrightarrow> r \<in> set ts \<Longrightarrow> tpl_family t = tpl_family r \<Longrightarrow>
    tpl_state t = TemplateActive \<Longrightarrow> tpl_state r = TemplateActive \<Longrightarrow> tpl_id t = tpl_id r"
  unfolding one_active_def by blast

lemma one_activeI: "(\<And>t r. t \<in> set ts \<Longrightarrow> r \<in> set ts \<Longrightarrow> tpl_family t = tpl_family r \<Longrightarrow>
    tpl_state t = TemplateActive \<Longrightarrow> tpl_state r = TemplateActive \<Longrightarrow> tpl_id t = tpl_id r) \<Longrightarrow> one_active ts"
  unfolding one_active_def by blast

text \<open>Changing rows one by one keeps the invariant when a pair of rivals after it was one before.\<close>

lemma one_active_map:
  assumes "\<And>t r. t \<in> set ts \<Longrightarrow> r \<in> set ts \<Longrightarrow> tpl_family (g t) = tpl_family (g r) \<Longrightarrow> tpl_state (g t) = TemplateActive \<Longrightarrow>
    tpl_state (g r) = TemplateActive \<Longrightarrow> tpl_id (g t) = tpl_id (g r)"
  shows "one_active (map g ts)"
proof (rule one_activeI)
  fix a b
  assume "a \<in> set (map g ts)" "b \<in> set (map g ts)" and ab: "tpl_family a = tpl_family b"
    "tpl_state a = TemplateActive" "tpl_state b = TemplateActive"
  then obtain t r where "t \<in> set ts" "r \<in> set ts" "a = g t" "b = g r" by fastforce
  with ab assms[of t r] show "tpl_id a = tpl_id b" by simp
qed

lemma promoted_one_active:
  assumes "distinct (map tpl_id ts)" "one_active ts" "cur \<in> set ts"
  shows "one_active (map (promoted now cur target) ts)"
proof (rule one_active_map)
  fix t r
  assume ps: "t \<in> set ts" "r \<in> set ts" "tpl_family (promoted now cur target t) = tpl_family (promoted now cur target r)"
      "tpl_state (promoted now cur target t) = TemplateActive" "tpl_state (promoted now cur target r) = TemplateActive"
  have same: "x = cur" if "x \<in> set ts" "tpl_id x = tpl_id cur" for x
    using distinct_key[OF assms(1) that(1) assms(3) that(2)] .
  show "tpl_id (promoted now cur target t) = tpl_id (promoted now cur target r)"
  proof (cases "tpl_id t = tpl_id cur \<or> tpl_id r = tpl_id cur")
    case True
    then consider "t = cur" | "r = cur" using same[OF ps(1)] same[OF ps(2)] by argo
    then show ?thesis using ps(3-5) by cases (auto simp: promoted_def split: if_splits)
  next
    case False
    with ps have "tpl_state t = TemplateActive" "tpl_state r = TemplateActive" by (auto simp: promoted_def split: if_splits)
    with one_activeD[OF assms(2) ps(1,2)] ps(3) show ?thesis by simp
  qed
qed

lemma promoted_inv:
  assumes "templates_inv d" "cur \<in> set (db_templates d)" "db_templates d' = map (promoted now cur target) (db_templates d)"
  shows "templates_inv d'"
proof -
  have "map tpl_id (db_templates d') = map tpl_id (db_templates d)"
    unfolding assms(3) by simp
  moreover have "one_active (db_templates d')"
    unfolding assms(3) by (rule promoted_one_active) (use assms(1,2) in \<open>simp_all add: templates_inv_def\<close>)
  moreover have "templates_coexist t r" if tr: "t \<in> set (db_templates d')" "r \<in> set (db_templates d')" for t r
  proof -
    from tr assms(3) obtain t0 r0 where "t0 \<in> set (db_templates d)" "r0 \<in> set (db_templates d)"
      "t = promoted now cur target t0" "r = promoted now cur target r0" by auto
    with assms(1) show ?thesis by (auto simp: templates_inv_def templates_coexist_def)
  qed
  ultimately show ?thesis using assms(1) by (simp add: templates_inv_def)
qed

lemma preserves_Promote: "preserves templates_inv (Promote tid target)"
proof (rule keepsI, rule impI)
  fix d
  assume inv: "templates_inv d"
  obtain r d' where run: "Promote tid target d = (r, d')" by fastforce
  from run[unfolded Promote_def] have "templates_inv d'"
  proof (cases rule: WithTx_cases)
    case (rolled_back e)
    with inv tab_inv_templates show ?thesis by (simp add: tab_inv_def)
  next
    case (committed d0 t d1)
    obtain cur where cur: "find_template tid d0 = Some cur"
        "db_templates d1 = map (promoted (db_now d0) cur target) (db_templates d0)"
      using PromoteTx_Inr[OF committed(3)] by metis
    have "templates_inv d0" using inv committed(1) tab_inv_templates by (simp add: tab_inv_def)
    moreover have "cur \<in> set (db_templates d0)" using cur(1) by (simp add: find_template_def sql_find_in)
    ultimately have "templates_inv d1" using cur(2) by (rule promoted_inv)
    with committed(4) tab_inv_templates show ?thesis by (simp add: tab_inv_def)
  qed
  with run show "templates_inv (snd (Promote tid target d))" by simp
qed

lemma preserves_insert_template:
  assumes "tpl_state t = TemplateDraft"
  shows "preserves templates_inv (insert_template t)"
proof (rule keepsI, rule impI)
  fix d
  assume inv: "templates_inv d"
  have "templates_inv (put_templates (db_templates d @ [t]) d)"
    if ok: "\<not> (\<exists>r \<in> set (db_templates d). tpl_id r = tpl_id t)" "\<not> (\<exists>r \<in> set (db_templates d). \<not> templates_coexist t r)"
  proof -
    have "templates_coexist r t" if "r \<in> set (db_templates d)" for r
      using ok(2) that by (force simp: templates_coexist_def)
    moreover have "templates_coexist t t" by (simp add: templates_coexist_def)
    moreover have "one_active (db_templates d @ [t])"
    proof (rule one_activeI)
      fix a b
      assume ab: "a \<in> set (db_templates d @ [t])" "b \<in> set (db_templates d @ [t])" "tpl_family a = tpl_family b"
        "tpl_state a = TemplateActive" "tpl_state b = TemplateActive"
      with assms have "a \<in> set (db_templates d)" "b \<in> set (db_templates d)" by auto
      with ab inv show "tpl_id a = tpl_id b" by (intro one_activeD[of "db_templates d"]) (simp_all add: templates_inv_def)
    qed
    moreover have "distinct (map tpl_id (db_templates d @ [t]))" using inv ok(1) by (auto simp: templates_inv_def)
    ultimately show ?thesis using inv ok(2) unfolding templates_inv_def by auto
  qed
  then show "templates_inv (snd (insert_template t d))"
    using inv by (auto simp: insert_template_def)
qed

lemma preserves_templates_Create: "preserves templates_inv (templates_Create t)"
  unfolding templates_Create_def
  by (intro preserves_scanE keeps_bind preserves_uuid keeps_get preserves_insert_template tab_inv_templates rel_intro)
     (simp add: new_template_def)

lemma preserves_SetValidationStatus: "preserves templates_inv (SetValidationStatus tid status)"
proof -
  let ?f = "\<lambda>now t. t\<lparr>tpl_validation := status, tpl_updated := now\<rparr>"
  have "templates_inv (put_templates (sql_update p (?f now) (db_templates d)) d)" if inv: "templates_inv d" for p now d
  proof -
    let ?g = "\<lambda>t. if p t then ?f now t else t"
    have one: "one_active (map ?g (db_templates d))"
    proof (rule one_active_map)
      fix a b
      assume "a \<in> set (db_templates d)" "b \<in> set (db_templates d)" "tpl_family (?g a) = tpl_family (?g b)"
        "tpl_state (?g a) = TemplateActive" "tpl_state (?g b) = TemplateActive"
      with inv one_activeD[of "db_templates d" a b] show "tpl_id (?g a) = tpl_id (?g b)"
        by (simp add: templates_inv_def split: if_splits)
    qed
    have co: "templates_coexist (?g t) (?g r) = templates_coexist t r" for t r by (simp add: templates_coexist_def)
    have a1: "distinct (map tpl_id (map ?g (db_templates d)))" using inv by (simp add: templates_inv_def comp_def if_distrib cong: if_cong)
    have a3: "\<forall>a \<in> set (map ?g (db_templates d)). \<forall>b \<in> set (map ?g (db_templates d)). templates_coexist a b"
      using inv co unfolding templates_inv_def set_map by blast
    have e: "db_templates (put_templates (sql_update p (?f now) (db_templates d)) d) = map ?g (db_templates d)"
      by (simp add: sql_update_def)
    show ?thesis unfolding templates_inv_def e using a1 one a3 by blast
  qed
  then have "preserves templates_inv (upd_tab db_templates put_templates (\<lambda>now t. tpl_id t = tid)
       (\<lambda>now t. t\<lparr>tpl_validation := status, tpl_updated := now\<rparr>))"
    by (simp add: keeps_def upd_tab_def)
  then show ?thesis
    unfolding SetValidationStatus_def by (intro preserves_exec_rows tab_inv_templates)
qed

section \<open>Properties\<close>

text \<open>
  C15.  The registry keeps its constraints through every operation, whatever fails: identifiers, versions of a
  family and positions on the cluster are unique, and a family has at most one \<open>ACTIVE\<close> version.
\<close>

theorem templates_inv_preserved:
  "preserves templates_inv (templates_Create t) \<and> preserves templates_inv (Promote tid target) \<and>
   preserves templates_inv (SetValidationStatus tid status)"
  using preserves_templates_Create preserves_Promote preserves_SetValidationStatus by blast

definition demo_template :: "string \<Rightarrow> template_state \<Rightarrow> int \<Rightarrow> template" where
  "demo_template tid st vmid = \<lparr>tpl_id = tid, tpl_name = tid, tpl_family = ''ubuntu'', tpl_version = tid, tpl_os_family = [],
     tpl_os_version = [], tpl_arch = [], tpl_cluster = ''c1'', tpl_node = ''pve'', tpl_vmid = vmid, tpl_storage = [],
     tpl_clone_modes = [''full''], tpl_checksum = [], tpl_manifest = None, tpl_state = st, tpl_validation = ValidationPass,
     tpl_created = 0, tpl_updated = 0\<rparr>"

definition demo_registry :: db where
  "demo_registry = demo_db\<lparr>db_templates := [demo_template ''v1'' TemplateActive 9000, demo_template ''v2'' TemplateCandidate 9001]\<rparr>"

lemma demo_registry_inv: "templates_inv (demo_registry\<lparr>db_faults := fs\<rparr>)"
  by (simp add: templates_inv_def demo_registry_def demo_db_def demo_template_def one_active_def templates_coexist_def)

theorem templates_inv_preserved_witness:
  "templates_inv (snd (Promote ''v2'' TemplateActive (demo_registry\<lparr>db_faults := [Applied, Applied, Refused]\<rparr>)))"
  using templates_inv_preserved demo_registry_inv unfolding keeps_def by blast

text \<open>
  C16.  A promotion that succeeds follows the transition table, returns the promoted row, and changes the table
  in that row and, for a promotion to \<open>ACTIVE\<close>, in the row of the family that was \<open>ACTIVE\<close> before, which becomes
  \<open>DEPRECATED\<close>; it touches no other table.
\<close>

theorem promotion_moves_the_active:
  assumes "Promote tid target d = (Inr t, d')" "distinct (map tpl_id (db_templates d))"
  shows "\<exists>cur. find_template tid d = Some cur \<and> isValidTransition (tpl_state cur) target \<and>
    t = promoted (db_now d) cur target cur \<and> tpl_state t = target \<and>
    same_tables (d\<lparr>db_templates := map (promoted (db_now d) cur target) (db_templates d)\<rparr>) d'"
proof -
  obtain d0 d1 where d0: "same_tables d d0" "db_now d0 = db_now d" and p: "PromoteTx tid target d0 = (Inr t, d1)"
    and d1: "same_tables d1 d'"
    using assms(1) unfolding Promote_def by (rule WithTx_InrE)
  obtain cur where cur: "find_template tid d0 = Some cur" "isValidTransition (tpl_state cur) target"
    "db_templates d1 = map (promoted (db_now d0) cur target) (db_templates d0)"
    "same_tables (d0\<lparr>db_templates := db_templates d1\<rparr>) d1" "find_template tid d1 = Some t"
    using PromoteTx_Inr[OF p] by metis
  have tpls: "db_templates d0 = db_templates d" by (rule same_tables_fields(2)[OF d0(1)])
  have idc: "cur \<in> set (db_templates d)" "tpl_id cur = tid"
    using cur(1) sql_find_in sql_find_holds unfolding find_template_def tpls by fastforce+
  have "sql_find (\<lambda>t. tpl_id t = tid) (map (promoted (db_now d) cur target) (db_templates d)) = Some (promoted (db_now d) cur target cur)"
    by (rule sql_find_key) (use assms(2) idc in \<open>simp_all add: comp_def\<close>)
  then have t: "t = promoted (db_now d) cur target cur"
    using cur(5) unfolding find_template_def cur(3) tpls d0(2) by simp
  have put: "tables (x\<lparr>db_templates := v\<rparr>) = (tables x)\<lparr>db_templates := v\<rparr>" for x v by (simp add: tables_def)
  have "same_tables (d\<lparr>db_templates := db_templates d1\<rparr>) d'"
    using d0(1) cur(4) d1 unfolding same_tables_def put by simp
  then have "same_tables (d\<lparr>db_templates := map (promoted (db_now d) cur target) (db_templates d)\<rparr>) d'"
    unfolding cur(3) tpls d0(2) .
  moreover have "tpl_state t = target" unfolding t by (simp add: promoted_def)
  moreover have "find_template tid d = Some cur" using cur(1) unfolding find_template_def tpls .
  ultimately show ?thesis using cur(2) t by blast
qed

theorem promotion_moves_the_active_witness:
  "\<exists>t d'. Promote ''v2'' TemplateActive demo_registry = (Inr t, d') \<and> tpl_state t = TemplateActive \<and>
     map tpl_state (db_templates d') = [TemplateDeprecated, TemplateActive]"
proof -
  obtain t d' where run: "Promote ''v2'' TemplateActive demo_registry = (Inr t, d')"
    by (simp add: Promote_def WithTx_def commit_tx_def PromoteTx_def bindE_def templates_Get_def scanE_def onErr_def
        scan_row_def find_template_def sql_find_def demote_others_def set_template_state_def upd_tab_def sql_update_def
        retE_def failE_def demo_registry_def demo_db_def demo_template_def isValidTransition_def validTransitions_def)
  have "distinct (map tpl_id (db_templates demo_registry))"
    by (simp add: demo_registry_def demo_template_def)
  from promotion_moves_the_active[OF run this] obtain cur where
    c: "find_template ''v2'' demo_registry = Some cur" "tpl_state t = TemplateActive"
    "same_tables (demo_registry\<lparr>db_templates := map (promoted (db_now demo_registry) cur TemplateActive) (db_templates demo_registry)\<rparr>) d'"
    by blast
  have "cur = demo_template ''v2'' TemplateCandidate 9001"
    using c(1) by (simp add: find_template_def sql_find_def demo_registry_def demo_template_def)
  then have "map tpl_state (db_templates d') = [TemplateDeprecated, TemplateActive]"
    using same_tables_fields(2)[OF c(3)] by (simp add: demo_registry_def demo_template_def promoted_def)
  with run c(2) show ?thesis by (intro exI conjI)
qed

end
