(* ===== verification/Workload.thy ===== *)
theory Workload
  imports Guest
begin

text \<open>
  The workload adapters, \<open>internal/workload\<close>: the port, the stub \<open>NoopAdapter\<close>, and \<open>SampleAdapter\<close>, which
  installs one systemd service through the guest agent and keeps its state in a marker file of the guest.
  \<open>sha\<close> is SHA-256 in hexadecimal, \<open>parse\<close> the reader of JSON text.
\<close>

section \<open>The port\<close>

record artifact =
  af_content :: string
  af_sha256 :: string

record validation_report =
  wv_valid :: bool
  wv_reasons :: "string list"

record health_report =
  wh_healthy :: bool
  wh_state :: string
  wh_detail :: string

record 'x workload_adapter =
  wa_Name :: string
  wa_Validate :: "vm_ref \<Rightarrow> ('x, err, validation_report) eff"
  wa_Install :: "vm_ref \<Rightarrow> raw_json \<Rightarrow> ('x, err, unit) eff"
  wa_Health :: "vm_ref \<Rightarrow> ('x, err, health_report) eff"
  wa_Remove :: "vm_ref \<Rightarrow> ('x, err, unit) eff"

section \<open>The stub\<close>

definition noop_workload_marker :: string where
  "noop_workload_marker = ''SIMULATED-NOOP-NOT-REAL-WORKLOAD''"

definition noop_Validate :: "vm_ref \<Rightarrow> ('x, err, validation_report) eff" where
  "noop_Validate vm = retE \<lparr>wv_valid = True, wv_reasons = [noop_workload_marker]\<rparr>"

definition noop_Install :: "vm_ref \<Rightarrow> raw_json \<Rightarrow> ('x, err, unit) eff" where
  "noop_Install vm spec = retE ()"

definition noop_Health :: "vm_ref \<Rightarrow> ('x, err, health_report) eff" where
  "noop_Health vm = retE \<lparr>wh_healthy = True, wh_state = noop_workload_marker, wh_detail = noop_workload_marker\<rparr>"

definition noop_Remove :: "vm_ref \<Rightarrow> ('x, err, unit) eff" where
  "noop_Remove vm = retE ()"

definition NoopWorkload :: "'x workload_adapter" where
  "NoopWorkload = \<lparr>wa_Name = ''noop'', wa_Validate = noop_Validate, wa_Install = noop_Install, wa_Health = noop_Health,
     wa_Remove = noop_Remove\<rparr>"

section \<open>The specification of the sample workload\<close>

record sample_spec =
  ss_name :: string
  ss_service :: string
  ss_path :: string
  ss_artifact :: artifact

text \<open>\<open>encoding/json\<close> reads a \<open>[]byte\<close> from base64 text, or from an array of bytes.\<close>

definition b64_val :: "char \<Rightarrow> nat option" where
  "b64_val c = (if CHR ''A'' \<le> c \<and> c \<le> CHR ''Z'' then Some (of_char c - 65)
     else if CHR ''a'' \<le> c \<and> c \<le> CHR ''z'' then Some (of_char c - 71)
     else if is_digit c then Some (of_char c + 4) else if c = CHR ''+'' then Some 62 else if c = CHR 0x2F then Some 63 else None)"

fun b64_groups :: "string \<Rightarrow> string option" where
  "b64_groups [] = Some []"
| "b64_groups (a # b # c # d # s) =
     (if c = CHR ''='' \<and> d = CHR ''='' \<and> s = [] then (case (b64_val a, b64_val b) of
          (Some i, Some j) \<Rightarrow> Some [char_of ((i * 64 + j) div 16)] | _ \<Rightarrow> None)
      else if d = CHR ''='' \<and> s = [] then (case (b64_val a, b64_val b, b64_val c) of
          (Some i, Some j, Some k) \<Rightarrow> (let n = (i * 4096 + j * 64 + k) div 4 in Some [char_of (n div 256), char_of (n mod 256)])
        | _ \<Rightarrow> None)
      else (case (b64_val a, b64_val b, b64_val c, b64_val d, b64_groups s) of
          (Some i, Some j, Some k, Some l, Some r) \<Rightarrow> (let n = i * 262144 + j * 4096 + k * 64 + l in
            Some (char_of (n div 65536) # char_of (n div 256 mod 256) # char_of (n mod 256) # r))
        | _ \<Rightarrow> None))"
| "b64_groups s = None"

definition b64_decode :: "string \<Rightarrow> string option" where
  "b64_decode s = b64_groups (filter (\<lambda>c. c \<noteq> CHR 0x0A \<and> c \<noteq> CHR 0x0D) s)"

definition json_byte :: "json \<Rightarrow> char option" where
  "json_byte v = (case v of JNum n \<Rightarrow> if 0 \<le> n \<and> n < 256 then Some (char_of (nat n)) else None | JNull \<Rightarrow> Some CHR 0x00 | _ \<Rightarrow> None)"

definition set_bytes :: "json \<Rightarrow> (string \<Rightarrow> 'r \<Rightarrow> 'r) \<Rightarrow> 'r \<times> bool \<Rightarrow> 'r \<times> bool" where
  "set_bytes v upd st = (case v of
       JStr s \<Rightarrow> (case b64_decode s of Some bs \<Rightarrow> (upd bs (fst st), snd st) | None \<Rightarrow> (fst st, False))
     | JArr vs \<Rightarrow> (upd (map (\<lambda>v. case json_byte v of Some c \<Rightarrow> c | None \<Rightarrow> CHR 0x00) vs) (fst st),
         snd st \<and> list_all (\<lambda>v. json_byte v \<noteq> None) vs)
     | JNull \<Rightarrow> (upd [] (fst st), snd st)
     | _ \<Rightarrow> (fst st, False))"

definition artifact_step :: "string \<Rightarrow> json \<Rightarrow> artifact \<times> bool \<Rightarrow> artifact \<times> bool" where
  "artifact_step k v st = (if jkey k ''content'' then set_bytes v (\<lambda>s r. r\<lparr>af_content := s\<rparr>) st
     else if jkey k ''sha256'' then set_str v (\<lambda>s r. r\<lparr>af_sha256 := s\<rparr>) st else st)"

definition spec_step :: "string \<Rightarrow> json \<Rightarrow> sample_spec \<times> bool \<Rightarrow> sample_spec \<times> bool" where
  "spec_step k v st =
     (if jkey k ''name'' then set_str v (\<lambda>s r. r\<lparr>ss_name := s\<rparr>) st
      else if jkey k ''service_name'' then set_str v (\<lambda>s r. r\<lparr>ss_service := s\<rparr>) st
      else if jkey k ''install_path'' then set_str v (\<lambda>s r. r\<lparr>ss_path := s\<rparr>) st
      else if jkey k ''artifact'' then (case unmarshal_with artifact_step (Some v) (ss_artifact (fst st)) of
          (a, ok) \<Rightarrow> ((fst st)\<lparr>ss_artifact := a\<rparr>, snd st \<and> ok))
      else st)"

definition empty_spec :: sample_spec where
  "empty_spec = \<lparr>ss_name = [], ss_service = [], ss_path = [], ss_artifact = \<lparr>af_content = [], af_sha256 = []\<rparr>\<rparr>"

section \<open>The marker and the commands\<close>

definition sampleMarkerPath :: string where
  "sampleMarkerPath = ''/etc/vmf-workload/install.json''"

record install_marker =
  im_name :: string
  im_service :: string
  im_path :: string
  im_sha256 :: string

definition marker_step :: "string \<Rightarrow> json \<Rightarrow> install_marker \<times> bool \<Rightarrow> install_marker \<times> bool" where
  "marker_step k v st =
     (if jkey k ''name'' then set_str v (\<lambda>s r. r\<lparr>im_name := s\<rparr>) st
      else if jkey k ''service_name'' then set_str v (\<lambda>s r. r\<lparr>im_service := s\<rparr>) st
      else if jkey k ''install_path'' then set_str v (\<lambda>s r. r\<lparr>im_path := s\<rparr>) st
      else if jkey k ''sha256'' then set_str v (\<lambda>s r. r\<lparr>im_sha256 := s\<rparr>) st
      else st)"

definition marker_json :: "sample_spec \<Rightarrow> json" where
  "marker_json s = JObj [(''name'', JStr (ss_name s)), (''service_name'', JStr (ss_service s)),
     (''install_path'', JStr (ss_path s)), (''sha256'', JStr (af_sha256 (ss_artifact s)))]"

text \<open>\<open>execTimeout\<close> is never set.\<close>

definition sample_timeout :: duration where
  "sample_timeout = seconds 30"

definition readMarker :: "'x env \<Rightarrow> (string \<Rightarrow> raw_json) \<Rightarrow> vm_ref \<Rightarrow> ('x, err, install_marker) eff" where
  "readMarker env parse vm = bindE (wrapE ''read marker'' (WaitExec env vm [''cat'', sampleMarkerPath] sample_timeout))
     (\<lambda>result. if ex_code result \<noteq> 0
       then failE (Errf (''read marker: exit code '' @ itoa (ex_code result) @ '': '' @ ex_stderr result))
       else ofE (decode_or ''parse marker'' (unmarshal_with marker_step (parse (ex_stdout result))
         \<lparr>im_name = [], im_service = [], im_path = [], im_sha256 = []\<rparr>)))"

definition mustExec :: "'x env \<Rightarrow> vm_ref \<Rightarrow> string list \<Rightarrow> ('x, err, unit) eff" where
  "mustExec env vm command = bindE (WaitExec env vm command sample_timeout) (\<lambda>result.
     if ex_code result \<noteq> 0
     then failE (Errf (''command ['' @ join_with '' '' command @ ''] exited '' @ itoa (ex_code result) @ '': '' @ ex_stderr result))
     else retE ())"

text \<open>\<open>path.Dir\<close>: the directory part, cleaned.\<close>

definition clean_step :: "bool \<Rightarrow> string list \<Rightarrow> string \<Rightarrow> string list" where
  "clean_step rooted out w = (if w = [] \<or> w = ''.'' then out
     else if w = ''..'' then (if out \<noteq> [] \<and> last out \<noteq> ''..'' then butlast out else if rooted then out else out @ [w])
     else out @ [w])"

definition path_clean :: "string \<Rightarrow> string" where
  "path_clean p = (if p = [] then ''.'' else
     let rooted = (hd p = CHR 0x2F); out = foldl (clean_step rooted) [] (split_at CHR 0x2F p);
       body = join_with [CHR 0x2F] out in
     if rooted then CHR 0x2F # body else if body = [] then ''.'' else body)"

definition path_dir :: "string \<Rightarrow> string" where
  "path_dir p = path_clean (rev (dropWhile (\<lambda>c. c \<noteq> CHR 0x2F) (rev p)))"

definition buildSystemdUnit :: "sample_spec \<Rightarrow> string" where
  "buildSystemdUnit s = ''[Unit]'' @ [CHR 0x0A] @ ''Description=vm-factory sample workload: '' @ ss_name s
    @ [CHR 0x0A] @ ''After=network.target'' @ [CHR 0x0A, CHR 0x0A] @ ''[Service]'' @ [CHR 0x0A] @ ''Type=simple'' @ [CHR 0x0A]
    @ ''ExecStart='' @ ss_path s
    @ [CHR 0x0A] @ ''Restart=on-failure'' @ [CHR 0x0A, CHR 0x0A] @ ''[Install]'' @ [CHR 0x0A] @ ''WantedBy=multi-user.target''
    @ [CHR 0x0A]"

definition unit_path :: "string \<Rightarrow> string" where
  "unit_path service = ''/etc/systemd/system/'' @ service @ ''.service''"

section \<open>The sample adapter\<close>

text \<open>What \<open>Install\<close> does in the guest once the artifact is verified and not yet in place.\<close>

definition install_steps :: "'x env \<Rightarrow> vm_ref \<Rightarrow> sample_spec \<Rightarrow> ('x, err, unit) eff" where
  "install_steps env vm s =
     bindE (forE (\<lambda>d. wrapE (''workload: mkdir '' @ d) (mustExec env vm [''mkdir'', ''-p'', d])) [path_dir (ss_path s), path_dir sampleMarkerPath]) (\<lambda>_.
     bindE (wrapE ''workload: write artifact'' (WriteGuestFile env vm (ss_path s) (af_content (ss_artifact s)))) (\<lambda>_.
     bindE (wrapE ''workload: chmod artifact'' (mustExec env vm [''chmod'', ''+x'', ss_path s])) (\<lambda>_.
     bindE (wrapE ''workload: write systemd unit'' (WriteGuestFile env vm (unit_path (ss_service s)) (buildSystemdUnit s))) (\<lambda>_.
     bindE (wrapE ''workload: daemon-reload'' (mustExec env vm [''systemctl'', ''daemon-reload''])) (\<lambda>_.
     bindE (wrapE ''workload: enable service'' (mustExec env vm [''systemctl'', ''enable'', ''--now'', ss_service s])) (\<lambda>_.
     wrapE ''workload: write install marker'' (WriteGuestFile env vm sampleMarkerPath (json_text (marker_json s)))))))))"

definition sample_Install :: "'x env \<Rightarrow> (string \<Rightarrow> raw_json) \<Rightarrow> (string \<Rightarrow> string) \<Rightarrow> vm_ref \<Rightarrow> raw_json \<Rightarrow> ('x, err, unit) eff" where
  "sample_Install env parse sha vm spec = bindE (ofE (decode_or ''workload: unmarshal sample spec'' (unmarshal_with spec_step spec empty_spec)))
     (\<lambda>s. if sha (af_content (ss_artifact s)) \<noteq> af_sha256 (ss_artifact s)
       then failE (Errf (''workload: artifact checksum mismatch: expected '' @ af_sha256 (ss_artifact s) @ '', got ''
         @ sha (af_content (ss_artifact s)) @ '' (WRK-001: khong thuc thi)''))
       else tryE (readMarker env parse vm) (\<lambda>m. case m of
           Inr mk \<Rightarrow> if im_sha256 mk = af_sha256 (ss_artifact s) \<and> im_service mk = ss_service s then retE ()
             else install_steps env vm s
         | Inl _ \<Rightarrow> install_steps env vm s))"

definition sample_Validate :: "'x env \<Rightarrow> (string \<Rightarrow> raw_json) \<Rightarrow> vm_ref \<Rightarrow> ('x, err, validation_report) eff" where
  "sample_Validate env parse vm = tryE (readMarker env parse vm) (\<lambda>m. case m of
       Inl e \<Rightarrow> retE \<lparr>wv_valid = False, wv_reasons = [''read install marker: '' @ err_text e]\<rparr>
     | Inr mk \<Rightarrow> (let reasons = (if im_sha256 mk = [] \<or> im_service mk = [] then [''install marker thieu sha256/service_name''] else [])
         in retE \<lparr>wv_valid = (reasons = []), wv_reasons = reasons\<rparr>))"

definition trimTrailingNewline :: "string \<Rightarrow> string" where
  "trimTrailingNewline s = rev (dropWhile (\<lambda>c. c = CHR 0x0A \<or> c = CHR 0x0D) (rev s))"

definition sample_Health :: "'x env \<Rightarrow> (string \<Rightarrow> raw_json) \<Rightarrow> vm_ref \<Rightarrow> ('x, err, health_report) eff" where
  "sample_Health env parse vm = bindE (wrapE ''workload: read marker for health'' (readMarker env parse vm)) (\<lambda>mk.
     bindE (wrapE ''workload: service_status'' (WaitExec env vm [''systemctl'', ''is-active'', im_service mk] sample_timeout)) (\<lambda>result.
       let out = trimTrailingNewline (ex_stdout result); st = (if out = [] then trimTrailingNewline (ex_stderr result) else out) in
       retE \<lparr>wh_healthy = (ex_code result = 0 \<and> st = ''active''), wh_state = st, wh_detail = ''exit_code='' @ itoa (ex_code result)\<rparr>))"

definition sample_Restart :: "'x env \<Rightarrow> (string \<Rightarrow> raw_json) \<Rightarrow> vm_ref \<Rightarrow> ('x, err, unit) eff" where
  "sample_Restart env parse vm = bindE (wrapE ''workload: read marker for restart'' (readMarker env parse vm)) (\<lambda>mk.
     mustExec env vm [''systemctl'', ''restart'', im_service mk])"

definition CollectBoundedLogs :: "'x env \<Rightarrow> (string \<Rightarrow> raw_json) \<Rightarrow> vm_ref \<Rightarrow> int \<Rightarrow> ('x, err, string) eff" where
  "CollectBoundedLogs env parse vm maxLines = bindE (wrapE ''workload: read marker for logs'' (readMarker env parse vm)) (\<lambda>mk.
     bindE (wrapE ''workload: collect_bounded_logs'' (WaitExec env vm
        [''journalctl'', ''-u'', im_service mk, ''-n'', itoa (if maxLines \<le> 0 then 200 else maxLines), ''--no-pager''] sample_timeout))
       (\<lambda>result. retE (ex_stdout result)))"

text \<open>A call whose error is dropped.\<close>

definition ignoreE :: "('s, err, 'a) eff \<Rightarrow> ('s, err, unit) eff" where
  "ignoreE m = tryE m (\<lambda>_. retE ())"

definition sample_Remove :: "'x env \<Rightarrow> (string \<Rightarrow> raw_json) \<Rightarrow> vm_ref \<Rightarrow> ('x, err, unit) eff" where
  "sample_Remove env parse vm = tryE (readMarker env parse vm) (\<lambda>m. case m of
       Inl _ \<Rightarrow> retE ()
     | Inr mk \<Rightarrow>
         bindE (ignoreE (mustExec env vm [''systemctl'', ''disable'', ''--now'', im_service mk])) (\<lambda>_.
         bindE (ignoreE (mustExec env vm [''rm'', ''-f'', unit_path (im_service mk)])) (\<lambda>_.
         bindE (ignoreE (mustExec env vm [''rm'', ''-f'', im_path mk])) (\<lambda>_.
         bindE (ignoreE (mustExec env vm [''rm'', ''-f'', sampleMarkerPath])) (\<lambda>_.
         wrapE ''workload: daemon-reload after remove'' (mustExec env vm [''systemctl'', ''daemon-reload'']))))))"

definition SampleAdapter :: "'x env \<Rightarrow> (string \<Rightarrow> raw_json) \<Rightarrow> (string \<Rightarrow> string) \<Rightarrow> 'x workload_adapter" where
  "SampleAdapter env parse sha = \<lparr>wa_Name = ''sample-systemd'', wa_Validate = sample_Validate env parse,
     wa_Install = sample_Install env parse sha, wa_Health = sample_Health env parse, wa_Remove = sample_Remove env parse\<rparr>"

section \<open>Base64\<close>

lemma char_bound: "of_char (c :: char) < (256 :: nat)"
  using range_nat_of_char by auto

lemma b64_alphabet: "n < 64 \<Longrightarrow> b64_val (b64_char n) = Some n \<and> b64_char n \<notin> {CHR ''='', CHR 0x0A, CHR 0x0D}"
proof -
  assume n: "n < 64"
  have ch: "b64_val (char_of m) = (if 65 \<le> m \<and> m \<le> 90 then Some (m - 65) else if 97 \<le> m \<and> m \<le> 122 then Some (m - 71)
      else if 48 \<le> m \<and> m \<le> 57 then Some (m + 4) else if m = 43 then Some 62 else if m = 47 then Some 63 else None)"
    "char_of m \<in> {CHR ''='', CHR 0x0A, CHR 0x0D} \<longleftrightarrow> m \<in> {61, 10, 13}" if "m < 256" for m :: nat
  proof -
    have o: "of_char (char_of m) = m" using that by simp
    have eq: "char_of m = c \<longleftrightarrow> m = of_char c" for c using o by (metis char_of_char)
    show "b64_val (char_of m) = (if 65 \<le> m \<and> m \<le> 90 then Some (m - 65) else if 97 \<le> m \<and> m \<le> 122 then Some (m - 71)
      else if 48 \<le> m \<and> m \<le> 57 then Some (m + 4) else if m = 43 then Some 62 else if m = 47 then Some 63 else None)"
      unfolding b64_val_def is_digit_def less_eq_char_def o eq by simp
    show "char_of m \<in> {CHR ''='', CHR 0x0A, CHR 0x0D} \<longleftrightarrow> m \<in> {61, 10, 13}"
      unfolding insert_iff empty_iff eq by simp
  qed
  have plus: "CHR ''+'' = char_of (43 :: nat)" "CHR 0x2F = char_of (47 :: nat)" by code_simp+
  have small: "65 + n < 256" "71 + n < 256" "n - 4 < 256" "43 < (256 :: nat)" "47 < (256 :: nat)" using n by linarith+
  consider "n < 26" | "26 \<le> n" "n < 52" | "52 \<le> n" "n < 62" | "n = 62" | "n = 63" using n by linarith
  then show ?thesis
  proof cases
    case 1
    then have "b64_char n = char_of (65 + n)" by (simp only: b64_char_def if_True)
    with 1 ch[OF small(1)] show ?thesis by (simp only:) simp
  next
    case 2
    then have "b64_char n = char_of (71 + n)" by (simp only: b64_char_def if_True not_less[symmetric] if_False)
    with 2 ch[OF small(2)] show ?thesis by (simp only:) simp
  next
    case 3
    then have "\<not> n < 26" "\<not> n < 52" by linarith+
    with 3 have "b64_char n = char_of (n - 4)" by (simp only: b64_char_def if_True if_False)
    moreover have "\<not> (65 \<le> n - 4 \<and> n - 4 \<le> 90)" "\<not> (97 \<le> n - 4 \<and> n - 4 \<le> 122)" "48 \<le> n - 4 \<and> n - 4 \<le> 57" "n - 4 + 4 = n"
      using 3 by linarith+
    ultimately show ?thesis using ch[OF small(3)] 3 by (simp only: if_True if_False) auto
  next
    case 4
    then have "b64_char n = char_of (43 :: nat)" by (simp add: b64_char_def plus)
    with 4 ch[OF small(4)] show ?thesis by (simp only:) simp
  next
    case 5
    then have "b64_char n = char_of (47 :: nat)" by (simp add: b64_char_def plus)
    with 5 ch[OF small(5)] show ?thesis by (simp only:) simp
  qed
qed

text \<open>Splitting a number into sextets and bytes, and putting it together again.\<close>

lemma sextets2: "n div 262144 * 64 + n div 4096 mod 64 = (n::nat) div 4096"
proof -
  have "n div 262144 = n div 4096 div 64" by (simp add: div_mult2_eq[symmetric])
  with mult_div_mod_eq[of 64 "n div 4096"] show ?thesis by simp
qed

lemma sextets3: "n div 262144 * 4096 + n div 4096 mod 64 * 64 + n div 64 mod 64 = (n::nat) div 64"
proof -
  have "n div 4096 = n div 64 div 64" by (simp add: div_mult2_eq[symmetric])
  with mult_div_mod_eq[of 64 "n div 64"] sextets2[of n] show ?thesis by linarith
qed

lemma sextets4: "n div 262144 * 262144 + n div 4096 mod 64 * 4096 + n div 64 mod 64 * 64 + n mod 64 = (n::nat)"
  using sextets3[of n] mult_div_mod_eq[of 64 n] by linarith

lemma bytes3:
  assumes "b < 256" "c < 256"
  shows "(a * 65536 + b * 256 + c) div 65536 = (a::nat)" "(a * 65536 + b * 256 + c) div 256 mod 256 = b"
    "(a * 65536 + b * 256 + c) mod 256 = c"
proof -
  have h: "a * 65536 + b * 256 + c = (a * 256 + b) * 256 + c" by simp
  have h2: "n div 65536 = n div 256 div 256" for n :: nat by (simp add: div_mult2_eq[symmetric])
  have b1: "(x * 256 + y) div 256 = x" "(x * 256 + y) mod 256 = y" if "y < 256" for x y :: nat using that by simp_all
  show "(a * 65536 + b * 256 + c) div 65536 = a" "(a * 65536 + b * 256 + c) div 256 mod 256 = b"
    "(a * 65536 + b * 256 + c) mod 256 = c"
    unfolding h2 h b1[OF assms(2)] b1[OF assms(1)] by (rule refl)+
qed

lemma first_sextet: "n < 16777216 \<Longrightarrow> n div 262144 < (64 :: nat)"
  by (rule less_mult_imp_div_less) simp

lemma char_sextets:
  "of_char (a :: char) * 65536 div 262144 < (64 :: nat)"
  "(of_char (a :: char) * 65536 + of_char (b :: char) * 256) div 262144 < (64 :: nat)"
  "(of_char (a :: char) * 65536 + of_char (b :: char) * 256 + of_char (c :: char)) div 262144 < (64 :: nat)"
  by (rule first_sextet, use char_bound[of a] char_bound[of b] char_bound[of c] in linarith)+

lemma mod_sextet: "n mod 64 < (64 :: nat)"
  by simp

lemma b64_groups_base64: "b64_groups (base64 s) = Some s"
proof (induction s rule: base64.induct)
  case 1
  show ?case by simp
next
  case (2 a)
  let ?n = "of_char a * 65536 :: nat"
  have n: "(?n div 262144 * 64 + ?n div 4096 mod 64) div 16 = of_char a" unfolding sextets2 by simp
  show ?case
    using b64_alphabet[OF char_sextets(1)[of a]] b64_alphabet[OF mod_sextet[of "?n div 4096"]] n by (simp only: base64.simps Let_def b64_groups.simps) simp
next
  case (3 a b)
  let ?n = "of_char a * 65536 + of_char b * 256 :: nat"
  have n: "(?n div 262144 * 4096 + ?n div 4096 mod 64 * 64 + ?n div 64 mod 64) div 4 = of_char a * 256 + of_char b"
    unfolding sextets3 by simp
  show ?case
    using b64_alphabet[OF char_sextets(2)[of a b]] b64_alphabet[OF mod_sextet[of "?n div 4096"]] b64_alphabet[OF mod_sextet[of "?n div 64"]]
    by (simp only: base64.simps Let_def b64_groups.simps option.case prod.case n simp_thms insert_iff empty_iff if_False)
       (simp add: char_bound)
next
  case (4 a b c s)
  let ?n = "of_char a * 65536 + of_char b * 256 + of_char c :: nat"
  show ?case
    using b64_alphabet[OF char_sextets(3)[of a b c]] b64_alphabet[OF mod_sextet[of "?n div 4096"]] b64_alphabet[OF mod_sextet[of "?n div 64"]]
      b64_alphabet[OF mod_sextet[of ?n]]
    by (simp only: base64.simps Let_def b64_groups.simps option.case prod.case simp_thms insert_iff empty_iff if_False append.simps
          4 sextets4 bytes3[OF char_bound char_bound]) simp
qed

lemma base64_clean: "filter (\<lambda>c. c \<noteq> CHR 0x0A \<and> c \<noteq> CHR 0x0D) (base64 s) = base64 s"
proof -
  have n: "b64_char n \<noteq> CHR 0x0A" "b64_char n \<noteq> CHR 0x0D" if "n < 64" for n using b64_alphabet[OF that] by auto
  have "c \<noteq> CHR 0x0A \<and> c \<noteq> CHR 0x0D" if "c \<in> set (base64 s)" for c
    using that
    by (induction s rule: base64.induct)
       (auto simp only: base64.simps Let_def n[OF char_sextets(1)] n[OF char_sextets(2)] n[OF char_sextets(3)] n[OF mod_sextet]
         set_simps insert_iff empty_iff set_append Un_iff char.inject simp_thms)
  then show ?thesis by (simp add: filter_id_conv)
qed


section \<open>Verified artifacts\<close>

text \<open>
  C33.  \<open>Install\<close> of the sample adapter does nothing to the guest unless the specification can be read and the
  artifact has the checksum it claims.
\<close>

theorem only_verified_artifacts_reach_the_guest:
  assumes "sample_Install env parse sha vm spec x = (r, x')" "x' \<noteq> x \<or> r = Inr ()"
  shows "\<exists>s. unmarshal_with spec_step spec empty_spec = (s, True) \<and> sha (af_content (ss_artifact s)) = af_sha256 (ss_artifact s)"
proof -
  obtain s ok where d: "unmarshal_with spec_step spec empty_spec = (s, ok)" by fastforce
  then show ?thesis using assms
    by (auto simp: sample_Install_def bindE_def ofE_def decode_or_def failE_def split: if_splits)
qed

text \<open>A guest that cannot be reached, counting the requests, and an artifact whose checksum is taken to be \<open>ok\<close>.\<close>

definition unreachable :: "nat env" where
  "unreachable = \<lparr>e_http = (\<lambda>rq x. (Inl CtxDone, x + 1)), e_now = (\<lambda>x. 0), e_sleep = (\<lambda>d x. (False, x)), e_fuel = 1\<rparr>"

definition demo_spec :: raw_json where
  "demo_spec = Some (JObj [(''artifact'', JObj [(''content'', JArr [JNum 104, JNum 105]), (''sha256'', JStr ''ok'')])])"

theorem only_verified_artifacts_reach_the_guest_witness:
  "\<exists>s. unmarshal_with spec_step demo_spec empty_spec = (s, True) \<and> ''ok'' = af_sha256 (ss_artifact s)"
proof -
  have d: "unmarshal_with spec_step demo_spec empty_spec =
      (\<lparr>ss_name = [], ss_service = [], ss_path = [], ss_artifact = \<lparr>af_content = ''hi'', af_sha256 = ''ok''\<rparr>\<rparr>, True)"
    by code_simp
  have "snd (sample_Install unreachable (\<lambda>_. None) (\<lambda>_. ''ok'') \<lparr>vr_node = ''pve'', vr_vmid = 7\<rparr> demo_spec 0) \<noteq> 0"
    by (simp add: sample_Install_def d decode_or_def ofE_def bindE_def tryE_def readMarker_def WaitExec_def guest_Exec_def
        doRequest_def onErr_def unreachable_def install_steps_def mustExec_def)
  from only_verified_artifacts_reach_the_guest[OF surjective_pairing disjI1[OF this]] show ?thesis .
qed

end
