(* ===== verification/Canary.thy ===== *)
theory Canary
  imports Workload MockPve
begin

text \<open>
  The canary of a template, \<open>internal/template/canary.go\<close>: one clone that is configured, started, asked for its
  facts and removed again.  \<open>env\<close> sees the cluster through the context of the caller, \<open>cenv\<close> through the context of the
  clean-up, which has its own deadline.
\<close>

section \<open>Requests on record\<close>

text \<open>An environment that writes down the requests it is asked for, in their order.\<close>

definition logged :: "'x env \<Rightarrow> ('x \<times> http_request list) env" where
  "logged env = \<lparr>e_http = (\<lambda>rq (x, l). (case e_http env rq x of (r, x') \<Rightarrow> (r, (x', l @ [rq])))),
     e_now = (\<lambda>(x, l). e_now env x), e_sleep = (\<lambda>d (x, l). (case e_sleep env d x of (c, x') \<Rightarrow> (c, (x', l)))),
     e_fuel = e_fuel env\<rparr>"

abbreviation changes :: "http_request list \<Rightarrow> http_request list" where
  "changes l \<equiv> filter (\<lambda>rq. rq_method rq \<noteq> ''GET'') l"

section \<open>Facts\<close>

definition canary_script :: string where
  "canary_script =
    [CHR 0x0A] @ ''mid=$(cat /etc/machine-id 2>/dev/null || echo '' @ [CHR 0x22, CHR 0x22] @ '')'' @ [CHR 0x0A]
    @ ''ssh_keys=$(ls /etc/ssh/ssh_host_*_key.pub 2>/dev/null | wc -l)'' @ [CHR 0x0A]
    @ ''ci_id=$(cat /var/lib/cloud/data/instance-id 2>/dev/null || echo '' @ [CHR 0x22, CHR 0x22] @ '')'' @ [CHR 0x0A]
    @ ''nic_count=$(ip -o link show | grep -v '' @ [CHR 0x27] @ '' lo:'' @ [CHR 0x27] @ '' | wc -l)'' @ [CHR 0x0A]
    @ ''def4=$(ip -4 route show default 2>/dev/null | wc -l)'' @ [CHR 0x0A]
    @ ''def6=$(ip -6 route show default 2>/dev/null | wc -l)'' @ [CHR 0x0A]
    @ ''qga=$(systemctl is-active qemu-guest-agent 2>/dev/null || echo inactive)'' @ [CHR 0x0A]
    @ ''timesync=$(timedatectl show -p NTPSynchronized --value 2>/dev/null || echo '' @ [CHR 0x22] @ ''no'' @ [CHR 0x22]
    @ '')'' @ [CHR 0x0A] @ ''printf '' @ [CHR 0x27] @ ''{'' @ [CHR 0x22] @ ''machine_id'' @ [CHR 0x22] @ '':'' @ [CHR 0x22]
    @ ''%s'' @ [CHR 0x22] @ '','' @ [CHR 0x22] @ ''ssh_host_key_count'' @ [CHR 0x22] @ '':%s,'' @ [CHR 0x22]
    @ ''cloud_init_instance_id'' @ [CHR 0x22] @ '':'' @ [CHR 0x22] @ ''%s'' @ [CHR 0x22] @ '','' @ [CHR 0x22] @ ''nic_count''
    @ [CHR 0x22] @ '':%s,'' @ [CHR 0x22] @ ''default_route_v4_count'' @ [CHR 0x22] @ '':%s,'' @ [CHR 0x22]
    @ ''default_route_v6_count'' @ [CHR 0x22] @ '':%s,'' @ [CHR 0x22] @ ''qga_status'' @ [CHR 0x22] @ '':'' @ [CHR 0x22]
    @ ''%s'' @ [CHR 0x22] @ '','' @ [CHR 0x22] @ ''time_synchronized'' @ [CHR 0x22] @ '':'' @ [CHR 0x22] @ ''%s''
    @ [CHR 0x22] @ ''}'' @ [CHR 0x27] @ '' '' @ [CHR 0x5C, CHR 0x0A] @ ''  '' @ [CHR 0x22] @ ''$mid'' @ [CHR 0x22] @ '' ''
    @ [CHR 0x22] @ ''$ssh_keys'' @ [CHR 0x22] @ '' '' @ [CHR 0x22] @ ''$ci_id'' @ [CHR 0x22] @ '' '' @ [CHR 0x22]
    @ ''$nic_count'' @ [CHR 0x22] @ '' '' @ [CHR 0x22] @ ''$def4'' @ [CHR 0x22] @ '' '' @ [CHR 0x22] @ ''$def6'' @ [CHR 0x22]
    @ '' '' @ [CHR 0x22] @ ''$qga'' @ [CHR 0x22] @ '' '' @ [CHR 0x22] @ ''$timesync'' @ [CHR 0x22, CHR 0x0A]"

record canary_facts =
  cn_machine_id :: string
  cn_ssh_keys :: int
  cn_cloud_init :: string
  cn_nics :: int
  cn_routes4 :: int
  cn_routes6 :: int
  cn_qga :: string
  cn_time_sync :: string

record canary_options =
  co_node :: string
  co_source_vmid :: int
  co_storage :: string
  co_bridge :: string
  co_pool :: string
  co_boot_timeout :: duration

definition canary_facts_step :: "string \<Rightarrow> json \<Rightarrow> canary_facts \<times> bool \<Rightarrow> canary_facts \<times> bool" where
  "canary_facts_step k v st =
     (if jkey k ''machine_id'' then set_str v (\<lambda>s r. r\<lparr>cn_machine_id := s\<rparr>) st
      else if jkey k ''ssh_host_key_count'' then set_int v (\<lambda>n r. r\<lparr>cn_ssh_keys := n\<rparr>) st
      else if jkey k ''cloud_init_instance_id'' then set_str v (\<lambda>s r. r\<lparr>cn_cloud_init := s\<rparr>) st
      else if jkey k ''nic_count'' then set_int v (\<lambda>n r. r\<lparr>cn_nics := n\<rparr>) st
      else if jkey k ''default_route_v4_count'' then set_int v (\<lambda>n r. r\<lparr>cn_routes4 := n\<rparr>) st
      else if jkey k ''default_route_v6_count'' then set_int v (\<lambda>n r. r\<lparr>cn_routes6 := n\<rparr>) st
      else if jkey k ''qga_status'' then set_str v (\<lambda>s r. r\<lparr>cn_qga := s\<rparr>) st
      else if jkey k ''time_synchronized'' then set_str v (\<lambda>s r. r\<lparr>cn_time_sync := s\<rparr>) st
      else st)"

definition no_facts :: canary_facts where
  "no_facts = \<lparr>cn_machine_id = [], cn_ssh_keys = 0, cn_cloud_init = [], cn_nics = 0, cn_routes4 = 0, cn_routes6 = 0,
     cn_qga = [], cn_time_sync = []\<rparr>"

definition canary_facts_json :: "canary_facts \<Rightarrow> json" where
  "canary_facts_json f = JObj [(''machine_id'', JStr (cn_machine_id f)), (''ssh_host_key_count'', JNum (cn_ssh_keys f)),
     (''cloud_init_instance_id'', JStr (cn_cloud_init f)), (''nic_count'', JNum (cn_nics f)),
     (''default_route_v4_count'', JNum (cn_routes4 f)), (''default_route_v6_count'', JNum (cn_routes6 f)),
     (''qga_status'', JStr (cn_qga f)), (''time_synchronized'', JStr (cn_time_sync f))]"

section \<open>Checks\<close>

record canary_check =
  cc_name :: string
  cc_result :: string
  cc_expected :: string
  cc_observed :: string

definition passFail :: "bool \<Rightarrow> string" where
  "passFail ok = (if ok then ''PASS'' else ''FAIL'')"

text \<open>This \<open>isLowerHex\<close>, unlike that of the validation rules, accepts the empty string.\<close>

definition canary_isLowerHex :: "string \<Rightarrow> bool" where
  "canary_isLowerHex s \<longleftrightarrow> list_all (\<lambda>c. \<not> ((c < CHR ''0'' \<or> c > CHR ''9'') \<and> (c < CHR ''a'' \<or> c > CHR ''f''))) s"

definition evaluateCanaryFacts :: "canary_facts \<Rightarrow> canary_check list" where
  "evaluateCanaryFacts f = map (\<lambda>(name, expected, observed, ok).
       \<lparr>cc_name = name, cc_result = passFail ok, cc_expected = expected, cc_observed = observed\<rparr>)
     [(''machine_id_format'', ''32 lowercase hex chars'', cn_machine_id f,
         length (cn_machine_id f) = 32 \<and> canary_isLowerHex (cn_machine_id f)),
      (''ssh_host_keys_generated'', ''>= 1'', itoa (cn_ssh_keys f), cn_ssh_keys f \<ge> 1),
      (''cloud_init_instance_id_present'', ''non-empty'', cn_cloud_init f, cn_cloud_init f \<noteq> []),
      (''single_nic'', ''1'', itoa (cn_nics f), cn_nics f = 1),
      (''single_ipv4_default_route'', ''1'', itoa (cn_routes4 f), cn_routes4 f = 1),
      (''no_ipv6_default_route'', ''0'', itoa (cn_routes6 f), cn_routes6 f = 0),
      (''qga_active'', ''active'', cn_qga f, cn_qga f = ''active''),
      (''time_synchronized'', ''yes'', cn_time_sync f, cn_time_sync f = ''yes'')]"

definition canary_check_json :: "canary_check \<Rightarrow> json" where
  "canary_check_json c = JObj [(''name'', JStr (cc_name c)), (''result'', JStr (cc_result c)),
     (''expected'', JStr (cc_expected c)), (''observed'', JStr (cc_observed c))]"

section \<open>The run\<close>

text \<open>The last error of a ping, \<open>nil\<close> before the first; \<open>%w\<close> of \<open>nil\<close> prints a placeholder.\<close>

definition no_agent :: "err option \<Rightarrow> err" where
  "no_agent lastErr = (case lastErr of
       Some e \<Rightarrow> Wrap ''guest agent did not respond within timeout, last error'' e
     | None \<Rightarrow> Errf ''guest agent did not respond within timeout, last error: %!w(<nil>)'')"

fun ping_loop :: "'x env \<Rightarrow> vm_ref \<Rightarrow> time \<Rightarrow> nat \<Rightarrow> err option \<Rightarrow> ('x, err, unit) eff" where
  "ping_loop env ref deadline 0 lastErr = failE OutOfFuel"
| "ping_loop env ref deadline (Suc fuel) lastErr = bindE (getE (e_now env)) (\<lambda>now.
     if \<not> now < deadline then failE (no_agent lastErr)
     else tryE (GuestPing env ref) (\<lambda>r. case r of
         Inr _ \<Rightarrow> retE ()
       | Inl e \<Rightarrow> (\<lambda>x. case e_sleep env (seconds 5) x of
             (True, x') \<Rightarrow> (Inl CtxDone, x')
           | (False, x') \<Rightarrow> ping_loop env ref deadline fuel (Some e) x')))"

definition waitGuestAgent :: "'x env \<Rightarrow> vm_ref \<Rightarrow> duration \<Rightarrow> ('x, err, unit) eff" where
  "waitGuestAgent env ref timeout = bindE (getE (e_now env)) (\<lambda>now. ping_loop env ref (now + timeout) (e_fuel env) None)"

text \<open>Sending a task and waiting for it to succeed, with the messages of the step.\<close>

definition run_task :: "'x env \<Rightarrow> string \<Rightarrow> ('x, err, task_ref) eff \<Rightarrow> duration \<Rightarrow> ('x, err, unit) eff" where
  "run_task env name send timeout =
     bindE (wrapE (''template: canary '' @ name) send) (\<lambda>t.
     bindE (wrapE (''template: canary wait '' @ name) (WaitForTask env t timeout)) (\<lambda>status.
       if \<not> Success status then failE (Errf (''template: canary '' @ name @ '' task failed: '' @ status_text status)) else retE ()))"

definition canary_run :: "canary_facts \<Rightarrow> int \<Rightarrow> time \<Rightarrow> time \<Rightarrow> validation_run" where
  "canary_run f vmid started finished = (let checks = evaluateCanaryFacts f in
     \<lparr>run_id = [], run_instance = [], run_job = None, run_type = ''template'',
      run_result = (if list_all (\<lambda>c. cc_result c = ''PASS'') checks then ValidationPass else ValidationFail),
      run_ruleset = ''golden-template-canary-1.0'',
      run_evidence = Some (JObj [(''canary_vmid'', JNum vmid), (''checks'', JArr (map canary_check_json checks)),
        (''facts'', canary_facts_json f)]),
      run_started = started, run_finished = Some finished\<rparr>)"

definition canary_clone :: "canary_options \<Rightarrow> int \<Rightarrow> clone_request" where
  "canary_clone opts vmid = \<lparr>cr_source_node = co_node opts, cr_source_vmid = co_source_vmid opts, cr_target_node = co_node opts,
     cr_target_vmid = vmid, cr_name = ''vmf-canary-'' @ itoa vmid, cr_storage = co_storage opts, cr_pool = co_pool opts,
     cr_full = True, cr_description = ''vmf.canary=1 vmf.source_vmid='' @ itoa (co_source_vmid opts) @ '' vmf.vmid='' @ itoa vmid\<rparr>"

definition canary_configure :: "canary_options \<Rightarrow> vm_ref \<Rightarrow> configure_request" where
  "canary_configure opts ref = \<lparr>cf_ref = ref, cf_cores = 1, cf_sockets = 1, cf_memory = 512, cf_cpu = [], cf_agent = True,
     cf_onboot = False, cf_net0 = \<lparr>nc_bridge = co_bridge opts, nc_firewall = True\<rparr>, cf_ipconfig0 = ''ip=dhcp''\<rparr>"

text \<open>What happens between the allocation of the VM id and the clean-up.\<close>

definition canary_body :: "'x env \<Rightarrow> (string \<Rightarrow> raw_json) \<Rightarrow> canary_options \<Rightarrow> time \<Rightarrow> int \<Rightarrow> ('x, err, validation_run) eff" where
  "canary_body env parse opts started vmid =
     (let ref = \<lparr>vr_node = co_node opts, vr_vmid = vmid\<rparr>;
          boot = (if co_boot_timeout opts \<le> 0 then seconds 120 else co_boot_timeout opts) in
      bindE (run_task env ''clone'' (pve_Clone env (canary_clone opts vmid)) (seconds 180)) (\<lambda>_.
      bindE (run_task env ''configure'' (pve_Configure env (canary_configure opts ref)) (seconds 60)) (\<lambda>_.
      bindE (run_task env ''start'' (pve_Start env ref) (seconds 60)) (\<lambda>_.
      bindE (wrapE ''template: canary wait QGA'' (waitGuestAgent env ref boot)) (\<lambda>_.
      bindE (wrapE ''template: canary collect facts'' (WaitExec env ref [''bash'', ''-c'', canary_script] (seconds 30))) (\<lambda>result.
      if ex_code result \<noteq> 0
      then failE (Errf (''template: canary fact script exited '' @ itoa (ex_code result) @ '': '' @ ex_stderr result))
      else bindE (ofE (decode_or (''template: canary parse facts (stdout='' @ json_quote (ex_stdout result) @ '')'')
             (unmarshal_with canary_facts_step (parse (ex_stdout result)) no_facts))) (\<lambda>f.
           bindE (getE (e_now env)) (\<lambda>finished. retE (canary_run f vmid started finished)))))))))"

text \<open>The deferred clean-up: errors are dropped.\<close>

definition settle :: "'x env \<Rightarrow> err + task_ref \<Rightarrow> ('x, err, unit) eff" where
  "settle cenv r = (case r of Inl _ \<Rightarrow> retE () | Inr t \<Rightarrow> ignoreE (WaitForTask cenv t (seconds 30)))"

definition canary_cleanup :: "'x env \<Rightarrow> vm_ref \<Rightarrow> ('x, err, unit) eff" where
  "canary_cleanup cenv ref =
     bindE (tryE (pve_Stop cenv ref) (settle cenv)) (\<lambda>_. tryE (pve_Delete cenv ref True) (settle cenv))"

definition canary_Validate :: "'x env \<Rightarrow> 'x env \<Rightarrow> (string \<Rightarrow> raw_json) \<Rightarrow> canary_options \<Rightarrow> ('x, err, validation_run) eff" where
  "canary_Validate env cenv parse opts = bindE (getE (e_now env)) (\<lambda>started.
     bindE (wrapE ''template: canary allocate vmid'' (AllocateNextVMID env)) (\<lambda>vmid.
     tryE (canary_body env parse opts started vmid) (\<lambda>r.
     tryE (canary_cleanup cenv \<lparr>vr_node = co_node opts, vr_vmid = vmid\<rparr>) (\<lambda>_. ofE r))))"

section \<open>What is on record\<close>

abbreviation reads_only :: "('x \<times> http_request list, err, 'a) eff \<Rightarrow> bool" where
  "reads_only m \<equiv> keeps (\<lambda>s s'. changes (snd s') = changes (snd s)) m"

lemma logged_now: "keeps (\<lambda>s s'. changes (snd s') = changes (snd s)) (getE (e_now (logged env)))"
  by (simp add: keeps_def getE_def)

lemma logged_request:
  "changes (snd (snd (doRequest (logged env) meth path params s))) =
     changes (snd s) @ (if meth = ''GET'' then [] else [\<lparr>rq_method = meth, rq_path = path, rq_params = params\<rparr>])"
  by (cases s) (auto simp: doRequest_def bindE_def onErr_def logged_def failE_def retE_def split: prod.splits sum.splits bool.splits)

lemma reads_request: "reads_only (doRequest (logged env) ''GET'' path params)"
  by (simp add: keeps_def logged_request)

lemma keeps_ofE: "reflp R \<Longrightarrow> keeps R (ofE r)"
  by (simp add: keeps_def ofE_def reflpD)

lemma reads_GetTask: "reads_only (GetTask (logged env) t)"
  unfolding GetTask_def by (intro keeps_bind rel_intro reads_request keeps_ofE)

lemma logged_sleep: "e_sleep (logged env) d s = (c, s') \<Longrightarrow> changes (snd s') = changes (snd s)"
  by (cases s) (auto simp: logged_def split: prod.splits)

lemma reads_wait_loop: "reads_only (wait_loop (logged env) t deadline fuel k)"
proof (induction fuel arbitrary: k)
  case 0
  show ?case by (simp add: keeps_fail rel_intro)
next
  case (Suc fuel)
  have "reads_only (\<lambda>x. case e_sleep (logged env) (wait_before k) x of
      (True, x') \<Rightarrow> (Inl CtxDone, x') | (False, x') \<Rightarrow> wait_loop (logged env) t deadline fuel (k + 1) x')"
  proof (rule keepsI)
    fix s
    obtain c s' where "e_sleep (logged env) (wait_before k) s = (c, s')" by (rule prod.exhaust)
    with logged_sleep[OF this] Suc[of "k + 1"]
    show "changes (snd (snd (case e_sleep (logged env) (wait_before k) s of (True, x') \<Rightarrow> (Inl CtxDone, x')
        | (False, x') \<Rightarrow> wait_loop (logged env) t deadline fuel (k + 1) x'))) = changes (snd s)"
      by (cases c) (simp_all add: keeps_def del: split_paired_All)
  qed
  then show ?case
    unfolding wait_loop.simps by (intro keeps_bind keeps_if keeps_ret keeps_fail rel_intro reads_GetTask logged_now)
qed

lemma reads_WaitForTask: "reads_only (WaitForTask (logged env) t d)"
  unfolding WaitForTask_def by (intro keeps_bind rel_intro logged_now reads_wait_loop)

lemma logged_task_call:
  "changes (snd (snd (task_call (logged env) meth path params node s))) =
     changes (snd s) @ (if meth = ''GET'' then [] else [\<lparr>rq_method = meth, rq_path = path, rq_params = params\<rparr>])"
  using logged_request[of env meth path params s] unfolding task_call_def bindE_def ofE_def retE_def by (auto split: prod.splits sum.splits)

lemma reads_settle: "reads_only (settle (logged cenv) r)"
  unfolding settle_def ignoreE_def by (intro keeps_sum keeps_ret keeps_try rel_intro reads_WaitForTask)

definition delete_request :: "vm_ref \<Rightarrow> http_request" where
  "delete_request ref = \<lparr>rq_method = ''DELETE'', rq_path = qemu_path ref [], rq_params = [(''purge'', ''1'')]\<rparr>"

lemma try_changes:
  assumes "\<And>r. reads_only (k r)"
  shows "changes (snd (snd (tryE m k s))) = changes (snd (snd (m s)))"
  using assms unfolding tryE_def keeps_def by (simp split: prod.split)

lemma settle_changes: "changes (snd (snd (tryE m (settle (logged cenv)) s))) = changes (snd (snd (m s)))"
  by (rule try_changes[OF reads_settle])

text \<open>Whatever the cluster answers, the clean-up ends with the request to delete the VM.\<close>

lemma cleanup_deletes:
  "\<exists>stop. changes (snd (snd (canary_cleanup (logged cenv) ref s))) = changes (snd s) @ [stop, delete_request ref]"
proof -
  have ok: "\<exists>y. tryE m (settle (logged cenv)) s = (Inr (), y)" for m :: "('a \<times> http_request list, err, task_ref) eff" and s
    by (auto simp: settle_def tryE_def ignoreE_def retE_def split: prod.splits sum.splits)
  obtain y where y: "tryE (pve_Stop (logged cenv) ref) (settle (logged cenv)) s = (Inr (), y)" using ok by blast
  have "changes (snd y) = changes (snd s) @ [\<lparr>rq_method = ''POST'', rq_path = qemu_path ref ''/status/stop'', rq_params = []\<rparr>]"
    using settle_changes[of "pve_Stop (logged cenv) ref" cenv s] y
    by (simp add: pve_Stop_def statusAction_def logged_task_call)
  moreover have "changes (snd (snd (tryE (pve_Delete (logged cenv) ref True) (settle (logged cenv)) y))) = changes (snd y) @ [delete_request ref]"
    using settle_changes[of "pve_Delete (logged cenv) ref True" cenv y]
    by (simp add: pve_Delete_def logged_task_call delete_request_def boolParam_def)
  ultimately show ?thesis using y by (simp add: canary_cleanup_def bindE_def)
qed

lemma canary_passes:
  "run_result (canary_run f vmid st fin) = ValidationPass \<longleftrightarrow>
     length (cn_machine_id f) = 32 \<and> canary_isLowerHex (cn_machine_id f) \<and> cn_ssh_keys f \<ge> 1 \<and> cn_cloud_init f \<noteq> [] \<and>
     cn_nics f = 1 \<and> cn_routes4 f = 1 \<and> cn_routes6 f = 0 \<and> cn_qga f = ''active'' \<and> cn_time_sync f = ''yes''"
  by (auto simp: canary_run_def evaluateCanaryFacts_def passFail_def Let_def)

section \<open>Properties\<close>

text \<open>
  C29.  No canary is left behind unattended: whatever the cluster answers and wherever the run stops, once a VM id
  was allocated the last request that changes the cluster deletes the VM with that id.
\<close>

theorem canary_is_always_deleted:
  "case AllocateNextVMID (logged env) s of
     (Inl e, s1) \<Rightarrow> canary_Validate (logged env) (logged cenv) parse opts s = (Inl (Wrap ''template: canary allocate vmid'' e), s1)
       \<and> changes (snd s1) = changes (snd s)
   | (Inr vmid, s1) \<Rightarrow> \<exists>l. changes (snd (snd (canary_Validate (logged env) (logged cenv) parse opts s))) =
       l @ [delete_request \<lparr>vr_node = co_node opts, vr_vmid = vmid\<rparr>]"
proof -
  obtain a s1 where a: "AllocateNextVMID (logged env) s = (a, s1)" by (rule prod.exhaust)
  show ?thesis
  proof (cases a)
    case (Inl e)
    have "reads_only (AllocateNextVMID (logged env))"
      unfolding AllocateNextVMID_def by (intro keeps_bind rel_intro reads_request keeps_ofE)
    from keepsD[OF this a] a Inl show ?thesis by (simp add: canary_Validate_def bindE_def getE_def onErr_def)
  next
    case (Inr vmid)
    obtain r y where "canary_body (logged env) parse opts (e_now (logged env) s) vmid s1 = (r, y)" by (rule prod.exhaust)
    moreover from cleanup_deletes[of cenv "\<lparr>vr_node = co_node opts, vr_vmid = vmid\<rparr>" y] obtain stop where
      "changes (snd (snd (canary_cleanup (logged cenv) \<lparr>vr_node = co_node opts, vr_vmid = vmid\<rparr> y))) =
        changes (snd y) @ [stop, delete_request \<lparr>vr_node = co_node opts, vr_vmid = vmid\<rparr>]" by blast
    ultimately show ?thesis using a Inr
      by (auto simp: canary_Validate_def bindE_def getE_def onErr_def tryE_def ofE_def split: prod.splits)
  qed
qed

text \<open>
  C30.  A canary run passes exactly when the facts it read are those of a clean image: a well-formed machine-id, generated SSH
  host keys, a cloud-init instance id, one network card, one IPv4 default route and none for IPv6, the guest agent
  and the time synchronisation active.  The evidence holds these facts.
\<close>

theorem canary_verdict_exact:
  "case canary_Validate env cenv parse opts x of
     (Inl e, x') \<Rightarrow> True
   | (Inr run, x') \<Rightarrow> \<exists>f vmid result s s'.
       WaitExec env \<lparr>vr_node = co_node opts, vr_vmid = vmid\<rparr> [''bash'', ''-c'', canary_script] (seconds 30) s = (Inr result, s')
     \<and> unmarshal_with canary_facts_step (parse (ex_stdout result)) no_facts = (f, True)
     \<and> (run_result run = ValidationPass \<longleftrightarrow>
       length (cn_machine_id f) = 32 \<and> canary_isLowerHex (cn_machine_id f) \<and> cn_ssh_keys f \<ge> 1 \<and> cn_cloud_init f \<noteq> [] \<and>
       cn_nics f = 1 \<and> cn_routes4 f = 1 \<and> cn_routes6 f = 0 \<and> cn_qga f = ''active'' \<and> cn_time_sync f = ''yes'')
     \<and> run_evidence run = Some (JObj [(''canary_vmid'', JNum vmid), (''checks'', JArr (map canary_check_json (evaluateCanaryFacts f))),
         (''facts'', canary_facts_json f)])"
proof -
  have "\<exists>f vmid st fin result s s'. run = canary_run f vmid st fin \<and> unmarshal_with canary_facts_step (parse (ex_stdout result)) no_facts = (f, True)
      \<and> WaitExec env \<lparr>vr_node = co_node opts, vr_vmid = vmid\<rparr> [''bash'', ''-c'', canary_script] (seconds 30) s = (Inr result, s')"
    if run: "canary_Validate env cenv parse opts x = (Inr run, x')" for run x'
  proof -
    from run obtain st vmid s y where "canary_body env parse opts st vmid s = (Inr run, y)"
      unfolding canary_Validate_def ofE_def tryE_def by (auto elim!: bindE_Inr_cases split: prod.splits)
    then obtain s1 s2 result where ex: "WaitExec env \<lparr>vr_node = co_node opts, vr_vmid = vmid\<rparr> [''bash'', ''-c'', canary_script] (seconds 30) s1 = (Inr result, s2)"
      "bindE (ofE (decode_or (''template: canary parse facts (stdout='' @ json_quote (ex_stdout result) @ '')'')
         (unmarshal_with canary_facts_step (parse (ex_stdout result)) no_facts))) (\<lambda>f.
           bindE (getE (e_now env)) (\<lambda>finished. retE (canary_run f vmid st finished))) s2 = (Inr run, y)"
      unfolding canary_body_def Let_def by (elim bindE_Inr_cases; simp only: onErr_Inr_iff failE_def split: if_splits; blast?)
    from ex(2) have "\<exists>f fin. run = canary_run f vmid st fin \<and> unmarshal_with canary_facts_step (parse (ex_stdout result)) no_facts = (f, True)"
      by (cases "unmarshal_with canary_facts_step (parse (ex_stdout result)) no_facts")
         (auto simp: bindE_def ofE_def getE_def retE_def decode_or_def split: if_splits)
    with ex(1) show ?thesis by blast
  qed
  then show ?thesis using canary_passes by (fastforce simp: canary_run_def Let_def split: prod.split sum.split)
qed

end
