(* ===== verification/Checkpoint.thy ===== *)
theory Checkpoint
  imports Domain
begin

text \<open>
  What a provisioning job remembers between its steps, the \<open>checkpoint_data\<close> of \<open>internal/stateengine\<close>.  The Go
  structs \<open>reservingCheckpoint\<close>, \<open>cloningCheckpoint\<close>, \<open>configuringCheckpoint\<close> and \<open>networkBindingCheckpoint\<close> embed each
  other; here they are one record, read and written at one of four levels, of which each knows the keys of
  those below it.  \<open>fullCheckpoint\<close> reads the five keys a compensation needs.
\<close>

datatype cp_level = Reserved | Cloned | Configured | Bound

fun level_rank :: "cp_level \<Rightarrow> nat" where
  "level_rank Reserved = 0"
| "level_rank Cloned = 1"
| "level_rank Configured = 2"
| "level_rank Bound = 3"

instantiation cp_level :: linorder
begin

definition less_eq_cp_level :: "cp_level \<Rightarrow> cp_level \<Rightarrow> bool" where
  "a \<le> b \<longleftrightarrow> level_rank a \<le> level_rank b"

definition less_cp_level :: "cp_level \<Rightarrow> cp_level \<Rightarrow> bool" where
  "a < b \<longleftrightarrow> level_rank a < level_rank b"

instance
proof
  fix a b :: cp_level
  show "a \<le> b \<Longrightarrow> b \<le> a \<Longrightarrow> a = b" by (cases a; cases b) (simp_all add: less_eq_cp_level_def)
qed (auto simp: less_eq_cp_level_def less_cp_level_def)

end

record checkpoint =
  cp_ip :: string
  cp_vmid :: int
  cp_node :: string
  cp_clone_upid :: string
  cp_config_upid :: string
  cp_mac :: string
  cp_client :: string
  cp_mapping :: string
  cp_generation :: int

definition empty_cp :: checkpoint where
  "empty_cp = \<lparr>cp_ip = [], cp_vmid = 0, cp_node = [], cp_clone_upid = [], cp_config_upid = [], cp_mac = [],
     cp_client = [], cp_mapping = [], cp_generation = 0\<rparr>"

definition cp_step :: "cp_level \<Rightarrow> string \<Rightarrow> json \<Rightarrow> checkpoint \<times> bool \<Rightarrow> checkpoint \<times> bool" where
  "cp_step l k v st =
     (if jkey k ''ip_allocation_id'' then set_str v (\<lambda>s r. r\<lparr>cp_ip := s\<rparr>) st
      else if jkey k ''vmid'' then set_int v (\<lambda>n r. r\<lparr>cp_vmid := n\<rparr>) st
      else if jkey k ''node'' then set_str v (\<lambda>s r. r\<lparr>cp_node := s\<rparr>) st
      else if Cloned \<le> l \<and> jkey k ''clone_task_upid'' then set_str v (\<lambda>s r. r\<lparr>cp_clone_upid := s\<rparr>) st
      else if Configured \<le> l \<and> jkey k ''config_task_upid'' then set_str v (\<lambda>s r. r\<lparr>cp_config_upid := s\<rparr>) st
      else if Configured \<le> l \<and> jkey k ''nic0_mac'' then set_str v (\<lambda>s r. r\<lparr>cp_mac := s\<rparr>) st
      else if Bound \<le> l \<and> jkey k ''pgw_client_id'' then set_str v (\<lambda>s r. r\<lparr>cp_client := s\<rparr>) st
      else if Bound \<le> l \<and> jkey k ''pgw_mapping_id'' then set_str v (\<lambda>s r. r\<lparr>cp_mapping := s\<rparr>) st
      else if Bound \<le> l \<and> jkey k ''desired_generation'' then set_int v (\<lambda>n r. r\<lparr>cp_generation := n\<rparr>) st
      else st)"

definition read_cp :: "cp_level \<Rightarrow> raw_json \<Rightarrow> checkpoint \<times> bool" where
  "read_cp l raw = unmarshal_with (cp_step l) raw empty_cp"

text \<open>\<open>omitempty\<close>.\<close>

definition omit_str :: "string \<Rightarrow> string \<Rightarrow> (string \<times> json) list" where
  "omit_str k s = (if s = [] then [] else [(k, JStr s)])"

definition cp_fields :: "cp_level \<Rightarrow> checkpoint \<Rightarrow> (string \<times> json) list" where
  "cp_fields l c = [(''ip_allocation_id'', JStr (cp_ip c)), (''vmid'', JNum (cp_vmid c)), (''node'', JStr (cp_node c))]
     @ (if Cloned \<le> l then omit_str ''clone_task_upid'' (cp_clone_upid c) else [])
     @ (if Configured \<le> l then omit_str ''config_task_upid'' (cp_config_upid c) @ omit_str ''nic0_mac'' (cp_mac c) else [])
     @ (if Bound \<le> l then omit_str ''pgw_client_id'' (cp_client c) @ omit_str ''pgw_mapping_id'' (cp_mapping c)
          @ (if cp_generation c = 0 then [] else [(''desired_generation'', JNum (cp_generation c))]) else [])"

definition write_cp :: "cp_level \<Rightarrow> checkpoint \<Rightarrow> raw_json" where
  "write_cp l c = Some (JObj (cp_fields l c))"

definition full_step :: "string \<Rightarrow> json \<Rightarrow> checkpoint \<times> bool \<Rightarrow> checkpoint \<times> bool" where
  "full_step k v st =
     (if jkey k ''ip_allocation_id'' then set_str v (\<lambda>s r. r\<lparr>cp_ip := s\<rparr>) st
      else if jkey k ''vmid'' then set_int v (\<lambda>n r. r\<lparr>cp_vmid := n\<rparr>) st
      else if jkey k ''node'' then set_str v (\<lambda>s r. r\<lparr>cp_node := s\<rparr>) st
      else if jkey k ''pgw_client_id'' then set_str v (\<lambda>s r. r\<lparr>cp_client := s\<rparr>) st
      else if jkey k ''pgw_mapping_id'' then set_str v (\<lambda>s r. r\<lparr>cp_mapping := s\<rparr>) st
      else st)"

definition read_full :: "raw_json \<Rightarrow> checkpoint \<times> bool" where
  "read_full raw = unmarshal_with full_step raw empty_cp"

section \<open>Reading what was written\<close>

text \<open>What a level keeps of a checkpoint.\<close>

definition cut_cp :: "cp_level \<Rightarrow> checkpoint \<Rightarrow> checkpoint" where
  "cut_cp l c = \<lparr>cp_ip = cp_ip c, cp_vmid = cp_vmid c, cp_node = cp_node c,
     cp_clone_upid = (if Cloned \<le> l then cp_clone_upid c else []),
     cp_config_upid = (if Configured \<le> l then cp_config_upid c else []),
     cp_mac = (if Configured \<le> l then cp_mac c else []),
     cp_client = (if Bound \<le> l then cp_client c else []),
     cp_mapping = (if Bound \<le> l then cp_mapping c else []),
     cp_generation = (if Bound \<le> l then cp_generation c else 0)\<rparr>"

definition int64_cp :: "checkpoint \<Rightarrow> bool" where
  "int64_cp c \<longleftrightarrow> - (2 ^ 63) \<le> cp_vmid c \<and> cp_vmid c < 2 ^ 63 \<and> - (2 ^ 63) \<le> cp_generation c \<and> cp_generation c < 2 ^ 63"

lemma jkey_cp [simp]:
  "jkey ''ip_allocation_id'' k \<longleftrightarrow> k = ''ip_allocation_id''" "jkey ''vmid'' k \<longleftrightarrow> k = ''vmid''" "jkey ''node'' k \<longleftrightarrow> k = ''node''"
  "jkey ''clone_task_upid'' k \<longleftrightarrow> k = ''clone_task_upid''" "jkey ''config_task_upid'' k \<longleftrightarrow> k = ''config_task_upid''"
  "jkey ''nic0_mac'' k \<longleftrightarrow> k = ''nic0_mac''" "jkey ''pgw_client_id'' k \<longleftrightarrow> k = ''pgw_client_id''"
  "jkey ''pgw_mapping_id'' k \<longleftrightarrow> k = ''pgw_mapping_id''" "jkey ''desired_generation'' k \<longleftrightarrow> k = ''desired_generation''"
proof -
  have "to_lower ''ip_allocation_id'' = ''ip_allocation_id''" "to_lower ''vmid'' = ''vmid''" "to_lower ''node'' = ''node''"
    "to_lower ''clone_task_upid'' = ''clone_task_upid''" "to_lower ''config_task_upid'' = ''config_task_upid''"
    "to_lower ''nic0_mac'' = ''nic0_mac''" "to_lower ''pgw_client_id'' = ''pgw_client_id''"
    "to_lower ''pgw_mapping_id'' = ''pgw_mapping_id''" "to_lower ''desired_generation'' = ''desired_generation''"
    by code_simp+
  then show "jkey ''ip_allocation_id'' k \<longleftrightarrow> k = ''ip_allocation_id''" "jkey ''vmid'' k \<longleftrightarrow> k = ''vmid''" "jkey ''node'' k \<longleftrightarrow> k = ''node''"
    "jkey ''clone_task_upid'' k \<longleftrightarrow> k = ''clone_task_upid''" "jkey ''config_task_upid'' k \<longleftrightarrow> k = ''config_task_upid''"
    "jkey ''nic0_mac'' k \<longleftrightarrow> k = ''nic0_mac''" "jkey ''pgw_client_id'' k \<longleftrightarrow> k = ''pgw_client_id''"
    "jkey ''pgw_mapping_id'' k \<longleftrightarrow> k = ''pgw_mapping_id''" "jkey ''desired_generation'' k \<longleftrightarrow> k = ''desired_generation''"
    by (simp_all only: jkey_def eq_commute)
qed

abbreviation cp_run :: "cp_level \<Rightarrow> checkpoint \<times> bool \<Rightarrow> (string \<times> json) list \<Rightarrow> checkpoint \<times> bool" where
  "cp_run l st kvs \<equiv> foldl (\<lambda>st kv. cp_step l (fst kv) (snd kv) st) st kvs"

text \<open>A field that is left out when it is empty reads as the empty value it already has.\<close>

lemma run_omit:
  "cp_clone_upid r = [] \<Longrightarrow> cp_run l (r, ok) (omit_str ''clone_task_upid'' s) = (r\<lparr>cp_clone_upid := if Cloned \<le> l then s else []\<rparr>, ok)"
  "cp_config_upid r = [] \<Longrightarrow> cp_run l (r, ok) (omit_str ''config_task_upid'' s) = (r\<lparr>cp_config_upid := if Configured \<le> l then s else []\<rparr>, ok)"
  "cp_mac r = [] \<Longrightarrow> cp_run l (r, ok) (omit_str ''nic0_mac'' s) = (r\<lparr>cp_mac := if Configured \<le> l then s else []\<rparr>, ok)"
  "cp_client r = [] \<Longrightarrow> cp_run l (r, ok) (omit_str ''pgw_client_id'' s) = (r\<lparr>cp_client := if Bound \<le> l then s else []\<rparr>, ok)"
  "cp_mapping r = [] \<Longrightarrow> cp_run l (r, ok) (omit_str ''pgw_mapping_id'' s) = (r\<lparr>cp_mapping := if Bound \<le> l then s else []\<rparr>, ok)"
  by (auto simp: omit_str_def cp_step_def set_str_def)

lemma run_generation:
  "- (2 ^ 63) \<le> n \<Longrightarrow> n < 2 ^ 63 \<Longrightarrow> cp_generation r = 0 \<Longrightarrow>
    cp_run l (r, ok) (if n = 0 then [] else [(''desired_generation'', JNum n)]) = (r\<lparr>cp_generation := if Bound \<le> l then n else 0\<rparr>, ok)"
  by (auto simp: cp_step_def set_int_def)

lemma run_reserved:
  "- (2 ^ 63) \<le> n \<Longrightarrow> n < 2 ^ 63 \<Longrightarrow>
    cp_run l (r, ok) [(''ip_allocation_id'', JStr a), (''vmid'', JNum n), (''node'', JStr b)] =
      (r\<lparr>cp_ip := a, cp_vmid := n, cp_node := b\<rparr>, ok)"
  by (simp add: cp_step_def set_str_def set_int_def)

lemma level_cases: "Cloned \<le> l \<longleftrightarrow> l \<noteq> Reserved" "Configured \<le> l \<longleftrightarrow> l = Configured \<or> l = Bound" "Bound \<le> l \<longleftrightarrow> l = Bound"
  by (cases l; simp add: less_eq_cp_level_def)+

lemma read_write:
  assumes "int64_cp c"
  shows "read_cp l (write_cp l' c) = (cut_cp (min l l') c, True)"
proof -
  have n: "- (2 ^ 63) \<le> cp_vmid c" "cp_vmid c < 2 ^ 63" "- (2 ^ 63) \<le> cp_generation c" "cp_generation c < 2 ^ 63"
    using assms by (auto simp: int64_cp_def)
  have le_min: "k \<le> min l l' \<longleftrightarrow> k \<le> l \<and> k \<le> l'" for k by (rule min.bounded_iff)
  show ?thesis
    unfolding read_cp_def write_cp_def unmarshal_with_def option.case json.case cp_fields_def foldl_append run_reserved[OF n(1,2)]
      cut_cp_def le_min
    by (cases l') (auto simp: empty_cp_def run_omit run_generation[OF n(3,4)] level_cases)
qed

text \<open>What a compensation sees of a checkpoint.\<close>

definition inventory :: "checkpoint \<Rightarrow> checkpoint" where
  "inventory c = c\<lparr>cp_clone_upid := [], cp_config_upid := [], cp_mac := [], cp_generation := 0\<rparr>"

lemma full_omit:
  "foldl (\<lambda>st kv. full_step (fst kv) (snd kv) st) st (omit_str ''clone_task_upid'' s) = st"
  "foldl (\<lambda>st kv. full_step (fst kv) (snd kv) st) st (omit_str ''config_task_upid'' s) = st"
  "foldl (\<lambda>st kv. full_step (fst kv) (snd kv) st) st (omit_str ''nic0_mac'' s) = st"
  "foldl (\<lambda>st kv. full_step (fst kv) (snd kv) st) st (if n = 0 then [] else [(''desired_generation'', JNum n)]) = st"
  "cp_client r = [] \<Longrightarrow> foldl (\<lambda>st kv. full_step (fst kv) (snd kv) st) (r, ok) (omit_str ''pgw_client_id'' s) = (r\<lparr>cp_client := s\<rparr>, ok)"
  "cp_mapping r = [] \<Longrightarrow> foldl (\<lambda>st kv. full_step (fst kv) (snd kv) st) (r, ok) (omit_str ''pgw_mapping_id'' s) = (r\<lparr>cp_mapping := s\<rparr>, ok)"
  by (auto simp: omit_str_def full_step_def set_str_def)

lemma full_reserved:
  "- (2 ^ 63) \<le> n \<Longrightarrow> n < 2 ^ 63 \<Longrightarrow>
    foldl (\<lambda>st kv. full_step (fst kv) (snd kv) st) (r, ok) [(''ip_allocation_id'', JStr a), (''vmid'', JNum n), (''node'', JStr b)] =
      (r\<lparr>cp_ip := a, cp_vmid := n, cp_node := b\<rparr>, ok)"
  by (simp add: full_step_def set_str_def set_int_def)

lemma read_full_write:
  assumes "int64_cp c"
  shows "read_full (write_cp l c) = (inventory (cut_cp l c), True)"
proof -
  have n: "- (2 ^ 63) \<le> cp_vmid c" "cp_vmid c < 2 ^ 63" using assms by (auto simp: int64_cp_def)
  show ?thesis
    unfolding read_full_def write_cp_def unmarshal_with_def option.case json.case cp_fields_def foldl_append full_reserved[OF n]
      cut_cp_def inventory_def
    by (cases l) (auto simp: empty_cp_def full_omit level_cases)
qed

text \<open>
  C31.  Every handler reads back what an earlier one wrote: a checkpoint written at a level and read at that
  level or above comes back as it was, and read at a level below without the fields that level does not know;
  and rollback and quarantine, which do not know the level, see its allocation, VM and gateway binding.
\<close>

theorem checkpoint_roundtrip:
  assumes "int64_cp c" "cut_cp l c = c"
  shows "read_cp l' (write_cp l c) = (if l \<le> l' then c else cut_cp l' c, True) \<and> read_full (write_cp l c) = (inventory c, True)"
  using read_write[OF assms(1)] read_full_write[OF assms(1)] assms(2) by (simp add: min_def)

theorem checkpoint_roundtrip_witness:
  "read_cp Bound (write_cp Cloned \<lparr>cp_ip = ''a1'', cp_vmid = 901, cp_node = ''pve'', cp_clone_upid = ''UPID:1'', cp_config_upid = [],
       cp_mac = [], cp_client = [], cp_mapping = [], cp_generation = 0\<rparr>) =
     (\<lparr>cp_ip = ''a1'', cp_vmid = 901, cp_node = ''pve'', cp_clone_upid = ''UPID:1'', cp_config_upid = [],
       cp_mac = [], cp_client = [], cp_mapping = [], cp_generation = 0\<rparr>, True)"
  using checkpoint_roundtrip[of "\<lparr>cp_ip = ''a1'', cp_vmid = 901, cp_node = ''pve'', cp_clone_upid = ''UPID:1'', cp_config_upid = [],
      cp_mac = [], cp_client = [], cp_mapping = [], cp_generation = 0\<rparr>" Cloned Bound]
  by (simp add: int64_cp_def cut_cp_def level_cases)

end
