(* ===== verification/Handlers.thy ===== *)
theory Handlers
  imports Validation Templates Workload Checkpoint
begin

text \<open>
  The transition handlers, \<open>internal/stateengine/handlers_*.go\<close>: each takes an instance out of one state, by calls
  on the cluster, the gateway and the guest, and says which state comes next, what the job shall remember, where
  the VM is and which evidence to write together with the transition.  A handler runs outside every
  transaction; what it calls on the repositories goes through the connection pool.
\<close>

section \<open>The contract\<close>

record pve_placement =
  pp_cluster :: string
  pp_node :: string
  pp_vmid :: int

text \<open>
  \<open>PersistEvidence\<close> runs in the transaction of the transition; \<open>time.Now()\<close> in it is the clock the
  transaction sees.
\<close>

record transition_result =
  tr_next :: instance_state
  tr_data :: raw_json
  tr_placement :: "pve_placement option"
  tr_evidence :: "unit dbm option"

record 'x transition_context =
  tc_instance :: vm_instance
  tc_job :: job
  tc_data :: raw_json
  tc_save :: "raw_json \<Rightarrow> ('x, unit) wm"

type_synonym 'x handler = "'x transition_context \<Rightarrow> ('x, transition_result) wm"

definition advance :: "instance_state \<Rightarrow> raw_json \<Rightarrow> transition_result" where
  "advance st data = \<lparr>tr_next = st, tr_data = data, tr_placement = None, tr_evidence = None\<rparr>"

text \<open>A checkpoint read at a level, with the condition under which the handler goes on.\<close>

definition need_cp :: "cp_level \<Rightarrow> (checkpoint \<Rightarrow> bool) \<Rightarrow> string \<Rightarrow> 'x transition_context \<Rightarrow> ('x, checkpoint) wm" where
  "need_cp l p msg tctx = (case read_cp l (tc_data tctx) of (cp, ok) \<Rightarrow>
     if \<not> ok \<or> \<not> p cp then failE (Errf msg) else retE cp)"

definition cp_ref :: "checkpoint \<Rightarrow> vm_ref" where
  "cp_ref cp = \<lparr>vr_node = cp_node cp, vr_vmid = cp_vmid cp\<rparr>"

text \<open>Waiting for a task, which has to end in success.\<close>

definition await_task :: "'x env \<Rightarrow> string \<Rightarrow> string \<Rightarrow> task_ref \<Rightarrow> duration \<Rightarrow> ('x, unit) wm" where
  "await_task env waitMsg failMsg t timeout = bindE (wrapE waitMsg (onExt (WaitForTask env t timeout))) (\<lambda>status.
     if \<not> Success status then failE (Errf (failMsg @ status_text status)) else retE ())"

text \<open>A timeout field that is not set takes its default.\<close>

definition or_default :: "duration \<Rightarrow> duration \<Rightarrow> duration" where
  "or_default configured dflt = (if configured \<le> 0 then dflt else configured)"

section \<open>REQUESTED\<close>

definition Requested_Execute :: "'x env \<Rightarrow> 'x handler" where
  "Requested_Execute env tctx =
     bindE (wrapE ''requested: load template'' (onDB env (templates_Get (inst_template (tc_instance tctx))))) (\<lambda>tpl.
       if \<not> template_IsUsable tpl
       then failE (Suffixed ErrInvalidTransition (''template '' @ tpl_id tpl @ '' state='' @ template_state_str (tpl_state tpl) @ '' not ACTIVE''))
       else retE (advance InstanceReserving (tc_data tctx)))"

section \<open>RESERVING\<close>

text \<open>The zero checkpoint when there is no data; a decoding error is ignored.  \<open>locked\<close> are the rows \<open>SKIP LOCKED\<close> skips.\<close>

definition Reserving_Execute :: "'x env \<Rightarrow> (string \<Rightarrow> bool) \<Rightarrow> string \<Rightarrow> duration \<Rightarrow> 'x handler" where
  "Reserving_Execute env locked segmentID ttl tctx =
     (let existing = fst (read_cp Reserved (tc_data tctx)) in
      if cp_ip existing \<noteq> [] \<and> cp_vmid existing \<noteq> 0
      then retE (advance InstanceCloning (write_cp Reserved existing))
      else bindE (wrapE ''reserving: load template'' (onDB env (templates_Get (inst_template (tc_instance tctx))))) (\<lambda>tpl.
        bindE (wrapE ''reserving: reserve ip'' (onDB env (ReserveNextFree locked segmentID (inst_id (tc_instance tctx)) ttl))) (\<lambda>alloc.
        bindE (wrapE ''reserving: allocate vmid'' (onExt (AllocateNextVMID env))) (\<lambda>vmid.
        retE (advance InstanceCloning
          (write_cp Reserved (empty_cp\<lparr>cp_ip := ipa_id alloc, cp_vmid := vmid, cp_node := tpl_node tpl\<rparr>)))))))"

section \<open>CLONING\<close>

definition clone_of :: "string \<Rightarrow> 'x transition_context \<Rightarrow> template \<Rightarrow> checkpoint \<Rightarrow> clone_request" where
  "clone_of pool tctx tpl cp =
     \<lparr>cr_source_node = cp_node cp, cr_source_vmid = tpl_vmid tpl, cr_target_node = cp_node cp, cr_target_vmid = cp_vmid cp,
      cr_name = inst_hostname (tc_instance tctx), cr_storage = tpl_storage tpl, cr_pool = pool, cr_full = True,
      cr_description = ''vmf.instance_id='' @ inst_id (tc_instance tctx) @ '' vmf.job_id='' @ job_id (tc_job tctx)\<rparr>"

text \<open>The clone is sent unless a task is on record, and put on record before it is waited for.\<close>

definition send_clone :: "'x env \<Rightarrow> string \<Rightarrow> 'x transition_context \<Rightarrow> template \<Rightarrow> checkpoint \<Rightarrow> ('x, checkpoint) wm" where
  "send_clone env pool tctx tpl cp = (if cp_clone_upid cp \<noteq> [] then retE cp
     else bindE (wrapE ''cloning: clone'' (onExt (pve_Clone env (clone_of pool tctx tpl cp)))) (\<lambda>t.
       let cp' = cp\<lparr>cp_clone_upid := tr_upid t\<rparr> in
       bindE (wrapE ''cloning: save checkpoint after clone'' (tc_save tctx (write_cp Cloned cp'))) (\<lambda>_. retE cp')))"

text \<open>Waiting for the clone, and checking that the VM is there.\<close>

definition finish_clone :: "'x env \<Rightarrow> duration \<Rightarrow> template \<Rightarrow> checkpoint \<Rightarrow> ('x, transition_result) wm" where
  "finish_clone env cloneTimeout tpl cp =
     bindE (await_task env ''cloning: wait clone task'' ''cloning: clone task failed: ''
        \<lparr>tr_node = cp_node cp, tr_upid = cp_clone_upid cp\<rparr> (or_default cloneTimeout (seconds 300))) (\<lambda>_.
     bindE (wrapE ''cloning: verify vm exists after clone'' (onExt (GetVM env (cp_ref cp)))) (\<lambda>_.
     retE \<lparr>tr_next = InstanceConfiguring, tr_data = write_cp Cloned cp,
       tr_placement = Some \<lparr>pp_cluster = tpl_cluster tpl, pp_node = cp_node cp, pp_vmid = cp_vmid cp\<rparr>,
       tr_evidence = None\<rparr>))"

definition Cloning_Execute :: "'x env \<Rightarrow> string \<Rightarrow> duration \<Rightarrow> 'x handler" where
  "Cloning_Execute env pool cloneTimeout tctx =
     bindE (need_cp Cloned (\<lambda>cp. cp_vmid cp \<noteq> 0)
        ''cloning: missing reservation checkpoint (can quarantine, khong the tu phuc hoi)'' tctx) (\<lambda>cp0.
     bindE (wrapE ''cloning: load template'' (onDB env (templates_Get (inst_template (tc_instance tctx))))) (\<lambda>tpl.
     bindE (send_clone env pool tctx tpl cp0) (\<lambda>cp. finish_clone env cloneTimeout tpl cp)))"

section \<open>CONFIGURING\<close>

record vm_defaults =
  vd_cores :: int
  vd_memory :: int
  vd_bridge :: string
  vd_ipconfig0 :: string

definition config_of :: "vm_defaults \<Rightarrow> checkpoint \<Rightarrow> configure_request" where
  "config_of df cp = \<lparr>cf_ref = cp_ref cp, cf_cores = vd_cores df, cf_sockets = 1, cf_memory = vd_memory df, cf_cpu = [],
     cf_agent = True, cf_onboot = False, cf_net0 = \<lparr>nc_bridge = vd_bridge df, nc_firewall = True\<rparr>,
     cf_ipconfig0 = vd_ipconfig0 df\<rparr>"

definition send_config :: "'x env \<Rightarrow> vm_defaults \<Rightarrow> 'x transition_context \<Rightarrow> checkpoint \<Rightarrow> ('x, checkpoint) wm" where
  "send_config env df tctx cp = (if cp_config_upid cp \<noteq> [] then retE cp
     else bindE (wrapE ''configuring: configure'' (onExt (pve_Configure env (config_of df cp)))) (\<lambda>t.
       let cp' = cp\<lparr>cp_config_upid := tr_upid t\<rparr> in
       bindE (wrapE ''configuring: save checkpoint after configure'' (tc_save tctx (write_cp Configured cp'))) (\<lambda>_. retE cp')))"

definition Configuring_Execute :: "'x env \<Rightarrow> vm_defaults \<Rightarrow> duration \<Rightarrow> 'x handler" where
  "Configuring_Execute env df configureTimeout tctx =
     bindE (need_cp Configured (\<lambda>cp. cp_vmid cp \<noteq> 0) ''configuring: missing placement checkpoint'' tctx) (\<lambda>cp0.
     bindE (send_config env df tctx cp0) (\<lambda>cp.
     bindE (await_task env ''configuring: wait configure task'' ''configuring: configure task failed: ''
        \<lparr>tr_node = cp_node cp, tr_upid = cp_config_upid cp\<rparr> (or_default configureTimeout (seconds 60))) (\<lambda>_.
     bindE (if cp_mac cp \<noteq> [] then retE cp
       else bindE (wrapE ''configuring: read back vm config for mac'' (onExt (GetConfig env (cp_ref cp))))
         (\<lambda>mac. retE (cp\<lparr>cp_mac := mac\<rparr>))) (\<lambda>cp'.
     retE (advance InstanceNetworkBinding (write_cp Configured cp'))))))"

section \<open>NETWORK_BINDING\<close>

definition client_of :: "'x transition_context \<Rightarrow> client_request" where
  "client_of tctx = \<lparr>cl_name = inst_hostname (tc_instance tctx), cl_ip_cidr = [], cl_mac = [], cl_vlan = 0, cl_enabled = True,
     cl_metadata = [(''vmf_instance_id'', inst_id (tc_instance tctx))]\<rparr>"

definition bind_client :: "'x pgw_adapter \<Rightarrow> 'x transition_context \<Rightarrow> checkpoint \<Rightarrow> ('x, checkpoint) wm" where
  "bind_client gw tctx cp = (if cp_client cp \<noteq> [] then retE cp
     else bindE (wrapE ''network_binding: create pgw client'' (onExt (pg_CreateClient gw (client_of tctx)))) (\<lambda>c.
       let cp' = cp\<lparr>cp_client := c\<rparr> in
       bindE (wrapE ''network_binding: save checkpoint after create client'' (tc_save tctx (write_cp Bound cp'))) (\<lambda>_. retE cp')))"

definition bind_mapping :: "'x pgw_adapter \<Rightarrow> string \<Rightarrow> 'x transition_context \<Rightarrow> checkpoint \<Rightarrow> ('x, checkpoint) wm" where
  "bind_mapping gw policyID tctx cp = (if cp_mapping cp \<noteq> [] then retE cp
     else bindE (wrapE ''network_binding: create pgw mapping''
          (onExt (pg_CreateMapping gw \<lparr>mq_client = cp_client cp, mq_policy = policyID\<rparr>))) (\<lambda>m.
       let cp' = cp\<lparr>cp_mapping := m\<rparr> in
       bindE (wrapE ''network_binding: save checkpoint after create mapping'' (tc_save tctx (write_cp Bound cp'))) (\<lambda>_. retE cp')))"

definition NetworkBinding_Execute :: "'x pgw_adapter \<Rightarrow> string \<Rightarrow> 'x handler" where
  "NetworkBinding_Execute gw policyID tctx =
     bindE (need_cp Bound (\<lambda>cp. cp_vmid cp \<noteq> 0) ''network_binding: missing placement checkpoint'' tctx) (\<lambda>cp0.
     bindE (bind_client gw tctx cp0) (\<lambda>cp1.
     bindE (bind_mapping gw policyID tctx cp1) (\<lambda>cp2.
     bindE (wrapE ''network_binding: activate mapping'' (onExt (pg_ActivateMapping gw (cp_mapping cp2)))) (\<lambda>gen.
     retE (advance InstanceBooting (write_cp Bound (cp2\<lparr>cp_generation := gen\<rparr>)))))))"

section \<open>BOOTING\<close>

definition Booting_Execute :: "'x env \<Rightarrow> duration \<Rightarrow> 'x handler" where
  "Booting_Execute env bootTimeout tctx =
     bindE (need_cp Bound (\<lambda>cp. cp_vmid cp \<noteq> 0) ''booting: missing placement checkpoint'' tctx) (\<lambda>cp.
     bindE (wrapE ''booting: get vm status'' (onExt (GetVM env (cp_ref cp)))) (\<lambda>vm.
     bindE (if IsRunning vm then retE ()
       else bindE (wrapE ''booting: start'' (onExt (pve_Start env (cp_ref cp)))) (\<lambda>t.
         await_task env ''booting: wait start task'' ''booting: start task failed: '' t (or_default bootTimeout (seconds 60)))) (\<lambda>_.
     retE (advance InstanceWaitingGuest (write_cp Bound cp)))))"

section \<open>WAITING_GUEST\<close>

text \<open>The guest facts without the machine-id; a nil slice or map is written as \<open>null\<close>.\<close>

definition json_strings :: "string list \<Rightarrow> json" where
  "json_strings ss = (if ss = [] then JNull else JArr (map JStr ss))"

definition redactFacts :: "facts \<Rightarrow> json" where
  "redactFacts f = JObj [(''boot_id'', JStr (fc_boot_id f)), (''hostname'', JStr (fc_hostname f)),
     (''cloud_init_instance_id'', JStr (fc_cloud_init f)),
     (''ssh_host_key_fingerprints'', if fc_ssh_made f then json_of_map (map (\<lambda>kv. (fst kv, JStr (snd kv))) (fc_ssh f)) else JNull),
     (''mac_addresses'', json_strings (fc_macs f)), (''ipv4_addresses'', json_strings (fc_ipv4 f)),
     (''global_ipv6_addresses'', json_strings (fc_ipv6 f)), (''os_release'', JStr (fc_os f)),
     (''kernel_version'', JStr (fc_kernel f)), (''nic_count'', JNum (fc_nics f)),
     (''default_route_v4_count'', JNum (fc_routes4 f)), (''default_route_v6_count'', JNum (fc_routes6 f)),
     (''default_gateway_v4'', JStr (fc_gateway4 f))]"

definition stringPtrIfNonEmpty :: "string \<Rightarrow> string option" where
  "stringPtrIfNonEmpty s = (if s = [] then None else Some s)"

text \<open>\<open>suspend PGW mapping\<close> and \<open>MarkQuarantined\<close>, best effort.\<close>

definition isolate :: "'x env \<Rightarrow> 'x pgw_adapter \<Rightarrow> bool \<Rightarrow> checkpoint \<Rightarrow> ('x, unit) wm" where
  "isolate env gw always cp =
     bindE (if always \<or> cp_mapping cp \<noteq> [] then ignoreE (onExt (pg_SuspendMapping gw (cp_mapping cp))) else retE ()) (\<lambda>_.
     if cp_ip cp \<noteq> [] then ignoreE (onDB env (MarkQuarantined (cp_ip cp))) else retE ())"

definition run_of :: "'x transition_context \<Rightarrow> string \<Rightarrow> validation_result \<Rightarrow> string \<Rightarrow> json \<Rightarrow> time \<Rightarrow> validation_run" where
  "run_of tctx ty result ruleset evidence started =
     \<lparr>run_id = [], run_instance = inst_id (tc_instance tctx), run_job = Some (job_id (tc_job tctx)), run_type = ty,
      run_result = result, run_ruleset = ruleset, run_evidence = Some evidence, run_started = started, run_finished = None\<rparr>"

definition persist_run :: "validation_run \<Rightarrow> unit dbm" where
  "persist_run run = bindE (wrapE ''create validation run'' (runs_Create run)) (\<lambda>_. retE ())"

record identity_options =
  io_timeout :: duration
  io_block_retired :: bool
  io_single_nic :: bool
  io_single_route :: bool

definition identity_of :: "'x transition_context \<Rightarrow> identity_options \<Rightarrow> checkpoint \<Rightarrow> facts \<Rightarrow> string \<Rightarrow> ip_alloc \<Rightarrow> segment
    \<Rightarrow> duplicate_match list \<Rightarrow> duplicate_match list \<Rightarrow> identity_input" where
  "identity_of tctx opts cp f digest alloc sgm machineDup sshDup =
     \<lparr>ii_facts = f, ii_digest = digest, ii_machine_dups = machineDup, ii_ssh_dups = sshDup,
      ii_block_retired = io_block_retired opts, ii_hostname = inst_hostname (tc_instance tctx),
      ii_macs = (if cp_mac cp \<noteq> [] then [cp_mac cp] else []), ii_ipv4 = ipa_address alloc, ii_gateway = seg_gateway sgm,
      ii_single_nic = io_single_nic opts, ii_single_route = io_single_route opts, ii_deny_v6 = (seg_ipv6_policy sgm = ''deny'')\<rparr>"

definition observation_of :: "'x transition_context \<Rightarrow> facts \<Rightarrow> string \<Rightarrow> string \<Rightarrow> identity_obs" where
  "observation_of tctx f digest fp =
     \<lparr>obs_id = [], obs_instance = inst_id (tc_instance tctx), obs_generation = inst_generation (tc_instance tctx),
      obs_digest = digest, obs_ssh = fp, obs_cloud_init = stringPtrIfNonEmpty (fc_cloud_init f), obs_hostname = fc_hostname f,
      obs_macs = fc_macs f, obs_ips = fc_ipv4 f, obs_boot = stringPtrIfNonEmpty (fc_boot_id f),
      obs_facts = Some (redactFacts f), obs_at = 0\<rparr>"

text \<open>
  What the handler does with facts, allocation and segment in hand.  \<open>order\<close> and \<open>order'\<close> are the orders in which the two
  computations of the fingerprint go through the map.
\<close>

record identity_ports =
  ip_order :: map_order
  ip_order' :: map_order
  ip_digest :: "string \<Rightarrow> string"
  ip_mac :: "string \<Rightarrow> string option"
  ip_inet :: "string \<Rightarrow> string option"

definition judge_identity :: "'x env \<Rightarrow> 'x pgw_adapter \<Rightarrow> identity_ports \<Rightarrow> identity_options \<Rightarrow> 'x transition_context \<Rightarrow>
    checkpoint \<Rightarrow> facts \<Rightarrow> ip_alloc \<Rightarrow> segment \<Rightarrow> ('x, transition_result) wm" where
  "judge_identity env gw ports opts tctx cp f alloc sgm =
     (let digest = ip_digest ports (fc_machine_id f); fp = CanonicalSSHFingerprint (ip_order ports) f in
      bindE (wrapE ''validating_identity: find duplicate machine digest''
         (onDB env (FindDuplicateMachineDigest digest (inst_id (tc_instance tctx))))) (\<lambda>machineDup.
      bindE (if fp \<noteq> [] then wrapE ''validating_identity: find duplicate ssh fingerprint''
             (onDB env (FindDuplicateSSHFingerprint fp (inst_id (tc_instance tctx)))) else retE []) (\<lambda>sshDup.
      bindE (nowE env) (\<lambda>clock.
      bindE (wrapE ''validating_identity: build evidence'' (ofE (BuildEvidence (inst_id (tc_instance tctx))
         (EvaluateIdentityAndNetwork (ip_order' ports) clock (identity_of tctx opts cp f digest alloc sgm machineDup sshDup))))) (\<lambda>(ev, result).
      bindE (if result \<noteq> ValidationPass then isolate env gw False cp else retE ()) (\<lambda>_.
      bindE (nowE env) (\<lambda>now.
      retE \<lparr>tr_next = (if result \<noteq> ValidationPass then InstanceQuarantined else InstanceValidatingEgress),
        tr_data = write_cp Bound cp, tr_placement = None,
        tr_evidence = Some (bindE (wrapE ''create identity observation''
            (identity_Create (ip_mac ports) (ip_inet ports) (observation_of tctx f digest fp))) (\<lambda>_.
          persist_run (run_of tctx ''identity'' result RulesetVersion ev
            (if fc_collected f = zero_time then now else fc_collected f))))\<rparr>)))))))"

definition ValidatingIdentity_Execute :: "'x env \<Rightarrow> 'x pgw_adapter \<Rightarrow> (string \<Rightarrow> raw_json) \<Rightarrow> identity_ports \<Rightarrow> identity_options \<Rightarrow> 'x handler" where
  "ValidatingIdentity_Execute env gw parse ports opts tctx =
     bindE (need_cp Bound (\<lambda>cp. cp_vmid cp \<noteq> 0) ''validating_identity: missing placement checkpoint'' tctx) (\<lambda>cp.
     bindE (wrapE ''validating_identity: collect guest facts''
        (onExt (Collect_facts env parse (cp_ref cp) (or_default (io_timeout opts) (seconds 30))))) (\<lambda>f.
     bindE (wrapE ''validating_identity: load ip allocation'' (onDB env (ipam_Get (cp_ip cp)))) (\<lambda>alloc.
     bindE (wrapE ''validating_identity: load network segment'' (onDB env (segments_Get (ipa_segment alloc)))) (\<lambda>sgm.
     judge_identity env gw ports opts tctx cp f alloc sgm))))"

section \<open>VALIDATING_EGRESS\<close>

definition egress_of :: "bool \<Rightarrow> duration \<Rightarrow> checkpoint \<Rightarrow> egress_evidence \<Rightarrow> egress_input" where
  "egress_of denyIPv6 maxAge cp ev = \<lparr>ei_evidence = ev, ei_mapping = cp_mapping cp, ei_generation = cp_generation cp,
     ei_deny_v6 = denyIPv6, ei_max_age = maxAge, ei_now = zero_time\<rparr>"

definition ValidatingEgress_Execute :: "'x env \<Rightarrow> 'x pgw_adapter \<Rightarrow> bool \<Rightarrow> duration \<Rightarrow> 'x handler" where
  "ValidatingEgress_Execute env gw denyIPv6 proofMaxAge tctx =
     bindE (need_cp Bound (\<lambda>cp. cp_client cp \<noteq> [] \<and> cp_mapping cp \<noteq> []) ''validating_egress: missing pgw binding checkpoint'' tctx) (\<lambda>cp.
     bindE (wrapE ''validating_egress: read egress proof'' (onExt (pg_EgressProof gw (cp_client cp)))) (\<lambda>ev.
     bindE (nowE env) (\<lambda>clock.
     bindE (wrapE ''validating_egress: build evidence'' (ofE (BuildEvidence (inst_id (tc_instance tctx))
        (EvaluateEgress clock (egress_of denyIPv6 (or_default proofMaxAge (seconds 300)) cp ev))))) (\<lambda>(doc, result).
     bindE (if result \<noteq> ValidationPass then isolate env gw True cp else retE ()) (\<lambda>_.
     retE \<lparr>tr_next = (if result \<noteq> ValidationPass then InstanceQuarantined else InstanceApplyingWorkload),
       tr_data = write_cp Bound cp, tr_placement = None,
       tr_evidence = Some (bindE (getE db_now) (\<lambda>now. persist_run (run_of tctx ''egress'' result RulesetVersion doc now)))\<rparr>)))))"

section \<open>APPLYING_WORKLOAD\<close>

definition no_health :: health_report where
  "no_health = \<lparr>wh_healthy = False, wh_state = [], wh_detail = []\<rparr>"

definition no_report :: validation_report where
  "no_report = \<lparr>wv_valid = False, wv_reasons = []\<rparr>"

text \<open>The last report and the last error.\<close>

fun health_loop :: "'x env \<Rightarrow> 'x workload_adapter \<Rightarrow> vm_ref \<Rightarrow> time \<Rightarrow> nat \<Rightarrow> ('x, err, health_report \<times> err option) eff" where
  "health_loop env wa ref deadline 0 = failE OutOfFuel"
| "health_loop env wa ref deadline (Suc fuel) = tryE (wa_Health wa ref) (\<lambda>h.
     let report = (case h of Inl _ \<Rightarrow> no_health | Inr rp \<Rightarrow> rp); e = (case h of Inl e \<Rightarrow> Some e | Inr _ \<Rightarrow> None) in
     if e = None \<and> wh_healthy report then retE (report, None)
     else bindE (getE (e_now env)) (\<lambda>now.
       if now > deadline then retE (report, e)
       else (\<lambda>x. case e_sleep env (seconds 3) x of
           (True, x') \<Rightarrow> (Inr (no_health, Some CtxDone), x')
         | (False, x') \<Rightarrow> health_loop env wa ref deadline fuel x')))"

definition pollHealth :: "'x env \<Rightarrow> 'x workload_adapter \<Rightarrow> vm_ref \<Rightarrow> duration \<Rightarrow> ('x, err, health_report \<times> err option) eff" where
  "pollHealth env wa ref timeout = bindE (getE (e_now env)) (\<lambda>now.
     health_loop env wa ref (now + or_default timeout (seconds 30)) (e_fuel env))"

definition errString :: "err option \<Rightarrow> string" where
  "errString e = (case e of None \<Rightarrow> [] | Some e \<Rightarrow> err_text e)"

definition adapter_name :: "string \<Rightarrow> vm_instance \<Rightarrow> string" where
  "adapter_name default_adapter i = (case inst_workload_adapter i of
       Some n \<Rightarrow> if n \<noteq> [] then n else if default_adapter = [] then ''noop'' else default_adapter
     | None \<Rightarrow> if default_adapter = [] then ''noop'' else default_adapter)"

definition workload_doc :: "string \<Rightarrow> err option \<Rightarrow> validation_report \<Rightarrow> health_report \<Rightarrow> err option \<Rightarrow> json" where
  "workload_doc name installErr rp h healthErr =
     JObj [(''adapter'', JStr name),
       (''health'', JObj [(''Healthy'', JBool (wh_healthy h)), (''ServiceState'', JStr (wh_state h)), (''Detail'', JStr (wh_detail h))]),
       (''health_error'', JStr (errString healthErr)), (''install_error'', JStr (errString installErr)),
       (''validate'', JObj [(''Valid'', JBool (wv_valid rp)), (''Reasons'', json_strings (wv_reasons rp))])]"

text \<open>Install, then validate and poll the health; the result never is an error of the handler.\<close>

definition apply_workload :: "'x env \<Rightarrow> 'x workload_adapter \<Rightarrow> vm_ref \<Rightarrow> raw_json \<Rightarrow> duration \<Rightarrow>
    ('x, err, err option \<times> validation_report \<times> health_report \<times> err option) eff" where
  "apply_workload env wa ref spec timeout = tryE (wa_Install wa ref spec) (\<lambda>i. case i of
       Inl e \<Rightarrow> retE (Some e, no_report, no_health, None)
     | Inr _ \<Rightarrow> tryE (wa_Validate wa ref) (\<lambda>v.
         bindE (pollHealth env wa ref timeout) (\<lambda>(h, e).
         retE (None, (case v of Inl _ \<Rightarrow> no_report | Inr rp \<Rightarrow> rp), h, e))))"

definition workload_pass :: "err option \<times> validation_report \<times> health_report \<times> err option \<Rightarrow> bool" where
  "workload_pass r = (case r of (i, rp, h, e) \<Rightarrow> i = None \<and> wv_valid rp \<and> e = None \<and> wh_healthy h)"

definition ApplyingWorkload_Execute :: "'x env \<Rightarrow> 'x pgw_adapter \<Rightarrow> (string \<Rightarrow> 'x workload_adapter option) \<Rightarrow> string \<Rightarrow> duration \<Rightarrow> 'x handler" where
  "ApplyingWorkload_Execute env gw adapters defaultAdapter timeout tctx =
     bindE (need_cp Bound (\<lambda>cp. cp_vmid cp \<noteq> 0) ''applying_workload: missing placement checkpoint'' tctx) (\<lambda>cp.
     let name = adapter_name defaultAdapter (tc_instance tctx) in
     case adapters name of
       None \<Rightarrow> failE (Errf (''applying_workload: unknown workload adapter '' @ json_quote name @ '' (chua dang ky trong Adapters)''))
     | Some wa \<Rightarrow> bindE (onExt (apply_workload env wa (cp_ref cp) (inst_workload_spec (tc_instance tctx)) timeout)) (\<lambda>r.
         let result = (if workload_pass r then ValidationPass else ValidationFail);
             doc = (case r of (i, rp, h, e) \<Rightarrow> workload_doc name i rp h e) in
         bindE (if workload_pass r then retE () else isolate env gw False cp) (\<lambda>_.
         retE \<lparr>tr_next = (if workload_pass r then InstanceReady else InstanceQuarantined), tr_data = write_cp Bound cp,
           tr_placement = None,
           tr_evidence = Some (bindE (getE db_now) (\<lambda>now.
             persist_run (run_of tctx ''workload'' result (''workload-'' @ name @ ''-1.0'') doc now)))\<rparr>)))"

end
