(* ===== verification/Polling.thy ===== *)
theory Polling
  imports Handlers Canary
begin

text \<open>
  The other polling loops return as well, under the contract \<open>wall_clock\<close>: waiting for a workload to be healthy
  (\<open>pollHealth\<close> of \<open>handlers_workload.go\<close>) and for the guest agent of a canary (\<open>waitGuestAgent\<close> of \<open>canary.go\<close>).  In each the fuel
  has to exceed the timeout in seconds by two rounds, and the loop never ends for the lack of it.
\<close>

context wall_clock
begin

lemma steady_try:
  assumes "steady m" "\<And>r. (\<And>e. r = Inl e \<Longrightarrow> \<not> errors_is e OutOfFuel) \<Longrightarrow> steady (k r)"
  shows "steady (tryE m k)"
  unfolding steady_def
proof (intro allI impI)
  fix x r x'
  assume x: "ok x" and run: "tryE m k x = (r, x')"
  obtain v y where m: "m x = (v, y)" by (rule prod.exhaust)
  note y = steadyD[OF assms(1) x m]
  have k: "k v y = (r, x')" using run m by (simp add: tryE_def)
  have "steady (k v)" by (rule assms(2)) (use steady_no_fuel[OF assms(1) x] m in simp)
  from steadyD[OF this _ k] steady_no_fuel[OF this] k y
  show "ok x' \<and> e_now env x \<le> e_now env x' \<and> (\<forall>e. r = Inl e \<longrightarrow> \<not> errors_is e OutOfFuel)" by fastforce
qed

lemma steady_WaitExec: "0 < e_fuel env \<Longrightarrow> timeout < seconds (int (e_fuel env) - 1) \<Longrightarrow> steady (WaitExec env v cmd timeout)"
  unfolding steady_def using WaitExec_returns by blast

lemma steady_GuestPing: "steady (GuestPing env v)"
  unfolding GuestPing_def
  by (rule steady_try[OF steady_request])
    (auto simp: newGuestAgentUnavailableError_def intro!: steady_ret steady_fail split: sum.split option.split)

text \<open>An adapter of a workload whose health is asked for as the guest agent allows.\<close>

lemma steady_noop_Health: "steady (noop_Health vm)"
  by (simp add: noop_Health_def steady_ret)

lemma steady_sample_Health:
  assumes "0 < e_fuel env" "sample_timeout < seconds (int (e_fuel env) - 1)"
  shows "steady (sample_Health env parse vm)"
proof -
  note exec = steady_WaitExec[OF assms]
  have "steady (readMarker env parse vm)"
    unfolding readMarker_def
  proof (rule steady_bind[OF steady_wrap[OF exec]])
    show "steady (if ex_code v \<noteq> 0 then failE (Errf m) else ofE (decode_or w d))" for v m w and d :: "install_marker \<times> bool"
      by (cases "ex_code v = 0") (simp_all add: steady_fail steady_ofE decode_no_fuel)
  qed
  then show ?thesis
    unfolding sample_Health_def Let_def
    by (rule steady_bind[OF steady_wrap]) (rule steady_bind[OF steady_wrap[OF exec]], rule steady_ret)
qed

lemma slept_left:
  assumes "ok y" "e_sleep env dur y = (False, z)" "seconds 1 \<le> dur" "e_now env x \<le> e_now env y" "\<not> now > deadline"
    "e_now env x \<le> now" "deadline - e_now env x < seconds (int (Suc fuel) - 1)"
  shows "ok z" "e_now env x \<le> e_now env z" "0 < fuel" "deadline - e_now env z < seconds (int fuel - 1)"
proof -
  from sleep_ok[OF assms(1,2)] assms(3,4) show "ok z" "e_now env x \<le> e_now env z" by (auto intro: order_trans)
  have "e_now env x + seconds 1 \<le> e_now env z" using sleep_ok[OF assms(1,2)] assms(3,4) by auto
  with poll_left[of deadline "e_now env x" fuel "e_now env z"] assms(5-7) show "0 < fuel" "deadline - e_now env z < seconds (int fuel - 1)" by auto
qed

lemma health_loop_returns:
  assumes "steady (wa_Health wa ref)" "ok x" "0 < fuel" "deadline - e_now env x < seconds (int fuel - 1)"
    and "health_loop env wa ref deadline fuel x = (r, x')"
  shows "\<exists>rp e. r = Inr (rp, e) \<and> ok x' \<and> e_now env x \<le> e_now env x' \<and> (\<forall>e'. e = Some e' \<longrightarrow> \<not> errors_is e' OutOfFuel)"
  using assms(2-5)
proof (induction fuel arbitrary: x)
  case 0
  then show ?case by simp
next
  case (Suc fuel)
  obtain h y where h: "wa_Health wa ref x = (h, y)" by (rule prod.exhaust)
  note y = steadyD[OF assms(1) Suc.prems(1) h]
  have e: "\<not> errors_is e OutOfFuel" if "h = Inl e" for e using steady_no_fuel[OF assms(1) Suc.prems(1)] h that by blast
  show ?case
  proof (cases "(\<exists>rp. h = Inr rp \<and> wh_healthy rp) \<or> e_now env y > deadline")
    case True
    with h Suc.prems(4) y e show ?thesis
      by (cases h) (auto simp: tryE_def bindE_def retE_def getE_def Let_def split: if_splits)
  next
    case False
    obtain c z where z: "e_sleep env (seconds 3) y = (c, z)" by (rule prod.exhaust)
    have run: "(case c of True \<Rightarrow> (Inr (no_health, Some CtxDone), z) | False \<Rightarrow> health_loop env wa ref deadline fuel z) = (r, x')"
      using False h z Suc.prems(4) by (cases h) (auto simp: tryE_def bindE_def getE_def Let_def)
    show ?thesis
    proof (cases c)
      case True
      have "ok z \<and> e_now env x \<le> e_now env z" using sleep_ok[OF _ z] y by (auto intro: order_trans)
      with run True show ?thesis by auto
    next
      case nc: False
      note s = slept_left[of y "seconds 3" z x deadline "e_now env y" fuel]
      have "ok z" "e_now env x \<le> e_now env z" "0 < fuel" "deadline - e_now env z < seconds (int fuel - 1)"
        using s z nc y False Suc.prems(3) by (auto simp: seconds_def)
      with Suc.IH[of z] run nc show ?thesis by (auto intro: order_trans)
    qed
  qed
qed

lemma pollHealth_returns:
  assumes "steady (wa_Health wa ref)" "ok x" "0 < e_fuel env" "or_default timeout (seconds 30) < seconds (int (e_fuel env) - 1)"
    and "pollHealth env wa ref timeout x = (r, x')"
  shows "\<exists>rp e. r = Inr (rp, e) \<and> ok x' \<and> e_now env x \<le> e_now env x' \<and> (\<forall>e'. e = Some e' \<longrightarrow> \<not> errors_is e' OutOfFuel)"
proof -
  have "health_loop env wa ref (e_now env x + or_default timeout (seconds 30)) (e_fuel env) x = (r, x')"
    using assms(5) by (simp add: pollHealth_def bindE_def getE_def)
  from health_loop_returns[OF assms(1,2,3) _ this] assms(4) show ?thesis by simp
qed

lemma ping_loop_returns:
  assumes "ok x" "0 < fuel" "deadline - e_now env x < seconds (int fuel - 1)" "\<And>e. lastErr = Some e \<Longrightarrow> \<not> errors_is e OutOfFuel"
    and "ping_loop env ref deadline fuel lastErr x = (r, x')"
  shows "ok x' \<and> e_now env x \<le> e_now env x' \<and> (\<forall>e. r = Inl e \<longrightarrow> \<not> errors_is e OutOfFuel)"
  using assms
proof (induction fuel arbitrary: x lastErr)
  case 0
  then show ?case by simp
next
  case (Suc fuel)
  show ?case
  proof (cases "e_now env x < deadline")
    case False
    with Suc.prems show ?thesis by (auto simp: bindE_def getE_def failE_def no_agent_def split: option.splits)
  next
    case now: True
    obtain g y where g: "GuestPing env ref x = (g, y)" by (rule prod.exhaust)
    note y = steadyD[OF steady_GuestPing Suc.prems(1) g]
    show ?thesis
    proof (cases g)
      case (Inr u)
      with now g Suc.prems(5) y show ?thesis by (auto simp: bindE_def getE_def tryE_def retE_def)
    next
      case (Inl e)
      have e: "\<not> errors_is e OutOfFuel" using steady_no_fuel[OF steady_GuestPing Suc.prems(1)] g Inl by blast
      obtain c z where z: "e_sleep env (seconds 5) y = (c, z)" by (rule prod.exhaust)
      have run: "(case c of True \<Rightarrow> (Inl CtxDone, z) | False \<Rightarrow> ping_loop env ref deadline fuel (Some e) z) = (r, x')"
        using now g Inl z Suc.prems(5) by (auto simp: bindE_def getE_def tryE_def)
      show ?thesis
      proof (cases c)
        case True
        have "ok z \<and> e_now env x \<le> e_now env z" using sleep_ok[OF _ z] y by (auto intro: order_trans)
        with run True show ?thesis by auto
      next
        case nc: False
        note s = slept_left[of y "seconds 5" z x deadline "e_now env x" fuel]
        have "ok z" "e_now env x \<le> e_now env z" "0 < fuel" "deadline - e_now env z < seconds (int fuel - 1)"
          using s z nc y now Suc.prems(3) by (auto simp: seconds_def)
        with Suc.IH[of z "Some e"] run nc e show ?thesis by (auto intro: order_trans)
      qed
    qed
  qed
qed

lemma waitGuestAgent_returns:
  assumes "ok x" "0 < e_fuel env" "timeout < seconds (int (e_fuel env) - 1)" "waitGuestAgent env ref timeout x = (r, x')"
  shows "ok x' \<and> e_now env x \<le> e_now env x' \<and> (\<forall>e. r = Inl e \<longrightarrow> \<not> errors_is e OutOfFuel)"
proof -
  have "ping_loop env ref (e_now env x + timeout) (e_fuel env) None x = (r, x')"
    using assms(4) by (simp add: waitGuestAgent_def bindE_def getE_def)
  from ping_loop_returns[OF assms(1,2) _ _ this] assms(3) show ?thesis by simp
qed

end

text \<open>On the mock server a canary always learns whether its agent answers, and a workload whether it is healthy.\<close>

lemma lab_ping_returns:
  "timeout < seconds (int fuel - 1) \<Longrightarrow> 0 < fuel \<Longrightarrow> waitGuestAgent (lab_env fuel) ref timeout x = (r, x') \<Longrightarrow>
   r = Inl e \<Longrightarrow> \<not> errors_is e OutOfFuel"
  using lab.waitGuestAgent_returns[where x = x and timeout = timeout and ref = ref and r = r and x' = x'] by (auto simp: lab_env_def)

end
