(* ===== verification/Engine.thy ===== *)
theory Engine
  imports Handlers
begin

text \<open>
  The state engine, \<open>internal/stateengine/engine.go\<close>, and its wiring in \<open>cmd/worker/main.go\<close>: a registry of handlers by
  the state they leave, and \<open>Step\<close>, which runs one of them and then writes the transition, the checkpoint, the
  evidence and an audit event in one transaction.
\<close>

section \<open>One step\<close>

type_synonym 'x registry = "instance_state \<Rightarrow> 'x handler option"

definition transition_event :: "vm_instance \<Rightarrow> instance_state \<Rightarrow> audit_event" where
  "transition_event inst st = system_event ''state-engine'' ''state_transition'' ''vm_instance'' (inst_id inst)
     [(''from'', JStr (instance_state_str (inst_state inst))), (''to'', JStr (instance_state_str st))]"

definition persist_transition :: "vm_instance \<Rightarrow> job \<Rightarrow> transition_result \<Rightarrow> unit dbm" where
  "persist_transition inst jb result =
     bindE (wrapE ''update instance state'' (instances_UpdateState (inst_id inst) (tr_next result))) (\<lambda>_.
     bindE (case tr_placement result of None \<Rightarrow> retE ()
       | Some p \<Rightarrow> wrapE ''set pve placement'' (instances_SetPVEPlacement (inst_id inst) (pp_cluster p) (pp_node p) (pp_vmid p))) (\<lambda>_.
     bindE (wrapE ''update checkpoint'' (jobs_UpdateCheckpoint (job_id jb) (tr_next result) (tr_data result))) (\<lambda>_.
     bindE (case tr_evidence result of None \<Rightarrow> retE () | Some ev \<Rightarrow> wrapE ''persist evidence'' ev) (\<lambda>_.
     wrapE ''audit'' (audit_Append (transition_event inst (tr_next result)))))))"

definition context_of :: "'x env \<Rightarrow> vm_instance \<Rightarrow> job \<Rightarrow> 'x transition_context" where
  "context_of env inst jb = \<lparr>tc_instance = inst, tc_job = jb, tc_data = job_data jb,
     tc_save = (\<lambda>data. onDB env (jobs_UpdateCheckpoint (job_id jb) (inst_state inst) data))\<rparr>"

definition Engine_Step :: "'x env \<Rightarrow> 'x registry \<Rightarrow> job \<Rightarrow> ('x, instance_state) wm" where
  "Engine_Step env registry jb =
     bindE (wrapE ''stateengine: load instance'' (onDB env (instances_Get (job_instance jb)))) (\<lambda>inst.
     case registry (inst_state inst) of
       None \<Rightarrow> failE (Suffixed ErrInvalidTransition (''no transition handler registered for state ''
         @ instance_state_str (inst_state inst) @ '' (instance '' @ inst_id inst @ '')''))
     | Some handler \<Rightarrow> bindE (handler (context_of env inst jb)) (\<lambda>result.
         bindE (wrapE ''stateengine: persist transition'' (onDB env (WithTx (persist_transition inst jb result)))) (\<lambda>_.
         retE (tr_next result))))"

section \<open>The wiring\<close>

text \<open>
  The configuration the worker hands to the handlers, and the parameters of the model that stand for library code.
  The timeouts of the handlers that \<open>wireEngine\<close> does not set are zero, so that the defaults apply.
\<close>

record 'x wiring =
  wr_env :: "'x env"
  wr_parse :: "string \<Rightarrow> raw_json"
  wr_sha :: "string \<Rightarrow> string"
  wr_locked :: "string \<Rightarrow> bool"
  wr_identity :: identity_ports
  wr_options :: identity_options
  wr_segment :: string
  wr_ttl :: duration
  wr_pool :: string
  wr_defaults :: vm_defaults
  wr_policy :: string
  wr_deny_v6 :: bool

definition workload_adapters :: "'x wiring \<Rightarrow> string \<Rightarrow> 'x workload_adapter option" where
  "workload_adapters w name = (if name = ''noop'' then Some NoopWorkload
     else if name = ''sample-systemd'' then Some (SampleAdapter (wr_env w) (wr_parse w) (wr_sha w)) else None)"

fun registry_of :: "'x pgw_adapter \<Rightarrow> 'x wiring \<Rightarrow> 'x registry" where
  "registry_of gw w InstanceRequested = Some (Requested_Execute (wr_env w))"
| "registry_of gw w InstanceReserving = Some (Reserving_Execute (wr_env w) (wr_locked w) (wr_segment w) (wr_ttl w))"
| "registry_of gw w InstanceCloning = Some (Cloning_Execute (wr_env w) (wr_pool w) 0)"
| "registry_of gw w InstanceConfiguring = Some (Configuring_Execute (wr_env w) (wr_defaults w) 0)"
| "registry_of gw w InstanceNetworkBinding = Some (NetworkBinding_Execute gw (wr_policy w))"
| "registry_of gw w InstanceBooting = Some (Booting_Execute (wr_env w) 0)"
| "registry_of gw w InstanceWaitingGuest =
     Some (ValidatingIdentity_Execute (wr_env w) gw (wr_parse w) (wr_identity w) (wr_options w))"
| "registry_of gw w InstanceValidatingEgress = Some (ValidatingEgress_Execute (wr_env w) gw (wr_deny_v6 w) 0)"
| "registry_of gw w InstanceApplyingWorkload = Some (ApplyingWorkload_Execute (wr_env w) gw (workload_adapters w) ''noop'' 0)"
| "registry_of gw w _ = None"

definition wireEngine :: "'x wiring \<Rightarrow> 'x registry" where
  "wireEngine w = registry_of NoopAdapter w"

section \<open>What a handler may touch\<close>

lemma keeps_Let [inv_intro]: "keeps R (f x) \<Longrightarrow> keeps R (Let x f)"
  by simp

lemma keeps_case_prod [inv_intro]: "(\<And>a b. keeps R (f a b)) \<Longrightarrow> keeps R (case p of (a, b) \<Rightarrow> f a b)"
  by (cases p) simp

text \<open>What becomes of the state does not depend on the value of a computation.\<close>

definition forget :: "'a dbm \<Rightarrow> unit dbm" where
  "forget q d = (case q d of (r, d') \<Rightarrow> (map_sum (\<lambda>e. e) (\<lambda>_. ()) r, d'))"

lemma forget_snd: "snd (forget q d) = snd (q d)" "snd (stmt (forget q) d) = snd (stmt q d)" "snd (WithTx (forget q) d) = snd (WithTx q d)"
  by (auto simp: forget_def stmt_def WithTx_def commit_tx_def split: prod.split sum.split list.split outcome.split)

lemma forget_keeps: "keeps R (forget q) = keeps R q" "keeps R (stmt (forget q)) = keeps R (stmt q)"
  "keeps R (WithTx (forget q)) = keeps R (WithTx q)"
  by (simp_all add: keeps_def forget_snd)

text \<open>
  A relation of databases that every call a handler makes keeps, and so every handler: the laws are those of the
  statements, of \<open>WithTx\<close> and of the writes a handler reaches.
\<close>

locale handler_frame =
  fixes Q :: "db \<Rightarrow> db \<Rightarrow> bool"
  assumes Q_refl: "reflp Q" and Q_trans: "transp Q"
    and Q_clock: "Q (d\<lparr>db_now := t\<rparr>) d' \<Longrightarrow> Q d d'"
    and Q_stmt_unit: "keeps Q q \<Longrightarrow> keeps Q (stmt (q :: unit dbm))"
    and Q_tx_unit: "keeps Q fn \<Longrightarrow> keeps Q (WithTx (fn :: unit dbm))"
    and Q_allocs: "Q d (put_allocs rs d)"
    and Q_checkpoint: "Q d (d\<lparr>db_jobs := sql_update p (\<lambda>j. j\<lparr>job_checkpoint := cp, job_data := dt\<rparr>) (db_jobs d)\<rparr>)"
begin

lemma Q_stmt: "keeps Q q \<Longrightarrow> keeps Q (stmt q)"
  using Q_stmt_unit[of "forget q"] by (simp add: forget_keeps)

lemma Q_tx: "keeps Q fn \<Longrightarrow> keeps Q (WithTx fn)"
  using Q_tx_unit[of "forget fn"] by (simp add: forget_keeps)

lemma query: "keeps Q (queryE m f)"
  by (simp add: queryE_def keeps_onErr Q_stmt keeps_get Q_refl)

lemma read: "keeps Q (scanE m (\<lambda>d. scan_row (f d) d))"
  unfolding scanE_def by (intro keeps_onErr Q_stmt keepsI) (simp add: scan_row_def eff_defs reflpD[OF Q_refl] split: option.split)

lemma exec: "keeps Q q \<Longrightarrow> keeps Q (exec_rows m e q)"
  by (intro keeps_bind keeps_onErr Q_stmt keeps_require Q_refl Q_trans)

lemma allocs: "keeps Q (upd_tab db_allocs put_allocs p f)"
  by (simp add: keeps_def upd_tab_def Q_allocs)

lemma reserve: "keeps Q (ReserveNextFree locked sgm iid ttl)"
proof -
  have "keeps Q (reserve_stmt iid ttl aid)" for aid
    unfolding reserve_stmt_def keeps_def by (auto simp: upd_tab_def Q_allocs reflpD[OF Q_refl])
  moreover have "keeps Q (\<lambda>d. scan_row (f d) d)" for f :: "db \<Rightarrow> 'r option"
    by (intro keepsI) (simp add: scan_row_def eff_defs reflpD[OF Q_refl] split: option.split)
  ultimately show ?thesis
    unfolding ReserveNextFree_def reserve_select_def ipam_Get_def
    by (intro Q_tx keeps_bind keeps_onErr Q_stmt read Q_trans)
qed

lemma UpdateCheckpoint: "keeps Q (jobs_UpdateCheckpoint jid cp data)"
  unfolding jobs_UpdateCheckpoint_def
  by (intro exec) (simp add: keeps_def update_jobs_def Q_checkpoint)

lemma calls:
  "keeps Q (templates_Get i)" "keeps Q (ipam_Get i)" "keeps Q (segments_Get i)" "keeps Q (instances_Get i)"
  "keeps Q (FindDuplicateMachineDigest dg i)" "keeps Q (FindDuplicateSSHFingerprint dg i)" "keeps Q (MarkQuarantined i)"
  "keeps Q (ipam_Release i)" "keeps Q (jobs_Get i)"
  by (simp_all add: templates_Get_def ipam_Get_def segments_Get_def instances_Get_def FindDuplicateMachineDigest_def
      FindDuplicateSSHFingerprint_def MarkQuarantined_def ipam_Release_def jobs_Get_def read query exec allocs)

abbreviation in_world :: "'a world \<Rightarrow> 'a world \<Rightarrow> bool" where
  "in_world w w' \<equiv> Q (w_db w) (w_db w')"

lemma world_rel: "reflp in_world" "transp in_world"
  using Q_refl Q_trans by (auto simp: reflp_def transp_def)

lemma onDB: "keeps Q m \<Longrightarrow> keeps in_world (onDB env m)"
  by (erule keeps_onDB) (simp add: Q_clock)

lemma onExt: "keeps in_world (onExt m)"
  by (rule keeps_onExt) (simp add: reflpD[OF Q_refl])

lemma nowE: "keeps in_world (nowE env)"
  by (simp add: nowE_def onExt)

lemma ignoreE: "keeps in_world m \<Longrightarrow> keeps in_world (ignoreE m)"
  unfolding ignoreE_def by (intro keeps_try keeps_ret world_rel)

lemma ofE: "keeps in_world (ofE r)"
  by (simp add: keeps_def ofE_def reflpD[OF Q_refl])

lemma need_cp: "keeps in_world (need_cp l p msg tctx)"
  by (simp add: need_cp_def keeps_ret keeps_fail world_rel split: prod.split)

lemmas intros = keeps_bind keeps_try keeps_onErr keeps_if keeps_ret keeps_fail keeps_option keeps_sum keeps_Let keeps_case_prod
  world_rel onExt nowE ofE need_cp ignoreE onDB calls reserve

lemma await: "keeps in_world (await_task env m m' t d)"
  unfolding await_task_def by (intro intros)

lemma isolate: "keeps in_world (isolate env gw b cp)"
  unfolding isolate_def by (intro intros)

lemma handler:
  assumes "registry_of gw w st = Some h" "\<And>data. keeps in_world (tc_save tctx data)"
  shows "keeps in_world (h tctx)"
proof -
  note defs = Requested_Execute_def Reserving_Execute_def Cloning_Execute_def send_clone_def finish_clone_def Configuring_Execute_def send_config_def
    NetworkBinding_Execute_def bind_client_def bind_mapping_def Booting_Execute_def ValidatingIdentity_Execute_def judge_identity_def
    ValidatingEgress_Execute_def ApplyingWorkload_Execute_def
  show ?thesis
    using assms(1)
    by (cases st) (auto simp: defs intro!: intros await isolate assms(2))
qed

lemma context_save: "keeps in_world (tc_save (context_of env inst jb) data)"
  by (simp add: context_of_def onDB UpdateCheckpoint)

end

text \<open>
  Instances, evidence and the audit log are written in the transaction of the step alone: a handler leaves them, and
  leaves every job with its instance, its state and its owner.
\<close>

definition job_keys :: "db \<Rightarrow> (string \<times> string \<times> job_state \<times> string option) list" where
  "job_keys d = map (\<lambda>j. (job_id j, job_instance j, job_st j, job_owner j)) (db_jobs d)"

definition chronicle :: "db \<Rightarrow> vm_instance list \<times> validation_run list \<times> identity_obs list \<times> audit_event list
    \<times> (string \<times> string \<times> job_state \<times> string option) list" where
  "chronicle d = (db_instances d, db_runs d, db_obs d, db_audit d, job_keys d)"

abbreviation quiet_db :: "'a dbm \<Rightarrow> bool" where
  "quiet_db \<equiv> keeps (\<lambda>d d'. chronicle d' = chronicle d)"

abbreviation quiet :: "('x, 'a) wm \<Rightarrow> bool" where
  "quiet \<equiv> keeps (\<lambda>w w'. chronicle (w_db w') = chronicle (w_db w))"

lemma same_chronicle: "same_tables d d' \<Longrightarrow> chronicle d' = chronicle d"
  by (simp add: chronicle_def job_keys_def same_tables_fields)

lemma chronicle_now [simp]: "chronicle (d\<lparr>db_now := t\<rparr>) = chronicle d"
  by (simp add: chronicle_def job_keys_def)

lemma chronicle_rel: "reflp (\<lambda>d d'. chronicle d' = chronicle d)" "transp (\<lambda>d d'. chronicle d' = chronicle d)"
  "table_rel (\<lambda>d d'. chronicle d' = chronicle d)"
proof -
  show "table_rel (\<lambda>d d'. chronicle d' = chronicle d)"
    unfolding table_rel_def using same_chronicle by metis
qed (auto simp: reflp_def transp_def)

interpretation quiet: handler_frame "\<lambda>d d'. chronicle d' = chronicle d"
proof
  show "keeps (\<lambda>d d'. chronicle d' = chronicle d) (stmt q)" if "keeps (\<lambda>d d'. chronicle d' = chronicle d) q" for q :: "unit dbm"
    by (rule keeps_stmt[OF chronicle_rel(1) table_rel_insensitive[OF chronicle_rel(3)] that])
  show "keeps (\<lambda>d d'. chronicle d' = chronicle d) (WithTx fn)" if "keeps (\<lambda>d d'. chronicle d' = chronicle d) fn" for fn :: "unit dbm"
    by (rule keeps_WithTx[OF chronicle_rel(1,3) that])
  show "chronicle (put_allocs rs d) = chronicle d" for rs d by (simp add: chronicle_def job_keys_def)
  show "chronicle (d\<lparr>db_jobs := sql_update p (\<lambda>j. j\<lparr>job_checkpoint := cp, job_data := dt\<rparr>) (db_jobs d)\<rparr>) = chronicle d" for d p cp dt
    by (simp add: chronicle_def job_keys_def sql_update_def)
qed (simp_all add: chronicle_rel(1,2))

text \<open>A connection that works goes on to work.\<close>

abbreviation calm_rel :: "db \<Rightarrow> db \<Rightarrow> bool" where
  "calm_rel d d' \<equiv> db_faults d = [] \<longrightarrow> db_faults d' = []"

lemma calm_stmt: "keeps calm_rel q \<Longrightarrow> keeps calm_rel (stmt q)"
  by (simp add: keeps_def)

lemma calm_tx: "keeps calm_rel fn \<Longrightarrow> keeps calm_rel (WithTx fn)"
  unfolding keeps_def
proof (rule allI, rule impI)
  fix d :: db
  assume fn: "\<forall>d. calm_rel d (snd (fn d))" and d: "db_faults d = []"
  obtain r d1 where run: "fn d = (r, d1)" by (rule prod.exhaust)
  with fn d have "db_faults d1 = []" by (metis snd_conv)
  then show "db_faults (snd (WithTx fn d)) = []" using WithTx_healthy[of d fn r d1] d run by (auto simp: roll_back_def split: sum.split)
qed

interpretation calm: handler_frame calm_rel
  by unfold_locales (auto simp: reflp_def transp_def calm_tx intro!: calm_stmt)

section \<open>What a handler hands over\<close>

text \<open>The state a step leads to when nothing is wrong, and the kind of evidence it must come with.\<close>

fun next_state :: "instance_state \<Rightarrow> instance_state" where
  "next_state InstanceRequested = InstanceReserving"
| "next_state InstanceReserving = InstanceCloning"
| "next_state InstanceCloning = InstanceConfiguring"
| "next_state InstanceConfiguring = InstanceNetworkBinding"
| "next_state InstanceNetworkBinding = InstanceBooting"
| "next_state InstanceBooting = InstanceWaitingGuest"
| "next_state InstanceWaitingGuest = InstanceValidatingEgress"
| "next_state InstanceValidatingEgress = InstanceApplyingWorkload"
| "next_state InstanceApplyingWorkload = InstanceReady"
| "next_state st = st"

fun evidence_type :: "instance_state \<Rightarrow> string option" where
  "evidence_type InstanceWaitingGuest = Some ''identity''"
| "evidence_type InstanceValidatingEgress = Some ''egress''"
| "evidence_type InstanceApplyingWorkload = Some ''workload''"
| "evidence_type st = None"

text \<open>A computation that, when it succeeds, adds one run and leaves the instances and the audit log.\<close>

definition writes_run :: "string \<Rightarrow> string \<Rightarrow> validation_result \<Rightarrow> unit dbm \<Rightarrow> bool" where
  "writes_run iid ty v m \<longleftrightarrow> keeps calm_rel m \<and> (\<forall>d d'. m d = (Inr (), d') \<longrightarrow>
     (\<exists>r. db_runs d' = db_runs d @ [r] \<and> run_instance r = iid \<and> run_type r = ty \<and> run_result r = v) \<and>
     db_instances d' = db_instances d \<and> db_audit d' = db_audit d \<and> db_jobs d' = db_jobs d)"

lemma calm_read: "keeps calm_rel q \<Longrightarrow> keeps calm_rel (scanE m q)"
  by (simp add: scanE_def keeps_onErr calm_stmt)

lemma calm_rel_order: "reflp calm_rel" "transp calm_rel"
  by (auto simp: reflp_def transp_def)

lemma calm_uuid: "keeps calm_rel gen_random_uuid"
  by (rule keeps_uuid) simp

lemma calm_evidence: "keeps calm_rel (persist_run run)" "keeps calm_rel (identity_Create pg_mac pg_inet ob)"
proof -
  show "keeps calm_rel (persist_run run)"
    unfolding persist_run_def runs_Create_def
    by (intro keeps_bind keeps_onErr keeps_ret calm_rel_order calm_read calm_uuid keeps_get) (auto simp: keeps_def Let_def)
  show "keeps calm_rel (identity_Create pg_mac pg_inet ob)"
    unfolding identity_Create_def
    by (intro keeps_bind calm_rel_order calm_read calm_uuid keeps_get) (auto simp: keeps_def Let_def split: option.split)
qed

lemma persist_run_writes: "writes_run (run_instance run) (run_type run) (run_result run) (persist_run run)"
proof -
  have "(\<exists>r. db_runs d' = db_runs d @ [r] \<and> run_instance r = run_instance run \<and> run_type r = run_type run \<and> run_result r = run_result run)
      \<and> db_instances d' = db_instances d \<and> db_audit d' = db_audit d \<and> db_jobs d' = db_jobs d"
    if run: "persist_run run d = (Inr (), d')" for d d'
  proof -
    from run obtain x where "runs_Create run d = (Inr x, d')"
      unfolding persist_run_def by (auto simp: onErr_Inr_iff retE_def elim!: bindE_Inr_cases)
    then show ?thesis unfolding runs_Create_def
      by (auto elim!: scanE_InrE bindE_Inr_cases simp: gen_random_uuid_def Let_def split: if_splits)
  qed
  then show ?thesis unfolding writes_run_def using calm_evidence(1) by blast
qed

lemma writes_run_now:
  assumes "\<And>t. writes_run iid ty v (m t)"
  shows "writes_run iid ty v (bindE (getE db_now) m)"
proof -
  have "keeps calm_rel (bindE (getE db_now) m)"
    using assms by (intro keeps_bind calm_rel_order keeps_get) (simp add: writes_run_def)
  with assms show ?thesis unfolding writes_run_def by (simp add: bindE_def getE_def)
qed

lemma writes_run_after_obs:
  assumes "writes_run iid ty v m"
  shows "writes_run iid ty v (bindE (wrapE msg (identity_Create pg_mac pg_inet ob)) (\<lambda>_. m))"
proof -
  have "keeps calm_rel (bindE (wrapE msg (identity_Create pg_mac pg_inet ob)) (\<lambda>_. m))"
    using assms by (intro keeps_bind keeps_onErr calm_rel_order calm_evidence(2)) (simp add: writes_run_def)
  moreover have "db_runs d1 = db_runs d \<and> db_instances d1 = db_instances d \<and> db_audit d1 = db_audit d \<and> db_jobs d1 = db_jobs d"
    if "identity_Create pg_mac pg_inet ob d = (Inr x, d1)" for x d d1
    using that unfolding identity_Create_def
    by (auto elim!: scanE_InrE bindE_Inr_cases simp: gen_random_uuid_def Let_def split: if_splits option.splits)
  ultimately show ?thesis
    using assms unfolding writes_run_def by (auto simp: onErr_Inr_iff elim!: bindE_Inr_cases) metis+
qed

definition hands_over :: "string \<Rightarrow> instance_state \<Rightarrow> transition_result \<Rightarrow> bool" where
  "hands_over iid st result \<longleftrightarrow> (case evidence_type st of
       None \<Rightarrow> tr_evidence result = None \<and> tr_next result = next_state st
     | Some ty \<Rightarrow> \<exists>v m. tr_evidence result = Some m \<and> writes_run iid ty v m \<and>
         tr_next result = (if v = ValidationPass then next_state st else InstanceQuarantined))"

lemma judge_identity_hands_over:
  assumes "judge_identity env gw ports opts tctx cp f alloc sgm s = (Inr result, s')"
  shows "hands_over (inst_id (tc_instance tctx)) InstanceWaitingGuest result"
proof -
  from assms obtain now ev v where result: "result = \<lparr>tr_next = (if v \<noteq> ValidationPass then InstanceQuarantined else InstanceValidatingEgress),
        tr_data = write_cp Bound cp, tr_placement = None,
        tr_evidence = Some (bindE (wrapE ''create identity observation''
            (identity_Create (ip_mac ports) (ip_inet ports)
              (observation_of tctx f (ip_digest ports (fc_machine_id f)) (CanonicalSSHFingerprint (ip_order ports) f)))) (\<lambda>_.
          persist_run (run_of tctx ''identity'' v RulesetVersion ev (if fc_collected f = zero_time then now else fc_collected f))))\<rparr>"
    unfolding judge_identity_def Let_def by (auto simp: retE_def elim!: bindE_Inr_cases split: prod.splits)
  have "writes_run (inst_id (tc_instance tctx)) ''identity'' v (persist_run (run_of tctx ''identity'' v RulesetVersion ev t))" for t
    using persist_run_writes[of "run_of tctx ''identity'' v RulesetVersion ev t"] by (simp add: run_of_def)
  from writes_run_after_obs[OF this] show ?thesis
    unfolding hands_over_def result by auto
qed

lemma need_cp_Inr: "need_cp l p msg tctx s = (Inr cp, s') \<Longrightarrow> s' = s \<and> p cp \<and> read_cp l (tc_data tctx) = (cp, True)"
  by (auto simp: need_cp_def failE_def retE_def split: prod.splits if_splits)

lemma egress_hands_over:
  assumes "ValidatingEgress_Execute env gw b age tctx s = (Inr result, s')"
  shows "hands_over (inst_id (tc_instance tctx)) InstanceValidatingEgress result"
proof -
  from assms obtain cp doc v where result: "result = \<lparr>tr_next = (if v \<noteq> ValidationPass then InstanceQuarantined else InstanceApplyingWorkload),
       tr_data = write_cp Bound cp, tr_placement = None,
       tr_evidence = Some (bindE (getE db_now) (\<lambda>now. persist_run (run_of tctx ''egress'' v RulesetVersion doc now)))\<rparr>"
    unfolding ValidatingEgress_Execute_def by (auto simp: retE_def elim!: bindE_Inr_cases split: prod.splits)
  have "writes_run (inst_id (tc_instance tctx)) ''egress'' v (persist_run (run_of tctx ''egress'' v RulesetVersion doc t))" for t
    using persist_run_writes[of "run_of tctx ''egress'' v RulesetVersion doc t"] by (simp add: run_of_def)
  from writes_run_now[OF this] show ?thesis unfolding hands_over_def result by auto
qed

lemma workload_hands_over:
  assumes "ApplyingWorkload_Execute env gw adapters dflt timeout tctx s = (Inr result, s')"
  shows "hands_over (inst_id (tc_instance tctx)) InstanceApplyingWorkload result"
proof -
  from assms obtain cp doc pass rs where result: "result = \<lparr>tr_next = (if pass then InstanceReady else InstanceQuarantined),
       tr_data = write_cp Bound cp, tr_placement = None,
       tr_evidence = Some (bindE (getE db_now) (\<lambda>now.
         persist_run (run_of tctx ''workload'' (if pass then ValidationPass else ValidationFail) rs doc now)))\<rparr>"
    unfolding ApplyingWorkload_Execute_def Let_def
    by (auto simp: retE_def failE_def elim!: bindE_Inr_cases split: option.splits)
  have "writes_run (inst_id (tc_instance tctx)) ''workload'' v (persist_run (run_of tctx ''workload'' v rs doc t))" for t v
    using persist_run_writes[of "run_of tctx ''workload'' v rs doc t"] by (simp add: run_of_def)
  from writes_run_now[OF this] show ?thesis unfolding hands_over_def result by auto
qed

lemma handler_hands_over:
  assumes "registry_of gw w st = Some h" "h tctx s = (Inr result, s')"
  shows "hands_over (inst_id (tc_instance tctx)) st result"
proof -
  have plain: "hands_over iid st (advance (next_state st) data)" if "evidence_type st = None" for iid st data
    using that by (simp add: hands_over_def advance_def)
  show ?thesis
  proof (cases st)
    case InstanceRequested
    with assms plain[of InstanceRequested] show ?thesis
      by (auto simp: Requested_Execute_def retE_def failE_def elim!: bindE_Inr_cases split: if_splits)
  next
    case InstanceReserving
    with assms plain[of InstanceReserving] show ?thesis
      by (auto simp: Reserving_Execute_def Let_def retE_def elim!: bindE_Inr_cases split: if_splits)
  next
    case InstanceCloning
    with assms show ?thesis
      by (auto simp: Cloning_Execute_def finish_clone_def hands_over_def retE_def elim!: bindE_Inr_cases)
  next
    case InstanceConfiguring
    with assms plain[of InstanceConfiguring] show ?thesis
      by (auto simp: Configuring_Execute_def retE_def elim!: bindE_Inr_cases)
  next
    case InstanceNetworkBinding
    with assms plain[of InstanceNetworkBinding] show ?thesis
      by (auto simp: NetworkBinding_Execute_def retE_def elim!: bindE_Inr_cases)
  next
    case InstanceBooting
    with assms plain[of InstanceBooting] show ?thesis
      by (auto simp: Booting_Execute_def retE_def elim!: bindE_Inr_cases)
  next
    case InstanceWaitingGuest
    with assms show ?thesis
      by (auto simp: ValidatingIdentity_Execute_def dest!: need_cp_Inr judge_identity_hands_over elim!: bindE_Inr_cases)
  next
    case InstanceValidatingEgress
    with assms egress_hands_over show ?thesis by auto
  next
    case InstanceApplyingWorkload
    with assms workload_hands_over show ?thesis by auto
  qed (use assms in auto)
qed

section \<open>What a transition writes\<close>

definition moved :: "string \<Rightarrow> instance_state \<Rightarrow> pve_placement option \<Rightarrow> time \<Rightarrow> vm_instance \<Rightarrow> vm_instance" where
  "moved iid st pl now i = (if inst_id i \<noteq> iid then i else
     (let i' = i\<lparr>inst_state := st, inst_version := inst_version i + 1, inst_updated := now\<rparr> in case pl of None \<Rightarrow> i'
       | Some p \<Rightarrow> i'\<lparr>inst_cluster := Some (pp_cluster p), inst_node := Some (pp_node p), inst_vmid := Some (pp_vmid p)\<rparr>))"

lemma UpdateState_Inr:
  assumes "instances_UpdateState iid st d = (Inr u, d')"
  shows "db_instances d' = map (moved iid st None (db_now d)) (db_instances d)" "db_runs d' = db_runs d" "db_audit d' = db_audit d"
    "db_now d' = db_now d" "\<exists>i \<in> set (db_instances d). inst_id i = iid" "db_jobs d' = db_jobs d"
proof -
  have "db_instances d' = map (moved iid st None (db_now d)) (db_instances d) \<and> db_runs d' = db_runs d \<and> db_audit d' = db_audit d \<and>
    db_now d' = db_now d \<and> db_jobs d' = db_jobs d \<and> (\<exists>i \<in> set (db_instances d). inst_id i = iid)"
    using assms unfolding instances_UpdateState_def
    by (elim exec_rows_Inr) (auto simp: sql_update_def moved_def Let_def)
  then show "db_instances d' = map (moved iid st None (db_now d)) (db_instances d)" "db_runs d' = db_runs d" "db_audit d' = db_audit d"
    "db_now d' = db_now d" "\<exists>i \<in> set (db_instances d). inst_id i = iid" "db_jobs d' = db_jobs d" by auto
qed

lemma placement_Inr:
  assumes "instances_SetPVEPlacement iid c n v d = (Inr u, d')"
  shows "db_instances d' = map (\<lambda>i. if inst_id i = iid then i\<lparr>inst_cluster := Some c, inst_node := Some n, inst_vmid := Some v,
      inst_updated := db_now d\<rparr> else i) (db_instances d)" "db_runs d' = db_runs d" "db_audit d' = db_audit d" "db_now d' = db_now d" "db_jobs d' = db_jobs d"
proof -
  from assms obtain k where "stmt (placement_stmt iid c n v) d = (Inr k, d')" "k \<noteq> 0"
    unfolding instances_SetPVEPlacement_def
    by (auto simp: onErr_Inr_iff require_rows_def retE_def failE_def elim!: bindE_Inr_cases split: if_splits)
  then show "db_instances d' = map (\<lambda>i. if inst_id i = iid then i\<lparr>inst_cluster := Some c, inst_node := Some n, inst_vmid := Some v,
      inst_updated := db_now d\<rparr> else i) (db_instances d)" "db_runs d' = db_runs d" "db_audit d' = db_audit d" "db_now d' = db_now d" "db_jobs d' = db_jobs d"
    by (auto simp: placement_stmt_def Let_def upd_tab_def sql_update_def elim!: stmt_InrE split: option.splits if_splits)
qed

lemma UpdateCheckpoint_Inr:
  assumes "jobs_UpdateCheckpoint jid cp data d = (Inr u, d')"
  shows "chronicle d' = chronicle d"
    "db_jobs d' = sql_update (\<lambda>j. job_id j = jid) (\<lambda>j. j\<lparr>job_checkpoint := cp,
       job_data := (case data of None \<Rightarrow> Some (JObj []) | Some v \<Rightarrow> Some v)\<rparr>) (db_jobs d)"
proof -
  show "chronicle d' = chronicle d" by (rule keepsD[OF quiet.UpdateCheckpoint assms])
  show "db_jobs d' = sql_update (\<lambda>j. job_id j = jid) (\<lambda>j. j\<lparr>job_checkpoint := cp,
       job_data := (case data of None \<Rightarrow> Some (JObj []) | Some v \<Rightarrow> Some v)\<rparr>) (db_jobs d)"
    using assms
    by (auto simp: jobs_UpdateCheckpoint_def update_jobs_def onErr_Inr_iff require_rows_def retE_def failE_def
        elim!: bindE_Inr_cases stmt_InrE split: if_splits)
qed

text \<open>The instances and the audit log after a transition that went through, and the run it brought.\<close>

definition transitioned :: "vm_instance \<Rightarrow> transition_result \<Rightarrow> time \<Rightarrow> db \<Rightarrow> db \<Rightarrow> bool" where
  "transitioned inst result now d d' \<longleftrightarrow>
     db_instances d' = map (moved (inst_id inst) (tr_next result) (tr_placement result) now) (db_instances d) \<and>
     job_keys d' = job_keys d \<and> (\<exists>e. db_audit d' = db_audit d @ [e] \<and> event_core e = event_core (transition_event inst (tr_next result))) \<and>
     (case evidence_type (inst_state inst) of
        None \<Rightarrow> db_runs d' = db_runs d \<and> tr_next result = next_state (inst_state inst)
      | Some ty \<Rightarrow> \<exists>r. db_runs d' = db_runs d @ [r] \<and> run_instance r = inst_id inst \<and> run_type r = ty \<and>
          tr_next result = (if run_result r = ValidationPass then next_state (inst_state inst) else InstanceQuarantined))"

lemma transitioned_cong:
  "chronicle d = chronicle e \<Longrightarrow> chronicle d' = chronicle e' \<Longrightarrow> transitioned inst result now d d' = transitioned inst result now e e'"
  by (simp add: transitioned_def chronicle_def cong: option.case_cong)

lemma persist_transition_Inr:
  assumes "persist_transition inst jb result d = (Inr u, d')" "hands_over (inst_id inst) (inst_state inst) result"
  shows "transitioned inst result (db_now d) d d'"
proof -
  let ?iid = "inst_id inst"
  from assms(1) obtain d1 d2 d3 d4 where
    u: "instances_UpdateState ?iid (tr_next result) d = (Inr (), d1)" and
    p: "(case tr_placement result of None \<Rightarrow> retE ()
       | Some p \<Rightarrow> wrapE ''set pve placement'' (instances_SetPVEPlacement ?iid (pp_cluster p) (pp_node p) (pp_vmid p))) d1 = (Inr (), d2)" and
    c: "jobs_UpdateCheckpoint (job_id jb) (tr_next result) (tr_data result) d2 = (Inr (), d3)" and
    e: "(case tr_evidence result of None \<Rightarrow> retE () | Some ev \<Rightarrow> wrapE ''persist evidence'' ev) d3 = (Inr (), d4)" and
    a: "audit_Append (transition_event inst (tr_next result)) d4 = (Inr u, d')"
    unfolding persist_transition_def by (auto simp: onErr_Inr_iff elim!: bindE_Inr_cases)
  note u' = UpdateState_Inr[OF u]
  have d2: "db_instances d2 = map (moved ?iid (tr_next result) (tr_placement result) (db_now d)) (db_instances d)"
      "db_runs d2 = db_runs d" "db_audit d2 = db_audit d" "db_jobs d2 = db_jobs d"
  proof -
    have "db_instances d2 = map (moved ?iid (tr_next result) (tr_placement result) (db_now d)) (db_instances d) \<and>
      db_runs d2 = db_runs d \<and> db_audit d2 = db_audit d \<and> db_jobs d2 = db_jobs d"
    proof (cases "tr_placement result")
      case None
      with p u' show ?thesis by (simp add: retE_def)
    next
      case (Some q)
      with p have "instances_SetPVEPlacement ?iid (pp_cluster q) (pp_node q) (pp_vmid q) d1 = (Inr (), d2)"
        by (simp add: onErr_Inr_iff)
      from placement_Inr[OF this] u' Some show ?thesis by (auto simp: moved_def Let_def)
    qed
    then show "db_instances d2 = map (moved ?iid (tr_next result) (tr_placement result) (db_now d)) (db_instances d)"
      "db_runs d2 = db_runs d" "db_audit d2 = db_audit d" "db_jobs d2 = db_jobs d" by auto
  qed
  have d3: "db_instances d3 = db_instances d2" "db_runs d3 = db_runs d2" "db_audit d3 = db_audit d2" "job_keys d3 = job_keys d2"
    using UpdateCheckpoint_Inr(1)[OF c] by (simp_all add: chronicle_def)
  have d4: "(db_instances d4 = db_instances d3 \<and> db_jobs d4 = db_jobs d3) \<and> db_audit d4 = db_audit d3 \<and> (case evidence_type (inst_state inst) of
       None \<Rightarrow> db_runs d4 = db_runs d3 \<and> tr_next result = next_state (inst_state inst)
     | Some ty \<Rightarrow> \<exists>r. db_runs d4 = db_runs d3 @ [r] \<and> run_instance r = ?iid \<and> run_type r = ty \<and>
         tr_next result = (if run_result r = ValidationPass then next_state (inst_state inst) else InstanceQuarantined))"
  proof (cases "evidence_type (inst_state inst)")
    case None
    with assms(2) e show ?thesis by (simp add: hands_over_def retE_def)
  next
    case (Some ty)
    with assms(2) obtain v m where m: "tr_evidence result = Some m" "writes_run ?iid ty v m"
      "tr_next result = (if v = ValidationPass then next_state (inst_state inst) else InstanceQuarantined)" unfolding hands_over_def by auto
    from e m(1) have "m d3 = (Inr (), d4)" by (simp add: onErr_Inr_iff)
    with m(2,3) Some show ?thesis unfolding writes_run_def by fastforce
  qed
  from audit_AppendE[OF a, of "JObj [(''from'', JStr (instance_state_str (inst_state inst))), (''to'', JStr (instance_state_str (tr_next result)))]"]
  obtain uu where "same_tables (d4\<lparr>db_audit := db_audit d4 @ [(transition_event inst (tr_next result))\<lparr>aud_id := uu, aud_at := db_now d4\<rparr>]\<rparr>) d'"
    by (auto simp: transition_event_def system_event_def)
  note d' = same_tables_fields[OF this]
  have "event_core ((transition_event inst (tr_next result))\<lparr>aud_id := uu, aud_at := db_now d4\<rparr>) = event_core (transition_event inst (tr_next result))"
    by (simp add: event_core_def)
  then have "\<exists>e. db_audit d' = db_audit d @ [e] \<and> event_core e = event_core (transition_event inst (tr_next result))"
    using d'(11) d2(3) d3(3) conjunct1[OF conjunct2[OF d4]] by auto
  moreover have "db_instances d' = map (moved ?iid (tr_next result) (tr_placement result) (db_now d)) (db_instances d)"
    using d'(4) d2(1) d3(1) conjunct1[OF d4] by simp
  moreover have "job_keys d' = job_keys d"
    using d'(6) d2(4) d3(4) conjunct1[OF d4] by (simp add: job_keys_def)
  moreover have "db_runs d4 = db_runs d'" "db_runs d3 = db_runs d" using d'(8) d2(2) d3(2) by simp_all
  ultimately show ?thesis using conjunct2[OF conjunct2[OF d4]] unfolding transitioned_def by (simp only: simp_thms)
qed

section \<open>The cases of a step\<close>

lemma find_now: "find_instance iid (d\<lparr>db_now := t\<rparr>) = find_instance iid d"
  by (simp add: find_instance_def)

lemma same_find: "same_tables d d' \<Longrightarrow> find_instance iid d' = find_instance iid d"
  by (simp add: find_instance_def same_tables_fields)

lemma read_instance:
  assumes "onDB env (instances_Get iid) w = (r, w')"
  shows "same_tables (w_db w) (w_db w')" "w_ext w' = w_ext w" "r = Inr i \<Longrightarrow> find_instance iid (w_db w) = Some i"
proof -
  from assms obtain d where d: "instances_Get iid ((w_db w)\<lparr>db_now := e_now env (w_ext w)\<rparr>) = (r, d)" "w' = w\<lparr>w_db := d\<rparr>"
    by (rule onDB_run)
  from scan_read[OF d(1)[unfolded instances_Get_def]]
  have "same_tables ((w_db w)\<lparr>db_now := e_now env (w_ext w)\<rparr>) d" "r = Inr i \<Longrightarrow> find_instance iid (w_db w) = Some i"
    by (auto simp: find_instance_def)
  with d(2) show "same_tables (w_db w) (w_db w')" "w_ext w' = w_ext w" "r = Inr i \<Longrightarrow> find_instance iid (w_db w) = Some i"
    using same_tables_trans[OF same_tables_now] by auto
qed

text \<open>
  A step that fails leaves the chronicle alone, unless only the reply of the commit was lost; otherwise it has written
  the transition.
\<close>

lemma Step_cases:
  assumes "Engine_Step env (registry_of gw w0) jb w = (r, w')"
  obtains (unwritten) e where "r = Inl e" "chronicle (w_db w') = chronicle (w_db w)"
    | (written) inst h result now w1 where "find_instance (job_instance jb) (w_db w) = Some inst"
        "registry_of gw w0 (inst_state inst) = Some h" "same_tables (w_db w) (w_db w1)" "w_ext w1 = w_ext w"
        "fst (h (context_of env inst jb) w1) = Inr result" "hands_over (inst_id inst) (inst_state inst) result"
        "r = Inr (tr_next result) \<or> (\<exists>e. r = Inl e)"
        "transitioned inst result now (w_db w) (w_db w')"
proof -
  obtain v w1 where v: "onDB env (instances_Get (job_instance jb)) w = (v, w1)" by (rule prod.exhaust)
  note w1 = read_instance[OF v]
  show thesis
  proof (cases v)
    case (Inl e)
    with v assms have "\<exists>e. r = Inl e" "w' = w1" by (auto simp: Engine_Step_def bindE_def onErr_def)
    with same_chronicle[OF w1(1)] that(1) show thesis by blast
  next
    case (Inr inst)
    note inst = w1(3)[OF Inr]
    show thesis
    proof (cases "registry_of gw w0 (inst_state inst)")
      case None
      with v Inr assms have "\<exists>e. r = Inl e" "w' = w1" by (auto simp: Engine_Step_def bindE_def onErr_def failE_def)
      with same_chronicle[OF w1(1)] that(1) show thesis by blast
    next
      case (Some h)
      obtain u w2 where u: "h (context_of env inst jb) w1 = (u, w2)" by (rule prod.exhaust)
      have "quiet (h (context_of env inst jb))" by (rule quiet.handler[OF Some quiet.context_save])
      from keepsD[OF this u] same_chronicle[OF w1(1)] have c2: "chronicle (w_db w2) = chronicle (w_db w)" by simp
      show thesis
      proof (cases u)
        case (Inl e)
        with v Inr Some u assms have "\<exists>e. r = Inl e" "w' = w2" by (auto simp: Engine_Step_def bindE_def onErr_def)
        with c2 that(1) show thesis by blast
      next
        case u': (Inr result)
        have ho: "hands_over (inst_id inst) (inst_state inst) result"
          using handler_hands_over[OF Some] u u' by (fastforce simp: context_of_def)
        obtain t w3 where t: "onDB env (WithTx (persist_transition inst jb result)) w2 = (t, w3)" by (rule prod.exhaust)
        have r: "w' = w3" "r = (case t of Inl e \<Rightarrow> Inl (Wrap ''stateengine: persist transition'' e) | Inr _ \<Rightarrow> Inr (tr_next result))"
          using v Inr Some u u' t assms by (auto simp: Engine_Step_def bindE_def onErr_def retE_def split: sum.splits)
        from t obtain d where d: "WithTx (persist_transition inst jb result) ((w_db w2)\<lparr>db_now := e_now env (w_ext w2)\<rparr>) = (t, d)"
          "w3 = w2\<lparr>w_db := d\<rparr>" by (rule onDB_run)
        from d(1) show thesis
        proof (cases rule: WithTx_cases)
          case (rolled_back e)
          with r d(2) c2 same_chronicle[OF rolled_back(2)] have "\<exists>e. r = Inl e" "chronicle (w_db w') = chronicle (w_db w)" by auto
          with that(1) show thesis by blast
        next
          case (committed d0 x d1)
          have "chronicle (w_db w) = chronicle d0" "chronicle (w_db w') = chronicle d1"
            using same_chronicle[OF committed(1)] same_chronicle[OF committed(4)] c2 r(1) d(2) by simp_all
          from persist_transition_Inr[OF committed(3) ho] transitioned_cong[OF this]
          have "transitioned inst result (db_now d0) (w_db w) (w_db w')" by simp
          with that(2)[OF inst Some w1(1,2) _ ho] u u' r(2) committed(5) show thesis by fastforce
        qed
      qed
    qed
  qed
qed

section \<open>A connection that works\<close>

lemma calm_writes:
  "keeps calm_rel (instances_UpdateState iid st)" "keeps calm_rel (instances_SetPVEPlacement iid c n v)" "keeps calm_rel (audit_Append ev)"
proof -
  show "keeps calm_rel (instances_UpdateState iid st)"
    unfolding instances_UpdateState_def by (intro calm.exec) (simp add: keeps_def upd_tab_def)
  have "keeps calm_rel (placement_stmt iid c n v)"
    by (auto simp: keeps_def placement_stmt_def Let_def upd_tab_def split: option.split)
  then show "keeps calm_rel (instances_SetPVEPlacement iid c n v)"
    unfolding instances_SetPVEPlacement_def by (intro calm.exec)
  show "keeps calm_rel (audit_Append ev)"
    unfolding audit_Append_def by (intro keeps_onErr calm_stmt keeps_bind calm_rel_order calm_uuid keeps_mod) simp
qed

lemma calm_transition:
  assumes "hands_over iid st result"
  shows "keeps calm_rel (persist_transition inst jb result)"
proof -
  have "keeps calm_rel m" if "tr_evidence result = Some m" for m
    using assms that by (auto simp: hands_over_def writes_run_def split: option.splits)
  then have "keeps calm_rel (case tr_evidence result of None \<Rightarrow> retE () | Some ev \<Rightarrow> wrapE ''persist evidence'' ev)"
    by (auto simp: calm_rel_order intro!: keeps_onErr keeps_ret split: option.split)
  note evidence = this
  show ?thesis
    unfolding persist_transition_def
    by (rule keeps_bind evidence | intro keeps_onErr keeps_option keeps_ret calm_rel_order calm_writes calm.UpdateCheckpoint)+
qed

lemma calm_step:
  assumes "Engine_Step env (registry_of gw w0) jb w = (r, w')" "db_faults (w_db w) = []"
  shows "db_faults (w_db w') = []"
proof -
  obtain v w1 where v: "onDB env (instances_Get (job_instance jb)) w = (v, w1)" by (rule prod.exhaust)
  with keepsD[OF calm.onDB[OF calm.calls(4)] v] assms(2) have h1: "db_faults (w_db w1) = []" by simp
  show ?thesis
  proof (cases "\<exists>inst h. v = Inr inst \<and> registry_of gw w0 (inst_state inst) = Some h")
    case False
    with v assms(1) have "w' = w1" by (auto simp: Engine_Step_def bindE_def onErr_def failE_def split: sum.splits option.splits)
    with h1 show ?thesis by simp
  next
    case True
    then obtain inst h where inst: "v = Inr inst" "registry_of gw w0 (inst_state inst) = Some h" by blast
    obtain u w2 where u: "h (context_of env inst jb) w1 = (u, w2)" by (rule prod.exhaust)
    with keepsD[OF calm.handler[OF inst(2) calm.context_save] u] h1 have h2: "db_faults (w_db w2) = []" by simp
    show ?thesis
    proof (cases u)
      case (Inl e)
      with v inst u assms(1) have "w' = w2" by (auto simp: Engine_Step_def bindE_def onErr_def)
      with h2 show ?thesis by simp
    next
      case (Inr result)
      have "hands_over (inst_id inst) (inst_state inst) result"
        using handler_hands_over[OF inst(2)] u Inr by (fastforce simp: context_of_def)
      then have c: "keeps calm_rel (WithTx (persist_transition inst jb result))" by (intro calm_tx calm_transition)
      obtain t w3 where t: "onDB env (WithTx (persist_transition inst jb result)) w2 = (t, w3)" by (rule prod.exhaust)
      with keepsD[OF calm.onDB[OF c] t] h2 have "db_faults (w_db w3) = []" by simp
      moreover have "w' = w3"
        using v inst u Inr t assms(1) by (auto simp: Engine_Step_def bindE_def onErr_def retE_def split: sum.splits)
      ultimately show ?thesis by simp
    qed
  qed
qed

end
