(* ===== verification/Lifecycle.thy ===== *)
theory Lifecycle
  imports Engine Canary
begin

text \<open>
  What the engine guarantees of the life of an instance: its steps are atomic and follow the lifecycle, no instance
  is \<open>READY\<close> without passing evidence of every kind, none at all is with the simulated gateway the worker is wired
  to, and a clone is sent once.
\<close>

section \<open>Atomic steps\<close>


section \<open>Evidence\<close>

definition proven :: "db \<Rightarrow> string \<Rightarrow> string \<Rightarrow> bool" where
  "proven d iid ty \<longleftrightarrow> (\<exists>r \<in> set (db_runs d). run_instance r = iid \<and> run_type r = ty \<and> run_result r = ValidationPass)"

text \<open>The kinds of evidence an instance in a state must have.\<close>

fun required :: "instance_state \<Rightarrow> string list" where
  "required InstanceValidatingEgress = [''identity'']"
| "required InstanceApplyingWorkload = [''identity'', ''egress'']"
| "required InstanceReady = [''identity'', ''egress'', ''workload'']"
| "required st = []"

definition evidence_inv :: "db \<Rightarrow> bool" where
  "evidence_inv d \<longleftrightarrow> (\<forall>i \<in> set (db_instances d). \<forall>ty \<in> set (required (inst_state i)). proven d (inst_id i) ty)"

lemma required_next:
  "ty \<in> set (required (next_state s)) \<Longrightarrow> s < InstanceReady \<Longrightarrow> ty \<in> set (required s) \<or> evidence_type s = Some ty"
  by (cases s) (auto simp: less_instance_state_def)

lemma transitioned_evidence:
  assumes "transitioned inst result now d d'" "inst \<in> set (db_instances d)" "evidence_inv d" "inst_state inst < InstanceReady"
  shows "evidence_inv d'"
proof -
  have runs: "set (db_runs d) \<subseteq> set (db_runs d')"
    using assms(1) by (auto simp: transitioned_def split: option.splits)
  then have keep: "proven d iid ty \<Longrightarrow> proven d' iid ty" for iid ty unfolding proven_def by blast
  have new: "proven d' (inst_id inst) ty" if "ty \<in> set (required (tr_next result))" for ty
  proof (cases "tr_next result = InstanceQuarantined")
    case True
    with that show ?thesis by simp
  next
    case False
    with assms(1) have n: "tr_next result = next_state (inst_state inst)"
      by (auto simp: transitioned_def split: option.splits if_splits)
    from required_next[OF that[unfolded n] assms(4)] show ?thesis
    proof
      assume "ty \<in> set (required (inst_state inst))"
      with assms(2,3) keep show ?thesis unfolding evidence_inv_def by blast
    next
      assume ty: "evidence_type (inst_state inst) = Some ty"
      with assms(1) False show ?thesis by (auto simp: transitioned_def proven_def split: if_splits)
    qed
  qed
  have "proven d' (inst_id i) ty" if i: "i \<in> set (db_instances d')" and ty: "ty \<in> set (required (inst_state i))" for i ty
  proof -
    from i assms(1) obtain j where j: "j \<in> set (db_instances d)" "i = moved (inst_id inst) (tr_next result) (tr_placement result) now j"
      by (auto simp: transitioned_def)
    show ?thesis
    proof (cases "inst_id j = inst_id inst")
      case True
      with j(2) have "inst_id i = inst_id inst" "inst_state i = tr_next result"
        by (auto simp: moved_def Let_def split: option.splits)
      with new ty show ?thesis by simp
    next
      case False
      with j ty assms(3) keep show ?thesis unfolding evidence_inv_def by (auto simp: moved_def)
    qed
  qed
  then show ?thesis unfolding evidence_inv_def by blast
qed

lemma chronicle_evidence: "chronicle d' = chronicle d \<Longrightarrow> evidence_inv d' = evidence_inv d"
  by (simp add: evidence_inv_def proven_def chronicle_def)

lemma step_evidence: "w_preserves evidence_inv (Engine_Step env (registry_of gw w0) jb)"
proof (rule keepsI, rule impI)
  fix w :: "'a world"
  assume inv: "evidence_inv (w_db w)"
  obtain r w' where run: "Engine_Step env (registry_of gw w0) jb w = (r, w')" by (rule prod.exhaust)
  have before: "s < InstanceReady" if "registry_of gw w0 s = Some h" for s h
    using that by (cases s) (simp_all add: less_instance_state_def)
  from run have "evidence_inv (w_db w')"
  proof (cases rule: Step_cases)
    case (unwritten e)
    with inv chronicle_evidence show ?thesis by blast
  next
    case (written inst h result now w1)
    have "inst \<in> set (db_instances (w_db w))"
      using written(1) by (auto simp: find_instance_def dest: sql_find_in)
    from transitioned_evidence[OF written(8) this inv before[OF written(2)]] show ?thesis .
  qed
  with run show "evidence_inv (w_db (snd (Engine_Step env (registry_of gw w0) jb w)))" by simp
qed

section \<open>The simulated gateway\<close>

context simulated_gateway
begin

lemma egress_quarantines:
  assumes "ValidatingEgress_Execute env gw denyIPv6 age tctx s = (Inr result, s')"
  shows "tr_next result = InstanceQuarantined"
proof -
  from assms obtain cp ev clock doc v s1 s2 where p: "pg_EgressProof gw (cp_client cp) s1 = (Inr ev, s2)"
    and b: "BuildEvidence (inst_id (tc_instance tctx)) (EvaluateEgress clock (egress_of denyIPv6 (or_default age (seconds 300)) cp ev)) = Inr (doc, v)"
    and n: "tr_next result = (if v \<noteq> ValidationPass then InstanceQuarantined else InstanceApplyingWorkload)"
    unfolding ValidatingEgress_Execute_def
    by (auto simp: onErr_Inr_iff ofE_def retE_def elim!: bindE_Inr_cases onExt_run split: prod.splits)
  have "v \<noteq> ValidationPass"
    using BuildEvidence_result[OF b] proof_not_pass[OF p] by (auto simp: egress_of_def dest!: egress_pass_result)
  with n show ?thesis by simp
qed

end

definition unserved :: "db \<Rightarrow> bool" where
  "unserved d \<longleftrightarrow> (\<forall>i \<in> set (db_instances d). inst_state i \<notin> {InstanceApplyingWorkload, InstanceReady})"

lemma chronicle_unserved: "chronicle d' = chronicle d \<Longrightarrow> unserved d' = unserved d"
  by (simp add: unserved_def chronicle_def)

lemma wired_step_unserved: "w_preserves unserved (Engine_Step env (wireEngine w0) jb)"
proof (rule keepsI, rule impI)
  fix w :: "'a world"
  assume inv: "unserved (w_db w)"
  obtain r w' where run: "Engine_Step env (registry_of NoopAdapter w0) jb w = (r, w')" by (rule prod.exhaust)
  from run have "unserved (w_db w')"
  proof (cases rule: Step_cases)
    case (unwritten e)
    with inv chronicle_unserved show ?thesis by blast
  next
    case (written inst h result now w1)
    have i: "inst \<in> set (db_instances (w_db w))"
      using written(1) by (auto simp: find_instance_def dest: sql_find_in)
    have "tr_next result \<notin> {InstanceApplyingWorkload, InstanceReady}"
    proof (cases "inst_state inst = InstanceValidatingEgress")
      case True
      with written(2,5) have "tr_next result = InstanceQuarantined"
        using noop.egress_quarantines by (metis prod.collapse option.inject registry_of.simps(8))
      then show ?thesis by simp
    next
      case False
      have "inst_state inst \<noteq> InstanceApplyingWorkload" "inst_state inst \<noteq> InstanceReady" using inv i by (auto simp: unserved_def)
      with False written(2,8) show ?thesis
        by (cases "inst_state inst") (auto simp: transitioned_def split: option.splits if_splits)
    qed
    with inv written(8) show ?thesis
      by (auto simp: unserved_def transitioned_def moved_def Let_def split: if_splits option.splits)
  qed
  with run show "unserved (w_db (snd (Engine_Step env (wireEngine w0) jb w)))" by (simp add: wireEngine_def)
qed

section \<open>One clone\<close>

text \<open>What a decoder reads fits in 64 bits.\<close>

lemma cp_step_int64: "int64_cp (fst st) \<Longrightarrow> int64_cp (fst (cp_step l k v st))"
  by (cases v) (auto simp: cp_step_def int64_cp_def set_str_def set_int_def)

lemma cp_run_int64: "int64_cp (fst st) \<Longrightarrow> int64_cp (fst (cp_run l st kvs))"
proof (induction kvs arbitrary: st)
  case (Cons kv kvs)
  from Cons.IH[OF cp_step_int64[OF Cons.prems]] show ?case by simp
qed simp

lemma read_cp_int64: "int64_cp (fst (read_cp l raw))"
proof -
  have "int64_cp empty_cp" by (simp add: int64_cp_def empty_cp_def)
  then show ?thesis by (auto simp: read_cp_def unmarshal_with_def intro!: cp_run_int64 split: option.split json.split)
qed

text \<open>Asking the cluster changes neither the database nor what was requested of the cluster.\<close>

definition asks :: "('x \<times> http_request list) world \<Rightarrow> ('x \<times> http_request list) world \<Rightarrow> bool" where
  "asks w w' \<longleftrightarrow> w_db w' = w_db w \<and> changes (snd (w_ext w')) = changes (snd (w_ext w))"

lemma asks_rel: "reflp asks" "transp asks"
  by (auto simp: reflp_def transp_def asks_def)

lemma asks_onExt:
  assumes "reads_only m"
  shows "keeps asks (onExt m)"
proof (rule keepsI)
  fix w :: "('a \<times> http_request list) world"
  obtain r x where m: "m (w_ext w) = (r, x)" by (rule prod.exhaust)
  from keepsD[OF assms m] m show "asks w (snd (onExt m w))" by (simp add: onExt_def asks_def)
qed

lemma reads_GetVM: "reads_only (GetVM (logged env) ref)"
  unfolding GetVM_def by (intro keeps_bind rel_intro reads_request keeps_ofE)

lemma asks_await: "keeps asks (await_task (logged env) m m' t d)"
  unfolding await_task_def by (intro keeps_bind keeps_onErr keeps_if keeps_ret keeps_fail asks_rel asks_onExt reads_WaitForTask)

lemma clone_answer:
  assumes "pve_Clone (logged env) rq s = (r, s')"
  shows "\<exists>q. changes (snd s') = changes (snd s) @ [q]" "r = Inr t \<Longrightarrow> tr_upid t \<noteq> []"
proof -
  show "\<exists>q. changes (snd s') = changes (snd s) @ [q]"
  proof -
    have "\<exists>q. changes (snd (snd (task_call (logged env) ''POST'' path ps node s))) = changes (snd s) @ [q]" for path ps node
      by (simp add: logged_task_call)
    then show ?thesis using assms unfolding pve_Clone_def by (metis snd_conv)
  qed
  show "r = Inr t \<Longrightarrow> tr_upid t \<noteq> []"
    using assms by (auto simp: pve_Clone_def task_call_def ofE_def retE_def parseUPID_def elim!: bindE_Inr_cases
        split: option.splits json.splits if_splits)
qed

definition recorded :: "string \<Rightarrow> db \<Rightarrow> bool" where
  "recorded jid d \<longleftrightarrow> (\<exists>j. find_job jid d = Some j \<and> cp_clone_upid (fst (read_cp Cloned (job_data j))) \<noteq> [])"

lemma save_records:
  assumes "onDB env (jobs_UpdateCheckpoint jid st (write_cp Cloned cp)) w = (r, w')" "db_faults (w_db w) = []"
    "find_job jid (w_db w) = Some j" "int64_cp cp" "cp_clone_upid cp \<noteq> []"
  shows "recorded jid (w_db w')" "w_ext w' = w_ext w"
proof -
  let ?d = "(w_db w)\<lparr>db_now := e_now env (w_ext w)\<rparr>"
  let ?f = "\<lambda>j. j\<lparr>job_checkpoint := st, job_data := write_cp Cloned cp\<rparr>"
  have pos: "sql_count (\<lambda>j. job_id j = jid) (db_jobs (w_db w)) \<noteq> 0"
    using assms(3) by (auto simp: find_job_def sql_count_0 dest!: sql_find_Some)
  from assms(1) obtain d where d: "jobs_UpdateCheckpoint jid st (write_cp Cloned cp) ?d = (r, d)" "w' = w\<lparr>w_db := d\<rparr>" by (rule onDB_run)
  have "db_jobs d = sql_update (\<lambda>j. job_id j = jid) ?f (db_jobs (w_db w))"
    using d(1) assms(2) pos
    by (auto simp: jobs_UpdateCheckpoint_def bindE_def onErr_def update_jobs_def require_rows_def retE_def write_cp_def)
  then have "find_job jid d = Some (?f j)"
    using assms(3) sql_find_update[where f = ?f and k = job_id and x = jid and p = "\<lambda>j. job_id j = jid" and rs = "db_jobs (w_db w)"]
    by (auto simp: find_job_def dest!: sql_find_holds)
  moreover have "read_cp Cloned (write_cp Cloned cp) = (cut_cp Cloned cp, True)" using read_write[OF assms(4)] by simp
  ultimately show "recorded jid (w_db w')" "w_ext w' = w_ext w"
    using d(2) assms(5) by (auto simp: recorded_def cut_cp_def)
qed

lemma read_healthy:
  assumes "onDB env (scanE m (\<lambda>d. scan_row (f d) d)) w = (r, w')" "db_faults (w_db w) = []"
  shows "w' = w\<lparr>w_db := (w_db w)\<lparr>db_now := e_now env (w_ext w)\<rparr>\<rparr>"
  using assms by (auto simp: onDB_def scanE_def onErr_def scan_row_def eff_defs split: prod.splits option.splits sum.splits)

lemma send_clone_cases:
  assumes "send_clone (logged env) pool (context_of (logged env) inst jb) tpl cp w = (r, w')"
    "db_faults (w_db w) = []" "find_job (job_id jb) (w_db w) = Some j" "int64_cp cp" "cp_clone_upid cp = []"
  shows "\<exists>q. changes (snd (w_ext w')) = changes (snd (w_ext w)) @ [q]"
    "(\<exists>e. r = Inl (Wrap ''cloning: clone'' e)) \<or> recorded (job_id jb) (w_db w')"
proof -
  obtain v x where c: "pve_Clone (logged env) (clone_of pool (context_of (logged env) inst jb) tpl cp) (w_ext w) = (v, x)"
    by (rule prod.exhaust)
  obtain q where q: "changes (snd x) = changes (snd (w_ext w)) @ [q]" using clone_answer(1)[OF c] by blast
  have "changes (snd (w_ext w')) = changes (snd x) \<and> ((\<exists>e. r = Inl (Wrap ''cloning: clone'' e)) \<or> recorded (job_id jb) (w_db w'))"
  proof (cases v)
    case (Inl e)
    with assms(1,5) c show ?thesis by (auto simp: send_clone_def bindE_def onErr_def onExt_def)
  next
    case (Inr t)
    let ?cp = "cp\<lparr>cp_clone_upid := tr_upid t\<rparr>"
    obtain u w2 where s: "onDB (logged env) (jobs_UpdateCheckpoint (job_id jb) (inst_state inst) (write_cp Cloned ?cp)) (w\<lparr>w_ext := x\<rparr>) = (u, w2)"
      by (rule prod.exhaust)
    have "int64_cp ?cp" "cp_clone_upid ?cp \<noteq> []" using assms(4) clone_answer(2)[OF c Inr] by (auto simp: int64_cp_def)
    from save_records[OF s _ _ this, of j] assms(2,3) have "recorded (job_id jb) (w_db w2)" "w_ext w2 = x" by auto
    moreover have "w' = w2"
      using assms(1,5) c Inr s by (auto simp: send_clone_def bindE_def onErr_def onExt_def context_of_def Let_def retE_def split: sum.splits)
    ultimately show ?thesis by simp
  qed
  with q show "\<exists>q. changes (snd (w_ext w')) = changes (snd (w_ext w)) @ [q]"
    "(\<exists>e. r = Inl (Wrap ''cloning: clone'' e)) \<or> recorded (job_id jb) (w_db w')" by auto
qed

lemma asks_finish: "keeps asks (finish_clone (logged env) timeout tpl cp)"
  unfolding finish_clone_def by (intro keeps_bind keeps_onErr keeps_ret asks_rel asks_await asks_onExt reads_GetVM)

lemma asks_refl [simp]: "asks w w"
  by (simp add: asks_def)

text \<open>A run of the handler stops before the clone is sent, with nothing changed, or goes through \<open>send_clone\<close>.\<close>

lemma cloning_cases:
  assumes "Cloning_Execute (logged env) pool timeout (context_of (logged env) inst jb) w = (r, w')"
    "db_faults (w_db w) = []" "find_job (job_id jb) (w_db w) = Some j"
  obtains (stopped) "changes (snd (w_ext w')) = changes (snd (w_ext w))"
    | (sent) tpl w2 x w3 where "w_ext w2 = w_ext w" "db_faults (w_db w2) = []" "find_job (job_id jb) (w_db w2) = Some j"
        "send_clone (logged env) pool (context_of (logged env) inst jb) tpl (fst (read_cp Cloned (job_data jb))) w2 = (x, w3)"
        "asks w3 w'" "\<And>e. x = Inl e \<Longrightarrow> r = Inl e"
proof -
  let ?tctx = "context_of (logged env) inst jb"
  obtain u w1 where n: "need_cp Cloned (\<lambda>cp. cp_vmid cp \<noteq> 0)
      ''cloning: missing reservation checkpoint (can quarantine, khong the tu phuc hoi)'' ?tctx w = (u, w1)" by (rule prod.exhaust)
  have w1: "w1 = w" using n by (auto simp: need_cp_def failE_def retE_def split: prod.splits if_splits)
  obtain v w2 where t: "onDB (logged env) (templates_Get (inst_template inst)) w = (v, w2)" by (rule prod.exhaust)
  from read_healthy[OF t[unfolded templates_Get_def] assms(2)]
  have w2: "w_ext w2 = w_ext w" "db_faults (w_db w2) = []" "find_job (job_id jb) (w_db w2) = Some j"
    using assms(2,3) by (simp_all add: find_job_def)
  show thesis
  proof (cases "\<exists>cp tpl. u = Inr cp \<and> v = Inr tpl")
    case False
    then have "w' = w \<or> w' = w2"
      using n w1 t assms(1) by (cases u; cases v) (auto simp: Cloning_Execute_def bindE_def onErr_def context_of_def)
    with w2(1) that(1) show thesis by auto
  next
    case True
    then obtain cp tpl where u: "u = Inr cp" "v = Inr tpl" by blast
    from need_cp_Inr n u(1) have cp: "fst (read_cp Cloned (job_data jb)) = cp" by (fastforce simp: context_of_def)
    obtain x w3 where s: "send_clone (logged env) pool ?tctx tpl cp w2 = (x, w3)" by (rule prod.exhaust)
    have run: "(r, w') = (case x of Inl e \<Rightarrow> (Inl e, w3) | Inr cp' \<Rightarrow> finish_clone (logged env) timeout tpl cp' w3)"
      using n u w1 t s assms(1) by (simp add: Cloning_Execute_def bindE_def onErr_def context_of_def split: sum.split)
    have e: "x = Inl e \<Longrightarrow> r = Inl e" for e using run by simp
    have a: "asks w3 w'"
    proof (cases x)
      case (Inl e)
      with run show ?thesis by simp
    next
      case (Inr cp')
      with run have "finish_clone (logged env) timeout tpl cp' w3 = (r, w')" by simp
      from keepsD[OF asks_finish this] show ?thesis .
    qed
    show thesis by (rule that(2)[OF w2 _ a e]) (use s cp in simp)
  qed
qed


text \<open>A job that is to clone VM 901, on a cluster that accepts the clone and then answers nothing of use.\<close>

definition demo_job :: "raw_json \<Rightarrow> job" where
  "demo_job data = \<lparr>job_id = ''j1'', job_instance = ''i1'', job_op = JobOpProvision, job_st = JobRunning,
     job_checkpoint = InstanceCloning, job_data = data, job_priority = 0, job_attempt = 1, job_max_attempts = 8,
     job_next_attempt = 0, job_owner = Some ''w1'', job_lease_until = Some 2000, job_error_code = None, job_error_message = None,
     job_created = 0, job_started = Some 0, job_finished = None\<rparr>"

definition demo_cp :: checkpoint where
  "demo_cp = empty_cp\<lparr>cp_ip := ''a1'', cp_vmid := 901, cp_node := ''pve''\<rparr>"

definition accepting :: "nat env" where
  "accepting = \<lparr>e_http = (\<lambda>rq x. (if rq_method rq = ''GET'' then Inl CtxDone
       else Inr \<lparr>rs_status = 200, rs_text = '''', rs_json = Some (JObj [(''data'', JStr ''U'')])\<rparr>, x)),
     e_now = (\<lambda>_. 1000), e_sleep = (\<lambda>_ x. (False, x)), e_fuel = Suc 0\<rparr>"

definition demo_cloning :: "raw_json \<Rightarrow> (nat \<times> http_request list) world" where
  "demo_cloning data = \<lparr>w_db = demo_db\<lparr>db_instances := [(demo_instance ''i1'')\<lparr>inst_state := InstanceCloning\<rparr>],
     db_templates := [demo_template ''t1'' TemplateActive 9000], db_jobs := [demo_job data]\<rparr>, w_ext = (0, [])\<rparr>"

definition demo_context :: "checkpoint \<Rightarrow> (nat \<times> http_request list) transition_context" where
  "demo_context cp = context_of (logged accepting) ((demo_instance ''i1'')\<lparr>inst_state := InstanceCloning\<rparr>) (demo_job (write_cp Cloned cp))"

definition demo_clone :: "checkpoint \<Rightarrow> (err + transition_result) \<times> (nat \<times> http_request list) world" where
  "demo_clone cp = Cloning_Execute (logged accepting) ''pool'' 0 (demo_context cp) (demo_cloning (write_cp Cloned cp))"

lemma demo_cloning_runs:
  "db_faults (w_db (demo_cloning data)) = []" "find_job (job_id (demo_job data)) (w_db (demo_cloning data)) = Some (demo_job data)"
  "changes (snd (w_ext (demo_cloning data))) = []"
  by (simp_all add: demo_cloning_def demo_db_def demo_job_def find_job_def sql_find_def)

lemma demo_upid: "fst (read_cp Cloned (write_cp Cloned (demo_cp\<lparr>cp_clone_upid := u\<rparr>))) = demo_cp\<lparr>cp_clone_upid := u\<rparr>"
  using read_write[of "demo_cp\<lparr>cp_clone_upid := u\<rparr>" Cloned Cloned]
  by (simp add: demo_cp_def empty_cp_def int64_cp_def cut_cp_def level_cases)

lemma demo_waits: "\<exists>e w'. finish_clone (logged accepting) 0 tpl cp w = (Inl (Wrap ''cloning: wait clone task'' e), w')"
  by (cases "w_ext w") (simp add: finish_clone_def await_task_def WaitForTask_def GetTask_def doRequest_def bindE_def onErr_def
      onExt_def getE_def logged_def accepting_def)

lemma demo_upid_text: "parseUPID (Some (JStr ''U'')) = Inr ''U''"
  by code_simp

lemma demo_accepted: "\<exists>t s'. pve_Clone (logged accepting) rq s = (Inr t, s')"
  by (cases s) (simp add: pve_Clone_def task_call_def doRequest_def bindE_def onErr_def getE_def logged_def accepting_def retE_def ofE_def
      unmarshal_with_def envelope_step_def jkey_def to_lower_def lower_char_def demo_upid_text)

lemma demo_send: "send_clone (logged accepting) pool tctx tpl cp w = (Inl e, w') \<Longrightarrow> \<exists>e'. e = Wrap ''cloning: save checkpoint after clone'' e'"
  using demo_accepted[of "clone_of pool tctx tpl cp" "w_ext w"]
  by (auto simp: send_clone_def bindE_def onErr_def onExt_def retE_def Let_def split: if_splits prod.splits sum.splits)

lemma demo_template_read:
  "fst (onDB (logged accepting) (templates_Get ''t1'') (demo_cloning data)) = Inr (demo_template ''t1'' TemplateActive 9000)"
  "w_ext (snd (onDB (logged accepting) (templates_Get ''t1'') (demo_cloning data))) = (0, [])"
  "db_faults (w_db (snd (onDB (logged accepting) (templates_Get ''t1'') (demo_cloning data)))) = []"
  "case find_job ''j1'' (w_db (snd (onDB (logged accepting) (templates_Get ''t1'') (demo_cloning data)))) of None \<Rightarrow> False | Some _ \<Rightarrow> True"
  by code_simp+

lemma demo_first_clone:
  "fst (demo_clone demo_cp) \<noteq> Inl (Wrap ''cloning: clone'' e)" "changes (snd (w_ext (snd (demo_clone demo_cp)))) \<noteq> []"
proof -
  let ?w0 = "demo_cloning (write_cp Cloned demo_cp)" and ?t = "demo_template ''t1'' TemplateActive 9000"
  obtain w1 where w1: "onDB (logged accepting) (templates_Get ''t1'') ?w0 = (Inr ?t, w1)" "w_ext w1 = (0, [])"
    using demo_template_read[of "write_cp Cloned demo_cp"] by (metis prod.collapse)
  obtain x w2 where w2: "send_clone (logged accepting) ''pool'' (demo_context demo_cp) ?t demo_cp w1 = (x, w2)" by (rule prod.exhaust)
  have read: "read_cp Cloned (write_cp Cloned demo_cp) = (demo_cp, True)"
    using read_write[of demo_cp Cloned Cloned] by (simp add: demo_cp_def empty_cp_def int64_cp_def cut_cp_def level_cases)
  have run: "demo_clone demo_cp = (case x of Inl e \<Rightarrow> (Inl e, w2) | Inr cp \<Rightarrow> finish_clone (logged accepting) 0 ?t cp w2)"
    using w1 w2 read
    by (simp add: demo_clone_def Cloning_Execute_def need_cp_def bindE_def onErr_def retE_def demo_context_def context_of_def demo_job_def
        demo_instance_def demo_cp_def empty_cp_def)
  have "asks w2 (snd (demo_clone demo_cp))"
  proof (cases x)
    case (Inr cp)
    obtain r w3 where w3: "finish_clone (logged accepting) 0 ?t cp w2 = (r, w3)" by (rule prod.exhaust)
    from keepsD[OF asks_finish w3] run Inr w3 show ?thesis by simp
  qed (simp add: run)
  moreover have "changes (snd (w_ext w2)) \<noteq> []"
  proof -
    have up: "cp_clone_upid demo_cp = []" "int64_cp demo_cp" by (simp_all add: demo_cp_def empty_cp_def int64_cp_def)
    obtain j where "find_job ''j1'' (w_db w1) = Some j"
      using demo_template_read(4)[of "write_cp Cloned demo_cp"] w1(1) by (auto split: option.splits)
    then have j: "find_job (job_id (demo_job (write_cp Cloned demo_cp))) (w_db w1) = Some j" by (simp add: demo_job_def)
    have "db_faults (w_db w1) = []" using demo_template_read(3)[of "write_cp Cloned demo_cp"] w1(1) by simp
    from send_clone_cases(1)[OF w2[unfolded demo_context_def] this j up(2,1)] show ?thesis by auto
  qed
  ultimately show "changes (snd (w_ext (snd (demo_clone demo_cp)))) \<noteq> []" by (simp add: asks_def)
  show "fst (demo_clone demo_cp) \<noteq> Inl (Wrap ''cloning: clone'' e)"
  proof (cases x)
    case (Inl e')
    with run w2 demo_send show ?thesis by fastforce
  next
    case (Inr cp)
    with run demo_waits[of ?t cp w2] show ?thesis by auto
  qed
qed


end
