(* ===== verification/Compensate.thy ===== *)
theory Compensate
  imports Lifecycle
begin

text \<open>
  Compensation, \<open>internal/stateengine/rollback.go\<close> and \<open>quarantine.go\<close>: undoing what a failed job left on the
  cluster, at the gateway and in the address pool, or isolating it and keeping everything.  Both read what there
  is from the checkpoint data of the job they are given.
\<close>

section \<open>Collecting failures\<close>

text \<open>A call whose error becomes a line of the report, and a task that has to end in success.\<close>

definition collect :: "string \<Rightarrow> ('x, unit) wm \<Rightarrow> ('x, string list) wm" where
  "collect m a = tryE a (\<lambda>r. case r of Inl e \<Rightarrow> retE [m @ '': '' @ err_text e] | Inr _ \<Rightarrow> retE [])"

definition collect_task :: "string \<Rightarrow> ('x, task_status) wm \<Rightarrow> ('x, string list) wm" where
  "collect_task m a = tryE a (\<lambda>r. case r of
       Inl e \<Rightarrow> retE [m @ '': err='' @ err_text e @ '' status='' @ status_text \<lparr>ts_status = [], ts_exit = []\<rparr>]
     | Inr status \<Rightarrow> retE (if Success status then [] else [m @ '': err=<nil> status='' @ status_text status]))"

text \<open>The transaction both end with.\<close>

definition persist_outcome :: "string \<Rightarrow> job \<Rightarrow> instance_state \<Rightarrow> audit_event \<Rightarrow> unit dbm" where
  "persist_outcome iid jb st ev =
     bindE (wrapE ''update instance state'' (instances_UpdateState iid st)) (\<lambda>_.
     bindE (wrapE ''update checkpoint'' (jobs_UpdateCheckpoint (job_id jb) st (job_data jb))) (\<lambda>_.
     audit_Append ev))"

section \<open>Rollback\<close>

definition delete_vm :: "'x env \<Rightarrow> vm_ref \<Rightarrow> ('x, string list) wm" where
  "delete_vm env ref =
     bindE (tryE (onExt (pve_Stop env ref)) (\<lambda>r. case r of
         Inl _ \<Rightarrow> retE () | Inr t \<Rightarrow> ignoreE (onExt (WaitForTask env t (seconds 30))))) (\<lambda>_.
     tryE (onExt (pve_Delete env ref True)) (\<lambda>r. case r of
         Inl e \<Rightarrow> retE [''delete vm: '' @ err_text e]
       | Inr t \<Rightarrow> collect_task ''wait delete vm task'' (onExt (WaitForTask env t (seconds 60)))))"

definition delete_mapping :: "'x pgw_adapter \<Rightarrow> string \<Rightarrow> ('x, string list) wm" where
  "delete_mapping gw mid =
     bindE (collect ''suspend pgw mapping'' (onExt (pg_SuspendMapping gw mid))) (\<lambda>a.
     bindE (collect ''delete pgw mapping'' (onExt (pg_DeleteMapping gw mid))) (\<lambda>b. retE (a @ b)))"

text \<open>The address is released only when nothing failed before; the flag says whether it was.\<close>

definition release_ip :: "'x env \<Rightarrow> string \<Rightarrow> string list \<Rightarrow> ('x, string list \<times> bool) wm" where
  "release_ip env aid failures = (if aid \<noteq> [] \<and> failures = []
     then tryE (onDB env (ipam_Release aid)) (\<lambda>r. case r of
         Inl e \<Rightarrow> retE ([''release ip: '' @ err_text e], False) | Inr _ \<Rightarrow> retE ([], True))
     else retE (failures, False))"

definition rollback_event :: "string \<Rightarrow> string \<Rightarrow> string list \<Rightarrow> audit_event" where
  "rollback_event iid reason failures = system_event ''state-engine-rollback'' ''rollback'' ''vm_instance'' iid
     [(''failures'', json_strings failures), (''reason'', JStr reason)]"

definition Rollback_Execute :: "'x env \<Rightarrow> 'x pgw_adapter \<Rightarrow> vm_instance \<Rightarrow> job \<Rightarrow> string \<Rightarrow> ('x, instance_state) wm" where
  "Rollback_Execute env gw inst jb reason =
     (let cp = fst (read_full (job_data jb)) in
      bindE (if cp_vmid cp \<noteq> 0 then delete_vm env (cp_ref cp) else retE []) (\<lambda>f1.
      bindE (if cp_mapping cp \<noteq> [] then delete_mapping gw (cp_mapping cp) else retE []) (\<lambda>f2.
      bindE (release_ip env (cp_ip cp) (f1 @ f2)) (\<lambda>(failures, released).
      let final = (if failures \<noteq> [] then InstanceQuarantined else InstanceFailed) in
      bindE (if failures \<noteq> [] \<and> cp_ip cp \<noteq> [] \<and> \<not> released then ignoreE (onDB env (MarkQuarantined (cp_ip cp))) else retE ()) (\<lambda>_.
      bindE (wrapE ''stateengine: persist rollback'' (onDB env (WithTx
         (persist_outcome (inst_id inst) jb final (rollback_event (inst_id inst) reason failures))))) (\<lambda>_.
      retE final))))))"

section \<open>Quarantine\<close>

definition stop_vm :: "'x env \<Rightarrow> vm_ref \<Rightarrow> ('x, string list) wm" where
  "stop_vm env ref = tryE (onExt (pve_Stop env ref)) (\<lambda>r. case r of
       Inl e \<Rightarrow> retE [''stop vm: '' @ err_text e]
     | Inr t \<Rightarrow> collect_task ''wait stop vm task'' (onExt (WaitForTask env t (seconds 60))))"

definition quarantine_event :: "string \<Rightarrow> string \<Rightarrow> bool \<Rightarrow> string list \<Rightarrow> audit_event" where
  "quarantine_event iid reason stopVM warnings = system_event ''state-engine-quarantine'' ''quarantine'' ''vm_instance'' iid
     [(''reason'', JStr reason), (''stop_vm'', JBool stopVM), (''warnings'', json_strings warnings)]"

definition Quarantine_Execute :: "'x env \<Rightarrow> 'x pgw_adapter \<Rightarrow> vm_instance \<Rightarrow> job \<Rightarrow> string \<Rightarrow> bool \<Rightarrow> ('x, unit) wm" where
  "Quarantine_Execute env gw inst jb reason stopVM =
     (let cp = fst (read_full (job_data jb)) in
      bindE (if cp_mapping cp \<noteq> [] then collect ''suspend pgw mapping'' (onExt (pg_SuspendMapping gw (cp_mapping cp))) else retE []) (\<lambda>a.
      bindE (if stopVM \<and> cp_vmid cp \<noteq> 0 then stop_vm env (cp_ref cp) else retE []) (\<lambda>b.
      bindE (if cp_ip cp \<noteq> [] then collect ''mark ip quarantined'' (onDB env (MarkQuarantined (cp_ip cp))) else retE []) (\<lambda>c.
      wrapE ''stateengine: persist quarantine'' (onDB env (WithTx
         (persist_outcome (inst_id inst) jb InstanceQuarantined (quarantine_event (inst_id inst) reason stopVM (a @ b @ c)))))))))"

section \<open>What the transaction writes\<close>

lemma persist_outcome_Inr:
  assumes "persist_outcome iid jb st ev d = (Inr u, d')" "aud_metadata ev = Some md"
  shows "db_instances d' = map (moved iid st None (db_now d)) (db_instances d)" "db_runs d' = db_runs d"
    "\<exists>e. db_audit d' = db_audit d @ [e] \<and> event_core e = event_core ev"
proof -
  from assms(1) obtain d1 d2 where u: "instances_UpdateState iid st d = (Inr (), d1)"
    and c: "jobs_UpdateCheckpoint (job_id jb) st (job_data jb) d1 = (Inr (), d2)" and a: "audit_Append ev d2 = (Inr u, d')"
    unfolding persist_outcome_def by (auto simp: onErr_Inr_iff elim!: bindE_Inr_cases)
  from audit_AppendE[OF a assms(2)] obtain uu where
    "same_tables (d2\<lparr>db_audit := db_audit d2 @ [ev\<lparr>aud_id := uu, aud_at := db_now d2\<rparr>]\<rparr>) d'" by blast
  note d' = same_tables_fields[OF this]
  show "db_instances d' = map (moved iid st None (db_now d)) (db_instances d)" "db_runs d' = db_runs d"
    using d'(4,8) UpdateCheckpoint_Inr(1)[OF c] UpdateState_Inr[OF u] by (simp_all add: chronicle_def)
  have "event_core (ev\<lparr>aud_id := uu, aud_at := db_now d2\<rparr>) = event_core ev" by (simp add: event_core_def)
  then show "\<exists>e. db_audit d' = db_audit d @ [e] \<and> event_core e = event_core ev"
    using d'(11) UpdateCheckpoint_Inr(1)[OF c] UpdateState_Inr[OF u] by (auto simp: chronicle_def)
qed

lemma outcome_cases:
  assumes "onDB env (WithTx (persist_outcome iid jb st ev)) w = (r, w')" "aud_metadata ev = Some md"
  shows "chronicle (w_db w') = chronicle (w_db w) \<and> (\<exists>e. r = Inl e) \<or>
    (\<exists>now. db_instances (w_db w') = map (moved iid st None now) (db_instances (w_db w))) \<and> db_runs (w_db w') = db_runs (w_db w) \<and>
    (\<exists>e. db_audit (w_db w') = db_audit (w_db w) @ [e] \<and> event_core e = event_core ev)"
proof -
  from assms(1) obtain d where d: "WithTx (persist_outcome iid jb st ev) ((w_db w)\<lparr>db_now := e_now env (w_ext w)\<rparr>) = (r, d)"
    "w' = w\<lparr>w_db := d\<rparr>" by (rule onDB_run)
  from d(1) show ?thesis
  proof (cases rule: WithTx_cases)
    case (rolled_back e)
    with d(2) same_chronicle[OF rolled_back(2)] show ?thesis by simp
  next
    case (committed d0 x d1)
    note o = persist_outcome_Inr[OF committed(3) assms(2)]
    have "chronicle (w_db w') = chronicle d1" "chronicle d0 = chronicle (w_db w)"
      using same_chronicle[OF committed(4)] same_chronicle[OF committed(1)] d(2) by simp_all
    then have f: "db_instances (w_db w') = db_instances d1" "db_runs (w_db w') = db_runs d1" "db_audit (w_db w') = db_audit d1"
      "db_instances d0 = db_instances (w_db w)" "db_runs d0 = db_runs (w_db w)" "db_audit d0 = db_audit (w_db w)"
      by (simp_all add: chronicle_def)
    from o have "\<exists>now. db_instances (w_db w') = map (moved iid st None now) (db_instances (w_db w))" "db_runs (w_db w') = db_runs (w_db w)"
      "\<exists>e. db_audit (w_db w') = db_audit (w_db w) @ [e] \<and> event_core e = event_core ev"
      unfolding f by auto
    then show ?thesis by blast
  qed
qed

section \<open>Invariants\<close>

lemma moved_id [simp]: "inst_id (moved iid st pl now i) = inst_id i"
  by (simp add: moved_def Let_def split: option.split)

lemma moved_state: "inst_state (moved iid st pl now i) = (if inst_id i = iid then st else inst_state i)"
  by (simp add: moved_def Let_def split: option.split)

lemma moved_evidence:
  assumes "evidence_inv d" "required st = []" "db_instances d' = map (moved iid st pl now) (db_instances d)" "db_runs d' = db_runs d"
  shows "evidence_inv d'"
  using assms by (auto simp: evidence_inv_def proven_def moved_state split: if_splits)

lemma moved_unserved:
  assumes "unserved d" "st \<notin> {InstanceApplyingWorkload, InstanceReady}" "db_instances d' = map (moved iid st pl now) (db_instances d)"
  shows "unserved d'"
  using assms by (auto simp: unserved_def moved_state split: if_splits)

lemma outcome_evidence:
  assumes "required st = []" "aud_metadata ev = Some md"
  shows "w_preserves evidence_inv (onDB env (WithTx (persist_outcome iid jb st ev)))"
proof (rule keepsI, rule impI)
  fix w :: "'a world"
  assume inv: "evidence_inv (w_db w)"
  obtain r w' where run: "onDB env (WithTx (persist_outcome iid jb st ev)) w = (r, w')" by (rule prod.exhaust)
  from outcome_cases[OF run assms(2)] have "evidence_inv (w_db w')"
    using chronicle_evidence inv moved_evidence[OF inv assms(1)] by blast
  with run show "evidence_inv (w_db (snd (onDB env (WithTx (persist_outcome iid jb st ev)) w)))" by simp
qed

lemma outcome_unserved:
  assumes "st \<notin> {InstanceApplyingWorkload, InstanceReady}" "aud_metadata ev = Some md"
  shows "w_preserves unserved (onDB env (WithTx (persist_outcome iid jb st ev)))"
proof (rule keepsI, rule impI)
  fix w :: "'a world"
  assume inv: "unserved (w_db w)"
  obtain r w' where run: "onDB env (WithTx (persist_outcome iid jb st ev)) w = (r, w')" by (rule prod.exhaust)
  from outcome_cases[OF run assms(2)] have "unserved (w_db w')"
    using chronicle_unserved inv moved_unserved[OF inv assms(1)] by blast
  with run show "unserved (w_db (snd (onDB env (WithTx (persist_outcome iid jb st ev)) w)))" by simp
qed

lemma quiet_keeps: "quiet m \<Longrightarrow> (\<And>d d'. chronicle d' = chronicle d \<Longrightarrow> I d' = I d) \<Longrightarrow> w_preserves I m"
  unfolding keeps_def by blast

lemma quiet_compensation:
  "quiet (delete_vm env ref)" "quiet (delete_mapping gw mid)" "quiet (release_ip env aid fs)" "quiet (stop_vm env ref)"
  "quiet m \<Longrightarrow> quiet (collect s m)"
  unfolding delete_vm_def delete_mapping_def release_ip_def stop_vm_def collect_def collect_task_def
  by (intro quiet.intros; assumption?)+

lemma event_metadata: "\<exists>md. aud_metadata (rollback_event iid reason fs) = Some md" "\<exists>md. aud_metadata (quarantine_event iid reason b ws) = Some md"
  by (simp_all add: rollback_event_def quarantine_event_def system_event_def)

lemma rollback_keeps:
  assumes "\<And>d d'. chronicle d' = chronicle d \<Longrightarrow> I d' = I d"
    and "\<And>st fs. st \<in> {InstanceFailed, InstanceQuarantined} \<Longrightarrow>
      w_preserves I (onDB env (WithTx (persist_outcome (inst_id inst) jb st (rollback_event (inst_id inst) reason fs))))"
  shows "w_preserves I (Rollback_Execute env gw inst jb reason)"
  unfolding Rollback_Execute_def Let_def
  by (intro keeps_bind keeps_onErr keeps_case_prod reflp_w_inv transp_w_inv keeps_ret assms(2)
      quiet_keeps[OF _ assms(1)] quiet.intros quiet_compensation) (auto split: if_splits)

lemma quarantine_keeps:
  assumes "\<And>d d'. chronicle d' = chronicle d \<Longrightarrow> I d' = I d"
    and "\<And>ws. w_preserves I (onDB env (WithTx (persist_outcome (inst_id inst) jb InstanceQuarantined (quarantine_event (inst_id inst) reason b ws))))"
  shows "w_preserves I (Quarantine_Execute env gw inst jb reason b)"
  unfolding Quarantine_Execute_def Let_def
  by (intro keeps_bind keeps_onErr reflp_w_inv transp_w_inv assms(2) quiet_keeps[OF _ assms(1)] quiet.intros quiet_compensation)

lemma compensation_evidence:
  "w_preserves evidence_inv (Rollback_Execute env gw inst jb reason)" "w_preserves evidence_inv (Quarantine_Execute env gw inst jb reason b)"
proof -
  show "w_preserves evidence_inv (Rollback_Execute env gw inst jb reason)"
    by (rule rollback_keeps[OF chronicle_evidence]) (auto intro!: outcome_evidence simp: rollback_event_def system_event_def)
  show "w_preserves evidence_inv (Quarantine_Execute env gw inst jb reason b)"
    by (rule quarantine_keeps[OF chronicle_evidence]) (auto intro!: outcome_evidence simp: quarantine_event_def system_event_def)
qed

lemma compensation_unserved:
  "w_preserves unserved (Rollback_Execute env gw inst jb reason)" "w_preserves unserved (Quarantine_Execute env gw inst jb reason b)"
proof -
  show "w_preserves unserved (Rollback_Execute env gw inst jb reason)"
    by (rule rollback_keeps[OF chronicle_unserved]) (auto intro!: outcome_unserved simp: rollback_event_def system_event_def)
  show "w_preserves unserved (Quarantine_Execute env gw inst jb reason b)"
    by (rule quarantine_keeps[OF chronicle_unserved]) (auto intro!: outcome_unserved simp: quarantine_event_def system_event_def)
qed

section \<open>What is released\<close>

abbreviation db_still :: "('x, 'a) wm \<Rightarrow> bool" where
  "db_still \<equiv> keeps (\<lambda>w w'. w_db w' = w_db w)"

lemma still_rel: "reflp (\<lambda>w w'. w_db w' = w_db w)" "transp (\<lambda>w w'. w_db w' = w_db w)"
  by (auto simp: reflp_def transp_def)

lemma still_onExt: "db_still (onExt m)"
  by (rule keeps_onExt) simp

lemma still_compensation: "db_still (delete_vm env ref)" "db_still (delete_mapping gw mid)" "db_still (stop_vm env ref)"
  "db_still (collect s (onExt m))"
  unfolding delete_vm_def delete_mapping_def stop_vm_def collect_def collect_task_def ignoreE_def
  by (intro keeps_bind keeps_try keeps_sum keeps_ret still_rel still_onExt)+

lemma collects: "\<exists>fs w'. delete_vm env ref w = (Inr fs, w')" "\<exists>fs w'. delete_mapping gw mid w = (Inr fs, w')"
  "\<exists>fs w'. release_ip env aid fs0 w = (Inr fs, w')"
  by (auto simp: delete_vm_def delete_mapping_def release_ip_def collect_def collect_task_def ignoreE_def tryE_def bindE_def retE_def
      split: prod.splits sum.splits)

text \<open>A clean report on the VM means that the cluster deleted it.\<close>

definition vm_deleted :: "'x env \<Rightarrow> vm_ref \<Rightarrow> bool" where
  "vm_deleted env ref \<longleftrightarrow> (\<exists>s t s1 status s2. pve_Delete env ref True s = (Inr t, s1) \<and>
     WaitForTask env t (seconds 60) s1 = (Inr status, s2) \<and> Success status)"

lemma delete_vm_clean: "delete_vm env ref w = (Inr [], w') \<Longrightarrow> vm_deleted env ref"
  by (auto simp: delete_vm_def collect_task_def tryE_def retE_def vm_deleted_def onExt_def
      elim!: bindE_Inr_cases split: prod.splits sum.splits if_splits) blast+

definition held :: "string \<Rightarrow> ip_alloc \<Rightarrow> bool" where
  "held aid a \<longleftrightarrow> ipa_id a = aid \<and> ipa_state a \<in> {AllocationReserved, AllocationAssigned}"

definition releasable :: "string \<Rightarrow> ip_alloc \<Rightarrow> bool" where
  "releasable aid a \<longleftrightarrow> ipa_id a = aid \<and> ipa_state a \<in> {AllocationReserved, AllocationAssigned, AllocationQuarantined}"

text \<open>\<open>Release\<close> and \<open>MarkQuarantined\<close> on a healthy connection.\<close>

lemma allocs_healthy:
  assumes "db_faults (w_db w) = []"
  shows "onDB env (ipam_Release aid) w = (if sql_count (releasable aid) (db_allocs (w_db w)) = 0 then Inl ErrNotFound else Inr (),
      w\<lparr>w_db := put_allocs (sql_update (releasable aid) (release_row (e_now env (w_ext w))) (db_allocs (w_db w)))
        ((w_db w)\<lparr>db_now := e_now env (w_ext w)\<rparr>)\<rparr>)"
    "onDB env (MarkQuarantined aid) w = (if sql_count (held aid) (db_allocs (w_db w)) = 0 then Inl ErrNotFound else Inr (),
      w\<lparr>w_db := put_allocs (sql_update (held aid) (\<lambda>a. a\<lparr>ipa_state := AllocationQuarantined\<rparr>) (db_allocs (w_db w)))
        ((w_db w)\<lparr>db_now := e_now env (w_ext w)\<rparr>)\<rparr>)"
  using assms
  by (simp_all add: onDB_def ipam_Release_def MarkQuarantined_def bindE_def onErr_def upd_tab_def require_rows_def retE_def failE_def
      releasable_def[abs_def] held_def[abs_def])

lemma outcome_allocs:
  assumes "onDB env (WithTx (persist_outcome iid jb st ev)) w = (r, w')"
  shows "db_allocs (w_db w') = db_allocs (w_db w)"
proof -
  have "keeps (\<lambda>d d'. db_allocs d' = db_allocs d) (WithTx (persist_outcome iid jb st ev))"
  proof (rule keeps_WithTx)
    show "reflp (\<lambda>d d'. db_allocs d' = db_allocs d)" by (rule reflp_frame)
    show "table_rel (\<lambda>d d'. db_allocs d' = db_allocs d)"
      unfolding table_rel_def using same_tables_fields(5) by metis
    then have i: "insensitive (\<lambda>d d'. db_allocs d' = db_allocs d)" by (rule table_rel_insensitive)
    show "keeps (\<lambda>d d'. db_allocs d' = db_allocs d) (persist_outcome iid jb st ev)"
      unfolding persist_outcome_def instances_UpdateState_def jobs_UpdateCheckpoint_def audit_Append_def
      by (intro keeps_bind keeps_onErr keeps_stmt keeps_require rel_intro i keeps_mod keeps_uuid)
         (simp_all add: keeps_def upd_tab_def update_jobs_def)
  qed
  then have "keeps (\<lambda>w w'. db_allocs (w_db w') = db_allocs (w_db w)) (onDB env (WithTx (persist_outcome iid jb st ev)))"
    by (rule keeps_onDB) simp
  from keepsD[OF this assms] show ?thesis .
qed

lemma release_ip_run:
  assumes "release_ip env aid fs0 w = (Inr (fs, released), w')" "db_faults (w_db w) = []"
  shows "db_faults (w_db w') = []"
    "fs = [] \<Longrightarrow> fs0 = [] \<and> (\<exists>now. db_allocs (w_db w') = (if aid = [] then db_allocs (w_db w)
       else sql_update (releasable aid) (release_row now) (db_allocs (w_db w))))"
    "fs \<noteq> [] \<Longrightarrow> db_allocs (w_db w') = db_allocs (w_db w) \<and> \<not> released"
  using assms
  by (auto simp: release_ip_def tryE_def allocs_healthy retE_def sql_update_none sql_count_0 split: if_splits)

lemma mark_run:
  assumes "(if b then ignoreE (onDB env (MarkQuarantined aid)) else retE ()) w = (Inr u, w')" "db_faults (w_db w) = []"
  shows "db_allocs (w_db w') = (if b then sql_update (held aid) (\<lambda>a. a\<lparr>ipa_state := AllocationQuarantined\<rparr>) (db_allocs (w_db w))
    else db_allocs (w_db w))"
  using assms by (auto simp: ignoreE_def tryE_def allocs_healthy retE_def split: if_splits)


text \<open>An instance whose job only got as far as the reservation of an address.\<close>

definition demo_alloc :: ip_alloc where
  "demo_alloc = \<lparr>ipa_id = ''a1'', ipa_segment = ''s1'', ipa_address = ''10.0.0.5'', ipa_instance = Some ''i1'',
     ipa_state = AllocationReserved, ipa_reserved_until = Some 9000, ipa_assigned = None, ipa_released = None, ipa_created = 0\<rparr>"

definition demo_reserved :: "nat world" where
  "demo_reserved = \<lparr>w_db = demo_db\<lparr>db_instances := [(demo_instance ''i1'')\<lparr>inst_state := InstanceReserving\<rparr>],
     db_allocs := [demo_alloc], db_jobs := [demo_job (write_cp Reserved (empty_cp\<lparr>cp_ip := ''a1''\<rparr>))]\<rparr>, w_ext = 0\<rparr>"


section \<open>What quarantine keeps\<close>

definition isolated :: "string \<Rightarrow> ip_alloc list \<Rightarrow> ip_alloc list" where
  "isolated aid rs = sql_update (held aid) (\<lambda>a. a\<lparr>ipa_state := AllocationQuarantined\<rparr>) rs"

lemma isolated_twice: "isolated aid (isolated aid rs) = isolated aid rs"
  by (auto simp: isolated_def sql_update_def held_def)

definition isolates :: "string \<Rightarrow> db \<Rightarrow> db \<Rightarrow> bool" where
  "isolates aid d d' \<longleftrightarrow> db_allocs d' \<in> {db_allocs d, isolated aid (db_allocs d)}"

lemma isolates_rel: "reflp (isolates aid)" "transp (isolates aid)" "insensitive (isolates aid)"
proof -
  show "reflp (isolates aid)" "transp (isolates aid)"
    by (auto simp: reflp_def transp_def isolates_def isolated_twice)
  show "insensitive (isolates aid)"
    unfolding insensitive_def isolates_def using same_tables_fields(5) by metis
qed

lemma MarkQuarantined_isolates: "keeps (isolates aid) (MarkQuarantined aid)"
  unfolding MarkQuarantined_def
  by (intro keeps_bind keeps_onErr keeps_stmt keeps_require isolates_rel)
     (simp add: keeps_def upd_tab_def isolates_def isolated_def held_def[abs_def])

definition stop_request :: "vm_ref \<Rightarrow> http_request" where
  "stop_request ref = \<lparr>rq_method = ''POST'', rq_path = qemu_path ref ''/status/stop'', rq_params = []\<rparr>"

lemma stop_vm_log: "changes (snd (w_ext (snd (stop_vm (logged env) ref w)))) = changes (snd (w_ext w)) @ [stop_request ref]"
proof -
  obtain r x where s: "pve_Stop (logged env) ref (w_ext w) = (r, x)" by (rule prod.exhaust)
  have c: "changes (snd x) = changes (snd (w_ext w)) @ [stop_request ref]"
    using logged_task_call[of env "''POST''" "qemu_path ref (''/status/'' @ ''stop'')" "[]" "vr_node ref" "w_ext w"] s
    by (simp add: pve_Stop_def statusAction_def stop_request_def)
  show ?thesis
  proof (cases r)
    case (Inl e)
    with s c show ?thesis by (simp add: stop_vm_def tryE_def onExt_def retE_def)
  next
    case (Inr t)
    have "keeps asks (collect_task m (onExt (WaitForTask (logged env) t (seconds 60))))" for m
      unfolding collect_task_def by (intro keeps_try keeps_sum keeps_ret asks_rel asks_onExt reads_WaitForTask)
    from this[of "''wait stop vm task''"] have "asks (w\<lparr>w_ext := x\<rparr>) (snd (collect_task ''wait stop vm task'' (onExt (WaitForTask (logged env) t (seconds 60))) (w\<lparr>w_ext := x\<rparr>)))"
      unfolding keeps_def by blast
    with s Inr c show ?thesis by (simp add: stop_vm_def tryE_def onExt_def asks_def)
  qed
qed

lemma quarantine_collects: "\<exists>b w'. (if p then stop_vm env ref else retE []) w = (Inr b, w')"
  "\<exists>c w'. (if q then collect m a else retE []) w = (Inr c, w')"
  by (auto simp: stop_vm_def collect_def collect_task_def tryE_def retE_def split: prod.splits sum.splits)

lemma noop_inert: "collect m (onExt (pg_SuspendMapping NoopAdapter mid)) w = (Inr [], w)"
  by (simp add: collect_def tryE_def onExt_def noop_defs retE_def)

lemma onDB_ext: "w_ext (snd (onDB env m w)) = w_ext w"
  by (simp add: onDB_def split: prod.split)


section \<open>Frames of a rollback\<close>

context handler_frame
begin

lemma rollback:
  assumes "\<And>st. keeps Q (instances_UpdateState (inst_id inst) st)" "\<And>ev. keeps Q (audit_Append ev)"
  shows "keeps in_world (Rollback_Execute env gw inst jb reason)"
  unfolding Rollback_Execute_def delete_vm_def delete_mapping_def release_ip_def collect_def collect_task_def persist_outcome_def Let_def
  by (intro intros assms Q_tx UpdateCheckpoint Q_refl Q_trans)

end

text \<open>The jobs keep their instance, state and owner.\<close>

lemma keys_rel: "reflp (\<lambda>d d'. job_keys d' = job_keys d)" "transp (\<lambda>d d'. job_keys d' = job_keys d)"
  "table_rel (\<lambda>d d'. job_keys d' = job_keys d)"
proof -
  show "table_rel (\<lambda>d d'. job_keys d' = job_keys d)"
    unfolding table_rel_def by (auto simp: job_keys_def same_tables_fields)
qed (auto simp: reflp_def transp_def)

lemma keys_stmt: "keeps (\<lambda>d d'. job_keys d' = job_keys d) q \<Longrightarrow> keeps (\<lambda>d d'. job_keys d' = job_keys d) (stmt q)"
  by (rule keeps_stmt[OF keys_rel(1) table_rel_insensitive[OF keys_rel(3)]])

interpretation keys: handler_frame "\<lambda>d d'. job_keys d' = job_keys d"
proof
  show "keeps (\<lambda>d d'. job_keys d' = job_keys d) (WithTx fn)" if "keeps (\<lambda>d d'. job_keys d' = job_keys d) fn" for fn :: "unit dbm"
    by (rule keeps_WithTx[OF keys_rel(1,3) that])
  show "job_keys (put_allocs rs d) = job_keys d" for rs d by (simp add: job_keys_def)
  show "job_keys (d\<lparr>db_jobs := sql_update p (\<lambda>j. j\<lparr>job_checkpoint := cp, job_data := dt\<rparr>) (db_jobs d)\<rparr>) = job_keys d" for d p cp dt
    by (simp add: job_keys_def sql_update_def)
  show "job_keys d' = job_keys d" if "job_keys d' = job_keys (d\<lparr>db_now := t\<rparr>)" for d d' t using that by (simp add: job_keys_def)
qed (auto intro: keys_rel(1,2) keys_stmt)

lemma keys_writes: "keeps (\<lambda>d d'. job_keys d' = job_keys d) (instances_UpdateState iid st)"
  "keeps (\<lambda>d d'. job_keys d' = job_keys d) (audit_Append ev)"
proof -
  show "keeps (\<lambda>d d'. job_keys d' = job_keys d) (instances_UpdateState iid st)"
    unfolding instances_UpdateState_def by (intro keys.exec) (simp add: keeps_def upd_tab_def job_keys_def)
  show "keeps (\<lambda>d d'. job_keys d' = job_keys d) (audit_Append ev)"
    unfolding audit_Append_def
    by (intro keeps_onErr keys_stmt keeps_bind keys_rel keeps_uuid keeps_mod) (simp_all add: job_keys_def)
qed

lemmas rollback_frames = calm.rollback[OF calm_writes(1,3)] keys.rollback[OF keys_writes]

end
