(* ===== verification/Worker.thy ===== *)
theory Worker
  imports Compensate Leases "HOL-Library.Word"
begin

text \<open>
  The worker, \<open>cmd/worker/main.go\<close>: a slot claims a job and drives it through the engine until the instance is in a
  terminal state, retries a failed step later, and rolls back when the attempts are used up.  The heartbeat that runs
  beside it, and the maintenance loop, are operations of their own that interleave with it.
\<close>

section \<open>Backoff\<close>

text \<open>
  \<open>math.Pow\<close> is exact on the powers of two a \<open>Duration\<close> can hold; the conversion of a larger \<open>float64\<close> to \<open>int64\<close>, which
  the language leaves to the implementation, yields the least integer on amd64.  The multiplication
  by 15 seconds wraps.
\<close>

definition pow_duration :: "int \<Rightarrow> 64 word" where
  "pow_duration k = (if k < 63 then 2 ^ nat k else 2 ^ 63)"

definition backoff_base :: "int \<Rightarrow> duration" where
  "backoff_base attempt0 = (let attempt = (if attempt0 < 1 then 1 else attempt0);
     d = sint (pow_duration (attempt - 1) * word_of_int (seconds 15)) in
     if d \<le> 0 \<or> d > seconds 300 then seconds 300 else d)"

text \<open>\<open>rnd n\<close> is \<open>rand.Int63n(n)\<close>.\<close>

definition backoffDelay :: "(int \<Rightarrow> int) \<Rightarrow> int \<Rightarrow> duration" where
  "backoffDelay rnd attempt = (let d = backoff_base attempt in d + rnd (d div 4 + 1))"

section \<open>A slot\<close>

text \<open>\<open>wk_max_steps\<close> bounds the steps of one claim.\<close>

record 'x worker =
  wk_id :: string
  wk_env :: "'x env"
  wk_engine :: "'x registry"
  wk_gw :: "'x pgw_adapter"
  wk_lease :: duration
  wk_rnd :: "int \<Rightarrow> int"
  wk_max_steps :: nat

definition terminalState :: "instance_state \<Rightarrow> bool" where
  "terminalState s \<longleftrightarrow> s = InstanceReady \<or> s = InstanceQuarantined"

definition rollback_suffix :: string where
  "rollback_suffix =
     '' '' @ [CHR 0xE2, CHR 0x80, CHR 0x94] @ '' resource leftover (VM/PGW mapping/IP) ch'' @ [CHR 0xC6, CHR 0xB0] @ ''a ''
     @ [CHR 0xC4, CHR 0x91, CHR 0xC6, CHR 0xB0, CHR 0xE1, CHR 0xBB, CHR 0xA3] @ ''c d'' @ [CHR 0xE1, CHR 0xBB, CHR 0x8D]
     @ ''n s'' @ [CHR 0xE1, CHR 0xBA, CHR 0xA1] @ ''ch, c'' @ [CHR 0xE1, CHR 0xBA, CHR 0xA7] @ ''n '' @ [CHR 0xC4, CHR 0x91]
     @ ''i'' @ [CHR 0xE1, CHR 0xBB, CHR 0x81] @ ''u tra th'' @ [CHR 0xE1, CHR 0xBB, CHR 0xA7] @ '' c'' @ [CHR 0xC3, CHR 0xB4]
     @ ''ng''"

definition rollback_alert :: "string \<Rightarrow> string \<Rightarrow> string \<Rightarrow> alert" where
  "rollback_alert iid jid msg = \<lparr>alr_id = [], alr_fingerprint = ''rollback_incomplete:'' @ iid, alr_status = AlertFiring,
     alr_severity = ''critical'', alr_rtype = ''vm_instance'', alr_rid = iid,
     alr_title = ''Rollback compensating action failed'',
     alr_description = ''job='' @ jid @ '' reason='' @ json_quote msg @ rollback_suffix, alr_created = 0, alr_updated = 0,
     alr_ack_at = None, alr_ack_by = None, alr_ack_note = None, alr_version = 0\<rparr>"

text \<open>\<open>upsertAlert\<close> and the calls whose error is only logged.\<close>

definition terminalFail :: "'x worker \<Rightarrow> job \<Rightarrow> vm_instance \<Rightarrow> string \<Rightarrow> string \<Rightarrow> ('x, unit) wm" where
  "terminalFail wk jb inst code msg =
     tryE (onDB (wk_env wk) (jobs_Fail (job_id jb) (wk_id wk) code msg None)) (\<lambda>r. case r of
         Inl _ \<Rightarrow> retE ()
       | Inr _ \<Rightarrow> tryE (Rollback_Execute (wk_env wk) (wk_gw wk) inst jb msg) (\<lambda>r. case r of
             Inl _ \<Rightarrow> retE ()
           | Inr st \<Rightarrow> if st = InstanceQuarantined
               then ignoreE (onDB (wk_env wk) (alerts_Upsert (rollback_alert (inst_id inst) (job_id jb) msg))) else retE ()))"

definition failOrRetry :: "'x worker \<Rightarrow> job \<Rightarrow> string \<Rightarrow> string \<Rightarrow> ('x, unit) wm" where
  "failOrRetry wk jb code msg =
     (if job_attempt jb < job_max_attempts jb
      then bindE (nowE (wk_env wk)) (\<lambda>now. ignoreE (onDB (wk_env wk) (jobs_Fail (job_id jb) (wk_id wk) code msg
             (Some (now + backoffDelay (wk_rnd wk) (job_attempt jb))))))
      else tryE (onDB (wk_env wk) (instances_Get (job_instance jb))) (\<lambda>r. case r of
          Inl _ \<Rightarrow> ignoreE (onDB (wk_env wk) (jobs_Fail (job_id jb) (wk_id wk) code msg None))
        | Inr inst \<Rightarrow> terminalFail wk jb inst code msg))"

text \<open>The loop of \<open>processJob\<close>: one round per step.\<close>

fun drive :: "'x worker \<Rightarrow> nat \<Rightarrow> job \<Rightarrow> ('x, unit) wm" where
  "drive wk 0 jb = failE OutOfFuel"
| "drive wk (Suc fuel) jb = tryE (onDB (wk_env wk) (instances_Get (job_instance jb))) (\<lambda>r. case r of
       Inl e \<Rightarrow> failOrRetry wk jb ''LOAD_INSTANCE_FAILED'' (err_text e)
     | Inr inst \<Rightarrow>
         if terminalState (inst_state inst) then ignoreE (onDB (wk_env wk) (jobs_Complete (job_id jb) (wk_id wk)))
         else tryE (Engine_Step (wk_env wk) (wk_engine wk) jb) (\<lambda>s. case s of
             Inl e \<Rightarrow> if errors_is e ErrInvalidTransition then terminalFail wk jb inst ''NO_HANDLER'' (err_text e)
               else failOrRetry wk jb ''STEP_FAILED'' (err_text e)
           | Inr _ \<Rightarrow> tryE (onDB (wk_env wk) (jobs_Get (job_id jb))) (\<lambda>g. case g of
                 Inl _ \<Rightarrow> retE ()
               | Inr refreshed \<Rightarrow> drive wk fuel refreshed)))"

definition unsupported_message :: "job_operation \<Rightarrow> string" where
  "unsupported_message op = ''operation '' @ job_operation_str op
     @ '' chua co transition handler chain trong stateengine (P0-05 gap) - chi PROVISION/REBUILD chay duoc''"

definition processJob :: "'x worker \<Rightarrow> job \<Rightarrow> ('x, unit) wm" where
  "processJob wk jb =
     (if job_op jb \<noteq> JobOpProvision \<and> job_op jb \<noteq> JobOpRebuild
      then ignoreE (onDB (wk_env wk) (jobs_Fail (job_id jb) (wk_id wk) ''UNSUPPORTED_OPERATION'' (unsupported_message (job_op jb)) None))
      else drive wk (wk_max_steps wk) jb)"

text \<open>One round of \<open>run\<close>: a claim, then the job, or a pause.  \<open>locked\<close> are the rows \<open>SKIP LOCKED\<close> skips.\<close>

definition pollInterval :: duration where
  "pollInterval = seconds 2"

definition run_round :: "'x worker \<Rightarrow> (string \<Rightarrow> bool) \<Rightarrow> ('x, unit) wm" where
  "run_round wk locked = tryE (onDB (wk_env wk) (jobs_Claim locked (wk_id wk) (wk_lease wk))) (\<lambda>r. case r of
       Inl _ \<Rightarrow> onExt (\<lambda>x. (Inr (), snd (e_sleep (wk_env wk) pollInterval x)))
     | Inr jb \<Rightarrow> processJob wk jb)"

text \<open>One tick of the heartbeat; the loop goes on while it yields \<open>True\<close>.\<close>

definition heartbeat_tick :: "'x worker \<Rightarrow> string \<Rightarrow> ('x, bool) wm" where
  "heartbeat_tick wk jid = tryE (onDB (wk_env wk) (jobs_Heartbeat jid (wk_id wk) (wk_lease wk))) (\<lambda>r. retE (case r of Inl _ \<Rightarrow> False | Inr _ \<Rightarrow> True))"

section \<open>Maintenance\<close>

definition backlogWarningThreshold :: int where "backlogWarningThreshold = 20"
definition backlogCriticalThreshold :: int where "backlogCriticalThreshold = 50"
definition jobStuckThresholdSeconds :: int where "jobStuckThresholdSeconds = 1800"

text \<open>\<open>%.0f\<close> of a time in seconds: to the nearest integer, ties to even.\<close>

definition whole_seconds :: "duration \<Rightarrow> string" where
  "whole_seconds d = (let q = d div seconds 1; r = d mod seconds 1 in
     itoa (if 2 * r > seconds 1 \<or> (2 * r = seconds 1 \<and> odd q) then q + 1 else q))"

definition firing :: "string \<Rightarrow> string \<Rightarrow> string \<Rightarrow> string \<Rightarrow> string \<Rightarrow> string \<Rightarrow> alert" where
  "firing fp sev rtype rid title descr = \<lparr>alr_id = [], alr_fingerprint = fp, alr_status = AlertFiring, alr_severity = sev,
     alr_rtype = rtype, alr_rid = rid, alr_title = title, alr_description = descr, alr_created = 0, alr_updated = 0,
     alr_ack_at = None, alr_ack_by = None, alr_ack_note = None, alr_version = 0\<rparr>"

definition backlog_critical :: "int \<Rightarrow> alert" where
  "backlog_critical backlog = firing ''provisioning_backlog'' ''critical'' ''system'' ''provisioning_backlog''
     (''Provisioning backlog r'' @ [CHR 0xE1, CHR 0xBA, CHR 0xA5] @ ''t cao'')
     (itoa backlog @ '' job '' @ [CHR 0xC4, CHR 0x91] @ ''ang QUEUED/RETRY_WAIT (ng'' @ [CHR 0xC6, CHR 0xB0, CHR 0xE1, CHR 0xBB, CHR 0xA1]
     @ ''ng critical: '' @ itoa backlogCriticalThreshold @ '')'')"

definition backlog_warning :: "int \<Rightarrow> alert" where
  "backlog_warning backlog = firing ''provisioning_backlog'' ''warning'' ''system'' ''provisioning_backlog''
     ''Provisioning backlog cao''
     (itoa backlog @ '' job '' @ [CHR 0xC4, CHR 0x91] @ ''ang QUEUED/RETRY_WAIT (ng'' @ [CHR 0xC6, CHR 0xB0, CHR 0xE1, CHR 0xBB, CHR 0xA1]
     @ ''ng warning: '' @ itoa backlogWarningThreshold @ '')'')"

definition job_stuck :: "string \<Rightarrow> duration \<Rightarrow> alert" where
  "job_stuck cp age = firing (''job_stuck:'' @ cp) ''warning'' ''checkpoint'' cp
     (''Job d'' @ [CHR 0xE1, CHR 0xBB, CHR 0xAB] @ ''ng l'' @ [CHR 0xC3, CHR 0xA2] @ ''u '' @ [CHR 0xE1, CHR 0xBB, CHR 0x9F]
     @ '' m'' @ [CHR 0xE1, CHR 0xBB, CHR 0x99] @ ''t checkpoint'')
     (''Job RUNNING l'' @ [CHR 0xC3, CHR 0xA2] @ ''u nh'' @ [CHR 0xE1, CHR 0xBA, CHR 0xA5] @ ''t t''
     @ [CHR 0xE1, CHR 0xBA, CHR 0xA1] @ ''i checkpoint '' @ cp
      @ '' '' @ [CHR 0xC4, CHR 0x91, CHR 0xC3, CHR 0xA3] @ '' '' @ whole_seconds age
      @ ''s (ng'' @ [CHR 0xC6, CHR 0xB0, CHR 0xE1, CHR 0xBB, CHR 0xA1] @ ''ng: '' @ itoa jobStuckThresholdSeconds @ ''s)'')"

definition alerts_for :: "int \<Rightarrow> (string \<times> duration) list \<Rightarrow> alert list" where
  "alerts_for backlog ages =
     (if backlog \<ge> backlogCriticalThreshold then [backlog_critical backlog]
      else if backlog \<ge> backlogWarningThreshold then [backlog_warning backlog] else [])
     @ map (\<lambda>(cp, age). job_stuck cp age) (filter (\<lambda>(cp, age). \<not> age < seconds jobStuckThresholdSeconds) ages)"

definition deriveOperationalAlerts :: "'x env \<Rightarrow> int \<Rightarrow> (string \<times> duration) list \<Rightarrow> ('x, unit) wm" where
  "deriveOperationalAlerts env backlog ages = forE (\<lambda>a. ignoreE (onDB env (alerts_Upsert a))) (alerts_for backlog ages)"

text \<open>
  The two values the alerts are derived from; what goes to the metrics is in \<open>Metrics\<close>.  \<open>order\<close> is the
  order in which the map of ages is gone through.
\<close>

definition backlog_of :: "db \<Rightarrow> int" where
  "backlog_of d = int (sql_count (\<lambda>j. job_st j \<in> {JobQueued, JobRetryWait}) (db_jobs d))"

definition state_ages :: "db \<Rightarrow> (string \<times> duration) list" where
  "state_ages d = (let running = filter (\<lambda>j. job_st j = JobRunning \<and> job_started j \<noteq> None) (db_jobs d) in
     map (\<lambda>cp. (instance_state_str cp, db_now d - Min (set (map (the \<circ> job_started) (filter (\<lambda>j. job_checkpoint j = cp) running)))))
       (remdups (map job_checkpoint running)))"

definition refreshResourceGauges :: "'x env \<Rightarrow> ('x, int \<times> (string \<times> duration) list) wm" where
  "refreshResourceGauges env =
     tryE (onDB env (queryE [] backlog_of)) (\<lambda>b.
     tryE (onDB env (queryE [] state_ages)) (\<lambda>a.
     bindE (ignoreE (onDB env (queryE [] (\<lambda>d. ())))) (\<lambda>_.
     bindE (ignoreE (onDB env (queryE [] (\<lambda>d. ())))) (\<lambda>_.
     retE (case b of Inl _ \<Rightarrow> 0 | Inr n \<Rightarrow> n, case a of Inl _ \<Rightarrow> [] | Inr m \<Rightarrow> m)))))"

definition maintenance_tick :: "'x env \<Rightarrow> (string \<Rightarrow> bool) \<Rightarrow> ((string \<times> duration) list \<Rightarrow> (string \<times> duration) list) \<Rightarrow> ('x, unit) wm" where
  "maintenance_tick env locked order =
     bindE (ignoreE (onDB env jobs_ReclaimExpiredLeases)) (\<lambda>_.
     bindE (ignoreE (onDB env (ReleaseExpiredReservations locked))) (\<lambda>_.
     bindE (refreshResourceGauges env) (\<lambda>(backlog, ages).
     deriveOperationalAlerts env backlog (order ages))))"

section \<open>The delays\<close>

lemma seconds_15: "seconds 15 = 15000000000" "seconds 300 = 300000000000"
  by (simp_all add: seconds_def)

lemma sint_64: "sint (word_of_int z :: 64 word) = (z + 2 ^ 63) mod 2 ^ 64 - 2 ^ 63"
  by (simp add: int_word_sint)

lemma duration_product:
  assumes "k < 64"
  shows "sint (pow_duration (int k) * word_of_int c) = (2 ^ k * c + 2 ^ 63) mod 2 ^ 64 - 2 ^ 63"
proof -
  have "pow_duration (int k) = word_of_int (2 ^ k)"
  proof (cases "k < 63")
    case True
    then show ?thesis by (simp add: pow_duration_def)
  next
    case False
    with assms have "k = 63" by simp
    then show ?thesis by (simp add: pow_duration_def)
  qed
  then have "pow_duration (int k) * word_of_int c = (word_of_int (2 ^ k * c) :: 64 word)" by simp
  then show ?thesis by (simp only: sint_64)
qed

lemma backoff_table:
  "list_all (\<lambda>k. let d = (2 ^ k * 15000000000 + 2 ^ 63) mod 2 ^ 64 - 2 ^ 63 in
     (if d \<le> 0 \<or> d > 300000000000 then 300000000000 else d) = min (15000000000 * 2 ^ k) (300000000000 :: int)) [0..<64]"
  by (simp add: upt_rec Let_def)

lemma backoff_entry:
  assumes "k < 64"
  shows "(let d = sint (pow_duration (int k) * word_of_int 15000000000) in
     (if d \<le> 0 \<or> d > 300000000000 then 300000000000 else d)) = min (15000000000 * 2 ^ k) 300000000000"
proof -
  have "k \<in> set [0..<64]" using assms by simp
  from bspec[OF backoff_table[unfolded list_all_iff] this] show ?thesis unfolding Let_def duration_product[OF assms] .
qed

text \<open>
  C34.  The delay before a retry is the doubling sequence of 15 seconds up to the ceiling of 5 minutes, for every attempt, however the
  64-bit multiplication wraps; and the random part adds at most a quarter of it.
\<close>

theorem backoff_doubles_up_to_the_ceiling:
  assumes "\<And>n. 0 < n \<Longrightarrow> 0 \<le> rnd n \<and> rnd n < n"
  shows "backoff_base attempt = min (seconds 15 * 2 ^ nat (attempt - 1)) (seconds 300) \<and>
    backoff_base attempt \<le> backoffDelay rnd attempt \<and> 4 * backoffDelay rnd attempt \<le> 5 * backoff_base attempt"
proof -
  let ?k = "nat (attempt - 1)"
  have k: "(if attempt < 1 then 1 else attempt) - 1 = int ?k" by simp
  have base: "backoff_base attempt = min (seconds 15 * 2 ^ ?k) (seconds 300)"
  proof (cases "?k < 64")
    case True
    from backoff_entry[OF this] show ?thesis unfolding backoff_base_def Let_def k seconds_15 .
  next
    case False
    have "(let d = sint (pow_duration (int 63) * word_of_int 15000000000) in
        (if d \<le> 0 \<or> d > 300000000000 then 300000000000 else d)) = min (15000000000 * 2 ^ 63) (300000000000 :: int)"
      by (rule backoff_entry) simp
    moreover have "pow_duration (int ?k) = pow_duration (int 63)"
    proof -
      have "\<not> int ?k < 63" "\<not> int 63 < 63" using False by linarith+
      then show ?thesis by (simp only: pow_duration_def if_False)
    qed
    moreover have "(2::int) ^ 63 \<le> 2 ^ ?k" using False by (intro power_increasing) auto
    then have "min (15000000000 * 2 ^ ?k) (300000000000 :: int) = min (15000000000 * 2 ^ 63) 300000000000" by simp
    ultimately show ?thesis unfolding backoff_base_def Let_def k seconds_15 by (simp only:)
  qed
  have pos: "0 < backoff_base attempt" unfolding base seconds_15 by simp
  have quarter: "4 * (backoff_base attempt div 4) \<le> backoff_base attempt" "0 < backoff_base attempt div 4 + 1"
    using pos by linarith+
  have rnd: "0 \<le> rnd (backoff_base attempt div 4 + 1)" "rnd (backoff_base attempt div 4 + 1) \<le> backoff_base attempt div 4"
    using assms[OF quarter(2)] by linarith+
  have sums: "b \<le> b + r \<and> 4 * (b + r) \<le> 5 * b" if "4 * q \<le> b" "0 \<le> r" "r \<le> q" for b q r :: int
    using that by auto
  from base sums[OF quarter(1) rnd] show ?thesis unfolding backoffDelay_def Let_def by simp
qed

theorem backoff_doubles_up_to_the_ceiling_witness:
  "backoff_base 3 = seconds 60 \<and> backoff_base 3 \<le> backoffDelay (\<lambda>n. n - 1) 3 \<and> 4 * backoffDelay (\<lambda>n. n - 1) 3 \<le> 5 * backoff_base 3"
  using backoff_doubles_up_to_the_ceiling[of "\<lambda>n. n - 1" 3] by (simp add: seconds_def)

section \<open>A round leaves nothing running\<close>

text \<open>The longest way an instance has to go.\<close>

fun steps_left :: "instance_state \<Rightarrow> nat" where
  "steps_left InstanceRequested = 9"
| "steps_left InstanceReserving = 8"
| "steps_left InstanceCloning = 7"
| "steps_left InstanceConfiguring = 6"
| "steps_left InstanceNetworkBinding = 5"
| "steps_left InstanceBooting = 4"
| "steps_left InstanceWaitingGuest = 3"
| "steps_left InstanceValidatingEgress = 2"
| "steps_left InstanceApplyingWorkload = 1"
| "steps_left _ = 0"

lemma steps_left_next:
  assumes "registry_of gw w0 s = Some h" "t \<in> {next_state s, InstanceQuarantined}"
  shows "steps_left t < steps_left s"
  using assms by (cases s) auto

text \<open>No running job belongs to the worker; none but the job \<open>jid\<close> does.\<close>

definition idle :: "string \<Rightarrow> db \<Rightarrow> bool" where
  "idle wid d \<longleftrightarrow> (\<forall>(jid, iid, st, owner) \<in> set (job_keys d). \<not> (st = JobRunning \<and> owner = Some wid))"

definition busy_with :: "string \<Rightarrow> string \<Rightarrow> db \<Rightarrow> bool" where
  "busy_with wid jid d \<longleftrightarrow> (\<forall>(j, iid, st, owner) \<in> set (job_keys d). st = JobRunning \<and> owner = Some wid \<longrightarrow> j = jid)"

definition row_of :: "job \<Rightarrow> db \<Rightarrow> bool" where
  "row_of jb d \<longleftrightarrow> (\<forall>(j, iid, st, owner) \<in> set (job_keys d). j = job_id jb \<longrightarrow> iid = job_instance jb)"

lemma keys_cong: "job_keys d' = job_keys d \<Longrightarrow> idle w d' = idle w d \<and> busy_with w jid d' = busy_with w jid d \<and> row_of jb d' = row_of jb d"
  by (simp add: idle_def busy_with_def row_of_def)

lemma keys_now [simp]: "job_keys (d\<lparr>db_now := t\<rparr>) = job_keys d"
  by (simp add: job_keys_def)

lemma release_idle:
  assumes "busy_with wid jid d" "db_jobs d' = sql_update (owned jid wid) f (db_jobs d)" "\<And>j. job_owner (f j) = None"
  shows "idle wid d'"
proof -
  have "\<not> (job_st j = JobRunning \<and> job_owner j = Some wid)" if j: "j \<in> set (db_jobs d')" for j
  proof -
    from j assms(2) obtain i where i: "i \<in> set (db_jobs d)" "j = (if owned jid wid i then f i else i)"
      by (auto simp: sql_update_def)
    show ?thesis
    proof (cases "owned jid wid i")
      case True
      with i assms(3) show ?thesis by simp
    next
      case False
      with i assms(1) show ?thesis by (auto simp: busy_with_def job_keys_def owned_def)
    qed
  qed
  then show ?thesis by (auto simp: idle_def job_keys_def)
qed

lemma release_calls:
  assumes "busy_with wid jid (w_db w)" "db_faults (w_db w) = []"
  shows "idle wid (w_db (snd (onDB env (jobs_Fail jid wid code msg at) w))) \<and> db_faults (w_db (snd (onDB env (jobs_Fail jid wid code msg at) w))) = []"
    "idle wid (w_db (snd (onDB env (jobs_Complete jid wid) w))) \<and> db_faults (w_db (snd (onDB env (jobs_Complete jid wid) w))) = []"
proof -
  note defs = onDB_def jobs_Fail_def jobs_Complete_def bindE_def onErr_def update_jobs_def require_rows_def failE_def retE_def
  note idle = release_idle[OF assms(1)]
  show "idle wid (w_db (snd (onDB env (jobs_Fail jid wid code msg at) w))) \<and> db_faults (w_db (snd (onDB env (jobs_Fail jid wid code msg at) w))) = []"
    using assms(2) by (cases at) (auto simp: defs release_lease_def intro!: idle)
  show "idle wid (w_db (snd (onDB env (jobs_Complete jid wid) w))) \<and> db_faults (w_db (snd (onDB env (jobs_Complete jid wid) w))) = []"
    using assms(2) by (auto simp: defs release_lease_def intro!: idle)
qed

lemma ignoreE_run: "m w = (r, w') \<Longrightarrow> ignoreE m w = (Inr (), w')"
  by (simp add: ignoreE_def tryE_def retE_def)

lemma rollback_run:
  assumes "Rollback_Execute env gw inst jb msg w = (r, w')"
  shows "idle wid (w_db w) \<Longrightarrow> idle wid (w_db w')" "db_faults (w_db w) = [] \<Longrightarrow> db_faults (w_db w') = []"
  using keepsD[OF rollback_frames(1) assms] keys_cong[OF keepsD[OF rollback_frames(2) assms]] by simp_all

lemma alert_run:
  assumes "onDB env (alerts_Upsert a) w = (r, w')"
  shows "idle wid (w_db w) \<Longrightarrow> idle wid (w_db w')" "db_faults (w_db w) = [] \<Longrightarrow> db_faults (w_db w') = []"
proof -
  have "keeps (\<lambda>d d'. job_keys d' = job_keys d) (upsert_alert_stmt a)" "keeps calm_rel (upsert_alert_stmt a)"
    by (simp_all add: keeps_def upsert_alert_stmt_def bindE_def gen_random_uuid_def job_keys_def)
  then have "keeps (\<lambda>d d'. job_keys d' = job_keys d) (alerts_Upsert a)" "keeps calm_rel (alerts_Upsert a)"
    unfolding alerts_Upsert_def by - (intro keeps_onErr keys_stmt calm_stmt; assumption)+
  then have "job_keys (w_db w') = job_keys (w_db w)" "db_faults (w_db w) = [] \<longrightarrow> db_faults (w_db w') = []"
    using keepsD[OF keys.onDB assms] keepsD[OF calm.onDB assms] by blast+
  then show "idle wid (w_db w) \<Longrightarrow> idle wid (w_db w')" "db_faults (w_db w) = [] \<Longrightarrow> db_faults (w_db w') = []"
    using keys_cong by blast+
qed

text \<open>
  A computation that ends the work on a job: it always returns, and on a connection that works it leaves the worker
  without a running job.
\<close>

definition ends :: "'x worker \<Rightarrow> string \<Rightarrow> 'x world \<Rightarrow> ('x, unit) wm \<Rightarrow> bool" where
  "ends wk jid w m \<longleftrightarrow> (\<exists>w'. m w = (Inr (), w') \<and>
     (busy_with (wk_id wk) jid (w_db w) \<and> db_faults (w_db w) = [] \<longrightarrow> idle (wk_id wk) (w_db w') \<and> db_faults (w_db w') = []))"

lemma ends_ignore:
  assumes "busy_with (wk_id wk) jid (w_db w) \<Longrightarrow> db_faults (w_db w) = [] \<Longrightarrow>
    idle (wk_id wk) (w_db (snd (m w))) \<and> db_faults (w_db (snd (m w))) = []"
  shows "ends wk jid w (ignoreE m)"
proof -
  have "ignoreE m w = (Inr (), snd (m w))" by (simp add: ignoreE_def tryE_def retE_def split: prod.split)
  with assms show ?thesis unfolding ends_def by blast
qed

lemma ends_release:
  "ends wk jid w (ignoreE (onDB env (jobs_Fail jid (wk_id wk) code msg at)))"
  "ends wk jid w (ignoreE (onDB env (jobs_Complete jid (wk_id wk))))"
  by (intro ends_ignore release_calls; assumption)+

lemma ends_terminalFail: "ends wk (job_id jb) w (terminalFail wk jb inst code msg)"
proof -
  let ?env = "wk_env wk" and ?idle = "\<lambda>w. idle (wk_id wk) (w_db w) \<and> db_faults (w_db w) = []"
  obtain r w1 where f: "onDB ?env (jobs_Fail (job_id jb) (wk_id wk) code msg None) w = (r, w1)" by (rule prod.exhaust)
  have w1: "?idle w1" if "busy_with (wk_id wk) (job_id jb) (w_db w)" "db_faults (w_db w) = []"
    using release_calls(1)[OF that, of ?env code msg None] f by simp
  have "\<exists>w'. terminalFail wk jb inst code msg w = (Inr (), w') \<and> (?idle w1 \<longrightarrow> ?idle w')"
  proof (cases r)
    case (Inl e)
    with f show ?thesis by (simp add: terminalFail_def tryE_def retE_def)
  next
    case (Inr u)
    obtain q w2 where q: "Rollback_Execute ?env (wk_gw wk) inst jb msg w1 = (q, w2)" by (rule prod.exhaust)
    note w2 = rollback_run(1)[OF q, of "wk_id wk"] rollback_run(2)[OF q]
    show ?thesis
    proof (cases "q = Inr InstanceQuarantined")
      case False
      with f Inr q w2 show ?thesis by (auto simp: terminalFail_def tryE_def retE_def split: sum.split)
    next
      case True
      obtain p w3 where p: "onDB ?env (alerts_Upsert (rollback_alert (inst_id inst) (job_id jb) msg)) w2 = (p, w3)" by (rule prod.exhaust)
      have "ignoreE (onDB ?env (alerts_Upsert (rollback_alert (inst_id inst) (job_id jb) msg))) w2 = (Inr (), w3)"
        by (rule ignoreE_run) (rule p)
      with f Inr q True have "terminalFail wk jb inst code msg w = (Inr (), w3)"
        by (simp add: terminalFail_def tryE_def)
      with w2 alert_run(1)[OF p, of "wk_id wk"] alert_run(2)[OF p] show ?thesis by blast
    qed
  qed
  with w1 show ?thesis unfolding ends_def by blast
qed

text \<open>Reading does not change what a later computation ends.\<close>

lemma read_run:
  assumes "onDB env (scanE m (\<lambda>d. scan_row (f d) d)) w = (r, w')"
  shows "same_tables (w_db w) (w_db w')" "job_keys (w_db w') = job_keys (w_db w)" "db_faults (w_db w) = [] \<Longrightarrow> db_faults (w_db w') = []"
proof -
  from assms obtain d where d: "scanE m (\<lambda>d. scan_row (f d) d) ((w_db w)\<lparr>db_now := e_now env (w_ext w)\<rparr>) = (r, d)" "w' = w\<lparr>w_db := d\<rparr>"
    by (rule onDB_run)
  from scanE_run[OF d(1)] obtain r1 where "stmt (\<lambda>d. scan_row (f d) d) ((w_db w)\<lparr>db_now := e_now env (w_ext w)\<rparr>) = (r1, d)" by blast
  from stmt_read_cases[OF this] d(2) show s: "same_tables (w_db w) (w_db w')" using same_tables_trans[OF same_tables_now] by auto
  then show "job_keys (w_db w') = job_keys (w_db w)" by (simp add: job_keys_def same_tables_fields)
  show "db_faults (w_db w) = [] \<Longrightarrow> db_faults (w_db w') = []" using keepsD[OF calm.onDB[OF calm.read] assms] by simp
qed

lemma ends_via:
  assumes "m w = k w1" "job_keys (w_db w1) = job_keys (w_db w)" "db_faults (w_db w) = [] \<Longrightarrow> db_faults (w_db w1) = []" "ends wk jid w1 k"
  shows "ends wk jid w m"
  using assms keys_cong[OF assms(2)] unfolding ends_def by auto

lemma ends_failOrRetry: "ends wk (job_id jb) w (failOrRetry wk jb code msg)"
proof (cases "job_attempt jb < job_max_attempts jb")
  case True
  then show ?thesis
    by (intro ends_via[OF _ _ _ ends_release(1)]) (auto simp: failOrRetry_def bindE_def nowE_run)
next
  case False
  obtain r w1 where g: "onDB (wk_env wk) (instances_Get (job_instance jb)) w = (r, w1)" by (rule prod.exhaust)
  note w1 = read_run[OF g[unfolded instances_Get_def]]
  show ?thesis
  proof (cases r)
    case (Inl e)
    with False g w1 show ?thesis
      by (intro ends_via[OF _ w1(2,3) ends_release(1)]) (auto simp: failOrRetry_def tryE_def)
  next
    case (Inr inst)
    with False g w1 show ?thesis
      by (intro ends_via[OF _ w1(2,3) ends_terminalFail]) (auto simp: failOrRetry_def tryE_def)
  qed
qed

lemma find_moved:
  assumes "find_instance iid d = Some inst" "inst_id inst = iid" "db_instances d' = map (moved iid st pl now) (db_instances d)"
  shows "\<exists>i. find_instance iid d' = Some i \<and> inst_state i = st"
proof -
  have "sql_find (\<lambda>i. inst_id i = iid) (map (moved iid st pl now) rs) = map_option (moved iid st pl now) (sql_find (\<lambda>i. inst_id i = iid) rs)" for rs
    by (induction rs) (simp_all add: sql_find_def)
  with assms have "find_instance iid d' = Some (moved iid st pl now inst)" by (simp add: find_instance_def)
  with assms(2) show ?thesis by (simp add: moved_state)
qed

lemma step_keys:
  assumes "Engine_Step env (registry_of gw w0) jb w = (r, w')"
  shows "job_keys (w_db w') = job_keys (w_db w)"
  using assms
proof (cases rule: Step_cases)
  case (unwritten e)
  then show ?thesis by (simp add: chronicle_def)
next
  case (written inst h result now w1)
  then show ?thesis unfolding transitioned_def by blast
qed

text \<open>A step that went through: the state it reports, nearer to the end, and what it leaves.\<close>

lemma Step_Inr:
  assumes "Engine_Step env (registry_of gw w0) jb w = (Inr st, w')"
  obtains inst inst' where "find_instance (job_instance jb) (w_db w) = Some inst" "find_instance (job_instance jb) (w_db w') = Some inst'"
    "steps_left (inst_state inst') < steps_left (inst_state inst)" "job_keys (w_db w') = job_keys (w_db w)"
proof -
  from assms show thesis
  proof (cases rule: Step_cases)
    case (unwritten e)
    then show thesis by simp
  next
    case (written inst h result now w1)
    have id: "inst_id inst = job_instance jb"
      using written(1) by (auto simp: find_instance_def dest: sql_find_holds)
    have "tr_next result \<in> {next_state (inst_state inst), InstanceQuarantined}"
      using written(8) by (auto simp: transitioned_def split: option.splits if_splits)
    moreover obtain inst' where "find_instance (job_instance jb) (w_db w') = Some inst'" "inst_state inst' = tr_next result"
      using find_moved[OF written(1) id, of "w_db w'"] written(8) unfolding transitioned_def id by blast
    ultimately show thesis using that[OF written(1)] steps_left_next[OF written(2)] written(8) by (auto simp: transitioned_def)
  qed
qed

lemma read_found:
  assumes "onDB env (scanE m (\<lambda>d. scan_row (f d) d)) w = (Inr x, w')" "\<And>d t fs. f (d\<lparr>db_now := t, db_faults := fs\<rparr>) = f d"
  shows "f (w_db w) = Some x"
proof -
  from assms(1) obtain d where "scanE m (\<lambda>d. scan_row (f d) d) ((w_db w)\<lparr>db_now := e_now env (w_ext w)\<rparr>) = (Inr x, d)" by (rule onDB_run)
  then obtain fs where "scan_row (f ((w_db w)\<lparr>db_now := e_now env (w_ext w), db_faults := fs\<rparr>)) ((w_db w)\<lparr>db_now := e_now env (w_ext w), db_faults := fs\<rparr>) = (Inr x, d)"
    by (rule scanE_InrE)
  then show ?thesis unfolding assms(2) by (simp add: scan_row_def failE_def retE_def split: option.splits)
qed

lemma find_row:
  assumes "find_job jid d = Some j" "row_of jb d" "job_id jb = jid"
  shows "job_id j = jid" "job_instance j = job_instance jb"
  using assms by (auto simp: find_job_def row_of_def job_keys_def dest: sql_find_Some)

lemma row_refresh: "job_id j = job_id jb \<Longrightarrow> job_instance j = job_instance jb \<Longrightarrow> row_of jb d \<Longrightarrow> row_of j d"
  by (simp add: row_of_def)

lemma drive_ends:
  assumes "wk_engine wk = registry_of gw w0" "row_of jb (w_db w)" "job_id jb \<in> fst ` set (job_keys (w_db w))"
    "case find_instance (job_instance jb) (w_db w) of None \<Rightarrow> 0 < fuel | Some i \<Rightarrow> steps_left (inst_state i) < fuel"
  shows "ends wk (job_id jb) w (drive wk fuel jb)"
  using assms(2-4)
proof (induction fuel arbitrary: jb w)
  case 0
  then show ?case by (simp split: option.splits)
next
  case (Suc fuel)
  let ?env = "wk_env wk"
  obtain r w1 where g: "onDB ?env (instances_Get (job_instance jb)) w = (r, w1)" by (rule prod.exhaust)
  note w1 = read_run[OF g[unfolded instances_Get_def]]
  show ?case
  proof (cases r)
    case (Inl e)
    with g show ?thesis by (intro ends_via[OF _ w1(2,3) ends_failOrRetry]) (auto simp: tryE_def)
  next
    case (Inr inst)
    from read_instance(3)[OF g Inr] have inst: "find_instance (job_instance jb) (w_db w1) = Some inst"
      using same_find[OF w1(1)] by simp
    show ?thesis
    proof (cases "terminalState (inst_state inst)")
      case True
      with g Inr show ?thesis by (intro ends_via[OF _ w1(2,3) ends_release(2)]) (auto simp: tryE_def)
    next
      case running: False
      obtain s w2 where s: "Engine_Step ?env (registry_of gw w0) jb w1 = (s, w2)" by (rule prod.exhaust)
      have h2: "db_faults (w_db w) = [] \<Longrightarrow> db_faults (w_db w2) = []" using calm_step[OF s] w1(3) by blast
      show ?thesis
      proof (cases s)
        case (Inl e)
        have "ends wk (job_id jb) w2 (if errors_is e ErrInvalidTransition then terminalFail wk jb inst ''NO_HANDLER'' (err_text e)
            else failOrRetry wk jb ''STEP_FAILED'' (err_text e))" by (simp add: ends_terminalFail ends_failOrRetry)
        moreover have "job_keys (w_db w2) = job_keys (w_db w)" using step_keys[OF s] w1(2) by simp
        moreover have "drive wk (Suc fuel) jb w = (if errors_is e ErrInvalidTransition then terminalFail wk jb inst ''NO_HANDLER'' (err_text e)
            else failOrRetry wk jb ''STEP_FAILED'' (err_text e)) w2"
          using g \<open>r = Inr inst\<close> running s Inl assms(1) by (simp add: tryE_def)
        ultimately show ?thesis using h2 ends_via by blast
      next
        case st: (Inr st)
        from s[unfolded st] obtain i i' where i: "find_instance (job_instance jb) (w_db w1) = Some i"
          "find_instance (job_instance jb) (w_db w2) = Some i'" "steps_left (inst_state i') < steps_left (inst_state i)"
          "job_keys (w_db w2) = job_keys (w_db w1)" by (rule Step_Inr)
        obtain q w3 where q: "onDB ?env (jobs_Get (job_id jb)) w2 = (q, w3)" by (rule prod.exhaust)
        note w3 = read_run[OF q[unfolded jobs_Get_def]]
        have k: "job_keys (w_db w3) = job_keys (w_db w)" using w3(2) i(4) w1(2) by simp
        show ?thesis
        proof (cases q)
          case (Inl e)
          have "find_job (job_id jb) (w_db w2) \<noteq> None"
          proof -
            have "job_id jb \<in> fst ` set (job_keys (w_db w2))" using Suc.prems(2) i(4) w1(2) by simp
            then have "job_id jb \<in> job_id ` set (db_jobs (w_db w2))" by (simp add: job_keys_def image_image)
            then show ?thesis by (auto simp: find_job_def sql_find_None)
          qed
          then have "db_faults (w_db w2) \<noteq> []"
            using q Inl by (auto simp: onDB_def jobs_Get_def scanE_def onErr_def scan_row_def retE_def find_job_def)
          with h2 have "db_faults (w_db w) \<noteq> []" by blast
          moreover have "drive wk (Suc fuel) jb w = (Inr (), w3)"
            using g Inr running s st q Inl assms(1) by (simp add: tryE_def retE_def)
          ultimately show ?thesis by (simp add: ends_def)
        next
          case refreshed: (Inr j)
          have "find_job (job_id jb) (w_db w2) = Some j"
            using read_found[OF q[unfolded jobs_Get_def refreshed]] by (simp add: find_job_def)
          with find_row[OF this] Suc.prems(1) k w3(2) keys_cong have j: "job_id j = job_id jb" "job_instance j = job_instance jb" by metis+
          have "find_instance (job_instance j) (w_db w3) = Some i'" using i(2) same_find[OF w3(1)] j by simp
          moreover have "steps_left (inst_state i') < fuel"
            using i(1,3) inst Suc.prems(3) same_find[OF w1(1)] by simp
          moreover have "row_of j (w_db w3)" using row_refresh[OF j] Suc.prems(1) keys_cong[OF k] by blast
          moreover have "job_id j \<in> fst ` set (job_keys (w_db w3))" using Suc.prems(2) k j by simp
          ultimately have "ends wk (job_id j) w3 (drive wk fuel j)" using Suc.IH by simp
          moreover have "drive wk (Suc fuel) jb w = drive wk fuel j w3"
            using g Inr running s st q refreshed assms(1) by (simp add: tryE_def)
          ultimately show ?thesis using ends_via[OF _ k] h2 w3(3) unfolding j(1) by blast
        qed
      qed
    qed
  qed
qed

lemma processJob_ends:
  assumes "wk_engine wk = registry_of gw w0" "10 \<le> wk_max_steps wk" "row_of jb (w_db w)" "job_id jb \<in> fst ` set (job_keys (w_db w))"
  shows "ends wk (job_id jb) w (processJob wk jb)"
proof (cases "job_op jb \<noteq> JobOpProvision \<and> job_op jb \<noteq> JobOpRebuild")
  case True
  then show ?thesis by (simp add: processJob_def ends_release(1))
next
  case False
  have "steps_left s < 10" for s by (cases s) simp_all
  then have "case find_instance (job_instance jb) (w_db w) of None \<Rightarrow> 0 < wk_max_steps wk | Some i \<Rightarrow> steps_left (inst_state i) < wk_max_steps wk"
    using assms(2) by (auto split: option.split intro: less_le_trans)
  moreover have "processJob wk jb = drive wk (wk_max_steps wk) jb" using False unfolding processJob_def by (rule if_not_P)
  ultimately show ?thesis using drive_ends[OF assms(1,3,4)] by simp
qed

lemma claimed_job:
  assumes "jobs_Claim locked wid dur d = (r, d')" "jobs_inv d"
  shows "r = Inr jb \<Longrightarrow> row_of jb d' \<and> job_id jb \<in> fst ` set (job_keys d') \<and> (idle wid d \<longrightarrow> busy_with wid (job_id jb) d')"
    "db_faults d = [] \<Longrightarrow> db_faults d' = []" "\<exists>e. r = Inl e \<Longrightarrow> db_faults d = [] \<Longrightarrow> job_keys d' = job_keys d"
proof -
  show "row_of jb d' \<and> job_id jb \<in> fst ` set (job_keys d') \<and> (idle wid d \<longrightarrow> busy_with wid (job_id jb) d')" if r: "r = Inr jb"
    using assms(1)
  proof (cases rule: claim_cases)
    case (nothing e)
    with r show ?thesis by simp
  next
    case (claimed j)
    let ?f = "lease_row wid dur (db_now d)"
    have jobs: "db_jobs d' = sql_update (\<lambda>r. job_id r = job_id j) ?f (db_jobs d)" using claimed(1) by (simp add: claim_effect_def)
    have f: "job_id (?f i) = job_id i" for i by (simp add: lease_row_def)
    have found: "jb \<in> set (db_jobs d')" "job_id jb = job_id j" using claimed(2)[OF r] by (auto simp: find_job_def dest: sql_find_Some)
    have dist: "distinct (map job_id (db_jobs d'))" unfolding jobs map_key_sql_update[of job_id, OF f] using assms(2) by (simp add: jobs_inv_def)
    have "row_of jb d'" using distinct_key[OF dist _ found(1)] by (auto simp: row_of_def job_keys_def)
    moreover have "job_id jb \<in> fst ` set (job_keys d')" using found(1) by (simp add: job_keys_def image_image)
    moreover have "busy_with wid (job_id jb) d'" if "idle wid d"
      using that by (auto simp: idle_def busy_with_def job_keys_def jobs sql_update_def found(2) f split: if_splits)
    ultimately show ?thesis by blast
  qed
  show "db_faults d' = []" if "db_faults d = []"
    using jobs_Claim_healthy[OF assms(2) that, of locked wid dur] assms(1) that by (auto split: option.splits)
  show "job_keys d' = job_keys d" if "\<exists>e. r = Inl e" "db_faults d = []"
    using jobs_Claim_healthy[OF assms(2) that(2), of locked wid dur] assms(1) that by (auto split: option.splits)
qed


definition demo_wiring :: "nat wiring" where
  "demo_wiring = \<lparr>wr_env = unreachable\<lparr>e_now := (\<lambda>x. 1000)\<rparr>, wr_parse = (\<lambda>_. None), wr_sha = (\<lambda>_. ''''), wr_locked = (\<lambda>_. False),
     wr_identity = \<lparr>ip_order = (\<lambda>m. m), ip_order' = (\<lambda>m. m), ip_digest = (\<lambda>m. m), ip_mac = Some, ip_inet = Some\<rparr>,
     wr_options = \<lparr>io_timeout = 0, io_block_retired = False, io_single_nic = True, io_single_route = True\<rparr>,
     wr_segment = ''s1'', wr_ttl = seconds 900, wr_pool = ''vmf'',
     wr_defaults = \<lparr>vd_cores = 2, vd_memory = 2048, vd_bridge = ''vmbr0'', vd_ipconfig0 = ''ip=dhcp''\<rparr>, wr_policy = ''p1'', wr_deny_v6 = True\<rparr>"

definition demo_worker :: "nat worker" where
  "demo_worker = \<lparr>wk_id = ''w1'', wk_env = wr_env demo_wiring, wk_engine = wireEngine demo_wiring, wk_gw = NoopAdapter,
     wk_lease = seconds 60, wk_rnd = (\<lambda>_. 0), wk_max_steps = 10\<rparr>"


end
