(* ===== verification/Idempotency.thy ===== *)
theory Idempotency
  imports Instances Records Templates
begin

text \<open>
  Idempotent requests: the table \<open>idempotency_keys\<close> (\<open>internal/storage/idempotency.go\<close>) and \<open>RunIdempotent\<close>
  (\<open>internal/httpapi/idempotency.go\<close>), which runs the work of a request once per key and answers a repetition from the
  table.
\<close>

section \<open>The table\<close>

definition find_idem :: "string \<Rightarrow> string \<Rightarrow> db \<Rightarrow> idem_record option" where
  "find_idem scope key d = sql_find (\<lambda>r. idem_scope r = scope \<and> idem_key r = key \<and> idem_expires r > db_now d) (db_idem d)"

definition idem_Get :: "string \<Rightarrow> string \<Rightarrow> idem_record dbm" where
  "idem_Get scope key = scanE ''storage: scan idempotency record'' (\<lambda>d. scan_row (find_idem scope key d) d)"

text \<open>
  \<open>INSERT ... ON CONFLICT (scope, key) DO UPDATE SET request_hash = EXCLUDED.request_hash WHERE\<close> the hashes are equal:
  a row that is there is not changed, whether it is the same request or not.
\<close>

definition upsert_idem :: "idem_record \<Rightarrow> unit dbm" where
  "upsert_idem rec = modE (\<lambda>d. let p = (\<lambda>r. idem_scope r = idem_scope rec \<and> idem_key r = idem_key rec) in
     if \<exists>r \<in> set (db_idem d). p r
     then d\<lparr>db_idem := sql_update (\<lambda>r. p r \<and> idem_hash r = idem_hash rec) (\<lambda>r. r\<lparr>idem_hash := idem_hash rec\<rparr>) (db_idem d)\<rparr>
     else d\<lparr>db_idem := db_idem d @ [rec\<lparr>idem_created := db_now d\<rparr>]\<rparr>)"

definition idem_Store :: "idem_record \<Rightarrow> unit dbm" where
  "idem_Store rec = bindE (wrapE ''storage: store idempotency record'' (stmt (upsert_idem rec))) (\<lambda>_.
     bindE (wrapE ''storage: verify idempotency record'' (idem_Get (idem_scope rec) (idem_key rec))) (\<lambda>existing.
     if idem_hash existing \<noteq> idem_hash rec then failE ErrIdempotencyConflict else retE ()))"

section \<open>A transaction beside the pool\<close>

text \<open>
  While a handler's transaction is open, some of its repository calls go through the connection pool: they see the
  committed state, and what they write is committed at once.  The state of such a piece of work is the pair of the committed
  tables and those of the transaction; the latter carries clock, faults and generator.
\<close>

type_synonym 'a txm = "(db \<times> db, err, 'a) eff"

definition inTx :: "'a dbm \<Rightarrow> 'a txm" where
  "inTx m st = (case m (snd st) of (r, o') \<Rightarrow> (r, (fst st, o')))"

text \<open>The committed tables at the transaction's point of the schedule.\<close>

definition pool_view :: "db \<Rightarrow> db \<Rightarrow> db" where
  "pool_view p own = p\<lparr>db_now := db_now own, db_draws := db_draws own, db_faults := db_faults own\<rparr>"

definition onPool :: "'a dbm \<Rightarrow> 'a txm" where
  "onPool m st = (case m (pool_view (fst st) (snd st)) of
     (r, p') \<Rightarrow> (r, (p', (snd st)\<lparr>db_now := db_now p', db_draws := db_draws p', db_faults := db_faults p'\<rparr>)))"

text \<open>A read through the pool within a statement that is written for one state.\<close>

definition seen_from :: "db \<Rightarrow> 'a dbm \<Rightarrow> 'a dbm" where
  "seen_from p m d = (case m (pool_view p d) of
     (r, p') \<Rightarrow> (r, d\<lparr>db_now := db_now p', db_draws := db_draws p', db_faults := db_faults p'\<rparr>))"

definition readPool :: "(db \<Rightarrow> 'a dbm) \<Rightarrow> 'a txm" where
  "readPool f st = inTx (f (fst st)) st"

text \<open>
  \<open>WithTx\<close> for such work.  The only table written through the pool is that of the hostname sequences, which no
  transaction writes: the commit leaves what the pool made of it.
\<close>

definition PoolTx :: "'a txm \<Rightarrow> 'a dbm" where
  "PoolTx fn d0 = (case wrapE ''storage: begin tx'' (stmt (retE ())) d0 of
       (Inl e, d) \<Rightarrow> (Inl e, d)
     | (Inr _, d) \<Rightarrow> (case fn (d, d) of
           (Inl e, (p, own)) \<Rightarrow> (Inl e, roll_back p own)
         | (Inr x, (p, own)) \<Rightarrow> commit_tx p x (own\<lparr>db_hostnames := db_hostnames p\<rparr>)))"

section \<open>RunIdempotent\<close>

definition IdempotencyTTL :: duration where
  "IdempotencyTTL = seconds (24 * 3600)"

text \<open>
  Work yields a status, a body and the identifier of a resource.  \<open>sha\<close> is the hexadecimal SHA-256.  The body is kept
  as a document and replayed as it was kept.
\<close>

type_synonym work = "(int \<times> json \<times> string) txm"

definition new_idem :: "string \<Rightarrow> string \<Rightarrow> string \<Rightarrow> int \<times> json \<times> string \<Rightarrow> time \<Rightarrow> idem_record" where
  "new_idem scope key hash res now = (case res of (status, body, rid) \<Rightarrow>
     \<lparr>idem_scope = scope, idem_key = key, idem_hash = hash, idem_status = Some status, idem_body = Some body,
      idem_resource = (if rid = [] then None else Some rid), idem_expires = now + IdempotencyTTL, idem_created = 0\<rparr>)"

definition once :: "string \<Rightarrow> string \<Rightarrow> string \<Rightarrow> work \<Rightarrow> (int \<times> json) dbm" where
  "once scope key hash work = PoolTx (bindE work (\<lambda>res.
     bindE (inTx (getE db_now)) (\<lambda>now.
     bindE (inTx (idem_Store (new_idem scope key hash res now))) (\<lambda>_. retE (fst res, fst (snd res))))))"

definition replay :: "idem_record \<Rightarrow> int \<times> json" where
  "replay rec = (case idem_status rec of None \<Rightarrow> 200 | Some s \<Rightarrow> s, case idem_body rec of None \<Rightarrow> JNull | Some b \<Rightarrow> b)"

definition RunIdempotent :: "(string \<Rightarrow> string) \<Rightarrow> string \<Rightarrow> string \<Rightarrow> string \<Rightarrow> work \<Rightarrow> (int \<times> json \<times> bool) dbm" where
  "RunIdempotent sha scope key body work = tryE (idem_Get scope key) (\<lambda>g. case g of
       Inr existing \<Rightarrow> if idem_hash existing \<noteq> sha body then failE ErrIdempotencyConflict
         else retE (fst (replay existing), snd (replay existing), True)
     | Inl e \<Rightarrow> if errors_is e ErrNotFound
         then bindE (once scope key (sha body) work) (\<lambda>(status, reply). retE (status, reply, False))
         else failE e)"

end
