(* ===== verification/Http.thy ===== *)
theory Http
  imports Idempotency Workload
begin

text \<open>
  The HTTP layer the handlers share, \<open>internal/httpapi\<close>: cursors, requests and replies, the error envelope and what each
  error of the repositories is reported as, authentication and roles, and the check of identifiers in paths.
\<close>

section \<open>Cursors\<close>

text \<open>
  \<open>base64.RawURLEncoding\<close>: \<open>-\<close> and \<open>_\<close> for \<open>+\<close> and \<open>/\<close>, no padding.  The decoder ignores line ends and
  takes unused bits of the last character as they come.
\<close>

definition url_char :: "char \<Rightarrow> char" where
  "url_char c = (if c = CHR ''+'' then CHR ''-'' else if c = CHR 0x2F then CHR ''_'' else c)"

definition std_char :: "char \<Rightarrow> char option" where
  "std_char c = (if c = CHR ''-'' then Some CHR ''+'' else if c = CHR ''_'' then Some CHR 0x2F
     else if c = CHR ''+'' \<or> c = CHR 0x2F \<or> c = CHR ''='' then None else Some c)"

definition b64url_encode :: "string \<Rightarrow> string" where
  "b64url_encode s = map url_char (filter (\<lambda>c. c \<noteq> CHR ''='') (base64 s))"

definition b64url_decode :: "string \<Rightarrow> string option" where
  "b64url_decode s = (let t = filter (\<lambda>c. c \<noteq> CHR 0x0A \<and> c \<noteq> CHR 0x0D) s in
     case all_some (map std_char t) of None \<Rightarrow> None
     | Some u \<Rightarrow> b64_groups (u @ replicate ((4 - length u mod 4) mod 4) CHR ''=''))"

definition EncodeCursor :: "time \<Rightarrow> string \<Rightarrow> string" where
  "EncodeCursor after afterID = b64url_encode (time_text after @ ''|'' @ afterID)"

definition DecodeCursor :: "string \<Rightarrow> err + time \<times> string" where
  "DecodeCursor s = (if s = [] then Inr (zero_time, [])
     else case b64url_decode s of
         None \<Rightarrow> Inl (Errf ''invalid cursor encoding'')
       | Some raw \<Rightarrow> (case cut_at CHR ''|'' raw of
             None \<Rightarrow> Inl (Errf ''invalid cursor format'')
           | Some (after, afterID) \<Rightarrow> if afterID = [] then Inl (Errf ''invalid cursor format'')
               else (case parse_rfc3339 after of
                   None \<Rightarrow> Inl (Errf ''invalid cursor timestamp'')
                 | Some t \<Rightarrow> Inr (t, afterID))))"

section \<open>Requests and replies\<close>

text \<open>
  A request is what the handlers read of it; \<open>rq_body\<close> is \<open>None\<close> when reading it fails.  A reply carries the JSON documents
  written to it.
\<close>

record request =
  rq_authorization :: string
  rq_idem_key :: string
  rq_id :: string
  rq_query :: "string \<Rightarrow> string"
  rq_body :: "string option"
  rq_request_id :: string

record reply =
  rp_status :: int
  rp_replayed :: bool
  rp_docs :: "json list"

text \<open>
  The parameters of the layer: the JSON reader, SHA-256 in hexadecimal, the token library's verdict on a bearer token with
  its claims, and the input functions and \<open>ILIKE\<close> of the server, \<open>uuid\<close> yielding the canonical text.
\<close>

record api_env =
  ae_parse :: "string \<Rightarrow> raw_json"
  ae_sha :: "string \<Rightarrow> string"
  ae_jwt :: "string \<Rightarrow> (string \<times> json) list option"
  ae_uuid :: "string \<Rightarrow> string option"
  ae_ilike :: "string \<Rightarrow> string \<Rightarrow> bool"
  ae_cidr :: "string \<Rightarrow> string option"
  ae_inet :: "string \<Rightarrow> string option"

definition writeJSON :: "int \<Rightarrow> json \<Rightarrow> reply" where
  "writeJSON status body = \<lparr>rp_status = status, rp_replayed = False, rp_docs = [body]\<rparr>"

definition WriteError :: "request \<Rightarrow> int \<Rightarrow> string \<Rightarrow> string \<Rightarrow> reply" where
  "WriteError rq status code message = writeJSON status (JObj [(''error'', JObj [(''code'', JStr code), (''message'', JStr message),
     (''request_id'', JStr (rq_request_id rq))])])"

definition writeGetError :: "request \<Rightarrow> err \<Rightarrow> reply" where
  "writeGetError rq e = (if errors_is e ErrNotFound then WriteError rq 404 ''NOT_FOUND'' ''resource not found''
     else WriteError rq 500 ''INTERNAL'' ''internal error'')"

definition writeMutationError :: "request \<Rightarrow> err \<Rightarrow> reply" where
  "writeMutationError rq e =
     (if errors_is e ErrNotFound then WriteError rq 404 ''NOT_FOUND'' ''resource not found''
      else if errors_is e ErrIdempotencyConflict
      then WriteError rq 409 ''IDEMPOTENCY_CONFLICT'' ''Idempotency-Key already used with a different request body''
      else if errors_is e ErrInvalidTransition then WriteError rq 409 ''INVALID_TRANSITION'' (err_text e)
      else if errors_is e ErrCapacityExhausted then WriteError rq 409 ''CAPACITY_UNAVAILABLE'' ''no capacity available''
      else if errors_is e ErrAlreadyLeased \<or> errors_is e ErrLeaseLost then WriteError rq 409 ''CONFLICT'' (err_text e)
      else if errors_is e ErrVersionConflict then WriteError rq 409 ''VERSION_CONFLICT'' ''resource has changed since it was last read''
      else WriteError rq 500 ''INTERNAL'' ''internal error'')"

text \<open>The envelope of a list; \<open>next_cursor\<close> is left out when there is none.\<close>

definition listEnvelope :: "json list \<Rightarrow> (time \<times> string) option \<Rightarrow> json" where
  "listEnvelope items nxt = JObj ((''items'', JArr items) # (case nxt of None \<Rightarrow> [] | Some (t, i) \<Rightarrow> [(''next_cursor'', JStr (EncodeCursor t i))]))"

definition PageParams :: "request \<Rightarrow> err + (time \<times> string) \<times> int" where
  "PageParams rq = (case DecodeCursor (rq_query rq ''cursor'') of
       Inl e \<Rightarrow> Inl e
     | Inr c \<Rightarrow> (case page_limit (rq_query rq ''limit'') of Inl e \<Rightarrow> Inl e | Inr n \<Rightarrow> Inr (c, n)))"

text \<open>A handler runs to a reply: its errors are replies as well.\<close>

type_synonym handler_fn = "request \<Rightarrow> reply dbm"

definition replyE :: "(err \<Rightarrow> reply) \<Rightarrow> ('a \<Rightarrow> reply dbm) \<Rightarrow> 'a dbm \<Rightarrow> reply dbm" where
  "replyE onError k m = tryE m (\<lambda>r. case r of Inl e \<Rightarrow> retE (onError e) | Inr x \<Rightarrow> k x)"

text \<open>An argument of a \<open>uuid\<close> column, which the server has to accept; it then is its canonical text.\<close>

definition uuidE :: "api_env \<Rightarrow> string \<Rightarrow> (string \<Rightarrow> 'a dbm) \<Rightarrow> 'a dbm" where
  "uuidE env s k = (case ae_uuid env s of None \<Rightarrow> stmt (failE (ErrDriver ''ERROR: invalid input syntax for type uuid'')) | Some u \<Rightarrow> k u)"

section \<open>Authentication\<close>

datatype role = RoleViewer | RoleOperator | RoleAdmin | RoleService

fun role_str :: "role \<Rightarrow> string" where
  "role_str RoleViewer = ''viewer''"
| "role_str RoleOperator = ''operator''"
| "role_str RoleAdmin = ''admin''"
| "role_str RoleService = ''service''"

record principal =
  pr_subject :: string
  pr_role :: role

text \<open>A claim that is not a string reads as the empty one.\<close>

definition claim_text :: "(string \<times> json) list \<Rightarrow> string \<Rightarrow> string" where
  "claim_text claims k = (case map_of claims k of Some (JStr s) \<Rightarrow> s | _ \<Rightarrow> [])"

definition Authenticate :: "api_env \<Rightarrow> string \<Rightarrow> principal option" where
  "Authenticate env token = (case ae_jwt env token of
       None \<Rightarrow> None
     | Some claims \<Rightarrow> (let sub = claim_text claims ''sub''; r = claim_text claims ''role'' in
         if sub = [] \<or> r = [] then None
         else map_option (\<lambda>role. \<lparr>pr_subject = sub, pr_role = role\<rparr>)
           (find (\<lambda>x. role_str x = r) [RoleViewer, RoleOperator, RoleAdmin, RoleService])))"

definition cut_prefix :: "string \<Rightarrow> string \<Rightarrow> string option" where
  "cut_prefix s p = (if has_prefix p s then Some (drop (length p) s) else None)"

text \<open>What is served next gets the principal of the request.\<close>

definition AuthMiddleware :: "api_env \<Rightarrow> (principal \<Rightarrow> handler_fn) \<Rightarrow> handler_fn" where
  "AuthMiddleware env nxt rq = (case cut_prefix (rq_authorization rq) ''Bearer '' of
       None \<Rightarrow> retE (WriteError rq 401 ''AUTH_MISSING_TOKEN'' ''Authorization: Bearer <token> is required'')
     | Some token \<Rightarrow> if token = [] then retE (WriteError rq 401 ''AUTH_MISSING_TOKEN'' ''Authorization: Bearer <token> is required'')
         else (case Authenticate env token of
             None \<Rightarrow> retE (WriteError rq 401 ''AUTH_INVALID_TOKEN'' ''token invalid or expired'')
           | Some p \<Rightarrow> nxt p rq))"

definition RequireRole :: "role list \<Rightarrow> (principal \<Rightarrow> handler_fn) \<Rightarrow> principal \<Rightarrow> handler_fn" where
  "RequireRole roles nxt p rq = (if pr_role p \<in> set roles then nxt p rq
     else retE (WriteError rq 403 ''AUTH_ROLE_FORBIDDEN'' ''role does not permit this action''))"

definition is_hex_char :: "char \<Rightarrow> bool" where
  "is_hex_char c \<longleftrightarrow> is_digit c \<or> (CHR ''a'' \<le> c \<and> c \<le> CHR ''f'') \<or> (CHR ''A'' \<le> c \<and> c \<le> CHR ''F'')"

definition isCanonicalUUID :: "string \<Rightarrow> bool" where
  "isCanonicalUUID s \<longleftrightarrow> length s = 36 \<and>
     (\<forall>i \<in> set [0..<36]. if i \<in> {8, 13, 18, 23} then s ! i = CHR ''-'' else is_hex_char (s ! i))"

definition ValidateUUIDParam :: "(principal \<Rightarrow> handler_fn) \<Rightarrow> principal \<Rightarrow> handler_fn" where
  "ValidateUUIDParam nxt p rq = (if rq_id rq \<noteq> [] \<and> \<not> isCanonicalUUID (rq_id rq)
     then retE (WriteError rq 400 ''INVALID_ID'' ''id path parameter must be a valid UUID'') else nxt p rq)"

section \<open>Keys and bodies\<close>

definition RequireIdempotencyKey :: "request \<Rightarrow> (string \<Rightarrow> reply dbm) \<Rightarrow> reply dbm" where
  "RequireIdempotencyKey rq k = (let key = rq_idem_key rq in
     if length key < 8 \<or> length key > 128
     then retE (WriteError rq 400 ''INVALID_IDEMPOTENCY_KEY'' ''Idempotency-Key header must be 8-128 characters'') else k key)"

definition readBody :: "request \<Rightarrow> (string \<Rightarrow> reply dbm) \<Rightarrow> reply dbm" where
  "readBody rq k = (case rq_body rq of
       None \<Rightarrow> retE (WriteError rq 400 ''INVALID_BODY'' ''failed to read request body'') | Some body \<Rightarrow> k body)"

definition decodeBody :: "api_env \<Rightarrow> request \<Rightarrow> (string \<Rightarrow> json \<Rightarrow> 'r \<times> bool \<Rightarrow> 'r \<times> bool) \<Rightarrow> 'r \<Rightarrow> string \<Rightarrow> ('r \<Rightarrow> reply dbm) \<Rightarrow> reply dbm" where
  "decodeBody env rq step z body k = (case unmarshal_with step (ae_parse env body) z of
     (r, ok) \<Rightarrow> if \<not> ok then retE (WriteError rq 400 ''INVALID_JSON'' ''request body is not valid JSON'') else k r)"

definition reason_step :: "string \<Rightarrow> json \<Rightarrow> string \<times> bool \<Rightarrow> string \<times> bool" where
  "reason_step k v st = (if jkey k ''reason'' then set_str v (\<lambda>s r. s) st else st)"

definition readReasonRequest :: "api_env \<Rightarrow> request \<Rightarrow> (string \<Rightarrow> string \<Rightarrow> reply dbm) \<Rightarrow> reply dbm" where
  "readReasonRequest env rq k = readBody rq (\<lambda>body. decodeBody env rq reason_step [] body (\<lambda>reason.
     if length reason < 3 \<or> length reason > 1000
     then retE (WriteError rq 400 ''INVALID_REASON'' ''reason must be 3-1000 characters'') else k reason body))"

text \<open>The end of every idempotent handler.\<close>

definition respond :: "api_env \<Rightarrow> request \<Rightarrow> string \<Rightarrow> string \<Rightarrow> string \<Rightarrow> work \<Rightarrow> reply dbm" where
  "respond env rq scope key body work = replyE (writeMutationError rq)
     (\<lambda>(status, doc, replayed). retE ((writeJSON status doc)\<lparr>rp_replayed := replayed\<rparr>))
     (RunIdempotent (ae_sha env) scope key body work)"

end
