(* ===== verification/Floats.thy ===== *)
theory Floats
  imports Golib
begin

text \<open>
  The numbers of the API that are no integers (a utilization, an age in seconds): binary floating point, written in the
  shortest decimal text that reads back to it, as \<open>encoding/json\<close> writes a \<open>float64\<close>.
\<close>

section \<open>Floating point\<close>

text \<open>
  A positive rational \<open>p / q\<close> rounded to a \<open>float64\<close> \<open>m * 2 ^ e\<close>, ties to even (in the range of normal numbers),
  and its shortest decimal text as \<open>encoding/json\<close> writes it.
\<close>

fun bit_length :: "nat \<Rightarrow> nat" where
  "bit_length n = (if n = 0 then 0 else Suc (bit_length (n div 2)))"

declare bit_length.simps [simp del]

definition half_even :: "nat \<Rightarrow> nat \<Rightarrow> nat" where
  "half_even p q = (let d = p div q; r = p mod q in
     if 2 * r < q then d else if 2 * r > q then d + 1 else if even d then d else d + 1)"

definition scaled :: "nat \<Rightarrow> nat \<Rightarrow> int \<Rightarrow> nat \<times> nat" where
  "scaled p q e = (if e \<ge> 0 then (p, q * 2 ^ nat e) else (p * 2 ^ nat (- e), q))"

definition float64 :: "nat \<Rightarrow> nat \<Rightarrow> nat \<times> int" where
  "float64 p q = (let e0 = int (bit_length p) - int (bit_length q) - 53;
     e = (case scaled p q e0 of (a, b) \<Rightarrow> if a div b \<ge> 2 ^ 53 then e0 + 1 else e0) in
     case scaled p q e of (a, b) \<Rightarrow> (half_even a b, e))"

text \<open>The numerator and denominator of \<open>m * 2 ^ e\<close>.\<close>

definition as_ratio :: "nat \<Rightarrow> int \<Rightarrow> nat \<times> nat" where
  "as_ratio m e = (if e \<ge> 0 then (m * 2 ^ nat e, 1) else (m, 2 ^ nat (- e)))"

text \<open>\<open>c * 10 ^ x\<close> lies in the interval of the numbers that round to \<open>m * 2 ^ e\<close>.\<close>

definition reads_back :: "nat \<Rightarrow> int \<Rightarrow> nat \<Rightarrow> int \<Rightarrow> bool" where
  "reads_back m e c x = (let (n, d) = as_ratio (4 * m) (e - 2); (n1, d1) = as_ratio (4 * m + 2) (e - 2);
       (n0, d0) = as_ratio (if m = 2 ^ 52 then 4 * m - 1 else 4 * m - 2) (e - 2);
       (a, b) = (if x \<ge> 0 then (c * 10 ^ nat x, 1) else (c, 10 ^ nat (- x))) in
     if even m then n0 * b \<le> a * d0 \<and> a * d1 \<le> n1 * b else n0 * b < a * d0 \<and> a * d1 < n1 * b)"

text \<open>
  With \<open>n\<close> digits of the decimal exponent \<open>k\<close>: the nearest of the two candidates that reads back.
\<close>

definition decimal_with :: "nat \<Rightarrow> int \<Rightarrow> int \<Rightarrow> nat \<Rightarrow> (nat \<times> int) option" where
  "decimal_with m e k n = (let x = k - int n; (p, q) = as_ratio m e;
       (a, b) = (if x \<ge> 0 then (p, q * 10 ^ nat x) else (p * 10 ^ nat (- x), q)); c = a div b;
       lo = reads_back m e c x; hi = reads_back m e (c + 1) x in
     if lo \<and> hi then Some (half_even a b, x) else if lo then Some (c, x) else if hi then Some (c + 1, x) else None)"

fun first_some :: "('a \<Rightarrow> 'b option) \<Rightarrow> 'a list \<Rightarrow> 'b option" where
  "first_some f [] = None"
| "first_some f (x # xs) = (case f x of None \<Rightarrow> first_some f xs | Some y \<Rightarrow> Some y)"

text \<open>The \<open>k\<close> with \<open>10 ^ (k - 1) \<le> p / q < 10 ^ k\<close>.\<close>

definition decimal_exponent :: "nat \<Rightarrow> nat \<Rightarrow> int" where
  "decimal_exponent p q = (if p \<ge> q then int (length (digits_of (p div q)))
     else 1 - int (length (digits_of ((q - 1) div p))))"

definition shortest :: "nat \<Rightarrow> int \<Rightarrow> nat \<times> int" where
  "shortest m e = (case as_ratio m e of (p, q) \<Rightarrow>
     case first_some (decimal_with m e (decimal_exponent p q)) (map Suc [0..<17]) of None \<Rightarrow> (0, 0) | Some v \<Rightarrow> v)"

text \<open>
  Plain digits from \<open>1e-6\<close> up to \<open>1e21\<close>, an exponent without leading zeros outside.
\<close>

definition float_text :: "nat \<times> int \<Rightarrow> string" where
  "float_text f = (case shortest (fst f) (snd f) of (c, x) \<Rightarrow>
     let ds = trim_zeros (digits_of c); k = int (length (digits_of c)) + x; n = length ds in
     if k < -5 \<or> k > 21
     then take 1 ds @ (if n > 1 then ''.'' @ drop 1 ds else []) @ ''e'' @ (if k - 1 \<ge> 0 then ''+'' else []) @ itoa (k - 1)
     else if k \<le> 0 then ''0.'' @ replicate (nat (- k)) CHR ''0'' @ ds
     else if int n \<le> k then ds @ replicate (nat k - n) CHR ''0''
     else take (nat k) ds @ ''.'' @ drop (nat k) ds)"

definition ratio_json :: "nat \<Rightarrow> nat \<Rightarrow> json" where
  "ratio_json p q = (if p = 0 then JNum 0 else JDec (float_text (float64 p q)))"

text \<open>
  \<open>Duration.Seconds\<close>: the whole seconds and the rest divided by \<open>1e9\<close>, added as floating-point numbers.
\<close>

definition seconds_json :: "duration \<Rightarrow> json" where
  "seconds_json d = (let a = nat \<bar>d\<bar>; s = a div 1000000000; ns = a mod 1000000000 in
     if a = 0 then JNum 0
     else (let (p, q) = (if ns = 0 then (0, 1) else (case float64 ns 1000000000 of (m, e) \<Rightarrow> as_ratio m e));
         t = float_text (float64 (s * q + p) q) in
       JDec (if d < 0 then CHR ''-'' # t else t)))"

end
