(* ===== verification/ApiReads.thy ===== *)
theory ApiReads
  imports Http Floats
begin

text \<open>
  The \<open>GET\<close> handlers of \<open>internal/httpapi\<close>: the JSON each row is shown as, the listings with their filters and
  cursors, the egress bindings derived from checkpoints (\<open>internal/storage/egress_bindings.go\<close>), the export of the audit log
  and the health checks.  A time is written as \<open>time_text\<close>, which \<open>Time.MarshalJSON\<close> does for the years 0 to 9999.
\<close>

section \<open>Lists of replies\<close>

primrec mapE :: "('a \<Rightarrow> ('s, 'e, 'b) eff) \<Rightarrow> 'a list \<Rightarrow> ('s, 'e, 'b list) eff" where
  "mapE f [] = retE []"
| "mapE f (x # xs) = bindE (f x) (\<lambda>y. bindE (mapE f xs) (\<lambda>ys. retE (y # ys)))"

text \<open>A filter value the server's input function refuses: the column is a UUID or an enumeration.\<close>

definition castE :: "bool \<Rightarrow> 'a dbm \<Rightarrow> 'a dbm" where
  "castE ok k = (if ok then k else stmt (failE (ErrDriver ''ERROR: invalid input value'')))"

definition optional_uuid :: "api_env \<Rightarrow> string \<Rightarrow> (string \<Rightarrow> 'a dbm) \<Rightarrow> 'a dbm" where
  "optional_uuid env s k = (if s = [] then k [] else uuidE env s k)"

text \<open>
  The shape of the handlers with a cursor: the page parameters, the repository asked for one row more than the page, and the
  envelope of the page.
\<close>

definition list_page :: "api_env \<Rightarrow> request \<Rightarrow> string \<Rightarrow> (time \<Rightarrow> string \<Rightarrow> nat \<Rightarrow> 'r list dbm) \<Rightarrow>
    ('r \<Rightarrow> time) \<Rightarrow> ('r \<Rightarrow> string) \<Rightarrow> ('r \<Rightarrow> json dbm) \<Rightarrow> reply dbm" where
  "list_page env rq what lst created ident item = (case PageParams rq of
       Inl e \<Rightarrow> retE (WriteError rq 400 ''INVALID_PAGE_PARAMS'' (err_text e))
     | Inr (c, n) \<Rightarrow> replyE (\<lambda>_. WriteError rq 500 ''INTERNAL'' (''failed to list '' @ what))
         (\<lambda>items. case Paginate items (nat n) created ident of (page, nxt) \<Rightarrow>
            bindE (mapE item page) (\<lambda>resp. retE (writeJSON 200 (listEnvelope resp nxt))))
         (optional_uuid env (snd c) (\<lambda>i. lst (fst c) i (nat n + 1))))"

section \<open>Optional fields\<close>

definition jopt :: "('a \<Rightarrow> json) \<Rightarrow> 'a option \<Rightarrow> json" where
  "jopt f v = (case v of None \<Rightarrow> JNull | Some x \<Rightarrow> f x)"

text \<open>With \<open>omitempty\<close>.\<close>

definition omit_opt :: "string \<Rightarrow> ('a \<Rightarrow> json) \<Rightarrow> 'a option \<Rightarrow> (string \<times> json) list" where
  "omit_opt k f v = (case v of None \<Rightarrow> [] | Some x \<Rightarrow> [(k, f x)])"

definition omit_text :: "string \<Rightarrow> string \<Rightarrow> (string \<times> json) list" where
  "omit_text k s = (if s = [] then [] else [(k, JStr s)])"

abbreviation jtime :: "time \<Rightarrow> json" where
  "jtime t \<equiv> JStr (time_text t)"

text \<open>Struct fields of the type \<open>json.RawMessage\<close> and \<open>*string\<close>: any value, and a string or \<open>null\<close>.\<close>

definition set_raw :: "json \<Rightarrow> (raw_json \<Rightarrow> 'r \<Rightarrow> 'r) \<Rightarrow> 'r \<times> bool \<Rightarrow> 'r \<times> bool" where
  "set_raw v upd st = (upd (Some v) (fst st), snd st)"

definition set_opt :: "json \<Rightarrow> (string option \<Rightarrow> 'r \<Rightarrow> 'r) \<Rightarrow> 'r \<times> bool \<Rightarrow> 'r \<times> bool" where
  "set_opt v upd st = (case v of JStr s \<Rightarrow> (upd (Some s) (fst st), snd st) | JNull \<Rightarrow> (upd None (fst st), snd st) | _ \<Rightarrow> (fst st, False))"

section \<open>Instances\<close>

record capabilities =
  can_retry :: bool
  can_rebuild :: bool
  can_quarantine :: bool
  can_decommission :: bool

definition capabilitiesForState :: "instance_state \<Rightarrow> capabilities" where
  "capabilitiesForState st =
     (if st \<in> {InstanceRetired, InstanceDraining, InstanceDecommissioning, InstanceReleasingResources}
      then \<lparr>can_retry = False, can_rebuild = False, can_quarantine = False, can_decommission = False\<rparr>
      else if st = InstanceReady
      then \<lparr>can_retry = False, can_rebuild = True, can_quarantine = True, can_decommission = True\<rparr>
      else if st = InstanceQuarantined
      then \<lparr>can_retry = True, can_rebuild = True, can_quarantine = False, can_decommission = True\<rparr>
      else \<lparr>can_retry = True, can_rebuild = True, can_quarantine = True, can_decommission = True\<rparr>)"

record desired_config =
  dc_segment :: string
  dc_policy :: string
  dc_requested_ip :: "string option"
  dc_resources :: raw_json

definition empty_config :: desired_config where
  "empty_config = \<lparr>dc_segment = [], dc_policy = [], dc_requested_ip = None, dc_resources = None\<rparr>"

definition config_step :: "string \<Rightarrow> json \<Rightarrow> desired_config \<times> bool \<Rightarrow> desired_config \<times> bool" where
  "config_step k v st =
     (if jkey k ''network_segment_id'' then set_str v (\<lambda>s c. c\<lparr>dc_segment := s\<rparr>) st
      else if jkey k ''egress_policy_id'' then set_str v (\<lambda>s c. c\<lparr>dc_policy := s\<rparr>) st
      else if jkey k ''requested_ip'' then set_opt v (\<lambda>s c. c\<lparr>dc_requested_ip := s\<rparr>) st
      else if jkey k ''resources'' then set_raw v (\<lambda>r c. c\<lparr>dc_resources := r\<rparr>) st else st)"

definition read_config :: "raw_json \<Rightarrow> desired_config \<times> bool" where
  "read_config raw = unmarshal_with config_step raw empty_config"

definition config_json :: "desired_config \<Rightarrow> json" where
  "config_json c = JObj ([(''network_segment_id'', JStr (dc_segment c)), (''egress_policy_id'', JStr (dc_policy c))]
     @ omit_opt ''requested_ip'' JStr (dc_requested_ip c) @ omit_opt ''resources'' id (dc_resources c))"

definition capabilities_json :: "capabilities \<Rightarrow> json" where
  "capabilities_json c = JObj [(''retry'', JBool (can_retry c)), (''rebuild'', JBool (can_rebuild c)),
     (''quarantine'', JBool (can_quarantine c)), (''decommission'', JBool (can_decommission c))]"

definition shown_segment :: "raw_json \<Rightarrow> string option" where
  "shown_segment raw = (case read_config raw of (c, ok) \<Rightarrow> if ok \<and> dc_segment c \<noteq> [] then Some (dc_segment c) else None)"

definition toInstanceResponse :: "vm_instance \<Rightarrow> string option \<Rightarrow> string option \<Rightarrow> json" where
  "toInstanceResponse i ip jobID = JObj [
     (''id'', JStr (inst_id i)), (''logical_name'', JStr (inst_logical_name i)), (''hostname'', JStr (inst_hostname i)),
     (''state'', JStr (instance_state_str (inst_state i))), (''generation'', JNum (inst_generation i)),
     (''template_id'', JStr (inst_template i)), (''pve_cluster_id'', jopt JStr (inst_cluster i)),
     (''pve_node'', jopt JStr (inst_node i)), (''vmid'', jopt JNum (inst_vmid i)), (''ip_address'', jopt JStr ip),
     (''network_segment_id'', jopt JStr (shown_segment (inst_config i))), (''egress_binding'', JNull),
     (''desired_config_hash'', jopt JStr (inst_config_hash i)), (''workload_adapter'', jopt JStr (inst_workload_adapter i)),
     (''current_job_id'', jopt JStr jobID), (''version'', JNum (inst_version i)), (''created_at'', jtime (inst_created i)),
     (''updated_at'', jtime (inst_updated i)), (''retired_at'', jopt jtime (inst_retired i)),
     (''capabilities'', capabilities_json (capabilitiesForState (inst_state i)))]"

definition enrich :: "vm_instance \<Rightarrow> json dbm" where
  "enrich i = tryE (ipam_FindByInstance (inst_id i)) (\<lambda>a. tryE (instances_FindCurrentJobID (inst_id i)) (\<lambda>j.
     retE (toInstanceResponse i (case a of Inl _ \<Rightarrow> None | Inr al \<Rightarrow> Some (ipa_address al))
       (case j of Inl _ \<Rightarrow> None | Inr jid \<Rightarrow> Some jid))))"

definition instances_handle_List :: "api_env \<Rightarrow> handler_fn" where
  "instances_handle_List env rq = list_page env rq ''instances'' instances_List inst_created inst_id enrich"

definition instances_handle_Get :: "api_env \<Rightarrow> handler_fn" where
  "instances_handle_Get env rq = replyE (writeGetError rq) (\<lambda>i. bindE (enrich i) (\<lambda>doc. retE (writeJSON 200 doc)))
     (uuidE env (rq_id rq) instances_Get)"

section \<open>Validation runs\<close>

definition toValidationRunResponse :: "validation_run \<Rightarrow> json" where
  "toValidationRunResponse v = JObj ([
     (''id'', JStr (run_id v)), (''instance_id'', JStr (run_instance v)), (''job_id'', jopt JStr (run_job v)),
     (''type'', JStr (run_type v)), (''result'', JStr (validation_result_str (run_result v))),
     (''ruleset_version'', JStr (run_ruleset v))] @ omit_opt ''evidence'' id (run_evidence v) @
     [(''started_at'', jtime (run_started v)), (''finished_at'', jopt jtime (run_finished v))])"

definition Evidence :: "api_env \<Rightarrow> handler_fn" where
  "Evidence env rq = replyE (writeGetError rq)
     (\<lambda>_. replyE (\<lambda>_. WriteError rq 500 ''INTERNAL'' ''failed to load evidence'')
        (\<lambda>runs. retE (writeJSON 200 (listEnvelope (map toValidationRunResponse runs) None)))
        (uuidE env (rq_id rq) runs_LatestPerType))
     (uuidE env (rq_id rq) instances_Get)"

definition validations_handle_List :: "api_env \<Rightarrow> handler_fn" where
  "validations_handle_List env rq = list_page env rq ''validation runs''
     (\<lambda>t i n. optional_uuid env (rq_query rq ''instance_id'') (\<lambda>iid.
        castE (rq_query rq ''result'' \<in> {[], ''PASS'', ''WARN'', ''FAIL'', ''UNKNOWN''})
          (runs_List \<lparr>rf_instance = iid, rf_result = rq_query rq ''result'', rf_type = rq_query rq ''type''\<rparr> t i n)))
     run_started run_id (\<lambda>v. retE (toValidationRunResponse v))"

section \<open>Jobs\<close>

definition toJobResponse :: "job \<Rightarrow> json" where
  "toJobResponse j = JObj ([
     (''id'', JStr (job_id j)), (''instance_id'', JStr (job_instance j)), (''operation'', JStr (job_operation_str (job_op j))),
     (''state'', JStr (job_state_str (job_st j))), (''checkpoint'', JStr (instance_state_str (job_checkpoint j)))]
     @ omit_opt ''checkpoint_data'' id (job_data j) @
     [(''priority'', JNum (job_priority j)), (''attempt'', JNum (job_attempt j)), (''max_attempts'', JNum (job_max_attempts j)),
     (''next_attempt_at'', jtime (job_next_attempt j)), (''lease_owner'', jopt JStr (job_owner j)),
     (''lease_expires_at'', jopt jtime (job_lease_until j)), (''error_code'', jopt JStr (job_error_code j)),
     (''error_message'', jopt JStr (job_error_message j)), (''created_at'', jtime (job_created j)),
     (''started_at'', jopt jtime (job_started j)), (''finished_at'', jopt jtime (job_finished j))])"

text \<open>The states an event leads from and to, when its metadata has them.\<close>

definition from_to_step :: "string \<Rightarrow> json \<Rightarrow> (string \<times> string) \<times> bool \<Rightarrow> (string \<times> string) \<times> bool" where
  "from_to_step k v st = (if jkey k ''from'' then set_str v (\<lambda>s r. (s, snd r)) st
     else if jkey k ''to'' then set_str v (\<lambda>s r. (fst r, s)) st else st)"

definition nonempty :: "string \<Rightarrow> string option" where
  "nonempty s = (if s = [] then None else Some s)"

definition from_to :: "raw_json \<Rightarrow> string option \<times> string option" where
  "from_to md = (case unmarshal_with from_to_step md ([], []) of
     ((f, t), ok) \<Rightarrow> if ok then (nonempty f, nonempty t) else (None, None))"

definition toJobEventResponse :: "audit_event \<Rightarrow> string \<Rightarrow> json" where
  "toJobEventResponse e jobID = JObj ([
     (''event_id'', JStr (aud_id e)), (''type'', JStr (aud_action e)), (''instance_id'', JStr (aud_rid e)),
     (''job_id'', JStr jobID), (''from'', jopt JStr (fst (from_to (aud_metadata e)))),
     (''to'', jopt JStr (snd (from_to (aud_metadata e)))), (''correlation_id'', jopt JStr (aud_correlation e)),
     (''occurred_at'', jtime (aud_at e))] @ omit_opt ''metadata'' id (aud_metadata e))"

definition jobs_handle_List :: "api_env \<Rightarrow> handler_fn" where
  "jobs_handle_List env rq = list_page env rq ''jobs''
     (\<lambda>t i n. castE (rq_query rq ''state'' \<in> {[], ''QUEUED'', ''RUNNING'', ''RETRY_WAIT'', ''SUCCEEDED'', ''FAILED'', ''CANCELLED''} \<and>
        rq_query rq ''operation'' \<in> {[], ''PROVISION'', ''RETRY'', ''REBUILD'', ''QUARANTINE'', ''DECOMMISSION'', ''RECONCILE''})
        (optional_uuid env (rq_query rq ''instance_id'') (\<lambda>iid. jobs_List (ae_ilike env)
          \<lparr>jf_state = rq_query rq ''state'', jf_operation = rq_query rq ''operation'', jf_instance = iid,
           jf_q = rq_query rq ''q''\<rparr> t i n)))
     job_created job_id (\<lambda>j. retE (toJobResponse j))"

definition jobs_handle_Get :: "api_env \<Rightarrow> handler_fn" where
  "jobs_handle_Get env rq = replyE (writeGetError rq) (\<lambda>j. retE (writeJSON 200 (toJobResponse j))) (uuidE env (rq_id rq) jobs_Get)"

definition Events :: "api_env \<Rightarrow> handler_fn" where
  "Events env rq = replyE (writeGetError rq)
     (\<lambda>j. list_page env rq ''job events'' (audit_ListByResource ''vm_instance'' (job_instance j)) aud_at aud_id
        (\<lambda>e. retE (toJobEventResponse e (rq_id rq))))
     (uuidE env (rq_id rq) jobs_Get)"

section \<open>Templates\<close>

definition toTemplateResponse :: "template \<Rightarrow> json" where
  "toTemplateResponse t = JObj ([
     (''id'', JStr (tpl_id t)), (''name'', JStr (tpl_name t)), (''family'', JStr (tpl_family t)), (''version'', JStr (tpl_version t)),
     (''os_family'', JStr (tpl_os_family t)), (''os_version'', JStr (tpl_os_version t)), (''architecture'', JStr (tpl_arch t)),
     (''pve_cluster_id'', JStr (tpl_cluster t)), (''pve_node'', JStr (tpl_node t)), (''pve_template_vmid'', JNum (tpl_vmid t)),
     (''storage'', jopt JStr (nonempty (tpl_storage t))), (''source_checksum'', JStr (tpl_checksum t))]
     @ omit_opt ''build_manifest'' id (tpl_manifest t) @
     [(''state'', JStr (template_state_str (tpl_state t))), (''validation_status'', JStr (validation_result_str (tpl_validation t))),
     (''created_at'', jtime (tpl_created t)), (''updated_at'', jtime (tpl_updated t))])"

definition templates_handle_List :: "api_env \<Rightarrow> handler_fn" where
  "templates_handle_List env rq = list_page env rq ''templates'' (templates_List (rq_query rq ''family''))
     tpl_created tpl_id (\<lambda>t. retE (toTemplateResponse t))"

definition templates_handle_Get :: "api_env \<Rightarrow> handler_fn" where
  "templates_handle_Get env rq = replyE (writeGetError rq) (\<lambda>t. retE (writeJSON 200 (toTemplateResponse t)))
     (uuidE env (rq_id rq) templates_Get)"

section \<open>Segments and pools\<close>

definition capacity_json :: "segment_capacity \<Rightarrow> json" where
  "capacity_json c = JObj [(''total'', JNum (int (cap_total c))), (''free'', JNum (int (cap_free c))),
     (''reserved'', JNum (int (cap_reserved c))), (''assigned'', JNum (int (cap_assigned c))),
     (''quarantined'', JNum (int (cap_quarantined c)))]"

definition toSegmentResponse :: "segment \<Rightarrow> segment_capacity \<Rightarrow> json" where
  "toSegmentResponse s c = JObj ([
     (''id'', JStr (seg_id s)), (''name'', JStr (seg_name s)), (''cidr'', JStr (seg_cidr s)), (''gateway'', JStr (seg_gateway s)),
     (''bridge'', JStr (seg_bridge s))] @ (if seg_dns s = [] then [] else [(''dns_servers'', JArr (map JStr (seg_dns s)))]) @
     [(''ipv6_policy'', JStr (seg_ipv6_policy s)), (''allocation_strategy'', JStr (seg_strategy s)),
     (''state'', JStr (seg_state s)), (''capacity'', capacity_json c)])"

text \<open>The segments of a state, each with its capacity; an error of either query ends the request.\<close>

definition segments_with_capacity :: "request \<Rightarrow> string \<Rightarrow> (segment \<Rightarrow> bool) \<Rightarrow> (segment \<Rightarrow> segment_capacity \<Rightarrow> json) \<Rightarrow> reply dbm" where
  "segments_with_capacity rq st p show_it = replyE (\<lambda>_. WriteError rq 500 ''INTERNAL'' ''failed to list network segments'')
     (\<lambda>segs. replyE (\<lambda>_. WriteError rq 500 ''INTERNAL'' ''failed to compute segment capacity'')
        (\<lambda>resp. retE (writeJSON 200 (listEnvelope resp None)))
        (mapE (\<lambda>s. bindE (segments_Capacity (seg_id s)) (\<lambda>c. retE (show_it s c))) (filter p segs)))
     (segments_List st)"

definition segments_handle_List :: handler_fn where
  "segments_handle_List rq = segments_with_capacity rq [] (\<lambda>_. True) toSegmentResponse"

definition ipPoolWarningThreshold :: json where
  "ipPoolWarningThreshold = JDec ''0.85''"

definition toIPPoolResponse :: "segment \<Rightarrow> segment_capacity \<Rightarrow> json" where
  "toIPPoolResponse s c = JObj [
     (''segment_id'', JStr (seg_id s)), (''segment_name'', JStr (seg_name s)), (''cidr'', JStr (seg_cidr s)), (''state'', JStr (seg_state s)),
     (''total'', JNum (int (cap_total c))), (''available'', JNum (int (cap_free c))), (''reserved'', JNum (int (cap_reserved c))),
     (''assigned'', JNum (int (cap_assigned c))), (''quarantined'', JNum (int (cap_quarantined c))),
     (''utilization_ratio'', if cap_total c > 0 then ratio_json (cap_assigned c + cap_reserved c) (cap_total c) else JNum 0),
     (''warning_threshold'', ipPoolWarningThreshold)]"

definition ip_pools_handle_List :: handler_fn where
  "ip_pools_handle_List rq = segments_with_capacity rq (rq_query rq ''state'')
     (\<lambda>s. rq_query rq ''segment_id'' = [] \<or> seg_id s = rq_query rq ''segment_id'') toIPPoolResponse"

section \<open>Findings\<close>

fun finding_severity_str :: "finding_severity \<Rightarrow> string" where
  "finding_severity_str FindingInfo = ''info''"
| "finding_severity_str FindingWarning = ''warning''"
| "finding_severity_str FindingCritical = ''critical''"

fun finding_state_str :: "finding_state \<Rightarrow> string" where
  "finding_state_str FindingOpen = ''OPEN''"
| "finding_state_str FindingAcknowledged = ''ACKNOWLEDGED''"
| "finding_state_str FindingRemediating = ''REMEDIATING''"
| "finding_state_str FindingResolved = ''RESOLVED''"

definition toFindingResponse :: "finding \<Rightarrow> json" where
  "toFindingResponse f = JObj ([
     (''id'', JStr (fnd_id f)), (''category'', JStr (fnd_category f)), (''severity'', JStr (finding_severity_str (fnd_severity f))),
     (''resource_type'', jopt JStr (fnd_rtype f)), (''resource_id'', jopt JStr (fnd_rid f)), (''summary'', JStr (fnd_summary f))]
     @ omit_opt ''details'' id (fnd_details f) @
     [(''state'', JStr (finding_state_str (fnd_state f))), (''detected_at'', jtime (fnd_detected f))])"

definition findings_handle_List :: handler_fn where
  "findings_handle_List rq = (let q = rq_query rq ''state'';
       st = find (\<lambda>s. finding_state_str s = q) [FindingOpen, FindingAcknowledged, FindingRemediating, FindingResolved] in
     replyE (\<lambda>_. WriteError rq 500 ''INTERNAL'' ''failed to list findings'')
       (\<lambda>fs. retE (writeJSON 200 (listEnvelope (map toFindingResponse fs) None)))
       (castE (q = [] \<or> st \<noteq> None) (findings_List (if q = [] then None else st))))"

section \<open>Alerts\<close>

definition toAlertResponse :: "alert \<Rightarrow> json" where
  "toAlertResponse a = JObj ([
     (''id'', JStr (alr_id a)), (''status'', JStr (alert_status_str (alr_status a))), (''severity'', JStr (alr_severity a)),
     (''resource_type'', JStr (alr_rtype a)), (''resource_id'', JStr (alr_rid a)), (''title'', JStr (alr_title a))]
     @ omit_text ''description'' (alr_description a) @
     [(''created_at'', jtime (alr_created a)), (''updated_at'', jtime (alr_updated a))]
     @ omit_opt ''acknowledged_at'' jtime (alr_ack_at a) @ omit_opt ''acknowledged_by'' JStr (alr_ack_by a)
     @ omit_opt ''acknowledged_note'' JStr (alr_ack_note a) @ [(''version'', JNum (alr_version a))])"

definition alerts_handle_List :: "api_env \<Rightarrow> handler_fn" where
  "alerts_handle_List env rq = list_page env rq ''alerts''
     (alerts_List \<lparr>af_status = rq_query rq ''status'', af_severity = rq_query rq ''severity'', af_rtype = rq_query rq ''resource_type''\<rparr>)
     alr_created alr_id (\<lambda>a. retE (toAlertResponse a))"

section \<open>Audit events\<close>

definition toAuditEventResponse :: "audit_event \<Rightarrow> json" where
  "toAuditEventResponse e = JObj ([
     (''id'', JStr (aud_id e)), (''occurred_at'', jtime (aud_at e)), (''actor_type'', JStr (aud_actor_type e)),
     (''actor_id'', JStr (aud_actor e)), (''action'', JStr (aud_action e)), (''resource_type'', JStr (aud_rtype e)),
     (''resource_id'', JStr (aud_rid e))]
     @ omit_opt ''request_id'' JStr (aud_request e) @ omit_opt ''correlation_id'' JStr (aud_correlation e)
     @ omit_opt ''before'' id (aud_before e) @ omit_opt ''after'' id (aud_after e) @ omit_opt ''metadata'' id (aud_metadata e))"

text \<open>A bound that is left out is the zero time, which does not filter.\<close>

definition optional_time :: "string \<Rightarrow> time option" where
  "optional_time s = (if s = [] then Some zero_time else parse_rfc3339 s)"

definition auditFilterFromQuery :: "request \<Rightarrow> audit_filter option" where
  "auditFilterFromQuery rq = (let q = rq_query rq in
     case (optional_time (q ''from''), optional_time (q ''to'')) of
       (Some f, Some t) \<Rightarrow> Some \<lparr>uf_actor = q ''actor'', uf_action = q ''action'', uf_rtype = q ''resource_type'',
          uf_rid = q ''resource_id'', uf_from = f, uf_to = t, uf_q = q ''q''\<rparr>
     | _ \<Rightarrow> None)"

definition bad_time_filter :: "request \<Rightarrow> reply" where
  "bad_time_filter rq = WriteError rq 400 ''INVALID_QUERY_PARAM'' ''from/to must be RFC3339 timestamps''"

definition audit_handle_List :: "api_env \<Rightarrow> handler_fn" where
  "audit_handle_List env rq = (case PageParams rq of
       Inl e \<Rightarrow> retE (WriteError rq 400 ''INVALID_PAGE_PARAMS'' (err_text e))
     | Inr _ \<Rightarrow> (case auditFilterFromQuery rq of
           None \<Rightarrow> retE (bad_time_filter rq)
         | Some f \<Rightarrow> list_page env rq ''audit events'' (audit_List (ae_ilike env) f) aud_at aud_id
             (\<lambda>e. retE (toAuditEventResponse e))))"

definition exportPageLimit :: nat where
  "exportPageLimit = 5000"

text \<open>One document per line.\<close>

definition Export :: "api_env \<Rightarrow> handler_fn" where
  "Export env rq =
     (if rq_query rq ''format'' \<notin> {[], ''jsonl''}
      then retE (WriteError rq 400 ''UNSUPPORTED_FORMAT'' ''only format=jsonl is supported'')
      else case auditFilterFromQuery rq of
          None \<Rightarrow> retE (bad_time_filter rq)
        | Some f \<Rightarrow> replyE (\<lambda>_. WriteError rq 500 ''INTERNAL'' ''failed to export audit events'')
            (\<lambda>items. retE \<lparr>rp_status = 200, rp_replayed = False, rp_docs = map toAuditEventResponse items\<rparr>)
            (audit_List (ae_ilike env) f zero_time [] exportPageLimit))"

section \<open>Egress bindings\<close>

record egress_binding =
  eb_instance :: string
  eb_logical_name :: string
  eb_hostname :: string
  eb_client :: string
  eb_mapping :: string
  eb_generation :: int
  eb_bound :: time

text \<open>
  \<open>data->>key\<close>: \<open>NULL\<close> for a missing key and for \<open>null\<close>, the text of a string, the JSON text of anything else;
  \<open>jsonb\<close> keeps the last of several pairs with one key.
\<close>

definition json_get :: "raw_json \<Rightarrow> string \<Rightarrow> json option" where
  "json_get raw k = (case raw of Some (JObj kvs) \<Rightarrow> map_of (rev kvs) k | _ \<Rightarrow> None)"

definition json_get_text :: "raw_json \<Rightarrow> string \<Rightarrow> string option" where
  "json_get_text raw k = (case json_get raw k of None \<Rightarrow> None | Some JNull \<Rightarrow> None | Some (JStr s) \<Rightarrow> Some s | Some v \<Rightarrow> Some (json_text v))"

definition has_mapping :: "job \<Rightarrow> bool" where
  "has_mapping j \<longleftrightarrow> (case json_get_text (job_data j) ''pgw_mapping_id'' of None \<Rightarrow> False | Some s \<Rightarrow> s \<noteq> [])"

text \<open>\<open>COALESCE((data->>'desired_generation')::bigint, 0)\<close>; a text that is no such number fails the query.\<close>

definition generation_of :: "job \<Rightarrow> int option" where
  "generation_of j = (case json_get_text (job_data j) ''desired_generation'' of None \<Rightarrow> Some 0
     | Some s \<Rightarrow> (case atoi s of Some n \<Rightarrow> if - (2 ^ 63) \<le> n \<and> n < 2 ^ 63 then Some n else None | None \<Rightarrow> None))"

definition binding_of :: "vm_instance \<Rightarrow> job \<Rightarrow> egress_binding" where
  "binding_of i j = \<lparr>eb_instance = inst_id i, eb_logical_name = inst_logical_name i, eb_hostname = inst_hostname i,
     eb_client = (case json_get_text (job_data j) ''pgw_client_id'' of None \<Rightarrow> [] | Some s \<Rightarrow> s),
     eb_mapping = (case json_get_text (job_data j) ''pgw_mapping_id'' of None \<Rightarrow> [] | Some s \<Rightarrow> s),
     eb_generation = (case generation_of j of None \<Rightarrow> 0 | Some n \<Rightarrow> n), eb_bound = job_created j\<rparr>"

definition egress_candidates :: "string \<Rightarrow> db \<Rightarrow> (vm_instance \<times> job) list" where
  "egress_candidates iid d = concat (map (\<lambda>i. map (\<lambda>j. (i, j))
       (filter (\<lambda>j. job_instance j = inst_id i \<and> has_mapping j) (db_jobs d)))
     (sort_key inst_id (filter (\<lambda>i. iid = [] \<or> inst_id i = iid) (db_instances d))))"

text \<open>\<open>DISTINCT ON (i.id) ... ORDER BY i.id, j.created_at DESC\<close>.\<close>

definition egress_rows :: "string \<Rightarrow> db \<Rightarrow> egress_binding list" where
  "egress_rows iid d = concat (map (\<lambda>i.
       case sql_first (\<lambda>j. - job_created j) (\<lambda>j. job_instance j = inst_id i \<and> has_mapping j) (db_jobs d) of
         None \<Rightarrow> [] | Some j \<Rightarrow> [binding_of i j])
     (sort_key inst_id (filter (\<lambda>i. iid = [] \<or> inst_id i = iid) (db_instances d))))"

definition ListEgressBindings :: "api_env \<Rightarrow> string \<Rightarrow> egress_binding list dbm" where
  "ListEgressBindings env iid = wrapE ''storage: list egress bindings'' (optional_uuid env iid (\<lambda>u. stmt (\<lambda>d.
     if \<exists>(i, j) \<in> set (egress_candidates u d). generation_of j = None
     then (Inl (ErrDriver ''ERROR: invalid input syntax for type bigint''), d)
     else (Inr (egress_rows u d), d))))"

text \<open>The state and the proof of a binding, from the latest egress run of its instance.\<close>

definition proof_of :: "err + validation_run \<Rightarrow> time \<Rightarrow> string \<times> string \<times> (time \<times> duration) option" where
  "proof_of r now = (case r of
       Inl _ \<Rightarrow> (''PENDING'', ''UNKNOWN'', None)
     | Inr v \<Rightarrow> (if run_result v = ValidationPass then ''ACTIVE'' else ''SUSPENDED'', validation_result_str (run_result v),
         Some (run_started v, time_sub now (run_started v))))"

definition egress_json :: "egress_binding \<Rightarrow> string \<times> string \<times> (time \<times> duration) option \<Rightarrow> json" where
  "egress_json b p = (case p of (st, res, age) \<Rightarrow> JObj ([
     (''instance_id'', JStr (eb_instance b)), (''logical_name'', JStr (eb_logical_name b)), (''hostname'', JStr (eb_hostname b)),
     (''pgw_client_id'', JStr (eb_client b)), (''pgw_mapping_id'', JStr (eb_mapping b)), (''generation'', JNum (eb_generation b)),
     (''bound_at'', jtime (eb_bound b)), (''state'', JStr st), (''proof_result'', JStr res)]
     @ omit_opt ''proof_age_seconds'' seconds_json (map_option snd age) @ omit_opt ''proof_checked_at'' jtime (map_option fst age)))"

definition egress_item :: "egress_binding \<Rightarrow> (string \<times> string \<times> json) dbm" where
  "egress_item b = tryE (runs_LatestByType (eb_instance b) ''egress'') (\<lambda>r. bindE (getE db_now) (\<lambda>now.
     let p = proof_of r now in retE (fst p, fst (snd p), egress_json b p)))"

definition egress_handle_List :: "api_env \<Rightarrow> handler_fn" where
  "egress_handle_List env rq = replyE (\<lambda>_. WriteError rq 500 ''INTERNAL'' ''failed to list egress bindings'')
     (\<lambda>bs. bindE (mapE egress_item bs) (\<lambda>items. retE (writeJSON 200 (listEnvelope
        (map (\<lambda>(st, res, doc). doc) (filter (\<lambda>(st, res, doc). (rq_query rq ''state'' = [] \<or> st = rq_query rq ''state'') \<and>
           (rq_query rq ''proof_result'' = [] \<or> res = rq_query rq ''proof_result'')) items)) None))))
     (ListEgressBindings env (rq_query rq ''instance_id''))"

section \<open>Health\<close>

definition HealthHandler :: handler_fn where
  "HealthHandler rq = retE (writeJSON 200 (JObj [(''status'', JStr ''healthy'')]))"

definition db_Ready :: "unit dbm" where
  "db_Ready = stmt (retE ())"

definition ReadyHandler :: handler_fn where
  "ReadyHandler rq = replyE (\<lambda>e. writeJSON 503 (json_of_map [(''status'', JStr ''not_ready''), (''reason'', JStr (err_text e))]))
     (\<lambda>_. retE (writeJSON 200 (JObj [(''status'', JStr ''ready'')]))) db_Ready"

end
