(* ===== verification/ApiWrites.thy ===== *)
theory ApiWrites
  imports ApiReads
begin

text \<open>
  The \<open>POST\<close> handlers of \<open>internal/httpapi\<close>.  Each reads its request and hands the work of it to \<open>RunIdempotent\<close>; within
  the work, reads through a repository of the handler go through the pool (\<open>onPool\<close>), writes are given the transaction
  (\<open>inTx\<close>).  \<open>Acknowledge\<close> alone runs without a key.
\<close>

section \<open>Creating an instance\<close>

definition acceptedJobResponse :: "string \<Rightarrow> string \<Rightarrow> string \<Rightarrow> json" where
  "acceptedJobResponse iid jid st = JObj [(''instance_id'', JStr iid), (''job_id'', JStr jid), (''state'', JStr st)]"

record workload_request =
  wr_adapter :: string
  wr_spec :: raw_json

record instance_request =
  ir_logical_name :: string
  ir_template :: string
  ir_segment :: string
  ir_policy :: string
  ir_requested_ip :: "string option"
  ir_resources :: raw_json
  ir_workload :: "workload_request option"

definition empty_instance_request :: instance_request where
  "empty_instance_request = \<lparr>ir_logical_name = [], ir_template = [], ir_segment = [], ir_policy = [],
     ir_requested_ip = None, ir_resources = None, ir_workload = None\<rparr>"

definition workload_step :: "string \<Rightarrow> json \<Rightarrow> workload_request \<times> bool \<Rightarrow> workload_request \<times> bool" where
  "workload_step k v st = (if jkey k ''adapter'' then set_str v (\<lambda>s w. w\<lparr>wr_adapter := s\<rparr>) st
     else if jkey k ''spec'' then set_raw v (\<lambda>r w. w\<lparr>wr_spec := r\<rparr>) st else st)"

text \<open>A pointer to a struct: \<open>null\<close> clears it, an object is decoded into what it points to.\<close>

definition set_workload :: "json \<Rightarrow> instance_request \<times> bool \<Rightarrow> instance_request \<times> bool" where
  "set_workload v st = (case v of
       JNull \<Rightarrow> ((fst st)\<lparr>ir_workload := None\<rparr>, snd st)
     | JObj kvs \<Rightarrow> (case unmarshal_with workload_step (Some v)
           (case ir_workload (fst st) of None \<Rightarrow> \<lparr>wr_adapter = [], wr_spec = None\<rparr> | Some w \<Rightarrow> w) of
         (w, ok) \<Rightarrow> ((fst st)\<lparr>ir_workload := Some w\<rparr>, snd st \<and> ok))
     | _ \<Rightarrow> (fst st, False))"

definition instance_request_step :: "string \<Rightarrow> json \<Rightarrow> instance_request \<times> bool \<Rightarrow> instance_request \<times> bool" where
  "instance_request_step k v st =
     (if jkey k ''logical_name'' then set_str v (\<lambda>s r. r\<lparr>ir_logical_name := s\<rparr>) st
      else if jkey k ''template_id'' then set_str v (\<lambda>s r. r\<lparr>ir_template := s\<rparr>) st
      else if jkey k ''network_segment_id'' then set_str v (\<lambda>s r. r\<lparr>ir_segment := s\<rparr>) st
      else if jkey k ''egress_policy_id'' then set_str v (\<lambda>s r. r\<lparr>ir_policy := s\<rparr>) st
      else if jkey k ''requested_ip'' then set_opt v (\<lambda>s r. r\<lparr>ir_requested_ip := s\<rparr>) st
      else if jkey k ''resources'' then set_raw v (\<lambda>x r. r\<lparr>ir_resources := x\<rparr>) st
      else if jkey k ''workload'' then set_workload v st else st)"

definition hostnamePrefix :: string where
  "hostnamePrefix = ''vmf''"

text \<open>An instance as a handler passes it to \<open>Create\<close>: the fields it sets, the others zero.\<close>

definition wanted_instance :: "string \<Rightarrow> string \<Rightarrow> string \<Rightarrow> int \<Rightarrow> raw_json \<Rightarrow> string option \<Rightarrow> raw_json \<Rightarrow> vm_instance" where
  "wanted_instance name hostname tpl gen cfg adapter spec =
     \<lparr>inst_id = [], inst_logical_name = name, inst_hostname = hostname, inst_state = InstanceRequested, inst_generation = gen,
      inst_template = tpl, inst_cluster = None, inst_node = None, inst_vmid = None, inst_pool = None, inst_config = cfg,
      inst_config_hash = None, inst_workload_adapter = adapter, inst_workload_spec = spec, inst_version = 0,
      inst_created = zero_time, inst_updated = zero_time, inst_retired = None\<rparr>"

definition requested_instance :: "instance_request \<Rightarrow> string \<Rightarrow> string \<Rightarrow> vm_instance" where
  "requested_instance req tpl hostname = (let
       name = (if ir_logical_name req = [] then hostname else ir_logical_name req);
       cfg = config_json \<lparr>dc_segment = ir_segment req, dc_policy = ir_policy req, dc_requested_ip = ir_requested_ip req,
         dc_resources = ir_resources req\<rparr> in
     case ir_workload req of
       Some w \<Rightarrow> if wr_adapter w \<noteq> [] then wanted_instance name hostname tpl 0 (Some cfg) (Some (wr_adapter w)) (wr_spec w)
         else wanted_instance name hostname tpl 0 (Some cfg) None None
     | None \<Rightarrow> wanted_instance name hostname tpl 0 (Some cfg) None None)"

definition create_instance_work :: "api_env \<Rightarrow> instance_request \<Rightarrow> work" where
  "create_instance_work env req =
     bindE (onPool (uuidE env (ir_template req) templates_Get)) (\<lambda>tpl.
     if \<not> template_IsUsable tpl
     then failE (Suffixed ErrInvalidTransition (''template '' @ ir_template req @ '' is state '' @ template_state_str (tpl_state tpl)
            @ '', must be ACTIVE''))
     else bindE (onPool (uuidE env (ir_segment req) segments_Get)) (\<lambda>_.
          bindE (onPool (hostnames_Next hostnamePrefix)) (\<lambda>hostname.
          bindE (inTx (instances_Create (requested_instance req (tpl_id tpl) hostname))) (\<lambda>created.
          bindE (inTx (jobs_Create (inst_id created) JobOpProvision InstanceRequested)) (\<lambda>job.
          retE (202, acceptedJobResponse (inst_id created) (job_id job) (instance_state_str InstanceRequested), inst_id created))))))"

definition instances_handle_Create :: "api_env \<Rightarrow> handler_fn" where
  "instances_handle_Create env rq = RequireIdempotencyKey rq (\<lambda>key. readBody rq (\<lambda>body.
     decodeBody env rq instance_request_step empty_instance_request body (\<lambda>req.
     if ir_template req = [] \<or> ir_segment req = [] \<or> ir_policy req = []
     then retE (WriteError rq 400 ''MISSING_FIELD'' ''template_id/network_segment_id/egress_policy_id are required'')
     else respond env rq ''instances.create'' key body (create_instance_work env req))))"

section \<open>Actions on an instance\<close>

definition operator_event :: "principal \<Rightarrow> string \<Rightarrow> string \<Rightarrow> (string \<times> json) list \<Rightarrow> audit_event" where
  "operator_event p action rid md =
     \<lparr>aud_id = [], aud_at = zero_time, aud_actor_type = ''operator'', aud_actor = pr_subject p, aud_action = action,
      aud_rtype = ''vm_instance'', aud_rid = rid, aud_request = None, aud_correlation = None,
      aud_before = None, aud_after = None, aud_metadata = Some (json_of_map md)\<rparr>"

definition reason_metadata :: "string \<Rightarrow> instance_state \<Rightarrow> instance_state \<Rightarrow> (string \<times> json) list" where
  "reason_metadata reason from to_st = [(''reason'', JStr reason), (''from'', JStr (instance_state_str from)),
     (''to'', JStr (instance_state_str to_st))]"

text \<open>\<open>Requeue\<close> tells a missing job from one in another state by a read through the pool.\<close>

definition requeue_in :: "string \<Rightarrow> job txm" where
  "requeue_in jid = readPool (\<lambda>p. jobs_Requeue (seen_from p (jobs_Get jid)) jid)"

definition retry_instance_work :: "api_env \<Rightarrow> string \<Rightarrow> work" where
  "retry_instance_work env iid =
     bindE (onPool (uuidE env iid instances_Get)) (\<lambda>_.
     bindE (onPool (uuidE env iid instances_FindCurrentJobID)) (\<lambda>jid.
     bindE (requeue_in jid) (\<lambda>j.
     retE (202, acceptedJobResponse iid (job_id j) (instance_state_str (job_checkpoint j)), iid))))"

definition instances_handle_Retry :: "api_env \<Rightarrow> handler_fn" where
  "instances_handle_Retry env rq = RequireIdempotencyKey rq (\<lambda>key.
     respond env rq ''instances.retry'' key (rq_id rq) (retry_instance_work env (rq_id rq)))"

definition quarantine_work :: "api_env \<Rightarrow> principal \<Rightarrow> string \<Rightarrow> string \<Rightarrow> work" where
  "quarantine_work env p iid reason =
     bindE (onPool (uuidE env iid instances_Get)) (\<lambda>i.
     bindE (inTx (uuidE env iid (\<lambda>u. instances_UpdateState u InstanceQuarantined))) (\<lambda>_.
     bindE (inTx (audit_Append (operator_event p ''quarantine'' iid (reason_metadata reason (inst_state i) InstanceQuarantined)))) (\<lambda>_.
     bindE (onPool (uuidE env iid instances_Get)) (\<lambda>updated.
     bindE (onPool (enrich updated)) (\<lambda>doc. retE (202, doc, iid))))))"

definition instances_handle_Quarantine :: "api_env \<Rightarrow> principal \<Rightarrow> handler_fn" where
  "instances_handle_Quarantine env p rq = RequireIdempotencyKey rq (\<lambda>key. readReasonRequest env rq (\<lambda>reason body.
     respond env rq ''instances.quarantine'' key body (quarantine_work env p (rq_id rq) reason)))"

definition rebuild_work :: "api_env \<Rightarrow> principal \<Rightarrow> string \<Rightarrow> work" where
  "rebuild_work env p iid =
     bindE (onPool (uuidE env iid instances_Get)) (\<lambda>old.
     bindE (inTx (uuidE env iid instances_Retire)) (\<lambda>_.
     bindE (onPool (hostnames_Next hostnamePrefix)) (\<lambda>hostname.
     bindE (inTx (instances_Create (wanted_instance (inst_logical_name old) hostname (inst_template old)
        (inst_generation old + 1) (inst_config old) (inst_workload_adapter old) (inst_workload_spec old)))) (\<lambda>newInst.
     bindE (inTx (jobs_Create (inst_id newInst) JobOpRebuild InstanceRequested)) (\<lambda>job.
     bindE (inTx (audit_Append (operator_event p ''rebuild'' (inst_id newInst) [(''rebuilt_from'', JStr iid)]))) (\<lambda>_.
     retE (202, acceptedJobResponse (inst_id newInst) (job_id job) (instance_state_str InstanceRequested), inst_id newInst)))))))"

definition instances_handle_Rebuild :: "api_env \<Rightarrow> principal \<Rightarrow> handler_fn" where
  "instances_handle_Rebuild env p rq = RequireIdempotencyKey rq (\<lambda>key.
     respond env rq ''instances.rebuild'' key (rq_id rq) (rebuild_work env p (rq_id rq)))"

definition decommission_work :: "api_env \<Rightarrow> principal \<Rightarrow> string \<Rightarrow> string \<Rightarrow> work" where
  "decommission_work env p iid reason =
     bindE (onPool (uuidE env iid instances_Get)) (\<lambda>i.
     bindE (inTx (uuidE env iid (\<lambda>u. instances_UpdateState u InstanceDraining))) (\<lambda>_.
     bindE (inTx (uuidE env iid (\<lambda>u. jobs_Create u JobOpDecommission InstanceDraining))) (\<lambda>job.
     bindE (inTx (audit_Append (operator_event p ''decommission'' iid (reason_metadata reason (inst_state i) InstanceDraining)))) (\<lambda>_.
     retE (202, acceptedJobResponse iid (job_id job) (instance_state_str InstanceDraining), iid)))))"

definition instances_handle_Decommission :: "api_env \<Rightarrow> principal \<Rightarrow> handler_fn" where
  "instances_handle_Decommission env p rq = RequireIdempotencyKey rq (\<lambda>key. readReasonRequest env rq (\<lambda>reason body.
     respond env rq ''instances.decommission'' key body (decommission_work env p (rq_id rq) reason)))"

section \<open>Jobs\<close>

definition retry_job_work :: "api_env \<Rightarrow> string \<Rightarrow> work" where
  "retry_job_work env jid = (case ae_uuid env jid of
       None \<Rightarrow> inTx (uuidE env jid (\<lambda>_. failE ErrNotFound))
     | Some u \<Rightarrow> bindE (requeue_in u) (\<lambda>j.
         retE (202, acceptedJobResponse (job_instance j) (job_id j) (job_state_str (job_st j)), job_id j)))"

definition jobs_handle_Retry :: "api_env \<Rightarrow> handler_fn" where
  "jobs_handle_Retry env rq = readReasonRequest env rq (\<lambda>reason body. RequireIdempotencyKey rq (\<lambda>key.
     respond env rq ''jobs.retry'' key body (retry_job_work env (rq_id rq))))"

section \<open>Templates\<close>

text \<open>The request is decoded into the template it describes; the fields without a key stay zero.\<close>

definition empty_template :: template where
  "empty_template = \<lparr>tpl_id = [], tpl_name = [], tpl_family = [], tpl_version = [], tpl_os_family = [], tpl_os_version = [],
     tpl_arch = [], tpl_cluster = [], tpl_node = [], tpl_vmid = 0, tpl_storage = [], tpl_clone_modes = [], tpl_checksum = [],
     tpl_manifest = None, tpl_state = TemplateDraft, tpl_validation = ValidationUnknown, tpl_created = zero_time,
     tpl_updated = zero_time\<rparr>"

definition template_request_step :: "string \<Rightarrow> json \<Rightarrow> template \<times> bool \<Rightarrow> template \<times> bool" where
  "template_request_step k v st =
     (if jkey k ''name'' then set_str v (\<lambda>s t. t\<lparr>tpl_name := s\<rparr>) st
      else if jkey k ''version'' then set_str v (\<lambda>s t. t\<lparr>tpl_version := s\<rparr>) st
      else if jkey k ''family'' then set_str v (\<lambda>s t. t\<lparr>tpl_family := s\<rparr>) st
      else if jkey k ''pve_cluster_id'' then set_str v (\<lambda>s t. t\<lparr>tpl_cluster := s\<rparr>) st
      else if jkey k ''pve_node'' then set_str v (\<lambda>s t. t\<lparr>tpl_node := s\<rparr>) st
      else if jkey k ''pve_template_vmid'' then set_int v (\<lambda>n t. t\<lparr>tpl_vmid := n\<rparr>) st
      else if jkey k ''storage'' then set_str v (\<lambda>s t. t\<lparr>tpl_storage := s\<rparr>) st
      else if jkey k ''source_checksum'' then set_str v (\<lambda>s t. t\<lparr>tpl_checksum := s\<rparr>) st
      else if jkey k ''build_manifest'' then set_raw v (\<lambda>r t. t\<lparr>tpl_manifest := r\<rparr>) st else st)"

definition create_template_work :: "api_env \<Rightarrow> template \<Rightarrow> work" where
  "create_template_work env t = bindE (inTx (uuidE env (tpl_cluster t) (\<lambda>c. templates_Create (t\<lparr>tpl_cluster := c\<rparr>))))
     (\<lambda>created. retE (201, toTemplateResponse created, tpl_id created))"

definition templates_handle_Create :: "api_env \<Rightarrow> handler_fn" where
  "templates_handle_Create env rq = RequireIdempotencyKey rq (\<lambda>key. readBody rq (\<lambda>body.
     decodeBody env rq template_request_step empty_template body (\<lambda>t.
     if tpl_name t = [] \<or> tpl_version t = [] \<or> tpl_cluster t = [] \<or> tpl_node t = [] \<or> tpl_vmid t = 0 \<or> tpl_checksum t = []
     then retE (WriteError rq 400 ''MISSING_FIELD''
            ''name/version/pve_cluster_id/pve_node/pve_template_vmid/source_checksum are required'')
     else respond env rq ''templates.create'' key body (create_template_work env t))))"

definition forwardPromotion :: "template_state \<Rightarrow> template_state option" where
  "forwardPromotion st = (case st of TemplateDraft \<Rightarrow> Some TemplateCandidate | TemplateCandidate \<Rightarrow> Some TemplateActive
     | TemplateActive \<Rightarrow> Some TemplateDeprecated | _ \<Rightarrow> None)"

definition promote_work :: "api_env \<Rightarrow> string \<Rightarrow> work" where
  "promote_work env tid =
     bindE (onPool (uuidE env tid templates_Get)) (\<lambda>current. case forwardPromotion (tpl_state current) of
         None \<Rightarrow> failE (Suffixed ErrInvalidTransition (template_state_str (tpl_state current) @ '' has no forward promotion''))
       | Some target \<Rightarrow> bindE (inTx (uuidE env tid (\<lambda>u. PromoteTx u target))) (\<lambda>promoted.
           retE (202, toTemplateResponse promoted, tpl_id promoted)))"

definition templates_handle_Promote :: "api_env \<Rightarrow> handler_fn" where
  "templates_handle_Promote env rq = RequireIdempotencyKey rq (\<lambda>key.
     respond env rq ''templates.promote'' key (rq_id rq) (promote_work env (rq_id rq)))"

section \<open>Segments\<close>

definition empty_segment :: segment where
  "empty_segment = \<lparr>seg_id = [], seg_name = [], seg_cidr = [], seg_gateway = [], seg_bridge = [], seg_dns = [],
     seg_ipv6_policy = [], seg_strategy = [], seg_exclusions = None, seg_state = [], seg_created = zero_time,
     seg_updated = zero_time\<rparr>"

text \<open>
  \<open>[]string\<close>: an element that is \<open>null\<close> leaves what is at its place, which is empty unless the key came before.
\<close>

fun set_elems :: "string list \<Rightarrow> json list \<Rightarrow> string list \<times> bool" where
  "set_elems old [] = ([], True)"
| "set_elems old (v # vs) = (case set_elems (drop 1 old) vs of (rest, ok) \<Rightarrow> (case v of
       JStr s \<Rightarrow> (s # rest, ok)
     | _ \<Rightarrow> ((case old of [] \<Rightarrow> [] | s # _ \<Rightarrow> s) # rest, ok \<and> v = JNull)))"

definition set_strings :: "json \<Rightarrow> string list \<Rightarrow> (string list \<Rightarrow> 'r \<Rightarrow> 'r) \<Rightarrow> 'r \<times> bool \<Rightarrow> 'r \<times> bool" where
  "set_strings v old upd st = (case v of
       JArr vs \<Rightarrow> (case set_elems old vs of (ss, ok) \<Rightarrow> (upd ss (fst st), snd st \<and> ok))
     | JNull \<Rightarrow> (upd [] (fst st), snd st)
     | _ \<Rightarrow> (fst st, False))"

definition segment_request_step :: "string \<Rightarrow> json \<Rightarrow> segment \<times> bool \<Rightarrow> segment \<times> bool" where
  "segment_request_step k v st =
     (if jkey k ''name'' then set_str v (\<lambda>s r. r\<lparr>seg_name := s\<rparr>) st
      else if jkey k ''cidr'' then set_str v (\<lambda>s r. r\<lparr>seg_cidr := s\<rparr>) st
      else if jkey k ''gateway'' then set_str v (\<lambda>s r. r\<lparr>seg_gateway := s\<rparr>) st
      else if jkey k ''bridge'' then set_str v (\<lambda>s r. r\<lparr>seg_bridge := s\<rparr>) st
      else if jkey k ''dns_servers'' then set_strings v (seg_dns (fst st)) (\<lambda>ss r. r\<lparr>seg_dns := ss\<rparr>) st
      else if jkey k ''ipv6_policy'' then set_str v (\<lambda>s r. r\<lparr>seg_ipv6_policy := s\<rparr>) st
      else if jkey k ''allocation_strategy'' then set_str v (\<lambda>s r. r\<lparr>seg_strategy := s\<rparr>) st else st)"

definition create_segment_work :: "api_env \<Rightarrow> segment \<Rightarrow> work" where
  "create_segment_work env s = bindE (inTx (segments_Create (ae_cidr env) (ae_inet env) s)) (\<lambda>created.
     retE (201, toSegmentResponse created \<lparr>cap_total = 0, cap_free = 0, cap_reserved = 0, cap_assigned = 0, cap_quarantined = 0\<rparr>,
       seg_id created))"

definition segments_handle_Create :: "api_env \<Rightarrow> handler_fn" where
  "segments_handle_Create env rq = RequireIdempotencyKey rq (\<lambda>key. readBody rq (\<lambda>body.
     decodeBody env rq segment_request_step empty_segment body (\<lambda>s.
     if seg_name s = [] \<or> seg_cidr s = [] \<or> seg_gateway s = [] \<or> seg_bridge s = []
     then retE (WriteError rq 400 ''MISSING_FIELD'' ''name/cidr/gateway/bridge are required'')
     else respond env rq ''network_segments.create'' key body (create_segment_work env s))))"

section \<open>Alerts\<close>

definition ack_request_step :: "string \<Rightarrow> json \<Rightarrow> (string \<times> int) \<times> bool \<Rightarrow> (string \<times> int) \<times> bool" where
  "ack_request_step k v st = (if jkey k ''note'' then set_str v (\<lambda>s r. (s, snd r)) st
     else if jkey k ''version'' then set_int v (\<lambda>n r. (fst r, n)) st else st)"

text \<open>The expected version is compared with a 32-bit column.\<close>

definition alerts_handle_Acknowledge :: "api_env \<Rightarrow> principal \<Rightarrow> handler_fn" where
  "alerts_handle_Acknowledge env p rq = readBody rq (\<lambda>body.
     let run = (\<lambda>r. case r of (note, version) \<Rightarrow> replyE (writeMutationError rq) (\<lambda>a. retE (writeJSON 200 (toAlertResponse a)))
         (uuidE env (rq_id rq) (\<lambda>u. castE (version < 2 ^ 31)
           (alerts_Acknowledge u (pr_subject p) (nonempty note) version))))
     in if body = [] then run ([], 0) else decodeBody env rq ack_request_step ([], 0) body run)"

end
