(* ===== verification/ApiChanges.thy ===== *)
theory ApiChanges
  imports ApiWrites Lifecycle
begin

text \<open>
  What requests to the API do to the tables, as an abstract machine: every request is a sequence of the atomic changes
  \<open>api_change\<close>, each of which respects the constraints of its table.  Reads change nothing; the work of a request changes
  the tables through its transaction, or not at all; and what was drawn from the pool meanwhile is a hostname.
\<close>

section \<open>Atomic changes\<close>

definition retire_row :: "time \<Rightarrow> vm_instance \<Rightarrow> vm_instance" where
  "retire_row now i = i\<lparr>inst_state := InstanceRetired, inst_retired := Some now, inst_version := inst_version i + 1, inst_updated := now\<rparr>"

inductive api_change :: "db \<Rightarrow> db \<Rightarrow> bool" where
  instance_added: "insert_instance (new_instance u t w) d = (Inr i, d') \<Longrightarrow> api_change d d'"
| instance_marked: "st \<in> {InstanceQuarantined, InstanceDraining} \<Longrightarrow> d' = put_instances (map (moved iid st None t) (db_instances d)) d \<Longrightarrow> api_change d d'"
| instance_retired: "d' = put_instances (sql_update (\<lambda>i. inst_id i = iid \<and> \<not> IsRetired i) (retire_row t) (db_instances d)) d \<Longrightarrow> api_change d d'"
| job_added: "insert_job (new_job u t iid oper cp) d = (Inr j, d') \<Longrightarrow> api_change d d'"
| job_requeued: "d' = d\<lparr>db_jobs := sql_update (\<lambda>j. job_id j = jid \<and> job_st j \<in> {JobFailed, JobRetryWait}) (requeue_row t) (db_jobs d)\<rparr> \<Longrightarrow> api_change d d'"
| event_logged: "d' = d\<lparr>db_audit := db_audit d @ [e]\<rparr> \<Longrightarrow> api_change d d'"
| template_added: "insert_template (new_template u t x) d = (Inr y, d') \<Longrightarrow> api_change d d'"
| template_promoted: "find_template tid d = Some cur \<Longrightarrow> isValidTransition (tpl_state cur) target \<Longrightarrow>
    d' = put_templates (map (promoted t cur target) (db_templates d)) d \<Longrightarrow> api_change d d'"
| segment_added: "\<forall>x \<in> set (db_segments d). seg_id x \<noteq> seg_id s \<and> seg_name x \<noteq> seg_name s \<Longrightarrow>
    d' = d\<lparr>db_segments := db_segments d @ [s]\<rparr> \<Longrightarrow> api_change d d'"
| alert_acknowledged: "d' = put_alerts (sql_update (\<lambda>a. alr_id a = aid \<and> (v > 0 \<longrightarrow> alr_version a = v)) (ack_row actor note t) (db_alerts d)) d
    \<Longrightarrow> api_change d d'"
| key_stored: "\<forall>r \<in> set (db_idem d). \<not> (idem_scope r = idem_scope rec \<and> idem_key r = idem_key rec) \<Longrightarrow>
    d' = d\<lparr>db_idem := db_idem d @ [rec]\<rparr> \<Longrightarrow> api_change d d'"
| hostname_drawn: "d' = d\<lparr>db_hostnames := h\<rparr> \<Longrightarrow> api_change d d'"

definition became :: "db \<Rightarrow> db \<Rightarrow> bool" where
  "became d d' \<longleftrightarrow> api_change\<^sup>*\<^sup>* (tables d) (tables d')"

lemma became_refl [simp]: "became d d"
  by (simp add: became_def)

lemma became_trans: "became a b \<Longrightarrow> became b c \<Longrightarrow> became a c"
  unfolding became_def by (rule rtranclp_trans)

lemma became_same: "same_tables d d' \<Longrightarrow> became d d'"
  by (simp add: became_def same_tables_def)

lemma became_step: "api_change (tables d) (tables d') \<Longrightarrow> became d d'"
  unfolding became_def by (rule r_into_rtranclp)

lemma became_rel: "reflp became" "transp became" "table_rel became"
  using became_trans by (auto simp: reflp_def transp_def table_rel_def same_tables_def became_def)

section \<open>The writes of the repositories\<close>

text \<open>What a statement leaves when it returns, as far as the tables go; the clock stands still.\<close>

lemma tables_update [simp]:
  "tables (d\<lparr>db_instances := v1\<rparr>) = (tables d)\<lparr>db_instances := v1\<rparr>" "tables (d\<lparr>db_jobs := v2\<rparr>) = (tables d)\<lparr>db_jobs := v2\<rparr>"
  "tables (d\<lparr>db_audit := v3\<rparr>) = (tables d)\<lparr>db_audit := v3\<rparr>" "tables (d\<lparr>db_templates := v4\<rparr>) = (tables d)\<lparr>db_templates := v4\<rparr>"
  "tables (d\<lparr>db_segments := v5\<rparr>) = (tables d)\<lparr>db_segments := v5\<rparr>" "tables (d\<lparr>db_alerts := v6\<rparr>) = (tables d)\<lparr>db_alerts := v6\<rparr>"
  "tables (d\<lparr>db_idem := v7\<rparr>) = (tables d)\<lparr>db_idem := v7\<rparr>" "tables (d\<lparr>db_hostnames := v8\<rparr>) = (tables d)\<lparr>db_hostnames := v8\<rparr>"
  "tables (d\<lparr>db_faults := v9\<rparr>) = tables d" "tables (d\<lparr>db_draws := n\<rparr>) = tables d" "tables (d\<lparr>db_now := t\<rparr>) = tables d"
  by (simp_all add: tables_def)

lemma tables_fields [simp]:
  "db_instances (tables d) = db_instances d" "db_jobs (tables d) = db_jobs d" "db_audit (tables d) = db_audit d"
  "db_templates (tables d) = db_templates d" "db_segments (tables d) = db_segments d" "db_alerts (tables d) = db_alerts d"
  "db_idem (tables d) = db_idem d" "db_hostnames (tables d) = db_hostnames d" "db_clusters (tables d) = db_clusters d"
  "db_runs (tables d) = db_runs d" "db_allocs (tables d) = db_allocs d" "db_obs (tables d) = db_obs d" "db_findings (tables d) = db_findings d"
  "db_uuid (tables d) = db_uuid d"
  by (simp_all add: tables_def)

lemma insert_tables:
  "insert_instance i d = (Inr x, d1) \<Longrightarrow> insert_instance i (tables d) = (Inr x, tables d1) \<and> x = i \<and> db_now d1 = db_now d"
  "insert_job j d = (Inr y, d2) \<Longrightarrow> insert_job j (tables d) = (Inr y, tables d2) \<and> y = j \<and> db_now d2 = db_now d"
  "insert_template t d = (Inr z, d3) \<Longrightarrow> insert_template t (tables d) = (Inr z, tables d3) \<and> z = t \<and> db_now d3 = db_now d"
  by (auto simp: insert_instance_def insert_job_def insert_template_def split: if_splits)

lemma insert_frames:
  "insert_instance i d = (Inr x, d1) \<Longrightarrow> d1 = put_instances (db_instances d @ [i]) d \<and> x = i"
  "insert_job j d = (Inr y, d2) \<Longrightarrow> d2 = d\<lparr>db_jobs := db_jobs d @ [j]\<rparr> \<and> y = j \<and> job_id j \<notin> job_id ` set (db_jobs d)"
  "insert_template t d = (Inr z, d3) \<Longrightarrow> d3 = put_templates (db_templates d @ [t]) d \<and> z = t"
  by (auto simp: insert_instance_def insert_job_def insert_template_def split: if_splits)

lemma instances_Create_Inr:
  assumes "instances_Create w d = (Inr i, d')"
  shows "\<exists>u. i = new_instance u (db_now d) w \<and> insert_instance i (tables d) = (Inr i, tables d') \<and> db_now d' = db_now d"
  using assms unfolding instances_Create_def
  by (elim scanE_InrE) (simp add: bindE_def gen_random_uuid_def getE_def, drule insert_tables(1), auto)

lemma jobs_Create_Inr:
  assumes "jobs_Create iid oper cp d = (Inr j, d')"
  shows "\<exists>u. j = new_job u (db_now d) iid oper cp \<and> insert_job j (tables d) = (Inr j, tables d') \<and> db_now d' = db_now d"
  using assms unfolding jobs_Create_def
  by (elim scanE_InrE) (simp add: bindE_def gen_random_uuid_def getE_def, drule insert_tables(2), auto)

lemma templates_Create_Inr:
  assumes "templates_Create x d = (Inr t, d')"
  shows "\<exists>u. t = new_template u (db_now d) x \<and> insert_template t (tables d) = (Inr t, tables d') \<and> db_now d' = db_now d"
  using assms unfolding templates_Create_def
  by (elim scanE_InrE) (simp add: bindE_def gen_random_uuid_def getE_def, drule insert_tables(3), auto)

lemma moved_plain: "moved iid st None t = (\<lambda>i. if inst_id i = iid then i\<lparr>inst_state := st, inst_version := inst_version i + 1, inst_updated := t\<rparr> else i)"
  by (simp add: fun_eq_iff moved_def Let_def)

lemma UpdateState_tables:
  assumes "instances_UpdateState iid st d = (Inr u, d')"
  shows "tables d' = put_instances (map (moved iid st None (db_now d)) (db_instances d)) (tables d) \<and> db_now d' = db_now d \<and>
    (\<exists>i \<in> set (db_instances d). inst_id i = iid)"
proof -
  have "\<exists>fs. d' = put_instances (map (moved iid st None (db_now d)) (db_instances d)) (d\<lparr>db_faults := fs\<rparr>)"
    using assms unfolding instances_UpdateState_def
    by (elim exec_rows_Inr) (auto simp: sql_update_def moved_plain)
  with UpdateState_Inr[OF assms] show ?thesis by auto
qed

lemma Retire_tables:
  assumes "instances_Retire iid d = (Inr u, d')"
  shows "tables d' = put_instances (sql_update (\<lambda>i. inst_id i = iid \<and> \<not> IsRetired i) (retire_row (db_now d)) (db_instances d)) (tables d) \<and>
    db_now d' = db_now d \<and> (\<exists>i \<in> set (db_instances d). inst_id i = iid \<and> \<not> IsRetired i)"
  using assms unfolding instances_Retire_def
  by (elim exec_rows_Inr) (auto simp: retire_row_def[abs_def])

lemma audit_tables:
  assumes "audit_Append ev d = (Inr u, d')"
  shows "\<exists>e. tables d' = (tables d)\<lparr>db_audit := db_audit d @ [e]\<rparr> \<and> db_now d' = db_now d \<and>
    (aud_metadata ev \<noteq> None \<longrightarrow> event_core e = event_core ev)"
proof -
  from assms obtain fs where "bindE gen_random_uuid (\<lambda>u. modE (\<lambda>d. d\<lparr>db_audit := db_audit d @
       [ev\<lparr>aud_id := u, aud_at := db_now d, aud_metadata := (case aud_metadata ev of None \<Rightarrow> Some (JObj []) | Some m \<Rightarrow> Some m)\<rparr>]\<rparr>))
      (d\<lparr>db_faults := fs\<rparr>) = (Inr u, d')"
    unfolding audit_Append_def onErr_Inr_iff by (rule stmt_InrE)
  then show ?thesis
    by (auto simp: bindE_def gen_random_uuid_def modE_def event_core_def intro!: exI split: option.split)
qed

lemma requeue_tables:
  assumes "requeue_stmt jid d = (Inr j, d')"
  shows "tables d' = (tables d)\<lparr>db_jobs := sql_update (\<lambda>j. job_id j = jid \<and> job_st j \<in> {JobFailed, JobRetryWait}) (requeue_row (db_now d)) (db_jobs d)\<rparr> \<and>
    db_now d' = db_now d"
  using assms unfolding requeue_stmt_def
  by (elim scanE_InrE) (auto simp: bindE_def retE_def update_jobs_def split: option.splits)

lemma segments_Create_tables:
  assumes "segments_Create pg_cidr pg_inet s d = (Inr r, d')"
  shows "tables d' = (tables d)\<lparr>db_segments := db_segments d @ [r]\<rparr> \<and> db_now d' = db_now d \<and>
    (\<forall>x \<in> set (db_segments d). seg_id x \<noteq> seg_id r \<and> seg_name x \<noteq> seg_name r)"
  using assms unfolding segments_Create_def
  by (elim scanE_InrE) (auto simp: bindE_def gen_random_uuid_def Let_def new_segment_def split: option.splits if_splits)

lemma promote_tables:
  assumes "PromoteTx tid target d = (Inr t, d')"
  obtains cur where "find_template tid d = Some cur" "isValidTransition (tpl_state cur) target"
    "tables d' = put_templates (map (promoted (db_now d) cur target) (db_templates d)) (tables d)"
proof -
  from PromoteTx_Inr[OF assms] obtain cur where c: "find_template tid d = Some cur" "isValidTransition (tpl_state cur) target"
    "db_templates d' = map (promoted (db_now d) cur target) (db_templates d)" "same_tables (d\<lparr>db_templates := db_templates d'\<rparr>) d'" by metis
  have "tables d' = put_templates (map (promoted (db_now d) cur target) (db_templates d)) (tables d)"
    using c(4) unfolding same_tables_def c(3) by simp
  with that c(1,2) show thesis by blast
qed

section \<open>Keys\<close>

lemma idem_Get_run:
  assumes "idem_Get scope key d = (r, d')"
  shows "same_tables d d' \<and> db_now d' = db_now d \<and>
    (case r of Inr x \<Rightarrow> find_idem scope key d = Some x | Inl e \<Rightarrow> if errors_is e ErrNotFound then find_idem scope key d = None else True)"
  using scan_read[OF assms[unfolded idem_Get_def]] by (simp add: find_idem_def)

lemma find_idem_same: "same_tables d d' \<Longrightarrow> db_now d' = db_now d \<Longrightarrow> find_idem scope key d' = find_idem scope key d"
  by (simp add: find_idem_def same_tables_fields)

text \<open>A key is stored once: what is there stays, and the same request may store it again.\<close>

definition has_key :: "string \<Rightarrow> string \<Rightarrow> idem_record \<Rightarrow> bool" where
  "has_key scope key r \<longleftrightarrow> idem_scope r = scope \<and> idem_key r = key"

lemma upsert_idem_run:
  "upsert_idem rec d = (Inr (), if \<exists>r \<in> set (db_idem d). has_key (idem_scope rec) (idem_key rec) r then d
     else d\<lparr>db_idem := db_idem d @ [rec\<lparr>idem_created := db_now d\<rparr>]\<rparr>)"
proof -
  have "sql_update (\<lambda>r. idem_scope r = idem_scope rec \<and> idem_key r = idem_key rec \<and> idem_hash r = idem_hash rec)
      (\<lambda>r. r\<lparr>idem_hash := idem_hash rec\<rparr>) rs = rs" for rs :: "idem_record list"
    by (induction rs) (auto simp: sql_update_def)
  moreover have "d\<lparr>db_idem := db_idem d\<rparr> = d" by simp
  ultimately show ?thesis by (auto simp: upsert_idem_def modE_def has_key_def Let_def)
qed

lemma idem_Store_Inr:
  assumes "idem_Store rec d = (Inr u, d')"
  shows "tables d' = (if \<exists>r \<in> set (db_idem d). has_key (idem_scope rec) (idem_key rec) r then tables d
      else (tables d)\<lparr>db_idem := db_idem d @ [rec\<lparr>idem_created := db_now d\<rparr>]\<rparr>) \<and> db_now d' = db_now d \<and>
    (\<exists>x. find_idem (idem_scope rec) (idem_key rec) d' = Some x \<and> idem_hash x = idem_hash rec)"
proof -
  from assms obtain v d1 x d2 where s: "stmt (upsert_idem rec) d = (Inr v, d1)" and g: "idem_Get (idem_scope rec) (idem_key rec) d1 = (Inr x, d2)"
    and c: "(if idem_hash x \<noteq> idem_hash rec then failE ErrIdempotencyConflict else retE ()) d2 = (Inr u, d')"
    unfolding idem_Store_def by (auto simp: onErr_Inr_iff elim!: bindE_Inr_cases)
  from s obtain fs where "upsert_idem rec (d\<lparr>db_faults := fs\<rparr>) = (Inr v, d1)" by (rule stmt_InrE)
  then have d1: "d1 = (if \<exists>r \<in> set (db_idem d). has_key (idem_scope rec) (idem_key rec) r then d\<lparr>db_faults := fs\<rparr>
      else d\<lparr>db_faults := fs, db_idem := db_idem d @ [rec\<lparr>idem_created := db_now d\<rparr>]\<rparr>)"
    by (auto simp: upsert_idem_run split: if_splits)
  have c': "d' = d2" "idem_hash x = idem_hash rec" using c by (auto simp: failE_def retE_def split: if_splits)
  note G = idem_Get_run[OF g]
  have "find_idem (idem_scope rec) (idem_key rec) d' = Some x"
    using G c'(1) find_idem_same[of d1 d2] by simp
  moreover have "tables d' = tables d1" "db_now d' = db_now d1" using G c'(1) by (simp_all add: same_tables_def)
  ultimately show ?thesis using d1 c'(2) by auto
qed

section \<open>Work\<close>

text \<open>
  \<open>works m\<close>: through the pool, \<open>m\<close> draws hostnames at most; and when it returns, its transaction is a sequence of changes.
\<close>

definition pooled :: "db \<Rightarrow> db \<Rightarrow> bool" where
  "pooled p p' \<longleftrightarrow> (\<exists>h. tables p' = (tables p)\<lparr>db_hostnames := h\<rparr>)"

lemma same_hostnames: "(tables d)\<lparr>db_hostnames := db_hostnames d\<rparr> = tables d"
  by (simp add: tables_def)

lemma pooled_same: "same_tables p p' \<Longrightarrow> pooled p p'"
  unfolding pooled_def same_tables_def using same_hostnames[of p] by metis

lemma pooled_trans: "pooled a b \<Longrightarrow> pooled b c \<Longrightarrow> pooled a c"
  by (auto simp: pooled_def)

definition works :: "'a txm \<Rightarrow> bool" where
  "works m \<longleftrightarrow> (\<forall>p own r p' own'. m (p, own) = (r, (p', own')) \<longrightarrow> pooled p p' \<and> (\<forall>x. r = Inr x \<longrightarrow> became own own'))"

lemma worksD: "works m \<Longrightarrow> m (p, own) = (r, (p', own')) \<Longrightarrow> pooled p p'"
  and worksD_Inr: "works m \<Longrightarrow> m (p, own) = (Inr x, (p', own')) \<Longrightarrow> became own own'"
  unfolding works_def by blast+

lemma works_ret: "works (retE x)" and works_fail: "works (failE e)"
  by (auto simp: works_def retE_def failE_def intro: pooled_same)

lemma works_bind:
  assumes "works m" "\<And>x. works (k x)"
  shows "works (bindE m k)"
  unfolding works_def
proof (intro allI impI)
  fix p own r p' own'
  assume run: "bindE m k (p, own) = (r, (p', own'))"
  obtain v p1 own1 where m: "m (p, own) = (v, (p1, own1))" by (metis prod.exhaust)
  show "pooled p p' \<and> (\<forall>x. r = Inr x \<longrightarrow> became own own')"
  proof (cases v)
    case (Inl e)
    with m run worksD[OF assms(1) m] show ?thesis by (auto simp: bindE_def)
  next
    case (Inr y)
    with m run have k: "k y (p1, own1) = (r, (p', own'))" by (simp add: bindE_def)
    have "pooled p p'" using pooled_trans[OF worksD[OF assms(1) m] worksD[OF assms(2) k]] .
    moreover have "became own own'" if "r = Inr x" for x
      using became_trans[OF worksD_Inr[OF assms(1) m[unfolded Inr]] worksD_Inr[OF assms(2) k[unfolded that]]] .
    ultimately show ?thesis by blast
  qed
qed

lemma works_if: "works m \<Longrightarrow> works n \<Longrightarrow> works (if b then m else n)"
  by simp

lemma works_option: "works n \<Longrightarrow> (\<And>x. works (f x)) \<Longrightarrow> works (case v of None \<Rightarrow> n | Some x \<Rightarrow> f x)"
  by (cases v) auto

lemma works_inTx: "(\<And>d x d'. m d = (Inr x, d') \<Longrightarrow> became d d') \<Longrightarrow> works (inTx m)"
  by (auto simp: works_def inTx_def intro: pooled_same split: prod.splits)

lemma pool_view_tables [simp]: "tables (pool_view p own) = tables p"
  by (simp add: pool_view_def)

lemma works_onPool:
  assumes "\<And>d r d'. m d = (r, d') \<Longrightarrow> pooled d d'"
  shows "works (onPool m)"
  unfolding works_def
proof (intro allI impI)
  fix p own r p' own'
  assume "onPool m (p, own) = (r, (p', own'))"
  then have m: "m (pool_view p own) = (r, p')" and o: "tables own' = tables own"
    by (auto simp: onPool_def split: prod.splits)
  have "pooled p p'" using assms[OF m] by (simp add: pooled_def)
  moreover have "became own own'" using o by (simp add: became_same same_tables_def)
  ultimately show "pooled p p' \<and> (\<forall>x. r = Inr x \<longrightarrow> became own own')" by blast
qed

lemma works_readPool: "(\<And>p d x d'. f p d = (Inr x, d') \<Longrightarrow> became d d') \<Longrightarrow> works (readPool f)"
  by (auto simp: works_def readPool_def inTx_def intro: pooled_same split: prod.splits)

text \<open>How a transaction with such work ends.\<close>

lemma PoolTx_cases:
  assumes "PoolTx fn d = (r, d')" "works fn"
  obtains (rolled_back) e h where "r = Inl e" "tables d' = (tables d)\<lparr>db_hostnames := h\<rparr>"
    | (committed) d0 x p own where "same_tables d d0" "db_now d0 = db_now d" "fn (d0, d0) = (Inr x, (p, own))"
        "tables d' = (tables own)\<lparr>db_hostnames := db_hostnames p\<rparr>" "r = Inr x \<or> r = Inl conn_error"
proof -
  obtain b d0 where b: "wrapE ''storage: begin tx'' (stmt (retE ())) d = (b, d0)" by (rule prod.exhaust)
  note d0 = begin_tx[OF b]
  show ?thesis
  proof (cases b)
    case (Inl e)
    with b assms(1) have "r = Inl e" "d' = d0" by (auto simp: PoolTx_def)
    then show ?thesis using that(1)[of e "db_hostnames d"] d0 same_hostnames[of d] by (simp add: same_tables_def)
  next
    case (Inr u)
    obtain v p own where v: "fn (d0, d0) = (v, (p, own))" by (metis prod.exhaust)
    obtain h where p: "tables p = (tables d)\<lparr>db_hostnames := h\<rparr>"
      using worksD[OF assms(2) v] d0 unfolding pooled_def same_tables_def by auto
    have roll: "tables (roll_back p x) = tables p" for x by (simp add: roll_back_def tables_def)
    show ?thesis
    proof (cases v)
      case (Inl e)
      with Inr b v assms(1) have "r = Inl e" "d' = roll_back p own" by (auto simp: PoolTx_def)
      then show ?thesis using that(1) p roll by metis
    next
      case x: (Inr x)
      let ?own = "own\<lparr>db_hostnames := db_hostnames p\<rparr>"
      have "commit_tx p x ?own = (r, d')" using x Inr b v assms(1) by (simp add: PoolTx_def)
      then show ?thesis
      proof (cases rule: commit_tx_cases)
        case (1 e)
        then show ?thesis using that(1)[of e h] p by (simp add: same_tables_def)
      next
        case 2
        then have t: "tables d' = (tables own)\<lparr>db_hostnames := db_hostnames p\<rparr>" by (simp add: same_tables_def)
        show ?thesis by (rule that(2)[OF conjunct1[OF d0] conjunct2[OF d0] v[unfolded x] t 2(2)])
      qed
    qed
  qed
qed

lemma keeps_PoolTx:
  assumes "works fn"
  shows "keeps became (PoolTx fn)"
proof (rule keepsI)
  fix d
  obtain r d' where run: "PoolTx fn d = (r, d')" by (rule prod.exhaust)
  have h: "api_change a (a\<lparr>db_hostnames := h\<rparr>)" for a h by (rule hostname_drawn) simp
  from run assms have "became d d'"
  proof (cases rule: PoolTx_cases)
    case (rolled_back e hs)
    with h[of "tables d" hs] show ?thesis by (intro became_step) simp
  next
    case (committed d0 x p own)
    have "became d own" using became_trans[OF became_same[OF committed(1)] worksD_Inr[OF assms committed(3)]] .
    moreover have "became own d'" using committed(4) h by (intro became_step) simp
    ultimately show ?thesis by (rule became_trans)
  qed
  with run show "became d (snd (PoolTx fn d))" by simp
qed

section \<open>Reads\<close>

definition unchanged :: "db \<Rightarrow> db \<Rightarrow> bool" where
  "unchanged d d' \<longleftrightarrow> same_tables d d' \<and> db_now d' = db_now d"

abbreviation reads :: "'a dbm \<Rightarrow> bool" where
  "reads m \<equiv> keeps unchanged m"

lemma unchanged_rel: "reflp unchanged" "transp unchanged" "insensitive unchanged"
  unfolding reflp_def transp_def insensitive_def unchanged_def by (auto intro: same_tables_trans)

lemmas reads_rel = unchanged_rel

lemma reads_query: "reads (queryE m f)"
  unfolding queryE_def by (intro keeps_onErr keeps_stmt keeps_get reads_rel)

lemma reads_scan: "reads (scanE m (\<lambda>d. scan_row (f d) d))"
  by (intro keeps_scanE reads_rel) (auto simp: keeps_def unchanged_def scan_row_def eff_defs split: option.split)

lemma reads_none: "reads (retE x)" "reads (failE e)" "reads (getE f)" "reads (stmt (failE e))" "reads (stmt (retE x))"
  by (intro keeps_ret keeps_fail keeps_get keeps_stmt reads_rel)+

lemma reads_uuidE: "(\<And>u. reads (k u)) \<Longrightarrow> reads (uuidE env s k)"
  by (simp add: uuidE_def reads_none split: option.split)

lemma reads_optional: "(\<And>u. reads (k u)) \<Longrightarrow> reads (optional_uuid env s k)"
  by (simp add: optional_uuid_def reads_uuidE)

lemma reads_castE: "reads k \<Longrightarrow> reads (castE ok k)"
  by (simp add: castE_def reads_none)

lemma reads_mapE: "(\<And>x. reads (f x)) \<Longrightarrow> reads (mapE f xs)"
  by (induction xs) (auto intro: keeps_bind reads_rel reads_none)

lemma reads_replyE: "reads m \<Longrightarrow> (\<And>x. reads (k x)) \<Longrightarrow> reads (replyE onError k m)"
  unfolding replyE_def by (intro keeps_try keeps_sum reads_none reads_rel)

lemma reads_list_page: "(\<And>t i n. reads (lst t i n)) \<Longrightarrow> (\<And>r. reads (item r)) \<Longrightarrow> reads (list_page env rq what lst created ident item)"
  unfolding list_page_def
  by (intro keeps_sum keeps_case_prod reads_replyE reads_optional keeps_bind reads_mapE reads_none reads_rel)

lemma reads_rows:
  "reads (instances_Get iid)" "reads (instances_List t i n)" "reads (instances_FindCurrentJobID iid)" "reads (jobs_Get jid)"
  "reads (jobs_List ilike f1 t i n)" "reads (templates_Get tid)" "reads (templates_List fam t i n)" "reads (segments_Get sid)"
  "reads (segments_List st)" "reads (segments_Capacity sid)" "reads (ipam_FindByInstance iid)" "reads (runs_LatestByType iid ty)"
  "reads (runs_LatestPerType iid)" "reads (runs_List f2 t i n)" "reads (findings_List fs)" "reads (alerts_List f3 t i n)"
  "reads (alerts_Get aid)" "reads (audit_List ilike f4 t i n)" "reads (audit_ListByResource rty rid t i n)"
  unfolding instances_Get_def instances_List_def instances_FindCurrentJobID_def jobs_Get_def jobs_List_def templates_Get_def
    templates_List_def segments_Get_def segments_List_def segments_Capacity_def ipam_FindByInstance_def runs_LatestByType_def
    runs_LatestPerType_def runs_List_def findings_List_def alerts_List_def alerts_Get_def audit_List_def audit_ListByResource_def
  by (rule reads_query reads_scan)+

lemma reads_enrich: "reads (enrich i)"
  unfolding enrich_def by (intro keeps_try reads_none reads_rows reads_rel)

lemma reads_egress: "reads (ListEgressBindings env iid)" "reads (egress_item b)"
proof -
  have "reads (\<lambda>d. if c d then (Inl e, d) else (Inr (f d), d))" for c e f by (simp add: keeps_def unchanged_def)
  then show "reads (ListEgressBindings env iid)"
    unfolding ListEgressBindings_def by (intro keeps_onErr reads_optional keeps_stmt reads_rel)
  show "reads (egress_item b)"
    unfolding egress_item_def Let_def by (intro keeps_try keeps_bind reads_none reads_rows reads_rel)
qed

lemma reads_segments: "reads (segments_with_capacity rq st p f)"
  unfolding segments_with_capacity_def by (intro reads_replyE reads_mapE keeps_bind reads_none reads_rows reads_rel)

lemmas reads_intro = reads_replyE reads_list_page reads_uuidE reads_optional reads_castE keeps_bind keeps_if keeps_sum keeps_option
  reads_mapE reads_none reads_rows reads_enrich reads_egress reads_segments reads_rel

section \<open>The work of each request\<close>

lemma works_pool_read: "reads m \<Longrightarrow> works (onPool m)"
  by (rule works_onPool) (drule (1) keepsD, simp add: unchanged_def pooled_same)

lemma works_hostname: "works (onPool (hostnames_Next prefix))"
proof (rule works_onPool)
  fix d r d'
  assume run: "hostnames_Next prefix d = (r, d')"
  have "keeps pooled (hostname_upsert prefix)"
    by (auto simp: keeps_def hostname_upsert_def pooled_def intro: pooled_same[unfolded pooled_def] split: option.split)
  moreover have "reflp pooled" "transp pooled" "insensitive pooled"
    unfolding reflp_def transp_def insensitive_def by (blast intro: pooled_trans pooled_same same_tables_refl)+
  ultimately have "keeps pooled (hostnames_Next prefix)"
    unfolding hostnames_Next_def by (intro keeps_bind keeps_onErr keeps_stmt keeps_ret)
  from keepsD[OF this run] show "pooled d d'" .
qed

lemma became_writes:
  "instances_Create w d = (Inr i, d') \<Longrightarrow> became d d'"
  "jobs_Create iid oper cp d = (Inr j, d') \<Longrightarrow> became d d'"
  "templates_Create x d = (Inr y, d') \<Longrightarrow> became d d'"
  "instances_Retire iid d = (Inr u1, d') \<Longrightarrow> became d d'"
  "st \<in> {InstanceQuarantined, InstanceDraining} \<Longrightarrow> instances_UpdateState iid st d = (Inr u2, d') \<Longrightarrow> became d d'"
  "audit_Append ev d = (Inr u3, d') \<Longrightarrow> became d d'"
  "segments_Create pg_cidr pg_inet s d = (Inr r, d') \<Longrightarrow> became d d'"
  "PromoteTx tid target d = (Inr t, d') \<Longrightarrow> became d d'"
  "idem_Store rec d = (Inr u4, d') \<Longrightarrow> became d d'"
proof -
  show "instances_Create w d = (Inr i, d') \<Longrightarrow> became d d'"
    by (drule instances_Create_Inr) (auto intro: became_step instance_added)
  show "jobs_Create iid oper cp d = (Inr j, d') \<Longrightarrow> became d d'"
    by (drule jobs_Create_Inr) (auto intro: became_step job_added)
  show "templates_Create x d = (Inr y, d') \<Longrightarrow> became d d'"
    by (drule templates_Create_Inr) (auto intro: became_step template_added)
  show "instances_Retire iid d = (Inr u1, d') \<Longrightarrow> became d d'"
    by (drule Retire_tables) (rule became_step, rule instance_retired[where iid = iid and t = "db_now d"], simp)
  show "st \<in> {InstanceQuarantined, InstanceDraining} \<Longrightarrow> instances_UpdateState iid st d = (Inr u2, d') \<Longrightarrow> became d d'"
    by (drule UpdateState_tables) (rule became_step, rule instance_marked[where iid = iid and st = st and t = "db_now d"], simp_all)
  show "audit_Append ev d = (Inr u3, d') \<Longrightarrow> became d d'"
    by (drule audit_tables, erule exE, rule became_step, rule event_logged) simp
  show "segments_Create pg_cidr pg_inet s d = (Inr r, d') \<Longrightarrow> became d d'"
    by (drule segments_Create_tables) (auto intro!: became_step segment_added)
  show "PromoteTx tid target d = (Inr t, d') \<Longrightarrow> became d d'"
    by (erule promote_tables) (auto intro!: became_step template_promoted simp: find_template_def)
  show "idem_Store rec d = (Inr u4, d') \<Longrightarrow> became d d'"
    by (drule idem_Store_Inr) (auto intro!: became_step key_stored[where rec = "rec\<lparr>idem_created := db_now d\<rparr>"] simp: has_key_def became_same same_tables_def split: if_splits)
qed

text \<open>\<open>Requeue\<close> returns a job only when its UPDATE found one.\<close>

lemma requeue_Inr:
  assumes "jobs_Requeue get jid d = (Inr j, d')"
  shows "requeue_stmt jid d = (Inr j, d')"
proof -
  obtain r d1 where r: "requeue_stmt jid d = (r, d1)" by (rule prod.exhaust)
  obtain g d2 where "get d1 = (g, d2)" by (rule prod.exhaust)
  with r assms show ?thesis
    by (cases r; cases g) (auto simp: jobs_Requeue_def tryE_def retE_def failE_def split: if_splits)
qed

lemma works_requeue: "works (requeue_in jid)"
  unfolding requeue_in_def
proof (rule works_readPool)
  fix p d x d'
  assume "jobs_Requeue (seen_from p (jobs_Get jid)) jid d = (Inr x, d')"
  from requeue_tables[OF requeue_Inr[OF this]] show "became d d'"
    by (auto intro!: became_step job_requeued)
qed

lemma uuidE_Inr: "uuidE env s k d = (Inr x, d') \<Longrightarrow> \<exists>u. ae_uuid env s = Some u \<and> k u d = (Inr x, d')"
  by (auto simp: uuidE_def failE_def elim: stmt_InrE split: option.splits)

lemma works_writes:
  "works (inTx (instances_Create w))" "works (inTx (jobs_Create iid oper cp))" "works (inTx (templates_Create x))"
  "works (inTx (audit_Append ev))" "works (inTx (segments_Create pg_cidr pg_inet s))" "works (inTx (idem_Store rec))"
  "works (inTx (getE f))" "works (inTx (uuidE env jid (\<lambda>_. failE e)))"
  "works (inTx (uuidE env iid instances_Retire))" "works (inTx (uuidE env iid (\<lambda>u. jobs_Create u oper cp)))"
  "works (inTx (uuidE env tid (\<lambda>u. PromoteTx u target)))" "works (inTx (uuidE env c (\<lambda>c. templates_Create (g c))))"
  "st \<in> {InstanceQuarantined, InstanceDraining} \<Longrightarrow> works (inTx (uuidE env iid (\<lambda>u. instances_UpdateState u st)))"
  by (rule works_inTx; (drule uuidE_Inr, elim exE conjE)?; (erule (1) became_writes(5) | auto simp: getE_def failE_def dest: became_writes(1-4,6-9)))+

lemmas works_intro = works_bind works_if works_option works_ret works_fail works_pool_read works_hostname works_requeue works_writes

lemma api_works:
  "works (create_instance_work env req)" "works (retry_instance_work env iid)" "works (quarantine_work env p iid reason)"
  "works (rebuild_work env p iid)" "works (decommission_work env p iid reason)" "works (retry_job_work env jid)"
  "works (create_template_work env t)" "works (promote_work env tid)" "works (create_segment_work env s)"
  unfolding create_instance_work_def retry_instance_work_def quarantine_work_def rebuild_work_def decommission_work_def
    retry_job_work_def create_template_work_def promote_work_def create_segment_work_def
  by (intro works_intro reads_intro; simp)+

section \<open>Requests\<close>

lemma reads_idem_Get: "reads (idem_Get scope key)"
  unfolding idem_Get_def by (rule reads_scan)

lemma became_reads: "reads m \<Longrightarrow> keeps became m"
  by (auto simp: keeps_def unchanged_def intro: became_same)

lemma works_once: "works work \<Longrightarrow> works (bindE work (\<lambda>res. bindE (inTx (getE db_now)) (\<lambda>now.
     bindE (inTx (idem_Store (new_idem scope key hash res now))) (\<lambda>_. retE (fst res, fst (snd res))))))"
  by (intro works_intro)

lemma keeps_RunIdempotent:
  assumes "works work"
  shows "keeps became (RunIdempotent sha scope key body work)"
proof -
  have "keeps became (once scope key hash work)" for hash
    unfolding once_def by (intro keeps_PoolTx works_once assms)
  then show ?thesis
    unfolding RunIdempotent_def
    by (intro keeps_try keeps_sum keeps_if keeps_bind keeps_case_prod keeps_ret keeps_fail became_reads[OF reads_idem_Get] became_rel)
qed

lemma keeps_respond: "works work \<Longrightarrow> keeps became (respond env rq scope key body work)"
  unfolding respond_def replyE_def
  by (intro keeps_try keeps_sum keeps_case_prod keeps_RunIdempotent keeps_ret became_rel)

lemma keeps_acknowledge: "keeps became (alerts_Acknowledge aid actor note v)"
proof -
  have a: "keeps became (ack_stmt aid actor note v)"
    by (auto simp: keeps_def ack_stmt_def Let_def intro!: became_step alert_acknowledged split: option.split)
  have i: "insensitive became" by (rule table_rel_insensitive[OF became_rel(3)])
  show ?thesis
    unfolding alerts_Acknowledge_def
    by (intro keeps_try keeps_sum keeps_if keeps_ret keeps_fail keeps_scanE a i became_reads[OF reads_rows(17)] became_rel)
qed

lemma keeps_request:
  "(\<And>k. keeps R (f k)) \<Longrightarrow> reflp R \<Longrightarrow> keeps R (RequireIdempotencyKey rq f)"
  "(\<And>b. keeps R (f b)) \<Longrightarrow> reflp R \<Longrightarrow> keeps R (readBody rq f)"
  "(\<And>x. keeps R (g x)) \<Longrightarrow> reflp R \<Longrightarrow> keeps R (decodeBody env rq step z body g)"
  "(\<And>r b. keeps R (h r b)) \<Longrightarrow> reflp R \<Longrightarrow> keeps R (readReasonRequest env rq h)"
proof -
  have rb: "(\<And>b. keeps R (f b)) \<Longrightarrow> reflp R \<Longrightarrow> keeps R (readBody rq f)" for f
    unfolding readBody_def by (intro keeps_option keeps_ret)
  show "(\<And>k. keeps R (f k)) \<Longrightarrow> reflp R \<Longrightarrow> keeps R (RequireIdempotencyKey rq f)"
    unfolding RequireIdempotencyKey_def Let_def by (intro keeps_if keeps_ret)
  show "(\<And>b. keeps R (f b)) \<Longrightarrow> reflp R \<Longrightarrow> keeps R (readBody rq f)" by (rule rb)
  show "(\<And>x. keeps R (g x)) \<Longrightarrow> reflp R \<Longrightarrow> keeps R (decodeBody env rq step z body g)"
    unfolding decodeBody_def by (intro keeps_case_prod keeps_if keeps_ret)
  show "(\<And>r b. keeps R (h r b)) \<Longrightarrow> reflp R \<Longrightarrow> keeps R (readReasonRequest env rq h)"
    unfolding readReasonRequest_def decodeBody_def by (intro rb keeps_case_prod keeps_if keeps_ret)
qed

lemma keeps_actions:
  "keeps became (instances_handle_Create env rq)" "keeps became (instances_handle_Retry env rq)"
  "keeps became (instances_handle_Quarantine env p rq)" "keeps became (instances_handle_Rebuild env p rq)"
  "keeps became (instances_handle_Decommission env p rq)" "keeps became (jobs_handle_Retry env rq)"
  "keeps became (templates_handle_Create env rq)" "keeps became (templates_handle_Promote env rq)"
  "keeps became (segments_handle_Create env rq)"
  unfolding instances_handle_Create_def instances_handle_Retry_def instances_handle_Quarantine_def instances_handle_Rebuild_def
    instances_handle_Decommission_def jobs_handle_Retry_def templates_handle_Create_def templates_handle_Promote_def
    segments_handle_Create_def
  by (intro keeps_request keeps_if keeps_ret keeps_respond api_works became_rel)+

lemma keeps_ack_request: "keeps became (alerts_handle_Acknowledge env p rq)"
proof -
  have s: "keeps became (stmt (failE e))" for e by (rule became_reads[OF reads_none(4)])
  show ?thesis
    unfolding alerts_handle_Acknowledge_def Let_def replyE_def uuidE_def castE_def
    by (intro keeps_request keeps_if keeps_case_prod keeps_try keeps_sum keeps_option keeps_ret keeps_acknowledge s became_rel)
qed

section \<open>What work leaves alone, and what it answers\<close>

definition keyless :: "db \<Rightarrow> db \<Rightarrow> bool" where
  "keyless d d' \<longleftrightarrow> db_idem d' = db_idem d \<and> db_now d' = db_now d"

definition untouched :: "'a txm \<Rightarrow> bool" where
  "untouched m \<longleftrightarrow> (\<forall>p own x p' own'. m (p, own) = (Inr x, (p', own')) \<longrightarrow> keyless own own')"

lemma untouched_rules:
  "untouched (retE x)" "untouched (failE e)" "untouched m \<Longrightarrow> (\<And>x. untouched (k x)) \<Longrightarrow> untouched (bindE m k)"
  "untouched m \<Longrightarrow> untouched n \<Longrightarrow> untouched (if b then m else n)"
  "untouched n \<Longrightarrow> (\<And>y. untouched (f y)) \<Longrightarrow> untouched (case v of None \<Rightarrow> n | Some y \<Rightarrow> f y)"
proof -
  show "untouched m \<Longrightarrow> (\<And>x. untouched (k x)) \<Longrightarrow> untouched (bindE m k)"
    unfolding untouched_def bindE_def keyless_def by (auto split: prod.splits sum.splits)
qed (auto simp: untouched_def retE_def failE_def keyless_def split: option.split)

lemma untouched_inTx: "(\<And>d x d'. m d = (Inr x, d') \<Longrightarrow> keyless d d') \<Longrightarrow> untouched (inTx m)"
  by (auto simp: untouched_def inTx_def split: prod.splits)

lemma untouched_onPool:
  assumes "keeps (\<lambda>d d'. db_now d' = db_now d) m"
  shows "untouched (onPool m)"
  unfolding untouched_def
proof (intro allI impI)
  fix p own x p' own'
  assume "onPool m (p, own) = (Inr x, (p', own'))"
  then have m: "m (pool_view p own) = (Inr x, p')" and o: "db_idem own' = db_idem own" "db_now own' = db_now p'"
    by (auto simp: onPool_def split: prod.splits)
  have "db_now (pool_view p own) = db_now own" by (simp add: pool_view_def)
  with keepsD[OF assms m] o show "keyless own own'" by (simp add: keyless_def)
qed

lemma untouched_pool_read: "reads m \<Longrightarrow> untouched (onPool m)"
  by (rule untouched_onPool) (auto simp: keeps_def unchanged_def)

lemma untouched_hostname: "untouched (onPool (hostnames_Next prefix))"
proof (rule untouched_onPool)
  have "keeps (\<lambda>d d'. db_now d' = db_now d) (hostname_upsert prefix)"
    by (auto simp: keeps_def hostname_upsert_def split: option.split)
  then show "keeps (\<lambda>d d'. db_now d' = db_now d) (hostnames_Next prefix)"
    unfolding hostnames_Next_def by (intro keeps_bind keeps_onErr keeps_now_stmt keeps_ret rel_intro)
qed

lemma Promote_now: "PromoteTx tid target d = (Inr t, d') \<Longrightarrow> db_now d' = db_now d"
proof -
  have u: "keeps (\<lambda>d d'. db_now d' = db_now d) (upd_tab db_templates put_templates p f)" for p f by (simp add: keeps_def upd_tab_def)
  have g: "keeps (\<lambda>d d'. db_now d' = db_now d) (templates_Get i)" for i
    using reads_rows(6)[of i] by (auto simp: keeps_def unchanged_def)
  have "keeps (\<lambda>d d'. db_now d' = db_now d) (PromoteTx tid target)"
    unfolding PromoteTx_def demote_others_def set_template_state_def
    by (intro keeps_bind keeps_if keeps_onErr keeps_now_stmt keeps_ret keeps_fail rel_intro u g)
  then show "PromoteTx tid target d = (Inr t, d') \<Longrightarrow> db_now d' = db_now d" by (rule keepsD)
qed

lemma keyless_tables: "tables d' = x \<Longrightarrow> db_idem x = db_idem d \<Longrightarrow> db_now d' = db_now d \<Longrightarrow> keyless d d'"
  unfolding keyless_def by (metis tables_fields(7))

lemma keyless_writes:
  "instances_Create w d = (Inr i, d') \<Longrightarrow> keyless d d'" "jobs_Create iid oper cp d = (Inr j, d') \<Longrightarrow> keyless d d'"
  "templates_Create x d = (Inr y, d') \<Longrightarrow> keyless d d'" "instances_Retire iid d = (Inr u1, d') \<Longrightarrow> keyless d d'"
  "instances_UpdateState iid st d = (Inr u2, d') \<Longrightarrow> keyless d d'" "audit_Append ev d = (Inr u3, d') \<Longrightarrow> keyless d d'"
  "segments_Create pg_cidr pg_inet s d = (Inr r, d') \<Longrightarrow> keyless d d'" "PromoteTx tid target d = (Inr t, d') \<Longrightarrow> keyless d d'"
  "requeue_stmt jid d = (Inr j, d') \<Longrightarrow> keyless d d'"
proof -
  show "PromoteTx tid target d = (Inr t, d') \<Longrightarrow> keyless d d'"
    by (frule Promote_now, erule promote_tables) (auto intro: keyless_tables)
qed (auto dest!: instances_Create_Inr jobs_Create_Inr templates_Create_Inr Retire_tables UpdateState_tables audit_tables segments_Create_tables
      requeue_tables insert_frames intro: keyless_tables)

lemma untouched_writes:
  "untouched (inTx (instances_Create w))" "untouched (inTx (jobs_Create iid oper cp))"
  "untouched (inTx (audit_Append ev))" "untouched (inTx (segments_Create pg_cidr pg_inet s))"
  "untouched (inTx (uuidE env jid (\<lambda>_. failE e)))" "untouched (inTx (uuidE env iid instances_Retire))"
  "untouched (inTx (uuidE env iid (\<lambda>u. jobs_Create u oper cp)))" "untouched (inTx (uuidE env tid (\<lambda>u. PromoteTx u target)))"
  "untouched (inTx (uuidE env c (\<lambda>c. templates_Create (g c))))" "untouched (inTx (uuidE env iid (\<lambda>u. instances_UpdateState u st)))"
  by (rule untouched_inTx; (drule uuidE_Inr, elim exE conjE)?; auto simp: failE_def dest: keyless_writes)+

lemma untouched_requeue: "untouched (requeue_in jid)"
  unfolding untouched_def requeue_in_def readPool_def inTx_def
  by (auto dest!: requeue_Inr keyless_writes(9) split: prod.splits)

lemma api_untouched:
  "untouched (create_instance_work env req)" "untouched (retry_instance_work env iid)" "untouched (quarantine_work env p iid reason)"
  "untouched (rebuild_work env p iid)" "untouched (decommission_work env p iid reason)" "untouched (retry_job_work env jid)"
  "untouched (create_template_work env t)" "untouched (promote_work env tid)" "untouched (create_segment_work env s)"
  unfolding create_instance_work_def retry_instance_work_def quarantine_work_def rebuild_work_def decommission_work_def
    retry_job_work_def create_template_work_def promote_work_def create_segment_work_def
  by (intro untouched_rules untouched_pool_read untouched_hostname untouched_requeue untouched_writes reads_intro)+

definition succeeds :: "work \<Rightarrow> bool" where
  "succeeds m \<longleftrightarrow> (\<forall>st s b i st'. m st = (Inr (s, b, i), st') \<longrightarrow> s \<in> {201, 202})"

lemma succeeds_rules:
  "s \<in> {201, 202} \<Longrightarrow> succeeds (retE (s, b, i))" "succeeds (failE e)" "(\<And>x. succeeds (k x)) \<Longrightarrow> succeeds (bindE m k)"
  "succeeds n \<Longrightarrow> (\<And>y. succeeds (f y)) \<Longrightarrow> succeeds (case v of None \<Rightarrow> n | Some y \<Rightarrow> f y)"
  "succeeds n \<Longrightarrow> succeeds m2 \<Longrightarrow> succeeds (if c then n else m2)"
proof -
  assume k: "\<And>x. succeeds (k x)"
  show "succeeds (bindE m k)"
    unfolding succeeds_def by (intro allI impI, erule bindE_Inr_cases) (use k in \<open>unfold succeeds_def, blast\<close>)
qed (auto simp: succeeds_def retE_def failE_def split: option.split)

lemma succeeds_refused: "succeeds (inTx (uuidE env jid (\<lambda>_. failE e)))"
  by (auto simp: succeeds_def inTx_def failE_def dest!: uuidE_Inr split: prod.splits)

lemma api_succeeds:
  "succeeds (create_instance_work env req)" "succeeds (retry_instance_work env iid)" "succeeds (quarantine_work env p iid reason)"
  "succeeds (rebuild_work env p iid)" "succeeds (decommission_work env p iid reason)" "succeeds (retry_job_work env jid)"
  "succeeds (create_template_work env t)" "succeeds (promote_work env tid)" "succeeds (create_segment_work env s)"
  unfolding create_instance_work_def retry_instance_work_def quarantine_work_def rebuild_work_def decommission_work_def
    retry_job_work_def create_template_work_def promote_work_def create_segment_work_def
  by (intro succeeds_rules succeeds_refused; simp)+

end
