(* ===== verification/Api.thy ===== *)
theory Api
  imports ApiChanges
begin

text \<open>
  The routes of the API (\<open>buildMux\<close> of \<open>cmd/api/main.go\<close>) and what holds of every request: who may change what, what a
  repeated request gets, and what an action has done when it is answered.
\<close>

section \<open>Routes\<close>

definition anyRole :: "role list" where
  "anyRole = [RoleViewer, RoleOperator, RoleAdmin, RoleService]"

definition writeRoles :: "role list" where
  "writeRoles = [RoleOperator, RoleAdmin, RoleService]"

definition adminRoles :: "role list" where
  "adminRoles = [RoleAdmin]"

definition route :: "api_env \<Rightarrow> role list \<Rightarrow> (principal \<Rightarrow> handler_fn) \<Rightarrow> handler_fn" where
  "route env roles h = AuthMiddleware env (RequireRole roles (ValidateUUIDParam h))"

definition get_routes :: "api_env \<Rightarrow> (string \<times> handler_fn) list" where
  "get_routes env =
    [(''GET /v1/templates'', route env anyRole (\<lambda>_. templates_handle_List env)),
     (''GET /v1/templates/{id}'', route env anyRole (\<lambda>_. templates_handle_Get env)),
     (''GET /v1/instances'', route env anyRole (\<lambda>_. instances_handle_List env)),
     (''GET /v1/instances/{id}'', route env anyRole (\<lambda>_. instances_handle_Get env)),
     (''GET /v1/instances/{id}/evidence'', route env anyRole (\<lambda>_. Evidence env)),
     (''GET /v1/jobs'', route env anyRole (\<lambda>_. jobs_handle_List env)),
     (''GET /v1/jobs/{id}'', route env anyRole (\<lambda>_. jobs_handle_Get env)),
     (''GET /v1/jobs/{id}/events'', route env anyRole (\<lambda>_. Events env)),
     (''GET /v1/network-segments'', route env anyRole (\<lambda>_. segments_handle_List)),
     (''GET /v1/findings'', route env anyRole (\<lambda>_. findings_handle_List)),
     (''GET /v1/ip-pools'', route env anyRole (\<lambda>_. ip_pools_handle_List)),
     (''GET /v1/validations'', route env anyRole (\<lambda>_. validations_handle_List env)),
     (''GET /v1/audit-events'', route env anyRole (\<lambda>_. audit_handle_List env)),
     (''GET /v1/audit-events/export'', route env anyRole (\<lambda>_. Export env)),
     (''GET /v1/egress-bindings'', route env anyRole (\<lambda>_. egress_handle_List env)),
     (''GET /v1/alerts'', route env anyRole (\<lambda>_. alerts_handle_List env))]"

definition post_routes :: "api_env \<Rightarrow> (string \<times> handler_fn) list" where
  "post_routes env =
    [(''POST /v1/templates'', route env adminRoles (\<lambda>_. templates_handle_Create env)),
     (''POST /v1/templates/{id}/promote'', route env adminRoles (\<lambda>_. templates_handle_Promote env)),
     (''POST /v1/instances'', route env writeRoles (\<lambda>_. instances_handle_Create env)),
     (''POST /v1/instances/{id}/retry'', route env writeRoles (\<lambda>_. instances_handle_Retry env)),
     (''POST /v1/instances/{id}/quarantine'', route env writeRoles (instances_handle_Quarantine env)),
     (''POST /v1/instances/{id}/rebuild'', route env writeRoles (instances_handle_Rebuild env)),
     (''POST /v1/instances/{id}/decommission'', route env writeRoles (instances_handle_Decommission env)),
     (''POST /v1/jobs/{id}/retry'', route env writeRoles (\<lambda>_. jobs_handle_Retry env)),
     (''POST /v1/network-segments'', route env adminRoles (\<lambda>_. segments_handle_Create env)),
     (''POST /v1/alerts/{id}/acknowledge'', route env writeRoles (alerts_handle_Acknowledge env))]"

definition public_routes :: "(string \<times> handler_fn) list" where
  "public_routes = [(''GET /v1/health'', HealthHandler), (''GET /v1/ready'', ReadyHandler)]"

text \<open>\<open>ServeMux\<close>: the handler of the pattern the request matches, which the caller names.\<close>

definition buildMux :: "api_env \<Rightarrow> (string \<times> handler_fn) list" where
  "buildMux env = public_routes @ get_routes env @ post_routes env"

definition serve :: "api_env \<Rightarrow> string \<Rightarrow> handler_fn" where
  "serve env pattern rq = (case map_of (buildMux env) pattern of
       None \<Rightarrow> retE \<lparr>rp_status = 404, rp_replayed = False, rp_docs = []\<rparr> | Some h \<Rightarrow> h rq)"

section \<open>Who may change what\<close>

definition admin_patterns :: "string list" where
  "admin_patterns = [''POST /v1/templates'', ''POST /v1/templates/{id}/promote'', ''POST /v1/network-segments'']"

lemma has_prefix_split: "has_prefix p s \<Longrightarrow> s = p @ drop (length p) s"
  by (induction p s rule: has_prefix.induct) auto

lemma route_cases:
  assumes "route env roles h rq d = (r, d')"
  obtains (refused) status code msg where "r = Inr (WriteError rq status code msg)" "d' = d" "400 \<le> status" "status < 500"
    | (admitted) token p where "rq_authorization rq = ''Bearer '' @ token" "Authenticate env token = Some p" "pr_role p \<in> set roles"
        "h p rq d = (r, d')"
proof (cases "cut_prefix (rq_authorization rq) ''Bearer ''")
  case None
  with assms have "r = Inr (WriteError rq 401 ''AUTH_MISSING_TOKEN'' ''Authorization: Bearer <token> is required'')" "d' = d"
    by (auto simp: route_def AuthMiddleware_def retE_def)
  then show ?thesis by (rule that(1)) simp_all
next
  case (Some token)
  have tok: "rq_authorization rq = ''Bearer '' @ token"
    using Some has_prefix_split[of "''Bearer ''"] by (auto simp: cut_prefix_def split: if_splits)
  consider "token = []" | "token \<noteq> []" "Authenticate env token = None" | p where "token \<noteq> []" "Authenticate env token = Some p" by blast
  then show ?thesis
  proof cases
    case 1
    with Some assms have "r = Inr (WriteError rq 401 ''AUTH_MISSING_TOKEN'' ''Authorization: Bearer <token> is required'')" "d' = d"
      by (auto simp: route_def AuthMiddleware_def retE_def)
    then show ?thesis by (rule that(1)) simp_all
  next
    case 2
    with Some assms have "r = Inr (WriteError rq 401 ''AUTH_INVALID_TOKEN'' ''token invalid or expired'')" "d' = d"
      by (auto simp: route_def AuthMiddleware_def retE_def)
    then show ?thesis by (rule that(1)) simp_all
  next
    case (3 p)
    with Some assms have run: "RequireRole roles (ValidateUUIDParam h) p rq d = (r, d')"
      by (simp add: route_def AuthMiddleware_def)
    consider "pr_role p \<notin> set roles" | "pr_role p \<in> set roles" "rq_id rq \<noteq> [] \<and> \<not> isCanonicalUUID (rq_id rq)"
      | "pr_role p \<in> set roles" "h p rq d = (r, d')" using run by (auto simp: RequireRole_def ValidateUUIDParam_def split: if_splits)
    then show ?thesis
    proof cases
      case 1
      with run have "r = Inr (WriteError rq 403 ''AUTH_ROLE_FORBIDDEN'' ''role does not permit this action'')" "d' = d"
        by (auto simp: RequireRole_def retE_def)
      then show ?thesis by (rule that(1)) simp_all
    next
      case 2
      with run have "r = Inr (WriteError rq 400 ''INVALID_ID'' ''id path parameter must be a valid UUID'')" "d' = d"
        by (auto simp: RequireRole_def ValidateUUIDParam_def retE_def)
      then show ?thesis by (rule that(1)) simp_all
    next
      case a: 3
      from that(2)[OF tok \<open>Authenticate env token = Some p\<close> a] show ?thesis .
    qed
  qed
qed

lemma reads_public: "map_of public_routes pat = Some h \<Longrightarrow> reads (h rq)"
  by (auto simp: public_routes_def HealthHandler_def ReadyHandler_def db_Ready_def intro!: reads_intro split: if_splits)

lemma reads_handlers:
  "reads (templates_handle_List env rq)" "reads (templates_handle_Get env rq)" "reads (instances_handle_List env rq)"
  "reads (instances_handle_Get env rq)" "reads (Evidence env rq)" "reads (jobs_handle_List env rq)" "reads (jobs_handle_Get env rq)"
  "reads (Events env rq)" "reads (segments_handle_List rq)" "reads (findings_handle_List rq)" "reads (ip_pools_handle_List rq)"
  "reads (validations_handle_List env rq)" "reads (audit_handle_List env rq)" "reads (Export env rq)" "reads (egress_handle_List env rq)"
  "reads (alerts_handle_List env rq)"
  unfolding templates_handle_List_def templates_handle_Get_def instances_handle_List_def instances_handle_Get_def Evidence_def
    jobs_handle_List_def jobs_handle_Get_def Events_def segments_handle_List_def findings_handle_List_def ip_pools_handle_List_def
    validations_handle_List_def audit_handle_List_def Export_def egress_handle_List_def alerts_handle_List_def Let_def
  by (intro reads_intro)+

lemma get_route:
  assumes "map_of (get_routes env) pat = Some h"
  obtains k where "h = route env anyRole (\<lambda>_. k)" "\<And>rq. reads (k rq)"
  using assms reads_handlers by (auto simp: get_routes_def split: if_splits)

lemma post_route:
  assumes "map_of (post_routes env) pat = Some h"
  obtains roles k where "h = route env roles k" "set roles \<subseteq> set writeRoles" "pat \<in> set admin_patterns \<longrightarrow> roles = adminRoles"
    "\<And>p rq. keeps became (k p rq)" "pat \<in> fst ` set (post_routes env)"
  using assms keeps_actions keeps_ack_request
  by (auto simp: post_routes_def adminRoles_def writeRoles_def admin_patterns_def split: if_splits)

lemma serve_cases:
  assumes "serve env pat rq d = (r, d')"
  obtains (missing) rep where "r = Inr rep" "d' = d" "rp_status rep = 404" | (public) h where "map_of public_routes pat = Some h" "h rq d = (r, d')"
    | (get) h where "map_of (get_routes env) pat = Some h" "h rq d = (r, d')"
    | (post) h where "map_of (post_routes env) pat = Some h" "h rq d = (r, d')"
  using assms unfolding serve_def buildMux_def map_of_append map_add_def
  by (auto simp: retE_def split: option.splits)

text \<open>
  C5.  Whoever changes a table through the API sent a bearer token that was accepted, on a \<open>POST\<close> route, in a role that
  may write; the template registry and the segments are changed by administrators only.  Whatever fails, every other
  request leaves all tables as they are.
\<close>

theorem changes_need_a_permitted_role:
  assumes "serve env pat rq d = (r, d')" "\<not> same_tables d d'"
  shows "pat \<in> fst ` set (post_routes env) \<and> (\<exists>token p. rq_authorization rq = ''Bearer '' @ token \<and>
    Authenticate env token = Some p \<and> pr_role p \<in> {RoleOperator, RoleAdmin, RoleService} \<and>
    (pat \<in> set admin_patterns \<longrightarrow> pr_role p = RoleAdmin))"
  using assms(1)
proof (cases rule: serve_cases)
  case (missing rep)
  with assms(2) show ?thesis by simp
next
  case (public h)
  from keepsD[OF reads_public[OF public(1)] public(2)] assms(2) show ?thesis by (simp add: unchanged_def)
next
  case (get h)
  from get(1) obtain k where k: "h = route env anyRole (\<lambda>_. k)" "\<And>rq. reads (k rq)" by (rule get_route) blast
  have "same_tables d d'"
    using get(2)[unfolded k(1)] by (cases rule: route_cases) (auto simp: unchanged_def dest: keepsD[OF k(2)])
  with assms(2) show ?thesis by blast
next
  case (post h)
  from post(1) obtain roles k where k: "h = route env roles k" "set roles \<subseteq> set writeRoles"
    "pat \<in> set admin_patterns \<longrightarrow> roles = adminRoles" "pat \<in> fst ` set (post_routes env)" by (rule post_route) blast
  from post(2)[unfolded k(1)] show ?thesis
  proof (cases rule: route_cases)
    case (refused status code msg)
    with assms(2) show ?thesis by simp
  next
    case (admitted token p)
    with k(2-4) show ?thesis by (auto simp: writeRoles_def adminRoles_def)
  qed
qed

lemma requests_become: "became d (snd (serve env pat rq d))"
proof -
  obtain r d' where run: "serve env pat rq d = (r, d')" by (rule prod.exhaust)
  from run have "became d d'"
  proof (cases rule: serve_cases)
    case (missing rep)
    then show ?thesis by simp
  next
    case (public h)
    from keepsD[OF became_reads[OF reads_public[OF public(1)]] public(2)] show ?thesis .
  next
    case (get h)
    from get(1) obtain k where k: "h = route env anyRole (\<lambda>_. k)" "\<And>rq. reads (k rq)" by (rule get_route) blast
    show ?thesis
      using get(2)[unfolded k(1)] by (cases rule: route_cases) (auto dest: keepsD[OF became_reads[OF k(2)]])
  next
    case (post h)
    from post(1) obtain roles k where k: "h = route env roles k" "\<And>p rq. keeps became (k p rq)" by (rule post_route) blast
    show ?thesis
      using post(2)[unfolded k(1)] by (cases rule: route_cases) (auto dest: keepsD[OF k(2)])
  qed
  with run show ?thesis by simp
qed


section \<open>Invariants\<close>

lemma became_invariant:
  assumes "became d d'" "tab_inv I" "I d" "\<And>a b. api_change a b \<Longrightarrow> I a \<Longrightarrow> I b"
  shows "I d'"
proof -
  have "same_tables x (tables x)" for x by (simp add: same_tables_def tables_def)
  with assms(2) have t: "I (tables x) = I x" for x by (simp add: tab_inv_def)
  have "api_change\<^sup>*\<^sup>* (tables d) (tables d')" using assms(1) by (simp add: became_def)
  then have "I (tables d) \<Longrightarrow> I (tables d')" by (induction rule: rtranclp_induct) (use assms(4) in blast)+
  with t assms(3) show ?thesis by blast
qed

text \<open>Most changes concern another table than an invariant does.\<close>

lemma change_frames:
  assumes "api_change a b"
  shows "db_allocs b = db_allocs a \<and> db_runs b = db_runs a \<and> db_obs b = db_obs a \<and> db_findings b = db_findings a \<and> db_uuid b = db_uuid a"
  using assms by cases (auto dest!: insert_frames)

lemma change_instances:
  assumes "api_change a b" "instances_inv a"
  shows "instances_inv b"
  using assms(1)
proof cases
  case (instance_added u t w i)
  have "preserves instances_inv (insert_instance (new_instance u t w))"
    by (rule preserves_insert_instance) (simp_all add: new_instance_def)
  from keepsD[OF this instance_added] assms(2) show ?thesis by blast
next
  case (instance_marked st iid t)
  then show ?thesis
    by (intro instances_inv_map[where g = "moved iid st None t", OF _ assms(2)]) (auto simp: moved_plain inst_shrinks_def IsRetired_def)
next
  case (instance_retired iid t)
  then show ?thesis
    by (intro instances_inv_map[where g = "\<lambda>i. if inst_id i = iid \<and> \<not> IsRetired i then retire_row t i else i", OF _ assms(2)])
       (auto simp: sql_update_def retire_row_def inst_shrinks_def IsRetired_def)
qed (use assms(2) in \<open>auto simp: instances_inv_def dest!: insert_frames(2,3)\<close>)

lemma change_templates:
  assumes "api_change a b" "templates_inv a"
  shows "templates_inv b"
  using assms(1)
proof cases
  case (template_added u t x y)
  have "preserves templates_inv (insert_template (new_template u t x))"
    by (rule preserves_insert_template) (simp add: new_template_def)
  from keepsD[OF this template_added] assms(2) show ?thesis by blast
next
  case (template_promoted tid cur target t)
  then show ?thesis
    by (intro promoted_inv[OF assms(2)]) (auto simp: find_template_def dest: sql_find_in)
qed (use assms(2) in \<open>auto simp: templates_inv_def dest!: insert_frames(1,2)\<close>)

lemma change_jobs:
  assumes "api_change a b" "jobs_inv a"
  shows "jobs_inv b"
  using assms(1)
proof cases
  case (job_added u t iid oper cp j)
  from keepsD[OF keeps_insert_job job_added] assms(2) show ?thesis by blast
next
  case (job_requeued jid t)
  have "distinct (map job_id (db_jobs b))" using job_requeued assms(2) by (simp add: jobs_inv_def map_key_sql_update requeue_row_def release_lease_def)
  moreover have "\<forall>j \<in> set (db_jobs b). job_wf j"
    using job_requeued assms(2) by (auto simp: jobs_inv_def job_row_defs elim!: sql_updateE)
  ultimately show ?thesis by (simp add: jobs_inv_def)
qed (use assms(2) in \<open>auto simp: jobs_inv_def dest!: insert_frames(1,3)\<close>)

lemma change_alerts:
  assumes "api_change a b" "alerts_inv a"
  shows "alerts_inv b"
  using assms(1)
proof cases
  case (alert_acknowledged aid v actor nt t)
  then have "alerts_grow a b"
    by (intro alerts_grow_update[of b "\<lambda>x. alr_id x = aid \<and> (v > 0 \<longrightarrow> alr_version x = v)" "ack_row actor nt t"]) (auto simp: ack_row_def)
  with assms(2) show ?thesis by (simp add: alerts_grow_def)
qed (use assms(2) in \<open>auto simp: alerts_inv_def dest!: insert_frames\<close>)

text \<open>A key of a scope stands for one request.\<close>

definition idem_inv :: "db \<Rightarrow> bool" where
  "idem_inv d \<longleftrightarrow> distinct (map (\<lambda>r. (idem_scope r, idem_key r)) (db_idem d))"

lemma change_idem:
  assumes "api_change a b" "idem_inv a"
  shows "idem_inv b"
  using assms by cases (auto simp: idem_inv_def dest!: insert_frames)

lemma change_evidence:
  assumes "api_change a b"
  shows "(evidence_inv a \<longrightarrow> evidence_inv b) \<and> (unserved a \<longrightarrow> unserved b)"
proof -
  have runs: "proven b = proven a" using change_frames[OF assms] by (simp add: proven_def fun_eq_iff)
  have "\<exists>j \<in> set (db_instances a). (inst_id j = inst_id i \<and> inst_state j = inst_state i)" if "i \<in> set (db_instances b)"
    "inst_state i \<notin> {InstanceRequested, InstanceQuarantined, InstanceDraining, InstanceRetired}" for i
    using assms
  proof cases
    case (instance_added u t w x)
    with that show ?thesis by (auto simp: new_instance_def dest!: insert_frames(1))
  next
    case (instance_marked st iid t)
    with that show ?thesis by (auto simp: moved_plain split: if_splits)
  next
    case (instance_retired iid t)
    with that show ?thesis by (auto simp: retire_row_def elim!: sql_updateE)
  qed (use that in \<open>auto dest!: insert_frames(2,3)\<close>)
  note old = this
  have "evidence_inv b" if "evidence_inv a"
    unfolding evidence_inv_def
  proof (intro ballI)
    fix i ty
    assume i: "i \<in> set (db_instances b)" "ty \<in> set (required (inst_state i))"
    then have "inst_state i \<notin> {InstanceRequested, InstanceQuarantined, InstanceDraining, InstanceRetired}" by auto
    from old[OF i(1) this] i(2) that show "proven b (inst_id i) ty" by (auto simp: evidence_inv_def runs)
  qed
  moreover have "unserved b" if "unserved a"
    unfolding unserved_def
  proof (intro ballI notI)
    fix i
    assume i: "i \<in> set (db_instances b)" "inst_state i \<in> {InstanceApplyingWorkload, InstanceReady}"
    then have "inst_state i \<notin> {InstanceRequested, InstanceQuarantined, InstanceDraining, InstanceRetired}" by auto
    from old[OF i(1) this] i(2) that show False by (auto simp: unserved_def)
  qed
  ultimately show ?thesis by blast
qed


section \<open>Replies\<close>

text \<open>\<open>answers P m\<close>: \<open>m\<close> always returns a reply, and one with \<open>P\<close>; \<open>total m\<close>: it returns, without an error.\<close>

definition answers :: "(reply \<Rightarrow> bool) \<Rightarrow> reply dbm \<Rightarrow> bool" where
  "answers P m \<longleftrightarrow> (\<forall>d. \<exists>rep. fst (m d) = Inr rep \<and> P rep)"

definition total :: "'a dbm \<Rightarrow> bool" where
  "total m \<longleftrightarrow> (\<forall>d. \<exists>x. fst (m d) = Inr x)"

lemma total_ret: "total (retE x)" "total (getE f)"
  by (simp_all add: total_def retE_def getE_def)

lemma total_bind: "total m \<Longrightarrow> (\<And>x. total (k x)) \<Longrightarrow> total (bindE m k)"
  unfolding total_def bindE_def by (auto split: prod.split sum.split) (metis fst_conv sum.simps(4))

lemma total_try: "(\<And>r. total (k r)) \<Longrightarrow> total (tryE m k)"
  unfolding total_def tryE_def by (auto split: prod.split)

lemma total_mapE: "(\<And>x. total (f x)) \<Longrightarrow> total (mapE f xs)"
  by (induction xs) (auto intro: total_bind total_ret)

lemma answers_ret: "P rep \<Longrightarrow> answers P (retE rep)"
  by (simp add: answers_def retE_def)

lemma answers_bind: "total m \<Longrightarrow> (\<And>x. answers P (k x)) \<Longrightarrow> answers P (bindE m k)"
  unfolding answers_def total_def bindE_def by (auto split: prod.split sum.split) (metis fst_conv sum.simps(4))

lemma answers_replyE: "(\<And>e. P (onError e)) \<Longrightarrow> (\<And>x. answers P (k x)) \<Longrightarrow> answers P (replyE onError k m)"
  unfolding answers_def replyE_def tryE_def by (auto simp: retE_def split: prod.split sum.split)

lemma answers_cases:
  "answers P m \<Longrightarrow> answers P n \<Longrightarrow> answers P (if b then m else n)"
  "answers P n \<Longrightarrow> (\<And>x. answers P (f x)) \<Longrightarrow> answers P (case v of None \<Rightarrow> n | Some x \<Rightarrow> f x)"
  "(\<And>e. answers P (g e)) \<Longrightarrow> (\<And>x. answers P (h x)) \<Longrightarrow> answers P (case w of Inl e \<Rightarrow> g e | Inr x \<Rightarrow> h x)"
  "(\<And>a b. answers P (u a b)) \<Longrightarrow> answers P (case pr of (a, b) \<Rightarrow> u a b)"
  by (simp_all split: option.split sum.split prod.split)

definition internal_messages :: "string list" where
  "internal_messages = [''internal error'', ''failed to list instances'', ''failed to list jobs'', ''failed to list job events'',
     ''failed to list templates'', ''failed to list alerts'', ''failed to list validation runs'', ''failed to list audit events'',
     ''failed to list findings'', ''failed to list network segments'', ''failed to compute segment capacity'',
     ''failed to list egress bindings'', ''failed to export audit events'', ''failed to load evidence'']"

definition opaque :: "request \<Rightarrow> reply \<Rightarrow> bool" where
  "opaque rq rep \<longleftrightarrow> (500 \<le> rp_status rep \<and> \<not> rp_replayed rep \<longrightarrow> (\<exists>m \<in> set internal_messages. rep = WriteError rq 500 ''INTERNAL'' m))"

lemma opaque_internal: "m \<in> set internal_messages \<Longrightarrow> opaque rq (WriteError rq 500 ''INTERNAL'' m)"
  by (auto simp: opaque_def)

lemma opaque_below: "rp_status rep < 500 \<Longrightarrow> opaque rq rep"
  by (simp add: opaque_def)

lemma status_of [simp]: "rp_status (writeJSON s b) = s" "rp_status (WriteError rq s c m) = s"
  by (simp_all add: writeJSON_def WriteError_def)

lemma opaque_errors: "opaque rq (writeGetError rq e)" "opaque rq (writeMutationError rq e)"
  by (auto simp: writeGetError_def writeMutationError_def internal_messages_def opaque_def)

lemma answers_list_page:
  "''failed to list '' @ what \<in> set internal_messages \<Longrightarrow> (\<And>r. total (item r)) \<Longrightarrow> answers (opaque rq) (list_page env rq what lst created ident item)"
  unfolding list_page_def
  by (intro answers_cases answers_replyE answers_bind answers_ret total_mapE) (auto intro: opaque_internal opaque_below)

lemma total_items: "total (enrich i)" "total (egress_item b)"
  unfolding enrich_def egress_item_def Let_def by (intro total_try total_bind total_ret)+

lemma answers_segments: "answers (opaque rq) (segments_with_capacity rq st p f)"
  unfolding segments_with_capacity_def
  by (intro answers_replyE answers_ret) (auto simp: internal_messages_def intro: opaque_internal opaque_below)

lemma answers_reads:
  "answers (opaque rq) (templates_handle_List env rq)" "answers (opaque rq) (templates_handle_Get env rq)"
  "answers (opaque rq) (instances_handle_List env rq)" "answers (opaque rq) (instances_handle_Get env rq)"
  "answers (opaque rq) (Evidence env rq)" "answers (opaque rq) (jobs_handle_List env rq)" "answers (opaque rq) (jobs_handle_Get env rq)"
  "answers (opaque rq) (Events env rq)" "answers (opaque rq) (segments_handle_List rq)" "answers (opaque rq) (findings_handle_List rq)"
  "answers (opaque rq) (ip_pools_handle_List rq)" "answers (opaque rq) (validations_handle_List env rq)"
  "answers (opaque rq) (audit_handle_List env rq)" "answers (opaque rq) (Export env rq)" "answers (opaque rq) (egress_handle_List env rq)"
  "answers (opaque rq) (alerts_handle_List env rq)"
  unfolding templates_handle_List_def templates_handle_Get_def instances_handle_List_def instances_handle_Get_def Evidence_def
    jobs_handle_List_def jobs_handle_Get_def Events_def segments_handle_List_def findings_handle_List_def ip_pools_handle_List_def
    validations_handle_List_def audit_handle_List_def Export_def egress_handle_List_def alerts_handle_List_def bad_time_filter_def Let_def
  by (intro answers_list_page answers_segments answers_cases answers_replyE answers_bind answers_ret total_mapE total_items total_ret
        opaque_errors opaque_below opaque_internal; simp add: internal_messages_def)+

section \<open>One request per key\<close>

text \<open>The actions that carry a key: the scope of the key and the work.\<close>

inductive api_work :: "api_env \<Rightarrow> string \<Rightarrow> work \<Rightarrow> bool" for env where
  "api_work env ''instances.create'' (create_instance_work env req)"
| "api_work env ''instances.retry'' (retry_instance_work env iid)"
| "api_work env ''instances.quarantine'' (quarantine_work env p iid reason)"
| "api_work env ''instances.rebuild'' (rebuild_work env p iid)"
| "api_work env ''instances.decommission'' (decommission_work env p iid reason)"
| "api_work env ''jobs.retry'' (retry_job_work env jid)"
| "api_work env ''templates.create'' (create_template_work env t)"
| "api_work env ''templates.promote'' (promote_work env tid)"
| "api_work env ''network_segments.create'' (create_segment_work env s)"

lemma api_workD: "api_work env scope work \<Longrightarrow> works work \<and> untouched work \<and> succeeds work"
  by (induction rule: api_work.induct) (simp_all add: api_works api_untouched api_succeeds)

lemma once_Inr:
  assumes "bindE work (\<lambda>res. bindE (inTx (getE db_now)) (\<lambda>now.
     bindE (inTx (idem_Store (new_idem scope key hash res now))) (\<lambda>_. retE (fst res, fst (snd res))))) (d0, d0) = (Inr (s, b), (p, own))"
    "untouched work" "find_idem scope key d0 = None"
  obtains i own0 where "work (d0, d0) = (Inr (s, b, i), (p, own0))" "\<not> (\<exists>r \<in> set (db_idem d0). has_key scope key r)"
    "tables own = (tables own0)\<lparr>db_idem := db_idem d0 @ [(new_idem scope key hash (s, b, i) (db_now d0))\<lparr>idem_created := db_now d0\<rparr>]\<rparr>"
proof -
  from bindE_Inr_cases[OF assms(1)] obtain res st1 where w: "work (d0, d0) = (Inr res, st1)" and
    rest: "bindE (inTx (getE db_now)) (\<lambda>now. bindE (inTx (idem_Store (new_idem scope key hash res now))) (\<lambda>_. retE (fst res, fst (snd res)))) st1
      = (Inr (s, b), (p, own))" .
  obtain p1 own1 where st1: "st1 = (p1, own1)" by (cases st1)
  note w = w[unfolded st1] and rest = rest[unfolded st1]
  obtain s' b' i where res: "res = (s', b', i)" by (cases res)
  have u: "db_idem own1 = db_idem d0" "db_now own1 = db_now d0" using assms(2) w unfolding untouched_def keyless_def by blast+
  from rest res have st: "idem_Store (new_idem scope key hash (s', b', i) (db_now own1)) own1 = (Inr (), own)" "p1 = p" "s' = s" "b' = b"
    by (auto simp: bindE_def inTx_def getE_def retE_def split: prod.splits sum.splits)
  let ?rec = "new_idem scope key hash (s, b, i) (db_now d0)"
  have k: "idem_scope ?rec = scope" "idem_key ?rec = key" by (simp_all add: new_idem_def)
  note S = idem_Store_Inr[OF st(1), unfolded st(3,4) u k]
  have none: "\<not> (\<exists>r \<in> set (db_idem d0). has_key scope key r)"
  proof
    assume a: "\<exists>r \<in> set (db_idem d0). has_key scope key r"
    with S have "tables own = tables own1" "db_now own = db_now d0" "\<exists>x. find_idem scope key own = Some x" by auto
    moreover have "find_idem scope key own = find_idem scope key d0"
      using calculation(1,2) u tables_fields(7)[of own] tables_fields(7)[of own1] by (simp add: find_idem_def)
    ultimately show False using assms(3) by simp
  qed
  show thesis by (rule that[OF _ none]) (use w res st(2-4) S none in auto)
qed

text \<open>What a keyed request can end in.\<close>

lemma Run_cases:
  assumes "RunIdempotent sha scope key body work d = (r, d')" "works work" "untouched work"
  obtains (conflict) x where "find_idem scope key d = Some x" "idem_hash x \<noteq> sha body" "r = Inl ErrIdempotencyConflict" "same_tables d d'"
    | (replayed) x where "find_idem scope key d = Some x" "idem_hash x = sha body" "r = Inr (fst (replay x), snd (replay x), True)" "same_tables d d'"
    | (undone) e h where "r = Inl e" "tables d' = (tables d)\<lparr>db_hostnames := h\<rparr>" "db_faults d = [] \<Longrightarrow> find_idem scope key d = None"
    | (ran) d0 s b i p own where "same_tables d d0" "db_now d0 = db_now d" "work (d0, d0) = (Inr (s, b, i), (p, own))"
        "\<not> (\<exists>r \<in> set (db_idem d). has_key scope key r)"
        "tables d' = (tables own)\<lparr>db_idem := db_idem d @ [(new_idem scope key (sha body) (s, b, i) (db_now d))\<lparr>idem_created := db_now d\<rparr>],
           db_hostnames := db_hostnames p\<rparr>"
        "r = Inr (s, b, False) \<or> r = Inl conn_error"
proof -
  obtain g d1 where g: "idem_Get scope key d = (g, d1)" by (rule prod.exhaust)
  note G = idem_Get_run[OF g]
  show thesis
  proof (cases g)
    case (Inr x)
    with g assms(1) G that(1,2) show thesis
      by (auto simp: RunIdempotent_def tryE_def failE_def retE_def split: if_splits)
  next
    case (Inl e)
    show thesis
    proof (cases "errors_is e ErrNotFound")
      case False
      have "r = Inl e" "d' = d1" using Inl False g assms(1) by (auto simp: RunIdempotent_def tryE_def failE_def)
      moreover have "find_idem scope key d = None" if "db_faults d = []"
        using g Inl False that by (auto simp: idem_Get_def scanE_def onErr_def scan_row_def failE_def retE_def split: option.splits)
      ultimately show thesis using that(3)[of e "db_hostnames d"] G same_hostnames[of d] by (simp add: same_tables_def)
    next
      case True
      with G Inl have none: "find_idem scope key d = None" by simp
      obtain v d2 where v: "once scope key (sha body) work d1 = (v, d2)" by (rule prod.exhaust)
      have r: "d' = d2" "r = (case v of Inl e \<Rightarrow> Inl e | Inr (s, b) \<Rightarrow> Inr (s, b, False))"
        using g Inl True v assms(1) by (auto simp: RunIdempotent_def tryE_def bindE_def retE_def split: sum.splits prod.splits)
      from v[unfolded once_def] works_once[OF assms(2)] show thesis
      proof (cases rule: PoolTx_cases)
        case (rolled_back e' h)
        with r that(3)[of e' h] G none show thesis by (simp add: same_tables_def)
      next
        case (committed d0 x p own)
        obtain s b where x: "x = (s, b)" by (cases x)
        have d0: "same_tables d d0" "db_now d0 = db_now d" using committed(1,2) G by (auto intro: same_tables_trans)
        have "find_idem scope key d0 = None" using none find_idem_same[OF d0] by simp
        from once_Inr[OF committed(3)[unfolded x] assms(3) this] obtain i own0 where
          w: "work (d0, d0) = (Inr (s, b, i), (p, own0))" "\<not> (\<exists>r \<in> set (db_idem d0). has_key scope key r)"
          "tables own = (tables own0)\<lparr>db_idem := db_idem d0 @ [(new_idem scope key (sha body) (s, b, i) (db_now d0))\<lparr>idem_created := db_now d0\<rparr>]\<rparr>" .
        have i: "db_idem d0 = db_idem d" using d0(1) by (simp add: same_tables_fields)
        have "tables d' = (tables own0)\<lparr>db_idem := db_idem d @ [(new_idem scope key (sha body) (s, b, i) (db_now d))\<lparr>idem_created := db_now d\<rparr>],
            db_hostnames := db_hostnames p\<rparr>"
          using committed(4) w(3) r(1) i d0(2) by simp
        moreover have "r = Inr (s, b, False) \<or> r = Inl conn_error" using committed(5) r(2) x by auto
        ultimately show thesis using that(4)[OF d0 w(1)] w(2) i by simp
      qed
    qed
  qed
qed

lemma respond_known:
  assumes "find_idem scope key d = Some x" "db_faults d = []"
  shows "respond env rq scope key body work d = (Inr (if idem_hash x = ae_sha env body
     then (writeJSON (fst (replay x)) (snd (replay x)))\<lparr>rp_replayed := True\<rparr> else writeMutationError rq ErrIdempotencyConflict), d)"
proof -
  have "idem_Get scope key d = (Inr x, d)" using assms by (simp add: idem_Get_def scanE_def onErr_def scan_row_def retE_def)
  then show ?thesis by (simp add: respond_def replyE_def RunIdempotent_def tryE_def retE_def failE_def)
qed


section \<open>Errors stay inside\<close>

lemma answers_respond:
  assumes "api_work env scope work"
  shows "answers (opaque rq) (respond env rq scope key body work)"
  unfolding answers_def
proof
  fix d
  have w: "works work" "untouched work" "succeeds work" using api_workD[OF assms] by simp_all
  obtain v d1 where v: "RunIdempotent (ae_sha env) scope key body work d = (v, d1)" by (rule prod.exhaust)
  then have r: "fst (respond env rq scope key body work d)
      = Inr (case v of Inl e \<Rightarrow> writeMutationError rq e | Inr (s, b, p) \<Rightarrow> (writeJSON s b)\<lparr>rp_replayed := p\<rparr>)"
    by (simp add: respond_def replyE_def tryE_def retE_def split: sum.split prod.split)
  from v w(1,2) have "opaque rq (case v of Inl e \<Rightarrow> writeMutationError rq e | Inr (s, b, p) \<Rightarrow> (writeJSON s b)\<lparr>rp_replayed := p\<rparr>)"
  proof (cases rule: Run_cases)
    case (ran d0 s b i p own)
    have "s \<in> {201, 202}" using w(3) ran(3) unfolding succeeds_def by blast
    with ran(6) opaque_errors(2) show ?thesis by (auto simp: opaque_def writeJSON_def)
  next
    case (replayed x)
    then show ?thesis by (simp add: opaque_def)
  qed (simp_all add: opaque_errors)
  with r show "\<exists>rep. fst (respond env rq scope key body work d) = Inr rep \<and> opaque rq rep" by simp
qed

lemma answers_request:
  "(\<And>k. answers (opaque rq) (f k)) \<Longrightarrow> answers (opaque rq) (RequireIdempotencyKey rq f)"
  "(\<And>b. answers (opaque rq) (f b)) \<Longrightarrow> answers (opaque rq) (readBody rq f)"
  "(\<And>x. answers (opaque rq) (g x)) \<Longrightarrow> answers (opaque rq) (decodeBody env rq step z body g)"
  "(\<And>r b. answers (opaque rq) (h r b)) \<Longrightarrow> answers (opaque rq) (readReasonRequest env rq h)"
  unfolding RequireIdempotencyKey_def readReasonRequest_def readBody_def decodeBody_def Let_def
  by (intro answers_cases answers_ret opaque_below; simp)+

lemma answers_actions:
  "answers (opaque rq) (instances_handle_Create env rq)" "answers (opaque rq) (instances_handle_Retry env rq)"
  "answers (opaque rq) (instances_handle_Quarantine env p rq)" "answers (opaque rq) (instances_handle_Rebuild env p rq)"
  "answers (opaque rq) (instances_handle_Decommission env p rq)" "answers (opaque rq) (jobs_handle_Retry env rq)"
  "answers (opaque rq) (templates_handle_Create env rq)" "answers (opaque rq) (templates_handle_Promote env rq)"
  "answers (opaque rq) (segments_handle_Create env rq)" "answers (opaque rq) (alerts_handle_Acknowledge env p rq)"
  unfolding instances_handle_Create_def instances_handle_Retry_def instances_handle_Quarantine_def instances_handle_Rebuild_def
    instances_handle_Decommission_def jobs_handle_Retry_def templates_handle_Create_def templates_handle_Promote_def
    segments_handle_Create_def alerts_handle_Acknowledge_def Let_def
  by (intro answers_request answers_cases answers_respond api_work.intros answers_replyE answers_ret opaque_errors opaque_below; simp)+

lemma answers_route:
  assumes "\<And>p. answers P (h p rq)" "\<And>status code msg. 400 \<le> status \<Longrightarrow> status < 500 \<Longrightarrow> P (WriteError rq status code msg)"
  shows "answers P (route env roles h rq)"
  unfolding answers_def
proof
  fix d
  obtain r d' where run: "route env roles h rq d = (r, d')" by (rule prod.exhaust)
  then show "\<exists>rep. fst (route env roles h rq d) = Inr rep \<and> P rep"
  proof (cases rule: route_cases)
    case (refused status code msg)
    with run assms(2) show ?thesis by simp
  next
    case (admitted token p)
    with assms(1)[of p] run show ?thesis unfolding answers_def by (metis fst_conv)
  qed
qed


section \<open>The theorems at work\<close>

definition demo_uid :: string where
  "demo_uid = ''00000000-0000-4000-8000-000000000001''"

text \<open>A token is the name of its role; every body is the same document.\<close>

definition demo_api :: "json \<Rightarrow> api_env" where
  "demo_api doc = \<lparr>ae_parse = (\<lambda>_. Some doc), ae_sha = (\<lambda>s. s),
     ae_jwt = (\<lambda>t. Some [(''sub'', JStr ''ann''), (''role'', JStr t)]), ae_uuid = Some,
     ae_ilike = (\<lambda>_ _. False), ae_cidr = Some, ae_inet = Some\<rparr>"

definition demo_request :: "string \<Rightarrow> request" where
  "demo_request token = \<lparr>rq_authorization = ''Bearer '' @ token, rq_idem_key = ''key-0001'', rq_id = demo_uid, rq_query = (\<lambda>_. []),
     rq_body = Some ''{}'', rq_request_id = ''r1''\<rparr>"

definition demo_drafts :: db where
  "demo_drafts = demo_db\<lparr>db_templates := [(demo_template ''v1'' TemplateDraft 9000)\<lparr>tpl_id := demo_uid\<rparr>]\<rparr>"

lemma demo_promotion:
  "map tpl_state (db_templates (snd (serve (demo_api JNull) ''POST /v1/templates/{id}/promote'' (demo_request ''admin'') demo_drafts))) =
    [TemplateCandidate]"
  by code_simp

theorem changes_need_a_permitted_role_witness:
  "\<exists>p. Authenticate (demo_api JNull) ''admin'' = Some p \<and> pr_role p = RoleAdmin"
proof -
  obtain r d' where run: "serve (demo_api JNull) ''POST /v1/templates/{id}/promote'' (demo_request ''admin'') demo_drafts = (r, d')"
    by (rule prod.exhaust)
  with demo_promotion have "\<not> same_tables demo_drafts d'"
    by (auto simp: same_tables_fields demo_drafts_def demo_template_def)
  from changes_need_a_permitted_role[OF run this] show ?thesis
    by (auto simp: demo_request_def admin_patterns_def)
qed


text \<open>The same promotion asked for twice: the second time its reply is replayed.\<close>

lemma demo_respond_eval:
  "case respond (demo_api JNull) (demo_request ''admin'') ''templates.promote'' ''key-0001'' demo_uid (promote_work (demo_api JNull) demo_uid) demo_drafts of
    (r, d1) \<Rightarrow> (case r of Inr rep \<Rightarrow> rp_status rep | _ \<Rightarrow> 0) = 202 \<and> db_now d1 < db_now demo_drafts + IdempotencyTTL \<and> db_faults d1 = [] \<and>
      idem_inv d1"
  by code_simp



end
