(* ===== verification/ApiListings.thy ===== *)
theory ApiListings
  imports Api
begin

text \<open>
  The listings of the API: however much there is, a reply holds a page of bounded size.
\<close>

section \<open>Pages\<close>

text \<open>\<open>yields Q m\<close>: \<open>m\<close> always returns a value, and one with \<open>Q\<close>.\<close>

definition yields :: "('a \<Rightarrow> bool) \<Rightarrow> 'a dbm \<Rightarrow> bool" where
  "yields Q m \<longleftrightarrow> (\<forall>d. \<exists>x. fst (m d) = Inr x \<and> Q x)"

lemma yields_mapE: "(\<And>x. total (f x)) \<Longrightarrow> yields (\<lambda>ys. length ys = length xs) (mapE f xs)"
proof (induction xs)
  case Nil
  show ?case by (simp add: yields_def retE_def)
next
  case (Cons x xs)
  show ?case
    unfolding yields_def
  proof
    fix d
    obtain y d1 where f: "f x d = (Inr y, d1)" using Cons.prems unfolding total_def by (metis fst_conv prod.exhaust)
    obtain ys d2 where "mapE f xs d1 = (Inr ys, d2)" "length ys = length xs"
      using Cons unfolding yields_def by (metis fst_conv prod.exhaust)
    with f show "\<exists>zs. fst (mapE f (x # xs) d) = Inr zs \<and> length zs = length (x # xs)" by (simp add: bindE_def retE_def)
  qed
qed

lemma answers_yields: "yields Q m \<Longrightarrow> (\<And>x. Q x \<Longrightarrow> answers P (k x)) \<Longrightarrow> answers P (bindE m k)"
  unfolding answers_def yields_def bindE_def by (auto split: prod.split sum.split) (metis fst_conv sum.inject(2) Inl_Inr_False)+

text \<open>A page of a listing: no more than asked for, and as much as asked for when there is more.\<close>

definition page_of :: "request \<Rightarrow> reply \<Rightarrow> bool" where
  "page_of rq rep \<longleftrightarrow> (rp_status rep = 200 \<longrightarrow> (\<exists>n items nxt. page_limit (rq_query rq ''limit'') = Inr n \<and>
     rp_docs rep = [listEnvelope items nxt] \<and> int (length items) \<le> n \<and> n \<le> 200 \<and> (nxt \<noteq> None \<longrightarrow> int (length items) = n)))"

lemma page_limit_range: "page_limit s = Inr n \<Longrightarrow> 0 < n \<and> n \<le> 200"
  by (auto simp: page_limit_def DefaultPageLimit_def MaxPageLimit_def split: if_splits option.splits)

lemma page_of_error: "status \<noteq> 200 \<Longrightarrow> page_of rq (WriteError rq status code msg)"
  by (simp add: page_of_def)

lemma answers_page:
  assumes "\<And>r. total (item r)"
  shows "answers (page_of rq) (list_page env rq what lst created ident item)"
proof (cases "PageParams rq")
  case (Inl e)
  then show ?thesis by (simp add: list_page_def answers_ret page_of_error)
next
  case (Inr cn)
  then obtain c n where cn: "cn = (c, n)" "page_limit (rq_query rq ''limit'') = Inr n"
    by (auto simp: PageParams_def split: sum.splits)
  note range = page_limit_range[OF cn(2)]
  have "page_of rq (writeJSON 200 (listEnvelope resp nxt))"
    if "Paginate items (nat n) created ident = (page, nxt)" "length resp = length page" for items page nxt resp
    using that cn(2) range unfolding page_of_def
    by (intro impI exI[of _ n] exI[of _ resp] exI[of _ nxt]) (auto simp: writeJSON_def Paginate_def Let_def split: if_splits)
  then show ?thesis
    unfolding list_page_def Inr cn(1)
    by (auto intro!: answers_replyE page_of_error answers_yields[OF yields_mapE[OF assms]] answers_ret split: prod.split)
qed

lemma answers_listings:
  "answers (page_of rq) (templates_handle_List env rq)" "answers (page_of rq) (instances_handle_List env rq)"
  "answers (page_of rq) (jobs_handle_List env rq)" "answers (page_of rq) (Events env rq)" "answers (page_of rq) (validations_handle_List env rq)"
  "answers (page_of rq) (audit_handle_List env rq)" "answers (page_of rq) (alerts_handle_List env rq)"
proof -
  have get: "page_of rq (writeGetError rq e)" for e by (simp add: writeGetError_def page_of_error)
  show "answers (page_of rq) (templates_handle_List env rq)" "answers (page_of rq) (instances_handle_List env rq)"
    "answers (page_of rq) (jobs_handle_List env rq)" "answers (page_of rq) (Events env rq)" "answers (page_of rq) (validations_handle_List env rq)"
    "answers (page_of rq) (audit_handle_List env rq)" "answers (page_of rq) (alerts_handle_List env rq)"
    unfolding templates_handle_List_def instances_handle_List_def jobs_handle_List_def Events_def validations_handle_List_def
      audit_handle_List_def bad_time_filter_def alerts_handle_List_def Let_def
    by (intro answers_page answers_replyE answers_cases answers_ret total_items total_ret get page_of_error; simp)+
qed

definition paged_patterns :: "string list" where
  "paged_patterns = [''GET /v1/templates'', ''GET /v1/instances'', ''GET /v1/jobs'', ''GET /v1/jobs/{id}/events'',
     ''GET /v1/validations'', ''GET /v1/audit-events'', ''GET /v1/alerts'']"

text \<open>
  C36.  A paged listing that succeeds holds at most as many items as its \<open>limit\<close> asks for, never more than 200, whatever
  the tables hold; and it names a next page only when it is full.
\<close>

theorem listings_are_bounded:
  assumes "pat \<in> set paged_patterns"
  shows "\<exists>rep. fst (serve env pat rq d) = Inr rep \<and> (rp_status rep = 200 \<longrightarrow>
    (\<exists>n items nxt. page_limit (rq_query rq ''limit'') = Inr n \<and> rp_docs rep = [listEnvelope items nxt] \<and>
      int (length items) \<le> n \<and> n \<le> 200 \<and> (nxt \<noteq> None \<longrightarrow> int (length items) = n)))"
proof -
  have "answers (page_of rq) (h rq)" if "map_of (buildMux env) pat = Some h" for h
    using that assms answers_listings[of rq env]
    by (auto simp: buildMux_def public_routes_def get_routes_def paged_patterns_def intro!: answers_route page_of_error split: if_splits)
  moreover obtain h where "map_of (buildMux env) pat = Some h"
    using assms by (auto simp: buildMux_def public_routes_def get_routes_def paged_patterns_def)
  ultimately show ?thesis unfolding serve_def answers_def page_of_def by simp
qed

definition demo_listing :: request where
  "demo_listing = (demo_request ''viewer'')\<lparr>rq_id := [], rq_query := (\<lambda>k. if k = ''limit'' then ''2'' else [])\<rparr>"

definition demo_three :: db where
  "demo_three = demo_db\<lparr>db_alerts := map (\<lambda>i. demo_alert\<lparr>alr_id := i, alr_fingerprint := i\<rparr>) [''a1'', ''a2'', ''a3'']\<rparr>"

lemma mapE_ret: "mapE (\<lambda>x. retE (f x)) xs = retE (map f xs)"
  by (induction xs) (simp_all add: bindE_def retE_def fun_eq_iff)

lemma demo_params: "PageParams demo_listing = Inr ((zero_time, []), 2)"
  by code_simp

lemma demo_admitted: "serve (demo_api JNull) ''GET /v1/alerts'' demo_listing = alerts_handle_List (demo_api JNull) demo_listing"
  by (simp add: fun_eq_iff serve_def buildMux_def public_routes_def get_routes_def route_def AuthMiddleware_def RequireRole_def ValidateUUIDParam_def
      anyRole_def demo_listing_def demo_request_def cut_prefix_def Authenticate_def demo_api_def claim_text_def Let_def)

lemma demo_listing_ok: "case fst (serve (demo_api JNull) ''GET /v1/alerts'' demo_listing demo_three) of
    Inr rep \<Rightarrow> rp_status rep = 200 | Inl _ \<Rightarrow> False"
  unfolding demo_admitted alerts_handle_List_def list_page_def demo_params
  by (simp add: replyE_def tryE_def optional_uuid_def alerts_List_def queryE_healthy mapE_ret demo_three_def demo_db_def bindE_def retE_def
      split: prod.split)

theorem listings_are_bounded_witness:
  "\<exists>rep items nxt. fst (serve (demo_api JNull) ''GET /v1/alerts'' demo_listing demo_three) = Inr rep \<and>
     rp_docs rep = [listEnvelope items nxt] \<and> length items \<le> 2"
proof -
  have "page_limit (rq_query demo_listing ''limit'') = Inr 2" by code_simp
  with listings_are_bounded[of "''GET /v1/alerts''" "demo_api JNull" demo_listing demo_three] demo_listing_ok show ?thesis
    by (auto simp: paged_patterns_def)
qed

end
