(* ===== verification/ApiActions.thy ===== *)
theory ApiActions
  imports Api
begin

text \<open>
  What the actions of the API have done when they are over: creating and rebuilding an instance are all or nothing, with their
  job; and examples of how the actions behave in corners.
\<close>

section \<open>Steps of work\<close>

lemma pool_read_Inr:
  assumes "onPool m (p, own) = (Inr x, (p', own'))" "reads m"
  shows "same_tables own own' \<and> same_tables p p' \<and> db_now own' = db_now own \<and>
    (\<exists>q q'. same_tables p q \<and> db_now q = db_now own \<and> m q = (Inr x, q'))"
proof -
  from assms(1) have m: "m (pool_view p own) = (Inr x, p')" and o: "same_tables own own'" "db_now own' = db_now p'"
    by (auto simp: onPool_def same_tables_def split: prod.splits)
  have q: "same_tables p (pool_view p own)" "db_now (pool_view p own) = db_now own" by (simp_all add: same_tables_def pool_view_def)
  from keepsD[OF assms(2) m] have "same_tables (pool_view p own) p'" "db_now p' = db_now (pool_view p own)" by (simp_all add: unchanged_def)
  with q m o same_tables_trans show ?thesis by metis
qed

lemma hostname_Inr:
  assumes "onPool (hostnames_Next prefix) (p, own) = (Inr x, (p', own'))"
  shows "same_tables own own' \<and> db_now own' = db_now own \<and> (\<exists>n. x = format_hostname prefix n)"
proof -
  from assms have m: "hostnames_Next prefix (pool_view p own) = (Inr x, p')" and o: "same_tables own own'"
    by (auto simp: onPool_def same_tables_def split: prod.splits)
  moreover have "db_now own' = db_now own" using untouched_hostname assms unfolding untouched_def keyless_def by blast
  moreover have "\<exists>n. x = format_hostname prefix n" using m by (auto simp: hostnames_Next_def retE_def elim!: bindE_Inr_cases)
  ultimately show ?thesis by blast
qed

lemma inTx_Inr: "inTx m (p, own) = (Inr x, (p', own')) \<longleftrightarrow> p' = p \<and> m own = (Inr x, own')"
  by (auto simp: inTx_def split: prod.splits)

lemma bind_tx:
  assumes "bindE m k (p, own) = (Inr y, st')"
  obtains x p1 own1 where "m (p, own) = (Inr x, (p1, own1))" "k x (p1, own1) = (Inr y, st')"
  using assms by (elim bindE_Inr_cases) (metis prod.exhaust)

lemma uuid_row:
  assumes "uuidE env s (\<lambda>u. scanE m (\<lambda>d. scan_row (f u d) d)) q = (Inr x, q')" "\<And>u fs. f u (q\<lparr>db_faults := fs\<rparr>) = f u q"
  obtains u where "ae_uuid env s = Some u" "f u q = Some x"
proof -
  from uuidE_Inr[OF assms(1)] obtain u where u: "ae_uuid env s = Some u" "scanE m (\<lambda>d. scan_row (f u d) d) q = (Inr x, q')" by blast
  from scan_read[OF u(2) assms(2)] have "f u q = Some x" by simp
  with u(1) that show thesis by blast
qed

lemma get_rows:
  "uuidE env s templates_Get q = (Inr t, q1) \<Longrightarrow> \<exists>u. ae_uuid env s = Some u \<and> find_template u q = Some t"
  "uuidE env s instances_Get q = (Inr i, q2) \<Longrightarrow> \<exists>u. ae_uuid env s = Some u \<and> find_instance u q = Some i"
  unfolding templates_Get_def[abs_def] instances_Get_def[abs_def]
  by (erule uuid_row; auto simp: find_template_def find_instance_def)+

section \<open>Creating an instance\<close>

text \<open>A new instance with its job, in a transaction that began at \<open>d\<close>.\<close>

definition with_job :: "vm_instance list \<Rightarrow> db \<Rightarrow> vm_instance \<Rightarrow> job \<Rightarrow> job_operation \<Rightarrow> db \<Rightarrow> bool" where
  "with_job old d i j oper d' \<longleftrightarrow> db_instances d' = old @ [i] \<and> db_jobs d' = db_jobs d @ [j] \<and>
     inst_state i = InstanceRequested \<and> inst_id i \<notin> inst_id ` set old \<and> job_instance j = inst_id i \<and> job_op j = oper \<and>
     job_st j = JobQueued \<and> job_checkpoint j = InstanceRequested \<and> (\<exists>n. inst_hostname i = format_hostname hostnamePrefix n)"

lemma create_then_job:
  assumes "instances_Create w d1 = (Inr i, d2)" "jobs_Create (inst_id i) oper InstanceRequested d2 = (Inr j, d3)"
    "inst_hostname w = format_hostname hostnamePrefix n"
  shows "with_job (db_instances d1) d1 i j oper d3"
    "tables d3 = (tables d1)\<lparr>db_instances := db_instances d1 @ [i], db_jobs := db_jobs d1 @ [j]\<rparr>"
    "inst_template i = inst_template w" "inst_logical_name i = inst_logical_name w"
    "inst_generation i = (if inst_generation w = 0 then 1 else inst_generation w)" "inst_config i = or_empty_object (inst_config w)"
proof -
  from instances_Create_Inr[OF assms(1)] obtain u where u: "i = new_instance u (db_now d1) w"
    "insert_instance i (tables d1) = (Inr i, tables d2)" by blast
  from jobs_Create_Inr[OF assms(2)] obtain v where v: "j = new_job v (db_now d2) (inst_id i) oper InstanceRequested"
    "insert_job j (tables d2) = (Inr j, tables d3)" by blast
  have fresh: "inst_id i \<notin> inst_id ` set (db_instances d1)" using u(2) by (auto simp: insert_instance_def split: if_splits)
  from insert_frames(1)[OF u(2)] have t2: "tables d2 = (tables d1)\<lparr>db_instances := db_instances d1 @ [i]\<rparr>" by simp
  then have jobs: "db_jobs d2 = db_jobs d1" using tables_fields(2)[of d2] by simp
  from insert_frames(2)[OF v(2)] t2 jobs
  show t3: "tables d3 = (tables d1)\<lparr>db_instances := db_instances d1 @ [i], db_jobs := db_jobs d1 @ [j]\<rparr>" by simp
  then have "db_instances d3 = db_instances d1 @ [i]" "db_jobs d3 = db_jobs d1 @ [j]"
    using tables_fields(1,2)[of d3] by simp_all
  with fresh u(1) v(1) assms(3) show "with_job (db_instances d1) d1 i j oper d3"
    by (auto simp: with_job_def new_instance_def new_job_def)
qed (use instances_Create_Inr[OF assms(1)] in \<open>auto simp: new_instance_def\<close>)

lemma requested_fields:
  "inst_hostname (requested_instance req tpl hostname) = hostname" "inst_template (requested_instance req tpl hostname) = tpl"
  by (simp_all add: requested_instance_def wanted_instance_def Let_def split: option.split)

lemma create_work_Inr:
  assumes "create_instance_work env req (d0, d0) = (Inr (s, b, rid), (p, own))"
  obtains i j t where "with_job (db_instances d0) d0 i j JobOpProvision own" "t \<in> set (db_templates d0)"
    "tpl_state t = TemplateActive" "inst_template i = tpl_id t" "s = 202" "b = acceptedJobResponse (inst_id i) (job_id j) ''REQUESTED''"
proof -
  have rs: "reads (uuidE env x templates_Get)" "reads (uuidE env x segments_Get)" for x by (intro reads_intro)+
  from assms[unfolded create_instance_work_def] obtain t p1 o1 where
    t: "onPool (uuidE env (ir_template req) templates_Get) (d0, d0) = (Inr t, (p1, o1))" and
    r1: "(if \<not> template_IsUsable t then failE (Suffixed ErrInvalidTransition (''template '' @ ir_template req @ '' is state '' @
            template_state_str (tpl_state t) @ '', must be ACTIVE''))
       else bindE (onPool (uuidE env (ir_segment req) segments_Get)) (\<lambda>_. bindE (onPool (hostnames_Next hostnamePrefix)) (\<lambda>hostname.
          bindE (inTx (instances_Create (requested_instance req (tpl_id t) hostname))) (\<lambda>created.
          bindE (inTx (jobs_Create (inst_id created) JobOpProvision InstanceRequested)) (\<lambda>job.
          retE (202, acceptedJobResponse (inst_id created) (job_id job) (instance_state_str InstanceRequested), inst_id created)))))) (p1, o1)
      = (Inr (s, b, rid), (p, own))" by (rule bind_tx)
  have usable: "template_IsUsable t" using r1 by (cases "template_IsUsable t") (simp_all add: failE_def)
  from r1[simplified usable] obtain sg p2 o2 h p3 o3 i p4 o4 j p5 o5 where
    sg: "onPool (uuidE env (ir_segment req) segments_Get) (p1, o1) = (Inr sg, (p2, o2))" and
    h: "onPool (hostnames_Next hostnamePrefix) (p2, o2) = (Inr h, (p3, o3))" and
    i: "inTx (instances_Create (requested_instance req (tpl_id t) h)) (p3, o3) = (Inr i, (p4, o4))" and
    j: "inTx (jobs_Create (inst_id i) JobOpProvision InstanceRequested) (p4, o4) = (Inr j, (p5, o5))" and
    e: "retE (202, acceptedJobResponse (inst_id i) (job_id j) (instance_state_str InstanceRequested), inst_id i) (p5, o5)
      = (Inr (s, b, rid) :: err + _, (p, own))"
    apply simp
    apply (erule bind_tx)+
    subgoal premises ps by (rule ps(1)) (rule ps(2-6))+
    done
  note T = pool_read_Inr[OF t rs(1)] and S = pool_read_Inr[OF sg rs(2)] and H = hostname_Inr[OF h]
  have o3: "same_tables d0 o3" using T S H same_tables_trans by blast
  from T obtain q q' where q: "same_tables d0 q" "uuidE env (ir_template req) templates_Get q = (Inr t, q')" by blast
  from get_rows(1)[OF q(2)] q(1) have "t \<in> set (db_templates d0)"
    by (auto simp: find_template_def same_tables_fields dest: sql_find_in)
  moreover obtain n where n: "h = format_hostname hostnamePrefix n" using H by blast
  note c = create_then_job[OF i[unfolded inTx_Inr, THEN conjunct2] j[unfolded inTx_Inr, THEN conjunct2]]
  have "with_job (db_instances d0) d0 i j JobOpProvision own"
    using c(1) n e o3 by (simp add: requested_fields retE_def with_job_def same_tables_fields)
  moreover have "inst_template i = tpl_id t" using c(3) n by (simp add: requested_fields)
  moreover have "s = 202" "b = acceptedJobResponse (inst_id i) (job_id j) ''REQUESTED''" using e by (auto simp: retE_def)
  ultimately show thesis using that usable by (simp add: template_IsUsable_def)
qed

text \<open>What holds of a keyed request whether its work ran or not.\<close>

lemma respond_cases:
  assumes "respond env rq scope key body work d = (r, d')" "api_work env scope work"
  obtains (unrun) h where "tables d' = (tables d)\<lparr>db_hostnames := h\<rparr>" "\<And>rep. r = Inr rep \<Longrightarrow> rp_status rep < 400 \<Longrightarrow> rp_replayed rep"
    | (ran) d0 s b i p own h ks where "same_tables d d0" "work (d0, d0) = (Inr (s, b, i), (p, own))"
        "tables d' = (tables own)\<lparr>db_idem := ks, db_hostnames := h\<rparr>" "r = Inr (writeJSON s b) \<or> r = Inr (writeMutationError rq conn_error)"
proof -
  note unrun = that(1) and ran = that(2)
  have w: "works work" "untouched work" using api_workD[OF assms(2)] by simp_all
  obtain v where v: "RunIdempotent (ae_sha env) scope key body work d = (v, d')"
    and r: "r = Inr (case v of Inl e \<Rightarrow> writeMutationError rq e | Inr (s, b, p) \<Rightarrow> (writeJSON s b)\<lparr>rp_replayed := p\<rparr>)"
    using assms(1) by (auto simp: respond_def replyE_def tryE_def retE_def split: prod.splits sum.splits)
  have plain: "(writeJSON s b)\<lparr>rp_replayed := False\<rparr> = writeJSON s b" for s b by (simp add: writeJSON_def)
  have err: "\<not> rp_status (writeMutationError rq e) < 400" for e by (simp add: writeMutationError_def)
  have nothing_done: thesis if "tables d' = (tables d)\<lparr>db_hostnames := h\<rparr>" "v = Inl e \<or> v = Inr (s, b, True)" for h e s b
    by (rule unrun[OF that(1)]) (use that(2) r err in \<open>auto simp: writeJSON_def\<close>)
  from v w show thesis
  proof (cases rule: Run_cases)
    case (conflict x)
    with same_hostnames[of d] show thesis by (intro nothing_done[of "db_hostnames d"]) (auto simp: same_tables_def)
  next
    case (replayed x)
    with same_hostnames[of d] show thesis by (intro nothing_done[of "db_hostnames d"]) (auto simp: same_tables_def)
  next
    case (undone e h)
    then show thesis by (intro nothing_done[of h]) auto
  next
    case run: (ran d0 s b i p own)
    show thesis by (rule ran[OF run(1,3) run(5)]) (use r run(6) plain in auto)
  qed
qed

text \<open>
  C13.  Creating an instance is all or nothing, whatever fails: either neither the instances nor the jobs change, and the reply is no
  fresh 202; or exactly one instance is added, in \<open>REQUESTED\<close>, with a drawn hostname and a new identifier, of a template that is
  \<open>ACTIVE\<close>, together with exactly one queued job to provision it, and the reply is a 202 that names the two, unless only
  that reply was lost.
\<close>

theorem create_is_all_or_nothing:
  "case instances_handle_Create env rq d of (r, d') \<Rightarrow>
     db_instances d' = db_instances d \<and> db_jobs d' = db_jobs d \<and> (\<exists>rep. r = Inr rep \<and> (rp_status rep = 202 \<longrightarrow> rp_replayed rep)) \<or>
     (\<exists>i j t. with_job (db_instances d) d i j JobOpProvision d' \<and> t \<in> set (db_templates d) \<and> tpl_state t = TemplateActive \<and>
       inst_template i = tpl_id t \<and>
       (r = Inr (writeJSON 202 (acceptedJobResponse (inst_id i) (job_id j) ''REQUESTED'')) \<or> r = Inr (writeMutationError rq conn_error)))"
proof -
  obtain r d' where run: "instances_handle_Create env rq d = (r, d')" by (rule prod.exhaust)
  have refused: ?thesis if "r = Inr (WriteError rq 400 c m)" "d' = d" for c m
    using that run by simp
  show ?thesis
  proof (cases "\<exists>key body req. respond env rq ''instances.create'' key body (create_instance_work env req) d = (r, d')")
    case False
    with run refused show ?thesis
      by (auto simp: instances_handle_Create_def RequireIdempotencyKey_def readBody_def decodeBody_def Let_def retE_def
          split: if_splits option.splits prod.splits)
  next
    case True
    then obtain key body req where q: "respond env rq ''instances.create'' key body (create_instance_work env req) d = (r, d')" by blast
    have rep: "\<exists>rep. r = Inr rep"
      using answers_respond[OF api_work.intros(1), of rq env key body req] q unfolding answers_def by (metis fst_conv)
    from q api_work.intros(1) show ?thesis
    proof (cases rule: respond_cases)
      case (unrun h)
      then have "db_instances d' = db_instances d" "db_jobs d' = db_jobs d" using tables_fields(1,2)[of d'] by simp_all
      with unrun(2) rep run show ?thesis by auto
    next
      case (ran d0 s b rid p own h ks)
      from create_work_Inr[OF ran(2)] obtain i j t where c: "with_job (db_instances d0) d0 i j JobOpProvision own" "t \<in> set (db_templates d0)"
        "tpl_state t = TemplateActive" "inst_template i = tpl_id t" "s = 202" "b = acceptedJobResponse (inst_id i) (job_id j) ''REQUESTED''" .
      have "db_instances d' = db_instances own" "db_jobs d' = db_jobs own" using ran(3) tables_fields(1,2)[of d'] by simp_all
      with c(1) ran(1) have "with_job (db_instances d) d i j JobOpProvision d'" by (simp add: with_job_def same_tables_fields)
      with c(2-6) ran(1,4) run show ?thesis by (auto simp: same_tables_fields)
    qed
  qed
qed

section \<open>Rebuilding an instance\<close>

definition replaces :: "vm_instance \<Rightarrow> vm_instance \<Rightarrow> bool" where
  "replaces old i \<longleftrightarrow> inst_logical_name i = inst_logical_name old \<and> inst_template i = inst_template old \<and>
     inst_generation i = (if inst_generation old + 1 = 0 then 1 else inst_generation old + 1) \<and> inst_config i = or_empty_object (inst_config old)"

lemma rebuild_work_Inr:
  assumes "rebuild_work env pr iid (d0, d0) = (Inr (s, b, rid), (p, own))"
  obtains old u rows i j e where "find_instance u d0 = Some old" "\<not> (\<forall>x \<in> set (db_instances d0). inst_id x = u \<longrightarrow> IsRetired x)"
    "rows = sql_update (\<lambda>i. inst_id i = u \<and> \<not> IsRetired i) (retire_row (db_now d0)) (db_instances d0)"
    "with_job rows d0 i j JobOpRebuild own" "replaces old i" "db_audit own = db_audit d0 @ [e]"
    "event_core e = event_core (operator_event pr ''rebuild'' (inst_id i) [(''rebuilt_from'', JStr iid)])"
    "s = 202" "b = acceptedJobResponse (inst_id i) (job_id j) ''REQUESTED''" "ae_uuid env iid = Some u"
proof -
  have rs: "reads (uuidE env x instances_Get)" for x by (intro reads_intro)
  from assms[unfolded rebuild_work_def] obtain old p1 o1 x1 p2 o2 h p3 o3 i p4 o4 j p5 o5 x2 p6 o6 where
    g: "onPool (uuidE env iid instances_Get) (d0, d0) = (Inr old, (p1, o1))" and
    t: "inTx (uuidE env iid instances_Retire) (p1, o1) = (Inr x1, (p2, o2))" and
    h: "onPool (hostnames_Next hostnamePrefix) (p2, o2) = (Inr h, (p3, o3))" and
    i: "inTx (instances_Create (wanted_instance (inst_logical_name old) h (inst_template old)
        (inst_generation old + 1) (inst_config old) (inst_workload_adapter old) (inst_workload_spec old))) (p3, o3) = (Inr i, (p4, o4))" and
    j: "inTx (jobs_Create (inst_id i) JobOpRebuild InstanceRequested) (p4, o4) = (Inr j, (p5, o5))" and
    a: "inTx (audit_Append (operator_event pr ''rebuild'' (inst_id i) [(''rebuilt_from'', JStr iid)])) (p5, o5) = (Inr x2, (p6, o6))" and
    e: "retE (202, acceptedJobResponse (inst_id i) (job_id j) (instance_state_str InstanceRequested), inst_id i) (p6, o6)
      = (Inr (s, b, rid) :: err + _, (p, own))"
    apply (erule_tac bind_tx)
    apply (erule bind_tx)+
    subgoal premises ps by (rule ps(1)) (rule ps(2-8))+
    done
  note G = pool_read_Inr[OF g rs] and H = hostname_Inr[OF h]
  from uuidE_Inr[OF t[unfolded inTx_Inr, THEN conjunct2]] obtain u where u: "ae_uuid env iid = Some u" "instances_Retire u o1 = (Inr x1, o2)" by blast
  note R = Retire_tables[OF u(2)]
  have o1: "db_instances o1 = db_instances d0" "db_now o1 = db_now d0" "db_jobs o1 = db_jobs d0" "db_audit o1 = db_audit d0"
    using G by (simp_all add: same_tables_fields)
  have o2: "db_instances o2 = sql_update (\<lambda>i. inst_id i = u \<and> \<not> IsRetired i) (retire_row (db_now d0)) (db_instances d0)"
    "db_jobs o2 = db_jobs d0" "db_audit o2 = db_audit d0"
    using R o1 tables_fields(1-3)[of o2] by simp_all
  have o3: "db_instances o3 = db_instances o2" "db_jobs o3 = db_jobs o2" "db_audit o3 = db_audit o2" using H by (simp_all add: same_tables_fields)
  from G obtain q q' where q: "same_tables d0 q" "uuidE env iid instances_Get q = (Inr old, q')" by blast
  from get_rows(2)[OF q(2)] u(1) have old: "find_instance u d0 = Some old" using same_find[OF q(1)] by auto
  obtain n where n: "h = format_hostname hostnamePrefix n" using H by blast
  note c = create_then_job[OF i[unfolded inTx_Inr, THEN conjunct2] j[unfolded inTx_Inr, THEN conjunct2], unfolded wanted_instance_def, simplified, OF n]
  from audit_tables[OF a[unfolded inTx_Inr, THEN conjunct2]] obtain ev where ev: "tables o6 = (tables o5)\<lparr>db_audit := db_audit o5 @ [ev]\<rparr>"
    "event_core ev = event_core (operator_event pr ''rebuild'' (inst_id i) [(''rebuilt_from'', JStr iid)])"
    by (auto simp: operator_event_def)
  have own: "own = o6" "s = 202" "b = acceptedJobResponse (inst_id i) (job_id j) ''REQUESTED''" using e by (auto simp: retE_def)
  have o6: "db_instances o6 = db_instances o5" "db_jobs o6 = db_jobs o5" "db_audit o6 = db_audit o5 @ [ev]" using ev(1) tables_fields(1-3)[of o6] by simp_all
  have "db_audit o5 = db_audit d0" using c(2) o3 o2 tables_fields(3)[of o5] by simp
  with o6 ev own have aud: "db_audit own = db_audit d0 @ [ev]" by simp
  have job: "with_job (db_instances o2) d0 i j JobOpRebuild own" using c(1) o3 o2(2) o6(1,2) own(1) by (simp add: with_job_def)
  have rep: "replaces old i" using c(3-6) by (simp add: replaces_def)
  have live: "\<not> (\<forall>x \<in> set (db_instances d0). inst_id x = u \<longrightarrow> IsRetired x)" using R o1 by auto
  show thesis by (rule that[OF old live o2(1) job rep aud ev(2) own(2,3) u(1)])
qed


section \<open>The theorems at work\<close>

definition demo_body :: json where
  "demo_body = JObj [(''template_id'', JStr ''v1''), (''network_segment_id'', JStr ''s1''), (''egress_policy_id'', JStr ''p1'')]"

definition demo_site :: db where
  "demo_site = demo_db\<lparr>db_templates := [demo_template ''v1'' TemplateActive 9000], db_segments := [empty_segment\<lparr>seg_id := ''s1''\<rparr>],
     db_instances := [(demo_instance demo_uid)\<lparr>inst_state := InstanceFailed, inst_template := ''v1''\<rparr>]\<rparr>"

lemma demo_creation:
  "case fst (instances_handle_Create (demo_api demo_body) (demo_request ''operator'') demo_site) of
     Inr rep \<Rightarrow> rp_status rep = 202 \<and> \<not> rp_replayed rep | Inl _ \<Rightarrow> False"
  by code_simp

theorem create_is_all_or_nothing_witness:
  "\<exists>i j. with_job (db_instances demo_site) demo_site i j JobOpProvision
     (snd (instances_handle_Create (demo_api demo_body) (demo_request ''operator'') demo_site)) \<and> inst_template i = ''v1''"
  using create_is_all_or_nothing[where env = "demo_api demo_body" and rq = "demo_request ''operator''" and d = demo_site] demo_creation
  by (auto simp: demo_site_def demo_template_def split: prod.splits sum.splits)

definition demo_operator :: principal where
  "demo_operator = \<lparr>pr_subject = ''ann'', pr_role = RoleOperator\<rparr>"

lemma demo_rebuilding:
  "case fst (instances_handle_Rebuild (demo_api JNull) demo_operator (demo_request ''operator'') demo_site) of
     Inr rep \<Rightarrow> rp_status rep = 202 \<and> \<not> rp_replayed rep | Inl _ \<Rightarrow> False"
  by code_simp


end
