(* ===== verification/System.thy ===== *)
theory System
  imports ApiActions Worker
begin

text \<open>
  The composition: any number of workers, the maintenance loop and the requests of the API act on one database.  A step of
  the system is one call a process makes; what a process holds in memory meanwhile (the job and the instance it has read)
  may be out of date, so these are arbitrary.  A round of a worker is a sequence of such steps, and others may come between.
\<close>

section \<open>Steps\<close>

text \<open>
  \<open>elapsed\<close> stands for everything that leaves the tables alone: reads, the passing of time, what happens on the
  cluster, connections that break and recover.
\<close>

inductive system_step :: "'x wiring \<Rightarrow> 'x pgw_adapter \<Rightarrow> api_env \<Rightarrow> 'x world \<Rightarrow> 'x world \<Rightarrow> bool" for wr gw ae where
  elapsed: "same_tables (w_db w) (w_db w') \<Longrightarrow> system_step wr gw ae w w'"
| requested: "system_step wr gw ae w (snd (onDB (wr_env wr) (serve ae pat rq) w))"
| claimed: "system_step wr gw ae w (snd (onDB (wr_env wr) (jobs_Claim locked wid lease) w))"
| prolonged: "system_step wr gw ae w (snd (onDB (wr_env wr) (jobs_Heartbeat jid wid lease) w))"
| stepped: "system_step wr gw ae w (snd (Engine_Step (wr_env wr) (registry_of gw wr) jb w))"
| completed: "system_step wr gw ae w (snd (onDB (wr_env wr) (jobs_Complete jid wid) w))"
| failed: "system_step wr gw ae w (snd (onDB (wr_env wr) (jobs_Fail jid wid code msg retryAt) w))"
| rolled_back: "system_step wr gw ae w (snd (Rollback_Execute (wr_env wr) gw inst jb reason w))"
| alerted: "system_step wr gw ae w (snd (onDB (wr_env wr) (alerts_Upsert a) w))"
| reclaimed: "system_step wr gw ae w (snd (onDB (wr_env wr) jobs_ReclaimExpiredLeases w))"
| reaped: "system_step wr gw ae w (snd (onDB (wr_env wr) (ReleaseExpiredReservations locked) w))"

abbreviation system_run :: "'x wiring \<Rightarrow> 'x pgw_adapter \<Rightarrow> api_env \<Rightarrow> 'x world \<Rightarrow> 'x world \<Rightarrow> bool" where
  "system_run wr gw ae \<equiv> (system_step wr gw ae)\<^sup>*\<^sup>*"

section \<open>The loops of the worker are sequences of steps\<close>

lemma run_rel: "reflp (system_run wr gw ae)" "transp (system_run wr gw ae)"
  by (auto simp: reflp_def transp_def)

lemma run_call: "(\<And>w. system_step wr gw ae w (snd (m w))) \<Longrightarrow> keeps (system_run wr gw ae) m"
  by (simp add: keeps_def r_into_rtranclp)

lemma run_read: "reads m \<Longrightarrow> keeps (system_run wr gw ae) (onDB env m)"
  by (rule keeps_onDB[where Q = unchanged]) (auto intro!: r_into_rtranclp elapsed simp: unchanged_def same_tables_def)

lemma run_ext: "keeps (system_run wr gw ae) (onExt m)"
  by (rule keeps_onExt) (auto intro!: r_into_rtranclp elapsed)

lemma run_now: "keeps (system_run wr gw ae) (nowE env)"
  by (simp add: nowE_def run_ext)

lemma run_ignore: "keeps (system_run wr gw ae) m \<Longrightarrow> keeps (system_run wr gw ae) (ignoreE m)"
  unfolding ignoreE_def by (intro keeps_try keeps_ret run_rel)

lemma run_reads: "reads (instances_Get i)" "reads (jobs_Get j)" "reads (queryE m f)"
  by (simp_all add: instances_Get_def jobs_Get_def reads_scan reads_query)

lemmas run_intros = keeps_bind keeps_try keeps_onErr keeps_if keeps_ret keeps_option keeps_sum keeps_Let keeps_case_prod keeps_for
  run_rel run_ext run_now run_ignore
  run_call[OF requested] run_call[OF claimed] run_call[OF prolonged] run_call[OF stepped] run_call[OF completed]
  run_call[OF failed] run_call[OF rolled_back] run_call[OF alerted] run_call[OF reclaimed] run_call[OF reaped]
  run_read[OF run_reads(1)] run_read[OF run_reads(2)] run_read[OF run_reads(3)]

text \<open>A worker of the system: wired as it is.\<close>

definition works_for :: "'x wiring \<Rightarrow> 'x pgw_adapter \<Rightarrow> 'x worker \<Rightarrow> bool" where
  "works_for wr gw wk \<longleftrightarrow> wk_env wk = wr_env wr \<and> wk_engine wk = registry_of gw wr \<and> wk_gw wk = gw"

lemma run_fail:
  assumes "works_for wr gw wk"
  shows "keeps (system_run wr gw ae) (terminalFail wk jb inst code msg)" "keeps (system_run wr gw ae) (failOrRetry wk jb code msg)"
proof -
  note w = assms[unfolded works_for_def, THEN conjunct1] assms[unfolded works_for_def, THEN conjunct2, THEN conjunct2]
  show t: "keeps (system_run wr gw ae) (terminalFail wk jb inst code msg)" for inst
    unfolding terminalFail_def w by (intro run_intros)
  show "keeps (system_run wr gw ae) (failOrRetry wk jb code msg)"
    unfolding failOrRetry_def w by (intro run_intros t)
qed

lemma run_drive:
  assumes "works_for wr gw wk"
  shows "keeps (system_run wr gw ae) (drive wk fuel jb)"
proof (induction fuel arbitrary: jb)
  case 0
  show ?case by (simp add: keeps_fail run_rel)
next
  case (Suc fuel)
  note w = assms[unfolded works_for_def, THEN conjunct1] assms[unfolded works_for_def, THEN conjunct2, THEN conjunct1]
  show ?case
    unfolding drive.simps w by (intro run_intros run_fail[OF assms] Suc)
qed

lemma worker_loops:
  assumes "works_for wr gw wk"
  shows "system_run wr gw ae w (snd (run_round wk locked w)) \<and> system_run wr gw ae w (snd (heartbeat_tick wk jid w)) \<and>
    system_run wr gw ae w (snd (maintenance_tick (wk_env wk) locked order w))"
proof -
  note w = assms[unfolded works_for_def, THEN conjunct1]
  have "keeps (system_run wr gw ae) (processJob wk jb)" for jb
    unfolding processJob_def w by (intro run_intros run_drive[OF assms])
  then have "keeps (system_run wr gw ae) (run_round wk locked)"
    unfolding run_round_def w by (intro run_intros)
  moreover have "keeps (system_run wr gw ae) (heartbeat_tick wk jid)"
    unfolding heartbeat_tick_def w by (intro run_intros)
  moreover have "keeps (system_run wr gw ae) (maintenance_tick (wk_env wk) locked order)"
    unfolding maintenance_tick_def refreshResourceGauges_def deriveOperationalAlerts_def w by (intro run_intros)
  ultimately show ?thesis by (simp add: keeps_def)
qed


lemma keepsE: "keeps Q m \<Longrightarrow> Q s (snd (m s))"
  by (simp add: keeps_def)

lemma tables_same: "same_tables (tables d) d"
  by (simp add: same_tables_def tables_def)

section \<open>What every step keeps\<close>

text \<open>
  A relation of databases that the steps keep, from what each of them does to the tables: the operations of the queue, the
  allocations and the alerts leave the instances and the evidence, a step of the engine and a rollback move the instance.
\<close>

locale system_frame =
  fixes gw :: "'x pgw_adapter" and R :: "db \<Rightarrow> db \<Rightarrow> bool"
  assumes R_refl: "reflp R" and R_trans: "transp R"
    and R_chronicle: "db_instances d' = db_instances d \<Longrightarrow> db_runs d' = db_runs d \<Longrightarrow> db_audit d' = db_audit d \<Longrightarrow> R d d'"
    and R_event: "R d (d\<lparr>db_audit := db_audit d @ [e]\<rparr>)"
    and R_outcome: "st \<in> {InstanceFailed, InstanceQuarantined} \<Longrightarrow> db_instances d' = map (moved iid st None t) (db_instances d) \<Longrightarrow>
      db_runs d' = db_runs d \<Longrightarrow> db_audit d' = db_audit d @ [e] \<Longrightarrow> R d d'"
    and R_step: "keeps (\<lambda>w w'. R (w_db w) (w_db w')) (Engine_Step env (registry_of gw wr) jb)"
    and R_api: "api_change a b \<Longrightarrow> R a b"
begin

lemma R_table: "table_rel R"
  unfolding table_rel_def
proof (intro allI impI)
  fix a a' b b' :: db
  assume s: "same_tables a a'" "same_tables b b'" "R a b"
  have "R a' a" "R b b'" using s(1,2) by (auto intro!: R_chronicle simp: same_tables_fields)
  with s(3) show "R a' b'" using R_trans by (meson transpD)
qed

lemma R_now: "R (d\<lparr>db_now := t\<rparr>) d' \<Longrightarrow> R d d'"
  using R_trans R_chronicle[of "d\<lparr>db_now := t\<rparr>" d] by (auto elim: transpE)

lemma call: "keeps R m \<Longrightarrow> keeps (\<lambda>w w'. R (w_db w) (w_db w')) (onDB env m)"
  by (erule keeps_onDB) (simp add: R_now)

lemma R_stmt: "keeps R q \<Longrightarrow> keeps R (stmt q)"
  by (rule keeps_stmt[OF R_refl table_rel_insensitive[OF R_table]])

lemma R_became: "became d d' \<Longrightarrow> R d d'"
proof -
  assume "became d d'"
  then have "api_change\<^sup>*\<^sup>* (tables d) (tables d')" by (simp add: became_def)
  then have "R (tables d) (tables d')"
    by (induction rule: rtranclp_induct) (use R_refl R_trans R_api in \<open>auto simp: reflp_def elim: transpE\<close>)
  then show "R d d'" using R_table unfolding table_rel_def by (metis tables_same same_tables_sym)
qed

lemmas R_rel = R_refl R_trans R_table table_rel_insensitive[OF R_table]

lemma update_jobs: "keeps R (update_jobs p f)"
  by (simp add: keeps_def update_jobs_def R_chronicle)

lemma scan: "keeps R (scanE m (\<lambda>d. scan_row (f d) d))"
  by (intro keeps_scanE R_rel keepsI) (simp add: scan_row_def eff_defs reflpD[OF R_refl] split: option.split)

lemma queue:
  "keeps R (jobs_Claim locked wid lease)" "keeps R (jobs_Heartbeat jid wid lease)" "keeps R (jobs_Complete jid wid)"
  "keeps R (jobs_Fail jid wid code msg retryAt)" "keeps R jobs_ReclaimExpiredLeases"
proof -
  have "keeps R (claim_select locked)"
    unfolding claim_select_def
    by (intro keeps_onErr keeps_stmt R_rel keepsI) (simp add: scan_row_def eff_defs reflpD[OF R_refl] split: option.split)
  then show "keeps R (jobs_Claim locked wid lease)"
    unfolding jobs_Claim_def claim_update_def jobs_Get_def
    by (intro keeps_WithTx keeps_bind keeps_onErr keeps_stmt update_jobs scan R_rel)
qed (unfold jobs_Heartbeat_def jobs_Complete_def jobs_Fail_def jobs_ReclaimExpiredLeases_def,
    (intro keeps_bind keeps_onErr keeps_option keeps_stmt update_jobs keeps_require R_rel)+)

lemma append: "keeps R (audit_Append ev)"
  unfolding audit_Append_def
  by (intro keeps_onErr keeps_stmt keeps_bind keeps_uuid keeps_mod R_rel R_event) (simp add: R_chronicle)

lemma reaper: "keeps R (ReleaseExpiredReservations locked)"
proof -
  have "keeps R (upd_tab db_allocs put_allocs p f)" for p f by (simp add: keeps_def upd_tab_def R_chronicle)
  then show ?thesis
    unfolding ReleaseExpiredReservations_def reap_one_def queryE_def
    by (intro keeps_WithTx keeps_bind keeps_onErr keeps_for keeps_stmt keeps_get keeps_ret append R_rel)
qed

lemma alert: "keeps R (alerts_Upsert a)"
proof -
  have "keeps R (upsert_alert_stmt a)"
    unfolding upsert_alert_stmt_def
    by (intro keeps_bind keeps_uuid keepsI R_rel) (auto intro!: R_chronicle split: if_splits)
  then show ?thesis unfolding alerts_Upsert_def by (intro keeps_onErr R_stmt)
qed

abbreviation in_world :: "'b world \<Rightarrow> 'b world \<Rightarrow> bool" where
  "in_world w w' \<equiv> R (w_db w) (w_db w')"

lemma in_world_rel: "reflp in_world" "transp in_world"
  using R_refl R_trans by (auto simp: reflp_def transp_def)

lemma quietly: "quiet m \<Longrightarrow> keeps in_world m"
  unfolding keeps_def by (auto simp: chronicle_def intro!: R_chronicle)

lemma outcome:
  assumes "st \<in> {InstanceFailed, InstanceQuarantined}" "aud_metadata ev = Some md"
  shows "keeps in_world (onDB env (WithTx (persist_outcome iid jb st ev)))"
proof (rule keepsI)
  fix w :: "'a world"
  obtain r w' where run: "onDB env (WithTx (persist_outcome iid jb st ev)) w = (r, w')" by (rule prod.exhaust)
  from outcome_cases[OF run assms(2)] have "R (w_db w) (w_db w')"
    using R_outcome[OF assms(1)] by (auto simp: chronicle_def intro: R_chronicle)
  with run show "in_world w (snd (onDB env (WithTx (persist_outcome iid jb st ev)) w))" by simp
qed

lemma rollback: "keeps in_world (Rollback_Execute env gw' inst jb reason)"
proof -
  have o: "keeps in_world (onDB env (WithTx (persist_outcome (inst_id inst) jb st (rollback_event (inst_id inst) reason fs))))"
    if "st \<in> {InstanceFailed, InstanceQuarantined}" for st fs
    using that event_metadata(1) outcome by blast
  show ?thesis
    unfolding Rollback_Execute_def Let_def
    by (intro keeps_bind keeps_onErr keeps_case_prod in_world_rel keeps_ret o quietly quiet.intros quiet_compensation) (auto split: if_splits)
qed

lemma request: "keeps R (serve ae pat rq)"
  using requests_become by (simp add: keeps_def R_became)

lemma step: "system_step wr gw ae w w' \<Longrightarrow> R (w_db w) (w_db w')"
proof (induction rule: system_step.induct)
  case (elapsed w w')
  then show ?case by (auto intro!: R_chronicle simp: same_tables_fields)
next
  case (stepped jb w)
  show ?case by (rule keepsE[OF R_step])
next
  case (rolled_back inst jb reason w)
  show ?case by (rule keepsE[OF rollback])
qed (rule keepsE[OF call], rule request queue alert reaper)+

lemma run: "system_run wr gw ae w w' \<Longrightarrow> R (w_db w) (w_db w')"
  by (induction rule: rtranclp_induct) (use R_refl R_trans step in \<open>blast dest: reflpD elim: transpE\<close>)+

end

section \<open>Evidence\<close>

interpretation evidence: system_frame gw "\<lambda>d d'. evidence_inv d \<longrightarrow> evidence_inv d'" for gw :: "'x pgw_adapter"
proof
  show "evidence_inv d \<longrightarrow> evidence_inv d'"
    if "db_instances d' = db_instances d" "db_runs d' = db_runs d" "db_audit d' = db_audit d" for d d'
    using that by (simp add: evidence_inv_def proven_def)
  show "evidence_inv d \<longrightarrow> evidence_inv (d\<lparr>db_audit := db_audit d @ [e]\<rparr>)" for d e
    by (simp add: evidence_inv_def proven_def)
  show "evidence_inv d \<longrightarrow> evidence_inv d'"
    if "st \<in> {InstanceFailed, InstanceQuarantined}" "db_instances d' = map (moved iid st None t) (db_instances d)" "db_runs d' = db_runs d"
      "db_audit d' = db_audit d @ [e]" for st d' iid t d e
    using moved_evidence[OF _ _ that(2,3)] that(1) by auto
qed (use step_evidence change_evidence in \<open>auto simp: reflp_def transp_def\<close>)

text \<open>
  C1.  However workers, maintenance and requests interleave, whatever fails, whatever the cluster, the guests and the gateway
  answer: an instance that is \<open>READY\<close> has a passing validation of its identity, of its egress and of its workload on
  record, when this was so at the start, as it is of an empty database.
\<close>

theorem ready_means_validated:
  assumes "system_run wr gw ae w0 w" "evidence_inv (w_db w0)" "i \<in> set (db_instances (w_db w))" "inst_state i = InstanceReady"
  shows "\<forall>ty \<in> {''identity'', ''egress'', ''workload''}.
    \<exists>r \<in> set (db_runs (w_db w)). run_instance r = inst_id i \<and> run_type r = ty \<and> run_result r = ValidationPass"
proof -
  have "evidence_inv (w_db w)" using evidence.run[OF assms(1)] assms(2) by blast
  with assms(3,4) show ?thesis unfolding evidence_inv_def proven_def by force
qed

interpretation unserved: system_frame NoopAdapter "\<lambda>d d'. unserved d \<longrightarrow> unserved d'"
proof
  show "unserved d \<longrightarrow> unserved d'"
    if "db_instances d' = db_instances d" "db_runs d' = db_runs d" "db_audit d' = db_audit d" for d d'
    using that by (simp add: unserved_def)
  show "unserved d \<longrightarrow> unserved (d\<lparr>db_audit := db_audit d @ [e]\<rparr>)" for d e
    by (simp add: unserved_def)
  show "unserved d \<longrightarrow> unserved d'"
    if "st \<in> {InstanceFailed, InstanceQuarantined}" "db_instances d' = map (moved iid st None t) (db_instances d)" "db_runs d' = db_runs d"
      "db_audit d' = db_audit d @ [e]" for st d' iid t d e
    using moved_unserved[OF _ _ that(2)] that(1) by auto
  show "keeps (\<lambda>w w'. unserved (w_db w) \<longrightarrow> unserved (w_db w')) (Engine_Step env (registry_of NoopAdapter wr) jb)" for env wr jb
    using wired_step_unserved unfolding wireEngine_def .
qed (use change_evidence in \<open>auto simp: reflp_def transp_def\<close>)

text \<open>
  C27.  With the gateway the worker is shipped with, which is a simulation, no instance gets past the validation of its egress:
  in no run of the system is one ever applying its workload or \<open>READY\<close>.
\<close>

theorem shipped_system_serves_nobody:
  assumes "system_run wr NoopAdapter ae w0 w" "db_instances (w_db w0) = []" "i \<in> set (db_instances (w_db w))"
  shows "inst_state i \<notin> {InstanceApplyingWorkload, InstanceReady}"
proof -
  have "unserved (w_db w0)" using assms(2) by (simp add: unserved_def)
  with unserved.run[OF assms(1)] assms(3) show ?thesis unfolding unserved_def by blast
qed

section \<open>History\<close>

text \<open>A list whose old entries are still there, at their place, and related to what they were.\<close>

definition grown :: "('a \<Rightarrow> 'a \<Rightarrow> bool) \<Rightarrow> 'a list \<Rightarrow> 'a list \<Rightarrow> bool" where
  "grown P xs ys \<longleftrightarrow> length xs \<le> length ys \<and> (\<forall>k < length xs. P (xs ! k) (ys ! k))"

lemma grown_refl: "reflp P \<Longrightarrow> grown P xs xs"
  by (simp add: grown_def reflpD)

lemma grown_trans: "transp P \<Longrightarrow> grown P xs ys \<Longrightarrow> grown P ys zs \<Longrightarrow> grown P xs zs"
  unfolding grown_def by (meson le_trans less_le_trans transpD)

lemma grown_append: "reflp P \<Longrightarrow> grown P xs (xs @ zs)"
  by (simp add: grown_def nth_append reflpD)

lemma grown_map: "(\<And>x. P x (g x)) \<Longrightarrow> grown P xs (map g xs)"
  by (simp add: grown_def)

text \<open>What is fixed of an instance from its creation, and when it is retired.\<close>

definition same_instance :: "vm_instance \<Rightarrow> vm_instance \<Rightarrow> bool" where
  "same_instance i i' \<longleftrightarrow> inst_id i' = inst_id i \<and> inst_logical_name i' = inst_logical_name i \<and> inst_hostname i' = inst_hostname i \<and>
     inst_generation i' = inst_generation i \<and> inst_template i' = inst_template i \<and> inst_config i' = inst_config i \<and>
     inst_workload_adapter i' = inst_workload_adapter i \<and> inst_workload_spec i' = inst_workload_spec i \<and>
     inst_created i' = inst_created i \<and> (IsRetired i \<longrightarrow> inst_retired i' = inst_retired i) \<and> inst_version i \<le> inst_version i'"

definition history :: "db \<Rightarrow> db \<Rightarrow> bool" where
  "history d d' \<longleftrightarrow> grown same_instance (db_instances d) (db_instances d') \<and> grown (=) (db_runs d) (db_runs d') \<and>
     grown (=) (db_audit d) (db_audit d')"

lemma same_instance_rel: "reflp same_instance" "transp same_instance"
  by (auto simp: same_instance_def reflp_def transp_def IsRetired_def)

lemma same_instance_rows: "same_instance i (moved iid st pl t i)" "same_instance i (if P i \<and> \<not> IsRetired i then retire_row t i else i)"
  by (auto simp: same_instance_def moved_def retire_row_def Let_def split: option.split)

lemma history_rel: "reflp history" "transp history"
proof -
  show "reflp history" using same_instance_rel by (simp add: history_def reflp_def grown_refl)
  have "transp ((=) :: 'a \<Rightarrow> _)" by (auto simp: transp_def)
  with same_instance_rel show "transp history"
    unfolding history_def by (auto intro!: transpI elim: grown_trans[rotated])
qed

lemma history_same: "db_instances d' = db_instances d \<Longrightarrow> db_runs d' = db_runs d \<Longrightarrow> db_audit d' = db_audit d \<Longrightarrow> history d d'"
  by (simp add: history_def grown_refl same_instance_rel)

lemma history_moved:
  assumes "db_instances d' = map (moved iid st pl t) (db_instances d)" "db_runs d' = db_runs d @ rs" "db_audit d' = db_audit d @ es"
  shows "history d d'"
  using assms by (simp add: history_def grown_append grown_map same_instance_rows)

lemma history_step: "keeps (\<lambda>w w'. history (w_db w) (w_db w')) (Engine_Step env (registry_of gw wr) jb)"
proof (rule keepsI)
  fix w :: "'a world"
  obtain r w' where run: "Engine_Step env (registry_of gw wr) jb w = (r, w')" by (rule prod.exhaust)
  from run have "history (w_db w) (w_db w')"
  proof (cases rule: Step_cases)
    case (unwritten e)
    then show ?thesis by (intro history_same) (simp_all add: chronicle_def)
  next
    case (written inst h result now w1)
    then have "\<exists>rs. db_runs (w_db w') = db_runs (w_db w) @ rs" "\<exists>es. db_audit (w_db w') = db_audit (w_db w) @ es"
      by (auto simp: transitioned_def split: option.splits)
    with written(8) show ?thesis by (auto simp: transitioned_def intro: history_moved)
  qed
  with run show "history (w_db w) (w_db (snd (Engine_Step env (registry_of gw wr) jb w)))" by simp
qed

lemma history_change:
  assumes "api_change a b"
  shows "history a b"
  using assms
proof cases
  case (instance_added u t w i)
  then show ?thesis
    by (auto simp: history_def grown_append grown_refl same_instance_rel insert_instance_def split: if_splits)
next
  case (instance_retired iid t)
  then show ?thesis
    using same_instance_rows(2)[where P = "\<lambda>r. inst_id r = iid"]
    by (auto simp: history_def grown_refl sql_update_def intro!: grown_map)
qed (auto simp: history_def grown_append grown_refl grown_map same_instance_rel same_instance_rows dest!: insert_frames)

interpretation history: system_frame gw history for gw :: "'x pgw_adapter"
proof
  show "history d d'" if "db_instances d' = db_instances d" "db_runs d' = db_runs d" "db_audit d' = db_audit d" for d d'
    using that by (rule history_same)
  show "history d (d\<lparr>db_audit := db_audit d @ [e]\<rparr>)" for d e
    by (simp add: history_def grown_append grown_refl same_instance_rel)
  show "history d d'"
    if "st \<in> {InstanceFailed, InstanceQuarantined}" "db_instances d' = map (moved iid st None t) (db_instances d)" "db_runs d' = db_runs d"
      "db_audit d' = db_audit d @ [e]" for st d' iid t d e
    using that by (intro history_moved[of d' iid st None t d "[]" "[e]"]) simp_all
qed (use history_rel history_step history_change in auto)

text \<open>
  C3.  No process rewrites history, whatever interleaves and whatever fails: audit events and validation runs are never
  changed or deleted; an instance is never deleted, keeps its names, generation, template and configuration, once retired
  stays so, and its version never decreases.
\<close>

theorem history_is_never_rewritten:
  assumes "system_run wr gw ae w0 w"
  shows "(\<exists>es. db_audit (w_db w) = db_audit (w_db w0) @ es) \<and> (\<exists>rs. db_runs (w_db w) = db_runs (w_db w0) @ rs) \<and>
    grown same_instance (db_instances (w_db w0)) (db_instances (w_db w))"
proof -
  have split: "grown (=) xs ys \<Longrightarrow> \<exists>zs. ys = xs @ zs" for xs ys :: "'b list"
    by (rule exI[of _ "drop (length xs) ys"]) (auto simp: grown_def list_eq_iff_nth_eq nth_append)
  from history.run[OF assms] show ?thesis unfolding history_def by (auto intro: split)
qed

section \<open>The theorems at work\<close>

lemma demo_worker_wired: "works_for demo_wiring NoopAdapter demo_worker"
  by (simp add: works_for_def demo_worker_def wireEngine_def)

abbreviation demo_world :: "nat world" where
  "demo_world \<equiv> \<lparr>w_db = demo_queue, w_ext = 0\<rparr>"


text \<open>An instance that is asked for through the API, and what becomes of it.\<close>

abbreviation demo_site_world :: "nat world" where
  "demo_site_world \<equiv> \<lparr>w_db = demo_site\<lparr>db_instances := []\<rparr>, w_ext = 0\<rparr>"

definition demo_created :: "nat world" where
  "demo_created = snd (onDB (wr_env demo_wiring) (serve (demo_api demo_body) ''POST /v1/instances'' (demo_request ''operator'')) demo_site_world)"

lemma demo_created_run: "system_run demo_wiring NoopAdapter (demo_api demo_body) demo_site_world demo_created"
  unfolding demo_created_def by (rule r_into_rtranclp) (rule requested)

theorem shipped_system_serves_nobody_witness:
  "\<exists>i. db_instances (w_db demo_created) = [i] \<and> inst_state i \<noteq> InstanceReady"
proof -
  have "length (db_instances (w_db demo_created)) = 1" by code_simp
  then obtain i where i: "db_instances (w_db demo_created) = [i]" by (auto simp: length_Suc_conv)
  with shipped_system_serves_nobody[OF demo_created_run] show ?thesis by simp
qed

lemma demo_round_run: "system_run demo_wiring NoopAdapter (demo_api JNull) w (snd (run_round demo_worker (\<lambda>_. False) w))"
  using worker_loops[OF demo_worker_wired] by blast

theorem history_is_never_rewritten_witness:
  "grown same_instance [demo_instance ''i1''] (db_instances (w_db (snd (run_round demo_worker (\<lambda>_. False) demo_world))))"
  using history_is_never_rewritten[OF demo_round_run[of demo_world]] by (simp add: demo_queue_def)

definition demo_run :: "string \<Rightarrow> validation_run" where
  "demo_run ty = \<lparr>run_id = ty, run_instance = ''i1'', run_job = None, run_type = ty, run_result = ValidationPass, run_ruleset = [], run_evidence = None,
     run_started = 0, run_finished = None\<rparr>"

abbreviation demo_ready :: "nat world" where
  "demo_ready \<equiv> \<lparr>w_db = demo_queue\<lparr>db_instances := [(demo_instance ''i1'')\<lparr>inst_state := InstanceReady\<rparr>],
     db_runs := map demo_run [''identity'', ''egress'', ''workload'']\<rparr>, w_ext = 0\<rparr>"

theorem ready_means_validated_witness:
  "\<exists>i. db_instances (w_db (snd (run_round demo_worker (\<lambda>_. False) demo_ready))) = [i] \<and>
    (\<exists>r \<in> set (db_runs (w_db (snd (run_round demo_worker (\<lambda>_. False) demo_ready)))).
      run_instance r = inst_id i \<and> run_type r = ''egress'' \<and> run_result r = ValidationPass)"
proof -
  have "map inst_state (db_instances (w_db (snd (run_round demo_worker (\<lambda>_. False) demo_ready)))) = [InstanceReady]" by code_simp
  then obtain i where i: "db_instances (w_db (snd (run_round demo_worker (\<lambda>_. False) demo_ready))) = [i]" "inst_state i = InstanceReady"
    by auto
  have "evidence_inv (w_db demo_ready)" by (simp add: evidence_inv_def proven_def demo_run_def demo_instance_def)
  from ready_means_validated[OF demo_round_run this _ i(2)] i(1) show ?thesis by simp
qed

end
