(* ===== verification/Corners.thy ===== *)
theory Corners
  imports System
begin

text \<open>
  Behaviour at the corners of the design that the code does not seem to intend: what happens to a key that has expired, and
  to an address and a VM that were given back and belong to another instance by now, to what a failed step had put on record, and to
  the address of an instance that serves.
\<close>

section \<open>Expired keys\<close>

text \<open>
  The row of an expired key is nowhere deleted, the insert leaves it as it is, and the check after the insert does not see it: every
  later request with the key is refused, although the key has no meaning any more.
\<close>

lemma expired_key_blocks_for_ever:
  assumes "api_work env scope work" "x \<in> set (db_idem d)" "has_key scope key x" "find_idem scope key d = None"
    and "respond env rq scope key body work d = (r, d')"
  shows "\<exists>rep h. r = Inr rep \<and> rp_status rep \<ge> 400 \<and> tables d' = (tables d)\<lparr>db_hostnames := h\<rparr>"
proof -
  have w: "works work" "untouched work" using api_workD[OF assms(1)] by simp_all
  obtain v where v: "RunIdempotent (ae_sha env) scope key body work d = (v, d')"
    and r: "r = Inr (case v of Inl e \<Rightarrow> writeMutationError rq e | Inr (s, b, p) \<Rightarrow> (writeJSON s b)\<lparr>rp_replayed := p\<rparr>)"
    using assms(5) by (auto simp: respond_def replyE_def tryE_def retE_def split: prod.splits sum.splits)
  have err: "rp_status (writeMutationError rq e) \<ge> 400" for e by (simp add: writeMutationError_def)
  from v w show ?thesis
  proof (cases rule: Run_cases)
    case (undone e h)
    with r err show ?thesis by auto
  next
    case (ran d0 s b i p own)
    with assms(2,3) show ?thesis by blast
  qed (use assms(4) in simp_all)
qed

section \<open>A retry of a rolled back job\<close>

text \<open>
  A job that failed for good was rolled back: its address is free again and may have been given to another instance.  Retrying it
  finds no handler for the state \<open>FAILED\<close> and rolls back once more, with the checkpoint the job still has; \<open>Release\<close> does
  not ask whose address it is.
\<close>

definition demo_retried :: "nat world" where
  "demo_retried = \<lparr>w_db = demo_db\<lparr>
     db_instances := [(demo_instance ''i1'')\<lparr>inst_state := InstanceFailed\<rparr>, (demo_instance ''i2'')\<lparr>inst_state := InstanceCloning\<rparr>],
     db_allocs := [demo_alloc\<lparr>ipa_instance := Some ''i2''\<rparr>],
     db_jobs := [(demo_job (write_cp Reserved (empty_cp\<lparr>cp_ip := ''a1''\<rparr>)))\<lparr>job_st := JobFailed, job_owner := None, job_lease_until := None,
       job_checkpoint := InstanceFailed\<rparr>]\<rparr>, w_ext = 0\<rparr>"

text \<open>The operator's retry of the job of \<open>i1\<close>, and the next round of a worker: the address of \<open>i2\<close> is free.\<close>

lemma retry_frees_the_address_of_another:
  "map (\<lambda>a. (ipa_instance a, ipa_state a)) (db_allocs (w_db demo_retried)) = [(Some ''i2'', AllocationReserved)]"
  "map (\<lambda>a. (ipa_instance a, ipa_state a)) (db_allocs (w_db (snd (run_round demo_worker (\<lambda>_. False)
     (snd (onDB (wr_env demo_wiring) (jobs_Requeue (jobs_Get ''j1'') ''j1'') demo_retried)))))) = [(None, AllocationFree)]"
  by code_simp+

section \<open>The reply to a quarantine\<close>

text \<open>
  The handler reads the instance for its reply through the pool, while the change is not committed: the reply, and every replay of
  it, shows the state before.
\<close>

definition demo_reason :: json where
  "demo_reason = JObj [(''reason'', JStr ''drift'')]"

lemma quarantine_replies_with_the_old_state:
  "case instances_handle_Quarantine (demo_api demo_reason) demo_operator (demo_request ''operator'') demo_site of
     (Inl _, _) \<Rightarrow> False
   | (Inr rep, d') \<Rightarrow> rp_status rep = 202 \<and> map inst_state (db_instances d') = [InstanceQuarantined] \<and>
       (case rp_docs rep of [JObj kvs] \<Rightarrow> map_of kvs ''state'' = Some (JStr ''FAILED'') | _ \<Rightarrow> False)"
  by code_simp

section \<open>A rollback that forgets\<close>

text \<open>
  The last attempt of a job binds the network: the mapping is created and put on record, its activation fails.  The worker rolls back with
  the checkpoint it read before the step, which has no mapping.  The gateway below refuses to delete a mapping, which would have led to
  quarantine, had the rollback asked for it.  Instead the address of the mapping is free, and the record of the mapping is gone.
\<close>

definition leaky_gateway :: "lab pgw_adapter" where
  "leaky_gateway = NoopAdapter\<lparr>pg_ActivateMapping := (\<lambda>_. failE (Errf ''unavailable'')),
     pg_SuspendMapping := (\<lambda>_. failE (Errf ''unavailable'')), pg_DeleteMapping := (\<lambda>_. failE (Errf ''unavailable''))\<rparr>"

definition lab_wiring :: "lab wiring" where
  "lab_wiring = \<lparr>wr_env = lab_env 100, wr_parse = (\<lambda>_. None), wr_sha = (\<lambda>_. ''''), wr_locked = (\<lambda>_. False),
     wr_identity = \<lparr>ip_order = (\<lambda>m. m), ip_order' = (\<lambda>m. m), ip_digest = (\<lambda>m. m), ip_mac = Some, ip_inet = Some\<rparr>,
     wr_options = \<lparr>io_timeout = 0, io_block_retired = False, io_single_nic = True, io_single_route = True\<rparr>,
     wr_segment = ''s1'', wr_ttl = seconds 900, wr_pool = ''vmf'',
     wr_defaults = \<lparr>vd_cores = 2, vd_memory = 2048, vd_bridge = ''vmbr0'', vd_ipconfig0 = ''ip=dhcp''\<rparr>, wr_policy = ''p1'', wr_deny_v6 = True\<rparr>"

definition lab_worker :: "lab worker" where
  "lab_worker = \<lparr>wk_id = ''w1'', wk_env = lab_env 100, wk_engine = registry_of leaky_gateway lab_wiring, wk_gw = leaky_gateway,
     wk_lease = seconds 60, wk_rnd = (\<lambda>_. 0), wk_max_steps = 10\<rparr>"

definition last_attempt :: "checkpoint \<Rightarrow> job" where
  "last_attempt cp = (demo_job (write_cp Reserved cp))\<lparr>job_attempt := 8\<rparr>"

definition demo_binding :: "lab world" where
  "demo_binding = \<lparr>w_db = demo_db\<lparr>db_instances := [(demo_instance ''i1'')\<lparr>inst_state := InstanceNetworkBinding\<rparr>],
     db_allocs := [demo_alloc], db_jobs := [last_attempt demo_cp]\<rparr>, w_ext = (RegisterVM 901 ''pve'' False NewServer, 0)\<rparr>"

definition mappings_on_record :: "'x world \<Rightarrow> string list" where
  "mappings_on_record w = map (\<lambda>j. cp_mapping (fst (read_full (job_data j)))) (db_jobs (w_db w))"

lemma rollback_forgets_the_mapping:
  "mappings_on_record (snd (Engine_Step (lab_env 100) (registry_of leaky_gateway lab_wiring) (last_attempt demo_cp) demo_binding)) =
     [''noop-mapping-noop-client-i1'']"
  "mappings_on_record (snd (processJob lab_worker (last_attempt demo_cp) demo_binding)) = [[]]"
  "map inst_state (db_instances (w_db (snd (processJob lab_worker (last_attempt demo_cp) demo_binding)))) = [InstanceFailed]"
  "map ipa_state (db_allocs (w_db (snd (processJob lab_worker (last_attempt demo_cp) demo_binding)))) = [AllocationFree]"
  by code_simp+

section \<open>An address that is lost\<close>

text \<open>
  The address is reserved first and the VM id asked for then.  When that fails the address is in no checkpoint, so nothing releases it:
  the job fails for good, and the address stays with the instance that failed.
\<close>

definition demo_reserving :: "nat world" where
  "demo_reserving = \<lparr>w_db = demo_db\<lparr>db_instances := [(demo_instance ''i1'')\<lparr>inst_state := InstanceReserving\<rparr>],
     db_templates := [demo_template ''t1'' TemplateActive 9000],
     db_allocs := [demo_alloc\<lparr>ipa_state := AllocationFree, ipa_instance := None, ipa_reserved_until := None\<rparr>],
     db_jobs := [last_attempt empty_cp]\<rparr>, w_ext = 0\<rparr>"

lemma address_is_lost_without_a_vmid:
  "map inst_state (db_instances (w_db (snd (processJob demo_worker (last_attempt empty_cp) demo_reserving)))) = [InstanceFailed]"
  "map (\<lambda>a. (ipa_instance a, ipa_state a)) (db_allocs (w_db (snd (processJob demo_worker (last_attempt empty_cp) demo_reserving)))) =
     [(Some ''i1'', AllocationReserved)]"
  by code_simp+

section \<open>The address of an instance that serves\<close>

text \<open>Nothing marks the address of a \<open>READY\<close> instance as assigned: when the reservation has expired the reaper frees it.\<close>

definition demo_serving :: db where
  "demo_serving = demo_db\<lparr>db_instances := [(demo_instance ''i1'')\<lparr>inst_state := InstanceReady\<rparr>], db_allocs := [demo_alloc],
     db_jobs := [(last_attempt demo_cp)\<lparr>job_st := JobSucceeded, job_owner := None, job_lease_until := None\<rparr>], db_now := 9001\<rparr>"

lemma reaper_frees_the_address_of_a_ready_instance:
  "map ipa_state (db_allocs (snd (ReleaseExpiredReservations (\<lambda>_. False) demo_serving))) = [AllocationFree]"
  "map inst_state (db_instances (snd (ReleaseExpiredReservations (\<lambda>_. False) demo_serving))) = [InstanceReady]"
  by code_simp+

section \<open>A step without a lease\<close>

text \<open>A worker that lost its lease to another moves the instance, and the checkpoint of the job, all the same.\<close>

definition demo_stolen :: "nat world" where
  "demo_stolen = \<lparr>w_db = demo_db\<lparr>db_instances := [demo_instance ''i1''], db_templates := [demo_template ''t1'' TemplateActive 9000],
     db_jobs := [(last_attempt empty_cp)\<lparr>job_owner := Some ''w2''\<rparr>]\<rparr>, w_ext = 0\<rparr>"

lemma step_needs_no_lease:
  "map inst_state (db_instances (w_db demo_stolen)) = [InstanceRequested]"
  "map inst_state (db_instances (w_db (snd (Engine_Step (wr_env demo_wiring) (wireEngine demo_wiring) (last_attempt empty_cp) demo_stolen)))) =
     [InstanceReserving]"
  "map (\<lambda>j. (job_owner j, job_checkpoint j)) (db_jobs (w_db (snd (Engine_Step (wr_env demo_wiring) (wireEngine demo_wiring)
     (last_attempt empty_cp) demo_stolen)))) = [(Some ''w2'', InstanceReserving)]"
  by code_simp+

end
