(* ===== verification/Metrics.thy ===== *)
theory Metrics
  imports Worker
begin

text \<open>
  The Prometheus metrics of the worker (\<open>internal/observability/metrics.go\<close>) and the refresh of the gauges from the tables
  (\<open>refreshResourceGauges\<close> of \<open>cmd/worker/main.go\<close>).  A collector is a map from the values of its labels to a number; counts are
  whole numbers and durations are kept in nanoseconds, where the library has \<open>float64\<close>.  The text that is served is left to the library.
\<close>

section \<open>The collectors\<close>

type_synonym 'v series = "string list \<Rightarrow> 'v option"

record histogram =
  hg_counts :: "nat list"
  hg_count :: nat
  hg_sum :: duration

record metrics =
  mt_jobs_total :: "int series"
  mt_jobs_active :: "int series"
  mt_job_duration :: "histogram series"
  mt_state_duration :: "histogram series"
  mt_job_retries :: "int series"
  mt_lease_expired :: int
  mt_backlog :: int
  mt_state_age :: "duration series"
  mt_rollback_incomplete :: int
  mt_pve_requests :: "int series"
  mt_pve_latency :: "histogram series"
  mt_ip_pool :: "int series"
  mt_instances :: "int series"
  mt_orphans :: "int series"
  mt_duplicates :: int
  mt_validations :: "int series"
  mt_pgw_requests :: "int series"
  mt_pgw_binding :: "int series"
  mt_proofs :: "int series"
  mt_proof_age :: duration

text \<open>The bounds of the buckets, in nanoseconds; a value is counted in the first bucket whose bound it does not exceed, or in none.\<close>

definition jobDurationBuckets :: "duration list" where
  "jobDurationBuckets = map seconds [1, 5, 15, 30, 60, 120, 300, 600, 1200, 1800, 3600]"

definition apiLatencyBuckets :: "duration list" where
  "apiLatencyBuckets = map (\<lambda>ms. ms * 1000000) [5, 10, 25, 50, 100, 250, 500, 1000, 2500, 5000, 10000]"

definition NewMetrics :: metrics where
  "NewMetrics = \<lparr>mt_jobs_total = \<lambda>_. None, mt_jobs_active = \<lambda>_. None, mt_job_duration = \<lambda>_. None, mt_state_duration = \<lambda>_. None,
     mt_job_retries = \<lambda>_. None, mt_lease_expired = 0, mt_backlog = 0, mt_state_age = \<lambda>_. None, mt_rollback_incomplete = 0,
     mt_pve_requests = \<lambda>_. None, mt_pve_latency = \<lambda>_. None, mt_ip_pool = \<lambda>_. None, mt_instances = \<lambda>_. None, mt_orphans = \<lambda>_. None,
     mt_duplicates = 0, mt_validations = \<lambda>_. None, mt_pgw_requests = \<lambda>_. None, mt_pgw_binding = \<lambda>_. None, mt_proofs = \<lambda>_. None,
     mt_proof_age = 0\<rparr>"

definition series_inc :: "string list \<Rightarrow> int series \<Rightarrow> int series" where
  "series_inc ls s = s(ls \<mapsto> (case s ls of None \<Rightarrow> 0 | Some n \<Rightarrow> n) + 1)"

definition observe :: "duration list \<Rightarrow> duration \<Rightarrow> histogram \<Rightarrow> histogram" where
  "observe bounds v h = (let i = length (takeWhile (\<lambda>b. b < v) bounds) in
     h\<lparr>hg_counts := (if i < length (hg_counts h) then (hg_counts h)[i := hg_counts h ! i + 1] else hg_counts h),
       hg_count := hg_count h + 1, hg_sum := hg_sum h + v\<rparr>)"

definition series_observe :: "duration list \<Rightarrow> string list \<Rightarrow> duration \<Rightarrow> histogram series \<Rightarrow> histogram series" where
  "series_observe bounds ls v s = s(ls \<mapsto> observe bounds v
     (case s ls of None \<Rightarrow> \<lparr>hg_counts = replicate (length bounds) 0, hg_count = 0, hg_sum = 0\<rparr> | Some h \<Rightarrow> h))"

text \<open>The methods; on a \<open>nil\<close> receiver each does nothing.\<close>

definition ObserveJobFinished :: "string \<Rightarrow> string \<Rightarrow> duration \<Rightarrow> metrics option \<Rightarrow> metrics option" where
  "ObserveJobFinished operation result d = map_option (\<lambda>m. m\<lparr>mt_jobs_total := series_inc [operation, result] (mt_jobs_total m),
     mt_job_duration := series_observe jobDurationBuckets [operation] d (mt_job_duration m)\<rparr>)"

definition ObserveStateTransition :: "string \<Rightarrow> duration \<Rightarrow> metrics option \<Rightarrow> metrics option" where
  "ObserveStateTransition state d = map_option (\<lambda>m. m\<lparr>mt_state_duration := series_observe jobDurationBuckets [state] d (mt_state_duration m)\<rparr>)"

definition IncJobRetry :: "string \<Rightarrow> metrics option \<Rightarrow> metrics option" where
  "IncJobRetry code = map_option (\<lambda>m. m\<lparr>mt_job_retries := series_inc [code] (mt_job_retries m)\<rparr>)"

definition AddJobLeaseExpired :: "int \<Rightarrow> metrics option \<Rightarrow> metrics option" where
  "AddJobLeaseExpired n = map_option (\<lambda>m. if n \<le> 0 then m else m\<lparr>mt_lease_expired := mt_lease_expired m + n\<rparr>)"

definition SetJobBacklog :: "int \<Rightarrow> metrics option \<Rightarrow> metrics option" where
  "SetJobBacklog n = map_option (\<lambda>m. m\<lparr>mt_backlog := n\<rparr>)"

definition SetJobsActive :: "string \<Rightarrow> int \<Rightarrow> metrics option \<Rightarrow> metrics option" where
  "SetJobsActive state n = map_option (\<lambda>m. m\<lparr>mt_jobs_active := (mt_jobs_active m)([state] \<mapsto> n)\<rparr>)"

definition ResetJobsActive :: "metrics option \<Rightarrow> metrics option" where
  "ResetJobsActive = map_option (\<lambda>m. m\<lparr>mt_jobs_active := \<lambda>_. None\<rparr>)"

definition SetJobStateAge :: "string \<Rightarrow> duration \<Rightarrow> metrics option \<Rightarrow> metrics option" where
  "SetJobStateAge checkpoint age = map_option (\<lambda>m. m\<lparr>mt_state_age := (mt_state_age m)([checkpoint] \<mapsto> age)\<rparr>)"

definition ResetJobStateAge :: "metrics option \<Rightarrow> metrics option" where
  "ResetJobStateAge = map_option (\<lambda>m. m\<lparr>mt_state_age := \<lambda>_. None\<rparr>)"

definition IncRollbackIncomplete :: "metrics option \<Rightarrow> metrics option" where
  "IncRollbackIncomplete = map_option (\<lambda>m. m\<lparr>mt_rollback_incomplete := mt_rollback_incomplete m + 1\<rparr>)"

definition ObserveProxmoxRequest :: "string \<Rightarrow> string \<Rightarrow> duration \<Rightarrow> metrics option \<Rightarrow> metrics option" where
  "ObserveProxmoxRequest operation status d = map_option (\<lambda>m. m\<lparr>mt_pve_requests := series_inc [operation, status] (mt_pve_requests m),
     mt_pve_latency := series_observe apiLatencyBuckets [operation] d (mt_pve_latency m)\<rparr>)"

definition SetIPPoolAddresses :: "string \<Rightarrow> string \<Rightarrow> int \<Rightarrow> metrics option \<Rightarrow> metrics option" where
  "SetIPPoolAddresses segment state n = map_option (\<lambda>m. m\<lparr>mt_ip_pool := (mt_ip_pool m)([segment, state] \<mapsto> n)\<rparr>)"

definition ResetIPPoolAddresses :: "metrics option \<Rightarrow> metrics option" where
  "ResetIPPoolAddresses = map_option (\<lambda>m. m\<lparr>mt_ip_pool := \<lambda>_. None\<rparr>)"

definition SetInstances :: "string \<Rightarrow> string \<Rightarrow> string \<Rightarrow> int \<Rightarrow> metrics option \<Rightarrow> metrics option" where
  "SetInstances state version node n = map_option (\<lambda>m. m\<lparr>mt_instances := (mt_instances m)([state, version, node] \<mapsto> n)\<rparr>)"

definition ResetInstances :: "metrics option \<Rightarrow> metrics option" where
  "ResetInstances = map_option (\<lambda>m. m\<lparr>mt_instances := \<lambda>_. None\<rparr>)"

definition IncIdentityDuplicate :: "metrics option \<Rightarrow> metrics option" where
  "IncIdentityDuplicate = map_option (\<lambda>m. m\<lparr>mt_duplicates := mt_duplicates m + 1\<rparr>)"

definition ObserveValidation :: "string \<Rightarrow> string \<Rightarrow> string \<Rightarrow> metrics option \<Rightarrow> metrics option" where
  "ObserveValidation ty result rule = map_option (\<lambda>m. m\<lparr>mt_validations := series_inc [ty, result, rule] (mt_validations m)\<rparr>)"

text \<open>The label \<open>internal/proxmox/client.go\<close> gives a request by its error.\<close>

definition requestStatusLabel :: "err option \<Rightarrow> string" where
  "requestStatusLabel e = (case e of None \<Rightarrow> ''ok'' | Some e \<Rightarrow> (case errors_as_pve e of Some (c, _) \<Rightarrow> c | None \<Rightarrow> ''network_error''))"

section \<open>Counters grow\<close>

text \<open>What may be called on the metrics, as a value.\<close>

datatype metric_call = JobFinished string string duration | StateTransition string duration | JobRetry string | LeaseExpired int
  | Backlog int | JobsActive string int | ResetActive | StateAge string duration | ResetAge | RollbackIncomplete
  | ProxmoxRequest string string duration | IPPool string string int | ResetIPPool | InstanceGauge string string string int
  | ResetInstanceGauge | IdentityDuplicate | ValidationOutcome string string string

fun run_call :: "metric_call \<Rightarrow> metrics option \<Rightarrow> metrics option" where
  "run_call (JobFinished op r d) = ObserveJobFinished op r d"
| "run_call (StateTransition s d) = ObserveStateTransition s d"
| "run_call (JobRetry c) = IncJobRetry c"
| "run_call (LeaseExpired n) = AddJobLeaseExpired n"
| "run_call (Backlog n) = SetJobBacklog n"
| "run_call (JobsActive s n) = SetJobsActive s n"
| "run_call ResetActive = ResetJobsActive"
| "run_call (StateAge c a) = SetJobStateAge c a"
| "run_call ResetAge = ResetJobStateAge"
| "run_call RollbackIncomplete = IncRollbackIncomplete"
| "run_call (ProxmoxRequest op s d) = ObserveProxmoxRequest op s d"
| "run_call (IPPool seg s n) = SetIPPoolAddresses seg s n"
| "run_call ResetIPPool = ResetIPPoolAddresses"
| "run_call (InstanceGauge s v n k) = SetInstances s v n k"
| "run_call ResetInstanceGauge = ResetInstances"
| "run_call IdentityDuplicate = IncIdentityDuplicate"
| "run_call (ValidationOutcome ty r rule) = ObserveValidation ty r rule"

definition series_le :: "int series \<Rightarrow> int series \<Rightarrow> bool" where
  "series_le s t \<longleftrightarrow> (\<forall>ls n. s ls = Some n \<longrightarrow> (\<exists>n'. t ls = Some n' \<and> n \<le> n'))"

definition counters_le :: "metrics \<Rightarrow> metrics \<Rightarrow> bool" where
  "counters_le m m' \<longleftrightarrow> series_le (mt_jobs_total m) (mt_jobs_total m') \<and> series_le (mt_job_retries m) (mt_job_retries m') \<and>
     series_le (mt_pve_requests m) (mt_pve_requests m') \<and> series_le (mt_validations m) (mt_validations m') \<and>
     mt_lease_expired m \<le> mt_lease_expired m' \<and> mt_rollback_incomplete m \<le> mt_rollback_incomplete m' \<and> mt_duplicates m \<le> mt_duplicates m'"

lemma series_le_refl [simp]: "series_le s s"
  by (simp add: series_le_def)

lemma series_le_inc [simp]: "series_le s (series_inc ls s)"
  by (auto simp: series_le_def series_inc_def)

lemma series_le_trans: "series_le s t \<Longrightarrow> series_le t u \<Longrightarrow> series_le s u"
  unfolding series_le_def by (meson order_trans)

lemma counters_le_refl [simp]: "counters_le m m"
  by (simp add: counters_le_def)

lemma counters_le_trans: "counters_le m m' \<Longrightarrow> counters_le m' m'' \<Longrightarrow> counters_le m m''"
  unfolding counters_le_def by (auto intro: series_le_trans)

lemmas metric_methods = ObserveJobFinished_def ObserveStateTransition_def IncJobRetry_def AddJobLeaseExpired_def SetJobBacklog_def
  SetJobsActive_def ResetJobsActive_def SetJobStateAge_def ResetJobStateAge_def IncRollbackIncomplete_def ObserveProxmoxRequest_def
  SetIPPoolAddresses_def ResetIPPoolAddresses_def SetInstances_def ResetInstances_def IncIdentityDuplicate_def ObserveValidation_def

lemma run_call_counters: "\<exists>m'. run_call c (Some m) = Some m' \<and> counters_le m m'"
  by (cases c) (simp_all add: metric_methods counters_le_def)

lemma nil_metrics_do_nothing: "run_call c None = None"
  by (cases c) (simp_all add: metric_methods)

lemma counters_only_grow: "\<exists>m'. fold run_call cs (Some m) = Some m' \<and> counters_le m m'"
proof (induction cs arbitrary: m)
  case (Cons c cs)
  obtain m1 where m1: "run_call c (Some m) = Some m1" "counters_le m m1" using run_call_counters by blast
  then show ?case using Cons[of m1] counters_le_trans by auto
qed simp

text \<open>The buckets and the number of observations agree: each observation is in one bucket, or above all of them.\<close>

definition histogram_ok :: "duration list \<Rightarrow> histogram \<Rightarrow> bool" where
  "histogram_ok bounds h \<longleftrightarrow> length (hg_counts h) = length bounds \<and> sum_list (hg_counts h) \<le> hg_count h"

lemma histogram_ok_observe: "histogram_ok bounds h \<Longrightarrow> histogram_ok bounds (observe bounds v h)"
  by (auto simp: histogram_ok_def observe_def Let_def sum_list_update)

section \<open>The gauges from the tables\<close>

definition job_counts :: "db \<Rightarrow> (string \<times> int) list" where
  "job_counts d = map (\<lambda>st. (job_state_str st, int (sql_count (\<lambda>j. job_st j = st) (db_jobs d)))) (remdups (map job_st (db_jobs d)))"

fun alloc_state_str :: "alloc_state \<Rightarrow> string" where
  "alloc_state_str AllocationFree = ''FREE''"
| "alloc_state_str AllocationReserved = ''RESERVED''"
| "alloc_state_str AllocationAssigned = ''ASSIGNED''"
| "alloc_state_str AllocationQuarantined = ''QUARANTINED''"
| "alloc_state_str AllocationReleased = ''RELEASED''"

text \<open>The rows of the join, then its groups.\<close>

definition alloc_rows :: "db \<Rightarrow> (string \<times> alloc_state) list" where
  "alloc_rows d = concat (map (\<lambda>a. map (\<lambda>s. (seg_name s, ipa_state a)) (filter (\<lambda>s. seg_id s = ipa_segment a) (db_segments d))) (db_allocs d))"

definition pool_counts :: "db \<Rightarrow> (string \<times> string \<times> int) list" where
  "pool_counts d = map (\<lambda>(seg, st). (seg, alloc_state_str st, int (sql_count (\<lambda>r. r = (seg, st)) (alloc_rows d)))) (remdups (alloc_rows d))"

text \<open>A left join: an instance without its template has no version.  The groups are formed before \<open>COALESCE\<close>.\<close>

definition instance_rows :: "db \<Rightarrow> (instance_state \<times> string option \<times> string option) list" where
  "instance_rows d = concat (map (\<lambda>i. (case filter (\<lambda>t. tpl_id t = inst_template i) (db_templates d) of
       [] \<Rightarrow> [(inst_state i, None, inst_node i)] | ts \<Rightarrow> map (\<lambda>t. (inst_state i, Some (tpl_version t), inst_node i)) ts)) (db_instances d))"

definition coalesce :: "string option \<Rightarrow> string" where
  "coalesce x = (case x of None \<Rightarrow> [] | Some s \<Rightarrow> s)"

definition instance_counts :: "db \<Rightarrow> (string \<times> string \<times> string \<times> int) list" where
  "instance_counts d = map (\<lambda>(st, v, n). (instance_state_str st, coalesce v, coalesce n, int (sql_count (\<lambda>r. r = (st, v, n)) (instance_rows d))))
     (remdups (instance_rows d))"

text \<open>The whole of \<open>refreshResourceGauges\<close>, with the metrics; a query that fails leaves its gauges empty and the backlog at 0.\<close>

definition rows_of :: "err + 'r list \<Rightarrow> 'r list" where
  "rows_of r = (case r of Inl _ \<Rightarrow> [] | Inr rs \<Rightarrow> rs)"

definition queued_of :: "(string \<times> int) list \<Rightarrow> int" where
  "queued_of rs = sum_list (map snd (filter (\<lambda>(st, n). st = job_state_str JobQueued \<or> st = job_state_str JobRetryWait) rs))"

definition refresh_metrics :: "'x env \<Rightarrow> metrics option \<Rightarrow> ('x, metrics option \<times> int \<times> (string \<times> duration) list) wm" where
  "refresh_metrics env m =
     tryE (onDB env (queryE [] job_counts)) (\<lambda>js. let backlog = queued_of (rows_of js);
       m = SetJobBacklog backlog (fold (\<lambda>(st, n). SetJobsActive st n) (rows_of js) (ResetJobsActive m)) in
     tryE (onDB env (queryE [] state_ages)) (\<lambda>as. let m = fold (\<lambda>(cp, a). SetJobStateAge cp a) (rows_of as) (ResetJobStateAge m) in
     tryE (onDB env (queryE [] pool_counts)) (\<lambda>ps. let m = fold (\<lambda>(seg, st, n). SetIPPoolAddresses seg st n) (rows_of ps) (ResetIPPoolAddresses m) in
     tryE (onDB env (queryE [] instance_counts)) (\<lambda>is. let m = fold (\<lambda>(st, v, nd, n). SetInstances st v nd n) (rows_of is) (ResetInstances m) in
     retE (m, backlog, rows_of as)))))"

text \<open>What \<open>Worker\<close> keeps of it is the part the alerts need.\<close>

lemma count_groups: "distinct ks \<Longrightarrow> sum_list (map (\<lambda>k. int (sql_count (\<lambda>r. f r = k) rs)) ks) = int (sql_count (\<lambda>r. f r \<in> set ks) rs)"
proof (induction rs)
  case (Cons r rs)
  have one: "sum_list (map (\<lambda>k. if f r = k then 1 else 0) ks) = (if f r \<in> set ks then 1 else (0 :: int))" using Cons.prems
    by (induction ks) auto
  have "sum_list (map (\<lambda>k. int (sql_count (\<lambda>r. f r = k) (r # rs))) ks) =
      sum_list (map (\<lambda>k. (if f r = k then 1 else 0) + int (sql_count (\<lambda>r. f r = k) rs)) ks)"
    by (rule arg_cong[where f = sum_list]) (simp add: sql_count_def)
  also have "\<dots> = sum_list (map (\<lambda>k. if f r = k then 1 else 0) ks) + sum_list (map (\<lambda>k. int (sql_count (\<lambda>r. f r = k) rs)) ks)"
    by (rule sum_list_addf)
  finally show ?case using Cons one by (simp add: sql_count_def)
qed (simp add: sql_count_def)

lemma job_state_str_inj [simp]: "job_state_str a = job_state_str b \<longleftrightarrow> a = b"
  by (cases a; cases b) simp_all

lemma queued_of_counts: "queued_of (job_counts d) = backlog_of d"
proof -
  let ?ks = "filter (\<lambda>st. st \<in> {JobQueued, JobRetryWait}) (remdups (map job_st (db_jobs d)))"
  have "queued_of (job_counts d) = sum_list (map (\<lambda>k. int (sql_count (\<lambda>j. job_st j = k) (db_jobs d))) ?ks)"
    unfolding queued_of_def job_counts_def by (simp add: filter_map comp_def del: job_state_str.simps)
  also have "\<dots> = int (sql_count (\<lambda>j. job_st j \<in> set ?ks) (db_jobs d))" by (rule count_groups) simp
  also have "sql_count (\<lambda>j. job_st j \<in> set ?ks) (db_jobs d) = sql_count (\<lambda>j. job_st j \<in> {JobQueued, JobRetryWait}) (db_jobs d)"
    unfolding sql_count_def by (rule arg_cong[where f = length], rule filter_cong) auto
  finally show ?thesis by (simp add: backlog_of_def)
qed

lemma query_map: "queryE w (\<lambda>d. f (g d)) d = (case queryE w g d of (r, d') \<Rightarrow> (map_sum id f r, d'))"
  by (cases "db_faults d") (auto simp: queryE_def stmt_def getE_def onErr_def split: outcome.splits)

lemma try_query_map:
  "tryE (onDB env (queryE w (\<lambda>d. f (g d)))) k = tryE (onDB env (queryE w g)) (\<lambda>r. k (map_sum id f r))"
  by (rule ext) (auto simp: tryE_def onDB_def query_map[of w f g] split: prod.splits)

lemma bind_try: "bindE (tryE m k) h = tryE m (\<lambda>r. bindE (k r) h)"
  by (rule ext) (simp add: bindE_def tryE_def split: prod.splits)

lemma bind_ignore: "bindE (ignoreE m) k = tryE m (\<lambda>_. k ())"
  by (simp add: ignoreE_def bind_try)

lemma refresh_metrics_refines: "bindE (refresh_metrics env m) (\<lambda>(m', b, as). retE (b, as)) = refreshResourceGauges env"
proof -
  have unit: "tryE (onDB env (queryE [] (\<lambda>d. ()))) (\<lambda>_. k) = tryE (onDB env (queryE [] g)) (\<lambda>_. k)" for g :: "db \<Rightarrow> 'q" and k
    using try_query_map[of env "[]" "\<lambda>_. ()" g "\<lambda>_. k"] by simp
  have units: "tryE (onDB env (queryE [] (\<lambda>d. ()))) (\<lambda>_. tryE (onDB env (queryE [] (\<lambda>d. ()))) (\<lambda>_. k)) =
      tryE (onDB env (queryE [] pool_counts)) (\<lambda>_. tryE (onDB env (queryE [] instance_counts)) (\<lambda>_. k))" for k
    by (simp only: unit[of k instance_counts] unit[of "tryE (onDB env (queryE [] instance_counts)) (\<lambda>_. k)" pool_counts])
  have backlog: "tryE (onDB env (queryE [] backlog_of)) k = tryE (onDB env (queryE [] job_counts)) (\<lambda>r. k (map_sum id queued_of r))" for k
    using try_query_map[of env "[]" queued_of job_counts k] by (simp add: queued_of_counts)
  have value_of: "(case map_sum id queued_of r of Inl _ \<Rightarrow> 0 | Inr n \<Rightarrow> n) = queued_of (rows_of r)" for r :: "err + (string \<times> int) list"
    by (cases r) (simp_all add: rows_of_def queued_of_def)
  show ?thesis
    unfolding refreshResourceGauges_def refresh_metrics_def bind_ignore backlog value_of bind_try Let_def
    by (simp add: units rows_of_def)
qed

text \<open>
  After a round whose queries succeed the gauges are those of the tables and nothing else is left: a state, segment or group without a
  row has no series.
\<close>

lemma fold_map_upd: "fold (\<lambda>x s. s(key x \<mapsto> val x)) xs Map.empty = map_of (rev (map (\<lambda>x. (key x, val x)) xs))"
proof (induction xs rule: rev_induct)
  case (snoc x xs)
  show ?case by (simp only: fold_append fold.simps comp_apply snoc.IH map_append list.map rev_append rev.simps append.simps map_of.simps id_apply fst_conv snd_conv)
qed simp

lemma fold_gauge:
  assumes "\<And>x m. f x (Some m) = Some (upd ((get m)(key x \<mapsto> val x)) m)" "\<And>s m. get (upd s m) = s" "\<And>s t m. upd s (upd t m) = upd s m"
  shows "fold f xs (Some (upd s m)) = Some (upd (fold (\<lambda>x s. s(key x \<mapsto> val x)) xs s) m)"
  by (induction xs arbitrary: s) (simp_all add: assms)

lemma reset_and_set:
  "fold (\<lambda>(st, n). SetJobsActive st n) xs (ResetJobsActive (Some m)) = Some (m\<lparr>mt_jobs_active := map_of (rev (map (\<lambda>(st, n). ([st], n)) xs))\<rparr>)"
  "fold (\<lambda>(cp, a). SetJobStateAge cp a) ys (ResetJobStateAge (Some m)) = Some (m\<lparr>mt_state_age := map_of (rev (map (\<lambda>(cp, a). ([cp], a)) ys))\<rparr>)"
  "fold (\<lambda>(seg, st, n). SetIPPoolAddresses seg st n) ps (ResetIPPoolAddresses (Some m)) =
     Some (m\<lparr>mt_ip_pool := map_of (rev (map (\<lambda>(seg, st, n). ([seg, st], n)) ps))\<rparr>)"
  "fold (\<lambda>(st, v, nd, n). SetInstances st v nd n) is (ResetInstances (Some m)) =
     Some (m\<lparr>mt_instances := map_of (rev (map (\<lambda>(st, v, nd, n). ([st, v, nd], n)) is))\<rparr>)"
proof -
  show "fold (\<lambda>(st, n). SetJobsActive st n) xs (ResetJobsActive (Some m)) = Some (m\<lparr>mt_jobs_active := map_of (rev (map (\<lambda>(st, n). ([st], n)) xs))\<rparr>)"
    using fold_gauge[where f = "\<lambda>(st, n). SetJobsActive st n" and upd = "\<lambda>s m. m\<lparr>mt_jobs_active := s\<rparr>" and get = mt_jobs_active
        and key = "\<lambda>(st, n). [st]" and val = snd and s = Map.empty and m = m and xs = xs]
    by (simp add: fold_map_upd split_def SetJobsActive_def ResetJobsActive_def)
  show "fold (\<lambda>(cp, a). SetJobStateAge cp a) ys (ResetJobStateAge (Some m)) = Some (m\<lparr>mt_state_age := map_of (rev (map (\<lambda>(cp, a). ([cp], a)) ys))\<rparr>)"
    using fold_gauge[where f = "\<lambda>(cp, a). SetJobStateAge cp a" and upd = "\<lambda>s m. m\<lparr>mt_state_age := s\<rparr>" and get = mt_state_age
        and key = "\<lambda>(cp, a). [cp]" and val = snd and s = Map.empty and m = m and xs = ys]
    by (simp add: fold_map_upd split_def SetJobStateAge_def ResetJobStateAge_def)
  show "fold (\<lambda>(seg, st, n). SetIPPoolAddresses seg st n) ps (ResetIPPoolAddresses (Some m)) =
     Some (m\<lparr>mt_ip_pool := map_of (rev (map (\<lambda>(seg, st, n). ([seg, st], n)) ps))\<rparr>)"
    using fold_gauge[where f = "\<lambda>(seg, st, n). SetIPPoolAddresses seg st n" and upd = "\<lambda>s m. m\<lparr>mt_ip_pool := s\<rparr>" and get = mt_ip_pool
        and key = "\<lambda>(seg, st, n). [seg, st]" and val = "snd \<circ> snd" and s = Map.empty and m = m and xs = ps]
    by (simp add: fold_map_upd split_def SetIPPoolAddresses_def ResetIPPoolAddresses_def)
  show "fold (\<lambda>(st, v, nd, n). SetInstances st v nd n) is (ResetInstances (Some m)) =
     Some (m\<lparr>mt_instances := map_of (rev (map (\<lambda>(st, v, nd, n). ([st, v, nd], n)) is))\<rparr>)"
    using fold_gauge[where f = "\<lambda>(st, v, nd, n). SetInstances st v nd n" and upd = "\<lambda>s m. m\<lparr>mt_instances := s\<rparr>" and get = mt_instances
        and key = "\<lambda>(st, v, nd, n). [st, v, nd]" and val = "snd \<circ> snd \<circ> snd" and s = Map.empty and m = m and xs = "is"]
    by (simp add: fold_map_upd split_def SetInstances_def ResetInstances_def)
qed

lemma refresh_is_exact:
  assumes "db_faults (w_db w) = []" and d_def: "d = (w_db w)\<lparr>db_now := e_now env (w_ext w)\<rparr>"
  shows "refresh_metrics env (Some m) w = (Inr (Some (m
    \<lparr>mt_jobs_active := map_of (rev (map (\<lambda>(st, n). ([st], n)) (job_counts d))), mt_backlog := backlog_of d,
     mt_state_age := map_of (rev (map (\<lambda>(cp, a). ([cp], a)) (state_ages d))),
     mt_ip_pool := map_of (rev (map (\<lambda>(seg, st, n). ([seg, st], n)) (pool_counts d))),
     mt_instances := map_of (rev (map (\<lambda>(st, v, nd, n). ([st, v, nd], n)) (instance_counts d)))\<rparr>), backlog_of d, state_ages d), w\<lparr>w_db := d\<rparr>)"
proof -
  have run: "onDB env (queryE [] f) w1 = (Inr (f d), w\<lparr>w_db := d\<rparr>)" if "w1 = w \<or> w1 = w\<lparr>w_db := d\<rparr>" for f :: "db \<Rightarrow> 'q" and w1
    using that assms by (auto simp: onDB_def queryE_def stmt_def getE_def onErr_def d_def)
  show ?thesis
    by (simp add: refresh_metrics_def tryE_def run rows_of_def reset_and_set queued_of_counts SetJobBacklog_def retE_def Let_def)
qed

lemma job_gauge_is_the_count:
  "map_of (rev (map (\<lambda>(st, n). ([st], n)) (job_counts d))) [job_state_str st] =
     (if st \<in> job_st ` set (db_jobs d) then Some (int (sql_count (\<lambda>j. job_st j = st) (db_jobs d))) else None)"
proof -
  have "distinct (map fst (map (\<lambda>(st, n). ([st], n)) (job_counts d)))"
    by (simp add: job_counts_def comp_def distinct_map inj_on_def del: job_state_str.simps)
  moreover have "map_of (map (\<lambda>(st, n). ([st], n)) (job_counts d)) [job_state_str st] =
      (if st \<in> set (remdups (map job_st (db_jobs d))) then Some (int (sql_count (\<lambda>j. job_st j = st) (db_jobs d))) else None)"
  proof -
    have "map_of (map (\<lambda>(st, n). ([st], n)) (map (\<lambda>st. (job_state_str st, c st)) ks)) [job_state_str st] =
        (if st \<in> set ks then Some (c st) else None)" for c :: "job_state \<Rightarrow> int" and ks
      by (induction ks) (auto simp del: job_state_str.simps)
    then show ?thesis unfolding job_counts_def .
  qed
  ultimately show ?thesis using map_of_inject_set[of "rev (map (\<lambda>(st, n). ([st], n)) (job_counts d))" "map (\<lambda>(st, n). ([st], n)) (job_counts d)"]
    by (simp flip: rev_map)
qed

text \<open>A refused query is not told from an empty queue.\<close>

lemma refused_query_reads_as_no_backlog:
  assumes "db_faults (w_db w) = [Refused]"
  shows "\<exists>m' as w'. refresh_metrics env (Some m) w = (Inr (Some m', 0, as), w') \<and> mt_backlog m' = 0 \<and> mt_jobs_active m' = Map.empty"
proof -
  have refused: "onDB env (queryE [] f) w = (Inl (Wrap [] conn_error), w\<lparr>w_db := (w_db w)\<lparr>db_now := e_now env (w_ext w), db_faults := []\<rparr>\<rparr>)"
    for f :: "db \<Rightarrow> 'q"
    using assms by (simp add: onDB_def queryE_def stmt_def onErr_def)
  show ?thesis
    by (simp add: refresh_metrics_def tryE_def refused rows_of_def queued_of_def reset_and_set SetJobBacklog_def retE_def Let_def split: prod.split)
qed

end
