(* ===== verification/Startup.thy ===== *)
theory Startup
  imports System
begin

text \<open>
  What the programs are started with: the configuration (\<open>internal/config/config.go\<close>), the secrets it names, the workers
  and the engine that \<open>main\<close> of \<open>cmd/worker/main.go\<close> builds from it, and the logger and the identifier of a request
  (\<open>internal/observability\<close>).  Files, the environment and the YAML parser are parameters.
\<close>

section \<open>The configuration\<close>

record server_config =
  sc_listen :: string
  sc_public_base_url :: string
  sc_shutdown_timeout :: duration

record database_config =
  dbc_dsn_file :: string
  dbc_max_open_conns :: int
  dbc_max_idle_conns :: int
  dbc_statement_timeout :: duration

record auth_config =
  auc_issuer :: string
  auc_jwt_public_key_file :: string
  auc_required_audience :: string

record cluster_config =
  clc_id :: string
  clc_base_url :: string
  clc_token_id :: string
  clc_token_secret_file :: string
  clc_ca_file :: string
  clc_request_timeout :: duration
  clc_task_timeout :: duration
  clc_insecure_skip_verify :: bool

record pgw_config =
  pgc_base_url :: string
  pgc_token_file :: string
  pgc_request_timeout :: duration
  pgc_activation_timeout :: duration

record defaults_config =
  dfc_network_segment_id :: string
  dfc_egress_policy_id :: string
  dfc_pool :: string
  dfc_bridge :: string
  dfc_ipconfig0 :: string
  dfc_cores :: int
  dfc_memory_mb :: int
  dfc_reservation_ttl :: duration

record provisioning_config =
  pvc_default_clone_mode :: string
  pvc_worker_concurrency :: int
  pvc_per_pve_node_concurrency :: int
  pvc_per_storage_concurrency :: int
  pvc_job_lease :: duration
  pvc_job_heartbeat :: duration
  pvc_max_attempts :: int
  pvc_defaults :: defaults_config

record guest_config =
  gsc_qga_timeout :: duration
  gsc_ssh_fallback :: bool
  gsc_ssh_user :: string
  gsc_ssh_private_key_file :: string
  gsc_cloud_init_timeout :: duration

record duplicate_policy =
  dpc_active_fleet :: string
  dpc_retired_history :: string

record identity_config =
  idc_hmac_key_file :: string
  idc_duplicate_policy :: duplicate_policy

record network_config =
  nwc_ipv6_policy :: string
  nwc_require_single_nic :: bool
  nwc_require_single_default_route :: bool

record observability_config =
  obc_metrics_listen :: string
  obc_log_format :: string
  obc_log_level :: string

record config =
  cg_server :: server_config
  cg_database :: database_config
  cg_auth :: auth_config
  cg_clusters :: "cluster_config list"
  cg_pgw :: pgw_config
  cg_provisioning :: provisioning_config
  cg_guest :: guest_config
  cg_identity :: identity_config
  cg_network :: network_config
  cg_observability :: observability_config

text \<open>The outside of a starting process: \<open>os.ReadFile\<close>, \<open>os.LookupEnv\<close>, \<open>yaml.Unmarshal\<close>.\<close>

record host =
  ho_file :: "string \<Rightarrow> err + string"
  ho_env :: "string \<Rightarrow> string option"
  ho_yaml :: "string \<Rightarrow> err + config"

definition override :: "host \<Rightarrow> string \<Rightarrow> (string \<Rightarrow> config \<Rightarrow> config) \<Rightarrow> config \<Rightarrow> config" where
  "override h key set_field c = (case ho_env h key of None \<Rightarrow> c | Some v \<Rightarrow> set_field v c)"

definition applyEnvOverrides :: "host \<Rightarrow> config \<Rightarrow> config" where
  "applyEnvOverrides h c =
     override h ''VMF_OBSERVABILITY_METRICS_LISTEN'' (\<lambda>v c. c\<lparr>cg_observability := (cg_observability c)\<lparr>obc_metrics_listen := v\<rparr>\<rparr>)
    (override h ''VMF_OBSERVABILITY_LOG_LEVEL'' (\<lambda>v c. c\<lparr>cg_observability := (cg_observability c)\<lparr>obc_log_level := v\<rparr>\<rparr>)
    (override h ''VMF_DATABASE_DSN_FILE'' (\<lambda>v c. c\<lparr>cg_database := (cg_database c)\<lparr>dbc_dsn_file := v\<rparr>\<rparr>)
    (override h ''VMF_SERVER_LISTEN'' (\<lambda>v c. c\<lparr>cg_server := (cg_server c)\<lparr>sc_listen := v\<rparr>\<rparr>) c)))"

fun validate_clusters :: "int \<Rightarrow> cluster_config list \<Rightarrow> err option" where
  "validate_clusters i [] = None"
| "validate_clusters i (cl # cls) = (if clc_id cl = [] \<or> clc_base_url cl = []
     then Some (Errf (''proxmox.clusters['' @ itoa i @ '']: id v'' @ [CHR 0xC3, CHR 0xA0] @ '' base_url l'' @ [CHR 0xC3, CHR 0xA0]
            @ '' b'' @ [CHR 0xE1, CHR 0xBA, CHR 0xAF] @ ''t bu'' @ [CHR 0xE1, CHR 0xBB, CHR 0x99] @ ''c''))
     else validate_clusters (i + 1) cls)"

definition config_validate :: "config \<Rightarrow> err option" where
  "config_validate c =
     (if sc_listen (cg_server c) = [] then Some (Errf ''server.listen is required'')
      else if dbc_dsn_file (cg_database c) = [] then Some (Errf ''database.dsn_file is required'')
      else if auc_jwt_public_key_file (cg_auth c) = [] then Some (Errf ''auth.jwt_public_key_file is required'')
      else validate_clusters 0 (cg_clusters c))"

definition config_Load :: "host \<Rightarrow> string \<Rightarrow> err + config" where
  "config_Load h path = (case ho_file h path of
       Inl e \<Rightarrow> Inl (Wrap (''config: read '' @ path) e)
     | Inr raw \<Rightarrow> (case ho_yaml h raw of
           Inl e \<Rightarrow> Inl (Wrap (''config: parse '' @ path) e)
         | Inr c0 \<Rightarrow> let c = applyEnvOverrides h c0 in (case config_validate c of
               Some e \<Rightarrow> Inl (Wrap ''config: invalid'' e)
             | None \<Rightarrow> Inr c)))"

definition envOr :: "host \<Rightarrow> string \<Rightarrow> string \<Rightarrow> string" where
  "envOr h key fallback = (case ho_env h key of Some v \<Rightarrow> if v \<noteq> [] then v else fallback | None \<Rightarrow> fallback)"

datatype log_level = LevelDebug | LevelInfo | LevelWarn | LevelError

definition parseLevel :: "string \<Rightarrow> log_level" where
  "parseLevel s = (if s = ''debug'' then LevelDebug else if s = ''warn'' then LevelWarn
     else if s = ''error'' then LevelError else LevelInfo)"

definition validateWorkerConfig :: "config \<Rightarrow> err option" where
  "validateWorkerConfig c = (case cg_clusters c of
       [] \<Rightarrow> Some (Errf ''proxmox.clusters phai co it nhat 1 cluster'')
     | cl # _ \<Rightarrow>
         if clc_token_secret_file cl = [] then Some (Errf ''proxmox.clusters[0].token_secret_file la bat buoc'')
         else if idc_hmac_key_file (cg_identity c) = [] then Some (Errf ''identity.hmac_key_file la bat buoc'')
         else if dfc_network_segment_id (pvc_defaults (cg_provisioning c)) = []
         then Some (Errf ''provisioning.defaults.network_segment_id la bat buoc (UUID cua mot network_segments da dang ky)'')
         else None)"

section \<open>Secrets\<close>

text \<open>\<open>strings.TrimSpace\<close> on UTF-8 text: the white space of Unicode, in its encodings.\<close>

definition space_runes :: "string list" where
  "space_runes = [[CHR 0x09], [CHR 0x0A], [CHR 0x0B], [CHR 0x0C], [CHR 0x0D], '' '', [CHR 0xC2, CHR 0x85], [CHR 0xC2, CHR 0xA0],
     [CHR 0xE1, CHR 0x9A, CHR 0x80], [CHR 0xE2, CHR 0x80, CHR 0xA8], [CHR 0xE2, CHR 0x80, CHR 0xA9], [CHR 0xE2, CHR 0x80, CHR 0xAF],
     [CHR 0xE2, CHR 0x81, CHR 0x9F], [CHR 0xE3, CHR 0x80, CHR 0x80]]
     @ map (\<lambda>n. [CHR 0xE2, CHR 0x80, char_of n]) [128..<139 :: nat]"

lemma has_prefix_length: "has_prefix p s \<Longrightarrow> length p \<le> length s"
  by (induction p s rule: has_prefix.induct) auto

function trim_by :: "string list \<Rightarrow> string \<Rightarrow> string" where
  "trim_by pats s = (case find (\<lambda>p. p \<noteq> [] \<and> has_prefix p s) pats of None \<Rightarrow> s | Some p \<Rightarrow> trim_by pats (drop (length p) s))"
  by pat_completeness auto
termination
proof (relation "measure (\<lambda>(pats, s). length s)")
  fix pats s p
  assume "find (\<lambda>p. p \<noteq> [] \<and> has_prefix p s) pats = Some p"
  then have "p \<noteq> []" "length p \<le> length s" using has_prefix_length by (auto simp: find_Some_iff)
  then show "((pats, drop (length p) s), (pats, s)) \<in> measure (\<lambda>(pats, s). length s)" by (cases p) auto
qed simp

declare trim_by.simps [simp del]

definition TrimSpace :: "string \<Rightarrow> string" where
  "TrimSpace s = rev (trim_by (map rev space_runes) (rev (trim_by space_runes s)))"

definition loadSecretFile :: "host \<Rightarrow> string \<Rightarrow> err + string" where
  "loadSecretFile h path = (case ho_file h path of Inl e \<Rightarrow> Inl e
     | Inr raw \<Rightarrow> let v = TrimSpace raw in
         if v = [] then Inl (Errf (''secret file '' @ path @ '' is empty'')) else Inr v)"

definition loadDSN :: "host \<Rightarrow> string \<Rightarrow> err + string" where
  "loadDSN h path = (case ho_file h path of Inl e \<Rightarrow> Inl e
     | Inr raw \<Rightarrow> let dsn = TrimSpace raw in if dsn = [] then Inl (Errf ''dsn file is empty'') else Inr dsn)"

definition LoadHMACKeyFromFile :: "host \<Rightarrow> string \<Rightarrow> err + string" where
  "LoadHMACKeyFromFile h path = (case ho_file h path of Inl e \<Rightarrow> Inl (Wrap ''validation: read hmac key file'' e)
     | Inr raw \<Rightarrow> let key = TrimSpace raw in
         if key = [] then Inl (Errf (''validation: hmac key file '' @ path @ '' is empty'')) else Inr key)"

text \<open>\<open>hmac key text\<close> is the hexadecimal HMAC-SHA256.\<close>

definition Digest :: "(string \<Rightarrow> string \<Rightarrow> string) \<Rightarrow> string \<Rightarrow> string \<Rightarrow> string" where
  "Digest hmac key machineID = ''hmac-sha256:'' @ hmac key machineID"

section \<open>The worker process\<close>

text \<open>
  The steps of \<open>main\<close> that can refuse to start, in their order, and what the process has then: the configuration, the secret of the
  token and the key of the digests.  \<open>sql.Open\<close> is a parameter.
\<close>

definition worker_start :: "host \<Rightarrow> (string \<Rightarrow> err option) \<Rightarrow> string \<Rightarrow> err + config \<times> string \<times> string" where
  "worker_start h sql_open path = (case config_Load h path of Inl e \<Rightarrow> Inl e
     | Inr c \<Rightarrow> (case validateWorkerConfig c of Some e \<Rightarrow> Inl e
     | None \<Rightarrow> (case loadSecretFile h (dbc_dsn_file (cg_database c)) of Inl e \<Rightarrow> Inl e
     | Inr dsn \<Rightarrow> (case sql_open dsn of Some e \<Rightarrow> Inl (Wrap ''storage: open'' e)
     | None \<Rightarrow> (case loadSecretFile h (clc_token_secret_file (hd (cg_clusters c))) of Inl e \<Rightarrow> Inl e
     | Inr secret \<Rightarrow> (case LoadHMACKeyFromFile h (idc_hmac_key_file (cg_identity c)) of Inl e \<Rightarrow> Inl e
     | Inr key \<Rightarrow> Inr (c, secret, key)))))))"

text \<open>
  What \<open>wireEngine\<close> takes from the configuration.  The environment of the process, the parsers, the hashes, the rows other
  transactions lock and the order of maps are parameters.
\<close>

record 'x surroundings =
  su_env :: "'x env"
  su_parse :: "string \<Rightarrow> raw_json"
  su_sha :: "string \<Rightarrow> string"
  su_hmac :: "string \<Rightarrow> string \<Rightarrow> string"
  su_locked :: "string \<Rightarrow> bool"
  su_order :: map_order
  su_order' :: map_order
  su_mac :: "string \<Rightarrow> string option"
  su_inet :: "string \<Rightarrow> string option"

definition wiring_of :: "'x surroundings \<Rightarrow> config \<Rightarrow> string \<Rightarrow> 'x wiring" where
  "wiring_of su c key = (let d = pvc_defaults (cg_provisioning c) in
     \<lparr>wr_env = su_env su, wr_parse = su_parse su, wr_sha = su_sha su, wr_locked = su_locked su,
      wr_identity = \<lparr>ip_order = su_order su, ip_order' = su_order' su, ip_digest = Digest (su_hmac su) key, ip_mac = su_mac su, ip_inet = su_inet su\<rparr>,
      wr_options = \<lparr>io_timeout = gsc_qga_timeout (cg_guest c),
        io_block_retired = (dpc_retired_history (idc_duplicate_policy (cg_identity c)) = ''block''),
        io_single_nic = nwc_require_single_nic (cg_network c), io_single_route = nwc_require_single_default_route (cg_network c)\<rparr>,
      wr_segment = dfc_network_segment_id d, wr_ttl = dfc_reservation_ttl d, wr_pool = dfc_pool d,
      wr_defaults = \<lparr>vd_cores = dfc_cores d, vd_memory = dfc_memory_mb d, vd_bridge = dfc_bridge d, vd_ipconfig0 = dfc_ipconfig0 d\<rparr>,
      wr_policy = dfc_egress_policy_id d, wr_deny_v6 = (nwc_ipv6_policy (cg_network c) = ''deny'')\<rparr>)"

definition maintenance_interval :: "config \<Rightarrow> duration" where
  "maintenance_interval c = (let i = pvc_job_lease (cg_provisioning c) div 2 in if i \<le> 0 then seconds 30 else i)"

definition heartbeat_interval :: "config \<Rightarrow> duration" where
  "heartbeat_interval c = (let i = pvc_job_heartbeat (cg_provisioning c) in if i \<le> 0 then seconds 20 else i)"

definition slot_count :: "config \<Rightarrow> nat" where
  "slot_count c = (let n = pvc_worker_concurrency (cg_provisioning c) in if n \<le> 0 then 1 else nat n)"

definition slot_name :: "string \<Rightarrow> int \<Rightarrow> nat \<Rightarrow> string" where
  "slot_name hostname pid i = hostname @ ''-'' @ itoa pid @ ''-slot'' @ itoa (int i)"

text \<open>The slots of the process; \<open>steps\<close> bounds the steps of one claim in the model.\<close>

definition worker_slots :: "'x surroundings \<Rightarrow> config \<Rightarrow> string \<Rightarrow> string \<Rightarrow> int \<Rightarrow> (int \<Rightarrow> int) \<Rightarrow> nat \<Rightarrow> 'x worker list" where
  "worker_slots su c key hostname pid rnd steps = map (\<lambda>i.
     \<lparr>wk_id = slot_name hostname pid i, wk_env = su_env su, wk_engine = wireEngine (wiring_of su c key), wk_gw = NoopAdapter,
      wk_lease = pvc_job_lease (cg_provisioning c), wk_rnd = rnd, wk_max_steps = steps\<rparr>) [0..<slot_count c]"

text \<open>The slots are workers of the system the theorems of \<open>System\<close> speak of, and their names tell them apart.\<close>

lemma slots_work_for:
  "wk \<in> set (worker_slots su c key hostname pid rnd steps) \<Longrightarrow> works_for (wiring_of su c key) NoopAdapter wk"
  by (auto simp: worker_slots_def works_for_def wireEngine_def wiring_of_def Let_def)

lemma slot_names_distinct: "distinct (map wk_id (worker_slots su c key hostname pid rnd steps))"
proof -
  have "inj (slot_name hostname pid)"
  proof (rule injI)
    fix i j
    assume "slot_name hostname pid i = slot_name hostname pid j"
    then have "digits_of i = digits_of j" by (simp add: slot_name_def itoa_def)
    then show "i = j" using digits_val_digits_of by metis
  qed
  then show ?thesis by (simp add: worker_slots_def comp_def distinct_map inj_on_def)
qed

text \<open>A configuration that loads names what it must, for each cluster as well.\<close>

lemma validate_clusters_None: "validate_clusters i cls = None \<longleftrightarrow> (\<forall>cl \<in> set cls. clc_id cl \<noteq> [] \<and> clc_base_url cl \<noteq> [])"
  by (induction cls arbitrary: i) auto

lemma loaded_config_is_valid:
  assumes "config_Load h path = Inr c"
  shows "sc_listen (cg_server c) \<noteq> [] \<and> dbc_dsn_file (cg_database c) \<noteq> [] \<and> auc_jwt_public_key_file (cg_auth c) \<noteq> [] \<and>
    (\<forall>cl \<in> set (cg_clusters c). clc_id cl \<noteq> [] \<and> clc_base_url cl \<noteq> [])"
  using assms by (auto simp: config_Load_def config_validate_def validate_clusters_None Let_def split: sum.splits option.splits if_splits)

text \<open>Environment variables win over the file.\<close>

lemma environment_wins:
  assumes "config_Load h path = Inr c"
  shows "(\<forall>v. ho_env h ''VMF_SERVER_LISTEN'' = Some v \<longrightarrow> sc_listen (cg_server c) = v) \<and>
    (\<forall>v. ho_env h ''VMF_DATABASE_DSN_FILE'' = Some v \<longrightarrow> dbc_dsn_file (cg_database c) = v) \<and>
    (\<forall>v. ho_env h ''VMF_OBSERVABILITY_LOG_LEVEL'' = Some v \<longrightarrow> obc_log_level (cg_observability c) = v) \<and>
    (\<forall>v. ho_env h ''VMF_OBSERVABILITY_METRICS_LISTEN'' = Some v \<longrightarrow> obc_metrics_listen (cg_observability c) = v)"
  using assms
  by (auto simp: config_Load_def applyEnvOverrides_def override_def Let_def split: sum.splits option.splits)

section \<open>The API process\<close>

text \<open>
  \<open>pem\<close> is \<open>pem.Decode\<close>, and \<open>pkix\<close> is \<open>x509.ParsePKIXPublicKey\<close>: an error, or a key, which is absent when it is no RSA key.
\<close>

definition loadRSAPublicKey :: "host \<Rightarrow> (string \<Rightarrow> string option) \<Rightarrow> (string \<Rightarrow> err + 'k option) \<Rightarrow> string \<Rightarrow> err + 'k" where
  "loadRSAPublicKey h pem pkix path = (case ho_file h path of Inl e \<Rightarrow> Inl e
     | Inr raw \<Rightarrow> (case pem raw of None \<Rightarrow> Inl (Errf ''invalid PEM block'')
     | Some block \<Rightarrow> (case pkix block of Inl e \<Rightarrow> Inl e
     | Inr None \<Rightarrow> Inl (Errf ''public key is not RSA'')
     | Inr (Some key) \<Rightarrow> Inr key)))"

text \<open>The steps of \<open>main\<close> of \<open>cmd/api/main.go\<close> that can refuse to start, and what the server has then.\<close>

definition api_start :: "host \<Rightarrow> (string \<Rightarrow> string option) \<Rightarrow> (string \<Rightarrow> err + 'k option) \<Rightarrow> (string \<Rightarrow> err option) \<Rightarrow> string \<Rightarrow> err + config \<times> 'k" where
  "api_start h pem pkix sql_open path = (case config_Load h path of Inl e \<Rightarrow> Inl e
     | Inr c \<Rightarrow> (case loadRSAPublicKey h pem pkix (auc_jwt_public_key_file (cg_auth c)) of Inl e \<Rightarrow> Inl e
     | Inr key \<Rightarrow> (case loadDSN h (dbc_dsn_file (cg_database c)) of Inl e \<Rightarrow> Inl e
     | Inr dsn \<Rightarrow> (case sql_open dsn of Some e \<Rightarrow> Inl (Wrap ''storage: open'' e)
     | None \<Rightarrow> Inr (c, key)))))"

text \<open>Neither process starts on a file or a secret it could not read.\<close>

lemma api_started:
  assumes "api_start h pem pkix sql_open path = Inr (c, key)"
  shows "config_Load h path = Inr c \<and> loadRSAPublicKey h pem pkix (auc_jwt_public_key_file (cg_auth c)) = Inr key \<and>
    (\<exists>dsn. loadDSN h (dbc_dsn_file (cg_database c)) = Inr dsn \<and> dsn \<noteq> [])"
  using assms by (auto simp: api_start_def loadDSN_def Let_def split: sum.splits option.splits if_splits)

lemma worker_started:
  assumes "worker_start h sql_open path = Inr (c, secret, key)"
  shows "config_Load h path = Inr c \<and> cg_clusters c \<noteq> [] \<and> dfc_network_segment_id (pvc_defaults (cg_provisioning c)) \<noteq> [] \<and>
    secret \<noteq> [] \<and> key \<noteq> []"
  using assms by (auto simp: worker_start_def validateWorkerConfig_def loadSecretFile_def LoadHMACKeyFromFile_def Let_def
      split: sum.splits option.splits list.splits if_splits)

section \<open>Logs\<close>

text \<open>\<open>slog.Attr\<close>: a key with a value, which may be a group of attributes.\<close>

datatype attr_value = AText string | AGroup "(string \<times> attr_value) list"

type_synonym log_attr = "string \<times> attr_value"

definition redactedKeys :: "string list" where
  "redactedKeys = [''token'', ''password'', ''secret'', ''private_key'', ''machine_id'', ''cloud_init_data'', ''authorization'', ''api_key'']"

definition redactAttr :: "log_attr \<Rightarrow> log_attr" where
  "redactAttr a = (if fst a \<in> set redactedKeys then (fst a, AText ''[REDACTED]'') else a)"

text \<open>
  A logger is what its handler was given by \<open>With\<close>; a record goes to the handler below, which gets these and the record's own.
\<close>

record logger =
  lg_level :: log_level
  lg_attrs :: "log_attr list"

definition redact_WithAttrs :: "log_attr list \<Rightarrow> logger \<Rightarrow> logger" where
  "redact_WithAttrs attrs l = l\<lparr>lg_attrs := lg_attrs l @ map redactAttr attrs\<rparr>"

definition redact_Handle :: "logger \<Rightarrow> string \<Rightarrow> log_attr list \<Rightarrow> string \<times> log_attr list" where
  "redact_Handle l message attrs = (message, lg_attrs l @ map redactAttr attrs)"

definition logger_New :: "string \<Rightarrow> log_level \<Rightarrow> logger" where
  "logger_New component level = redact_WithAttrs [(''component'', AText component)] \<lparr>lg_level = level, lg_attrs = []\<rparr>"

definition with_unless_empty :: "string \<Rightarrow> string \<Rightarrow> logger \<Rightarrow> logger" where
  "with_unless_empty k v l = (if v = [] then l else redact_WithAttrs [(k, AText v)] l)"

definition WithCorrelation :: "logger \<Rightarrow> string \<Rightarrow> string \<Rightarrow> string \<Rightarrow> logger" where
  "WithCorrelation l requestID jobID instanceID =
     with_unless_empty ''instance_id'' instanceID (with_unless_empty ''job_id'' jobID (with_unless_empty ''request_id'' requestID l))"

text \<open>Two lists of attributes that differ in the values of sensitive keys only are written alike.\<close>

definition alike :: "log_attr \<Rightarrow> log_attr \<Rightarrow> bool" where
  "alike a b \<longleftrightarrow> fst a = fst b \<and> (fst a \<notin> set redactedKeys \<longrightarrow> snd a = snd b)"

lemma redacted_alike: "list_all2 alike as bs \<Longrightarrow> map redactAttr as = map redactAttr bs"
  by (induction rule: list_all2_induct) (auto simp: alike_def redactAttr_def prod_eq_iff)

lemma secrets_are_not_logged:
  assumes "list_all2 alike as bs" "list_all2 alike own own'"
  shows "redact_Handle (redact_WithAttrs own l) m as = redact_Handle (redact_WithAttrs own' l) m bs"
  using assms by (simp add: redact_Handle_def redact_WithAttrs_def redacted_alike)

text \<open>The key of a group is looked at, the keys within it are not.\<close>

lemma group_is_logged_as_it_is:
  "redact_Handle (logger_New ''vmf-api'' LevelInfo) ''m'' [(''auth'', AGroup [(''token'', AText t)])] =
     (''m'', [(''component'', AText ''vmf-api''), (''auth'', AGroup [(''token'', AText t)])])"
  by (simp add: redact_Handle_def logger_New_def redact_WithAttrs_def redactAttr_def redactedKeys_def)

section \<open>Identifiers of requests\<close>

definition NewRequestID :: "nat list \<Rightarrow> string" where
  "NewRequestID buf = ''req_'' @ concat (map (\<lambda>b. [hex_digit (b div 16), hex_digit (b mod 16)]) buf)"

text \<open>\<open>header\<close> is the \<open>X-Request-Id\<close> of the client, \<open>buf\<close> 16 random bytes; the reply carries the identifier as well.\<close>

definition RequestIDMiddleware :: "string \<Rightarrow> nat list \<Rightarrow> handler_fn \<Rightarrow> request \<Rightarrow> (string \<times> reply) dbm" where
  "RequestIDMiddleware header buf nxt rq = (let rid = (if header = [] then NewRequestID buf else header) in
     bindE (nxt (rq\<lparr>rq_request_id := rid\<rparr>)) (\<lambda>rep. retE (rid, rep)))"

end
