(* ===== verification/Cli.thy ===== *)
theory Cli
  imports Startup
begin

text \<open>
  The operator's command line tool, \<open>cmd/cli\<close>: how its arguments are read, the request each command sends, and what it makes of the
  reply.  What is printed is a list of documents, lines and tables; the layout of a table is left to \<open>text/tabwriter\<close>.
  Times are printed in UTC, as the API writes them.
\<close>

section \<open>Flags\<close>

text \<open>
  The package \<open>flag\<close>: a set of flags with their values, whose constructor is the type of the flag.  Parsing stops at the
  first argument that is no flag; with \<open>ExitOnError\<close> a mistake ends the process with status 2, a request for help with 0.
\<close>

datatype flag_value = FlagStr string | FlagInt int | FlagBool bool

type_synonym flags = "(string \<times> flag_value) list"

definition flag_string :: "flags \<Rightarrow> string \<Rightarrow> string" where
  "flag_string fs k = (case map_of fs k of Some (FlagStr s) \<Rightarrow> s | _ \<Rightarrow> [])"

definition flag_int :: "flags \<Rightarrow> string \<Rightarrow> int" where
  "flag_int fs k = (case map_of fs k of Some (FlagInt n) \<Rightarrow> n | _ \<Rightarrow> 0)"

definition flag_bool :: "flags \<Rightarrow> string \<Rightarrow> bool" where
  "flag_bool fs k = (case map_of fs k of Some (FlagBool b) \<Rightarrow> b | _ \<Rightarrow> False)"

text \<open>\<open>strconv.ParseBool\<close> and \<open>strconv.ParseInt(s, 0, 64)\<close>.\<close>

definition ParseBool :: "string \<Rightarrow> bool option" where
  "ParseBool s = (if s \<in> {''1'', ''t'', ''T'', ''TRUE'', ''true'', ''True''} then Some True
     else if s \<in> {''0'', ''f'', ''F'', ''FALSE'', ''false'', ''False''} then Some False else None)"

definition digit_value :: "char \<Rightarrow> nat" where
  "digit_value c = (let n = of_char c :: nat in
     if 48 \<le> n \<and> n \<le> 57 then n - 48 else if 97 \<le> n \<and> n \<le> 122 then n - 87 else if 65 \<le> n \<and> n \<le> 90 then n - 55 else 99)"

text \<open>An underscore stands between two digits, or between the prefix of the base and a digit.\<close>

fun underscores_ok :: "bool \<Rightarrow> string \<Rightarrow> bool" where
  "underscores_ok after_digit [] = True"
| "underscores_ok after_digit (c # s) = (if c = CHR ''_'' then after_digit \<and> s \<noteq> [] \<and> hd s \<noteq> CHR ''_'' \<and> underscores_ok False s
     else underscores_ok True s)"

definition number_in :: "nat \<Rightarrow> string \<Rightarrow> nat option" where
  "number_in base s = (if list_all (\<lambda>c. c = CHR ''_'' \<or> digit_value c < base) s
     then Some (foldl (\<lambda>n c. if c = CHR ''_'' then n else n * base + digit_value c) 0 s) else None)"

definition ParseUint0 :: "string \<Rightarrow> nat option" where
  "ParseUint0 s = (case s of
       [] \<Rightarrow> None
     | c # r \<Rightarrow> if c \<noteq> CHR ''0'' then (if underscores_ok False s then number_in 10 s else None)
         else if length s \<ge> 3 \<and> hd r \<in> {CHR ''x'', CHR ''X''} then (if underscores_ok True (tl r) then number_in 16 (tl r) else None)
         else if length s \<ge> 3 \<and> hd r \<in> {CHR ''o'', CHR ''O''} then (if underscores_ok True (tl r) then number_in 8 (tl r) else None)
         else if length s \<ge> 3 \<and> hd r \<in> {CHR ''b'', CHR ''B''} then (if underscores_ok True (tl r) then number_in 2 (tl r) else None)
         else if underscores_ok True r then number_in 8 r else None)"

definition ParseInt0 :: "string \<Rightarrow> int option" where
  "ParseInt0 s = (let neg = has_prefix ''-'' s; u = (if neg \<or> has_prefix ''+'' s then tl s else s) in
     case ParseUint0 u of None \<Rightarrow> None
     | Some n \<Rightarrow> if neg then (if n \<le> 2 ^ 63 then Some (- int n) else None) else (if n < 2 ^ 63 then Some (int n) else None))"

definition set_flag :: "flag_value \<Rightarrow> string \<Rightarrow> flag_value option" where
  "set_flag v s = (case v of FlagStr _ \<Rightarrow> Some (FlagStr s) | FlagInt _ \<Rightarrow> map_option FlagInt (ParseInt0 s)
     | FlagBool _ \<Rightarrow> map_option FlagBool (ParseBool s))"

text \<open>An argument: no flag, the terminator, a mistake, or a flag with the value after its equals sign.\<close>

datatype flag_arg = Positional | Terminator | BadFlag | Flag string "string option"

definition flag_arg :: "string \<Rightarrow> flag_arg" where
  "flag_arg s = (if length s < 2 \<or> hd s \<noteq> CHR ''-'' then Positional
     else if s = ''--'' then Terminator
     else let nm = (if s ! 1 = CHR ''-'' then drop 2 s else tl s) in
       if nm = [] \<or> hd nm \<in> {CHR ''-'', CHR ''=''} then BadFlag
       else case cut_at CHR ''='' nm of None \<Rightarrow> Flag nm None | Some (k, v) \<Rightarrow> Flag k (Some v))"

fun flag_Parse :: "flags \<Rightarrow> string list \<Rightarrow> int + flags \<times> string list" where
  "flag_Parse fs [] = Inr (fs, [])"
| "flag_Parse fs (s # args) = (case flag_arg s of
       Positional \<Rightarrow> Inr (fs, s # args)
     | Terminator \<Rightarrow> Inr (fs, args)
     | BadFlag \<Rightarrow> Inl 2
     | Flag k val \<Rightarrow> (case map_of fs k of
           None \<Rightarrow> Inl (if k \<in> {''help'', ''h''} then 0 else 2)
         | Some v \<Rightarrow> (case (val, v, args) of
               (Some x, _, _) \<Rightarrow> (case set_flag v x of None \<Rightarrow> Inl 2 | Some v' \<Rightarrow> flag_Parse (AList.update k v' fs) args)
             | (None, FlagBool _, _) \<Rightarrow> flag_Parse (AList.update k (FlagBool True) fs) args
             | (None, _, []) \<Rightarrow> Inl 2
             | (None, _, x # rest) \<Rightarrow> (case set_flag v x of None \<Rightarrow> Inl 2 | Some v' \<Rightarrow> flag_Parse (AList.update k v' fs) rest))))"

section \<open>The client\<close>

text \<open>A request as it is sent, and the outside: the transport, the JSON parser and random bytes.\<close>

record cli_call =
  cc_method :: string
  cc_url :: string
  cc_auth :: "string option"
  cc_key :: "string option"
  cc_body :: "json option"

record 'x cli_env =
  ce_base :: string
  ce_token :: string
  ce_json :: bool
  ce_http :: "cli_call \<Rightarrow> 'x \<Rightarrow> (err + int \<times> (err + string)) \<times> 'x"
  ce_parse :: "string \<Rightarrow> raw_json"
  ce_random :: "'x \<Rightarrow> nat list"

text \<open>A command ends with an error or, in the middle, with an exit status.\<close>

datatype cli_stop = CliError err | CliExit int

datatype cli_output = OutJson json | OutRaw string | OutLine string | OutTable "string list" "string list list"

type_synonym ('x, 'a) cli = "('x, cli_stop, 'a) eff"

definition newAPIClient :: "'x cli_env \<Rightarrow> string \<Rightarrow> string \<Rightarrow> 'x cli_env" where
  "newAPIClient ce base token = ce\<lparr>ce_base := base, ce_token := token\<rparr>"

definition parseGlobalFlags :: "host \<Rightarrow> 'x cli_env \<Rightarrow> 'x cli_env" where
  "parseGlobalFlags h ce = ce\<lparr>ce_base := envOr h ''VMF_API_URL'' ''http://localhost:8080'',
     ce_token := (case ho_env h ''VMF_API_TOKEN'' of None \<Rightarrow> [] | Some t \<Rightarrow> t), ce_json := (ho_env h ''VMF_OUTPUT'' = Some ''json'')\<rparr>"

text \<open>The error of the envelope: its details have to be an object, or absent.\<close>

record api_error =
  ae_code :: string
  ae_message :: string
  ae_request_id :: string

definition api_error_step :: "string \<Rightarrow> json \<Rightarrow> api_error \<times> bool \<Rightarrow> api_error \<times> bool" where
  "api_error_step k v st = (if jkey k ''code'' then set_str v (\<lambda>s r. r\<lparr>ae_code := s\<rparr>) st
     else if jkey k ''message'' then set_str v (\<lambda>s r. r\<lparr>ae_message := s\<rparr>) st
     else if jkey k ''details'' then (fst st, snd st \<and> (case v of JObj _ \<Rightarrow> True | JNull \<Rightarrow> True | _ \<Rightarrow> False))
     else if jkey k ''request_id'' then set_str v (\<lambda>s r. r\<lparr>ae_request_id := s\<rparr>) st else st)"

text \<open>A struct within a struct: an object is decoded into what is there.\<close>

definition set_struct :: "(string \<Rightarrow> json \<Rightarrow> 'a \<times> bool \<Rightarrow> 'a \<times> bool) \<Rightarrow> json \<Rightarrow> ('r \<Rightarrow> 'a) \<Rightarrow> ('a \<Rightarrow> 'r \<Rightarrow> 'r) \<Rightarrow> 'r \<times> bool \<Rightarrow> 'r \<times> bool" where
  "set_struct step v get upd st = (case unmarshal_with step (Some v) (get (fst st)) of (a, ok) \<Rightarrow> (upd a (fst st), snd st \<and> ok))"

definition error_envelope_step :: "string \<Rightarrow> json \<Rightarrow> api_error \<times> bool \<Rightarrow> api_error \<times> bool" where
  "error_envelope_step k v st = (if jkey k ''error'' then set_struct api_error_step v (\<lambda>r. r) (\<lambda>a _. a) st else st)"

definition apiError_Error :: "api_error \<Rightarrow> string" where
  "apiError_Error e = ae_code e @ '': '' @ ae_message e @ '' (request_id='' @ ae_request_id e @ '')''"

definition api_do :: "'x cli_env \<Rightarrow> string \<Rightarrow> string \<Rightarrow> string \<Rightarrow> json option \<Rightarrow> ('x, string) cli" where
  "api_do ce method path idempotencyKey body x = (case ce_http ce
       \<lparr>cc_method = method, cc_url = ce_base ce @ path, cc_auth = (if ce_token ce \<noteq> [] then Some (''Bearer '' @ ce_token ce) else None),
        cc_key = (if idempotencyKey \<noteq> [] then Some idempotencyKey else None), cc_body = body\<rparr> x of
     (Inl e, x') \<Rightarrow> (Inl (CliError (Wrap ''request failed'' e)), x')
   | (Inr (status, Inl e), x') \<Rightarrow> (Inl (CliError (Wrap ''read response body'' e)), x')
   | (Inr (status, Inr text), x') \<Rightarrow>
       (if status \<ge> 400 then (case unmarshal_with error_envelope_step (ce_parse ce text) \<lparr>ae_code = [], ae_message = [], ae_request_id = []\<rparr> of
           (e, ok) \<Rightarrow> if ok \<and> ae_code e \<noteq> [] then (Inl (CliError (Errf (apiError_Error e))), x')
             else (Inl (CliError (Errf (''HTTP '' @ itoa status @ '': '' @ text))), x'))
        else (Inr text, x')))"

definition decode_into :: "'x cli_env \<Rightarrow> (string \<Rightarrow> json \<Rightarrow> 'r \<times> bool \<Rightarrow> 'r \<times> bool) \<Rightarrow> 'r \<Rightarrow> string \<Rightarrow> ('x, 'r) cli" where
  "decode_into ce step z text = (if text = [] then retE z
     else case unmarshal_with step (ce_parse ce text) z of
         (r, True) \<Rightarrow> retE r | (r, False) \<Rightarrow> failE (CliError (Wrap ''decode response'' json_error)))"

definition randomIdempotencyKey :: "string \<Rightarrow> nat list \<Rightarrow> string" where
  "randomIdempotencyKey prefix buf = prefix @ ''-'' @ concat (map (\<lambda>b. [hex_digit (b div 16), hex_digit (b mod 16)]) buf)"

definition idem_key_of :: "'x cli_env \<Rightarrow> flags \<Rightarrow> string \<Rightarrow> ('x, string) cli" where
  "idem_key_of ce fs prefix = (if flag_string fs ''idempotency-key'' \<noteq> [] then retE (flag_string fs ''idempotency-key'')
     else getE (\<lambda>x. randomIdempotencyKey prefix (ce_random ce x)))"

text \<open>The flags are parsed, or the process ends.\<close>

definition with_flags :: "flags \<Rightarrow> string list \<Rightarrow> (flags \<Rightarrow> string list \<Rightarrow> ('x, 'a) cli) \<Rightarrow> ('x, 'a) cli" where
  "with_flags fs args k = (case flag_Parse fs args of Inl status \<Rightarrow> failE (CliExit status) | Inr (fs', rest) \<Rightarrow> k fs' rest)"

definition usage :: "string \<Rightarrow> ('x, 'a) cli" where
  "usage m = failE (CliError (Errf m))"

section \<open>What is printed\<close>

definition printTable :: "string list \<Rightarrow> string list list \<Rightarrow> cli_output" where
  "printTable header rows = (if rows = [] then OutLine ''(no results)'' else OutTable header rows)"

definition nilToDash :: "string option \<Rightarrow> string" where
  "nilToDash s = (case s of None \<Rightarrow> ''-'' | Some v \<Rightarrow> v)"

definition nilIntToDash :: "int option \<Rightarrow> string" where
  "nilIntToDash n = (case n of None \<Rightarrow> ''-'' | Some v \<Rightarrow> itoa v)"

text \<open>\<open>Format(time.RFC3339)\<close>: without a fraction.\<close>

definition to_seconds :: "time \<Rightarrow> string" where
  "to_seconds t = time_text (t - t mod seconds 1)"

definition set_time :: "json \<Rightarrow> (time \<Rightarrow> 'r \<Rightarrow> 'r) \<Rightarrow> 'r \<times> bool \<Rightarrow> 'r \<times> bool" where
  "set_time v upd st = (case v of JNull \<Rightarrow> st
     | JStr s \<Rightarrow> (case parse_rfc3339 s of None \<Rightarrow> (fst st, False) | Some t \<Rightarrow> (upd t (fst st), snd st)) | _ \<Rightarrow> (fst st, False))"

definition set_opt_time :: "json \<Rightarrow> (time option \<Rightarrow> 'r \<Rightarrow> 'r) \<Rightarrow> 'r \<times> bool \<Rightarrow> 'r \<times> bool" where
  "set_opt_time v upd st = (case v of JNull \<Rightarrow> (upd None (fst st), snd st) | _ \<Rightarrow> set_time v (\<lambda>t. upd (Some t)) st)"

definition set_opt_int :: "json \<Rightarrow> (int option \<Rightarrow> 'r \<Rightarrow> 'r) \<Rightarrow> 'r \<times> bool \<Rightarrow> 'r \<times> bool" where
  "set_opt_int v upd st = (case v of JNull \<Rightarrow> (upd None (fst st), snd st) | _ \<Rightarrow> set_int v (\<lambda>n. upd (Some n)) st)"

text \<open>\<open>listEnvelopeDTO\<close>; the list is absent when it was \<open>null\<close> or not there.\<close>

type_synonym 'a dto_list = "'a list option \<times> string option"

definition list_step :: "(string \<Rightarrow> json \<Rightarrow> 'a \<times> bool \<Rightarrow> 'a \<times> bool) \<Rightarrow> 'a \<Rightarrow> string \<Rightarrow> json \<Rightarrow> 'a dto_list \<times> bool \<Rightarrow> 'a dto_list \<times> bool" where
  "list_step step z k v st = (if jkey k ''items'' then (case v of
         JArr _ \<Rightarrow> (case unmarshal_slice step z (Some v) of (items, ok) \<Rightarrow> ((Some items, snd (fst st)), snd st \<and> ok))
       | JNull \<Rightarrow> ((None, snd (fst st)), snd st)
       | _ \<Rightarrow> (fst st, False))
     else if jkey k ''next_cursor'' then set_opt v (\<lambda>c r. (fst r, c)) st else st)"

definition list_json :: "('a \<Rightarrow> json) \<Rightarrow> 'a dto_list \<Rightarrow> json" where
  "list_json f r = JObj [(''items'', jopt (\<lambda>xs. JArr (map f xs)) (fst r)), (''next_cursor'', jopt JStr (snd r))]"

definition list_rows :: "('a \<Rightarrow> string list) \<Rightarrow> 'a dto_list \<Rightarrow> string list list" where
  "list_rows f r = (case fst r of None \<Rightarrow> [] | Some xs \<Rightarrow> map f xs)"

text \<open>The shape of a command that reads one document, and prints it or a view of it.\<close>

definition show_reply :: "'x cli_env \<Rightarrow> (string \<Rightarrow> json \<Rightarrow> 'r \<times> bool \<Rightarrow> 'r \<times> bool) \<Rightarrow> 'r \<Rightarrow> ('r \<Rightarrow> json) \<Rightarrow> ('r \<Rightarrow> cli_output) \<Rightarrow> string \<Rightarrow>
    ('x, cli_output list) cli" where
  "show_reply ce step z as_json as_text text = bindE (decode_into ce step z text) (\<lambda>r. retE [if ce_json ce then OutJson (as_json r) else as_text r])"

section \<open>Instances\<close>

record instance_dto =
  id_id :: string
  id_logical_name :: string
  id_hostname :: string
  id_state :: string
  id_generation :: int
  id_template :: string
  id_node :: "string option"
  id_vmid :: "int option"
  id_ip :: "string option"
  id_segment :: "string option"
  id_job :: "string option"
  id_created :: time
  id_retired :: "time option"

definition empty_instance_dto :: instance_dto where
  "empty_instance_dto = \<lparr>id_id = [], id_logical_name = [], id_hostname = [], id_state = [], id_generation = 0, id_template = [],
     id_node = None, id_vmid = None, id_ip = None, id_segment = None, id_job = None, id_created = zero_time, id_retired = None\<rparr>"

definition instance_dto_step :: "string \<Rightarrow> json \<Rightarrow> instance_dto \<times> bool \<Rightarrow> instance_dto \<times> bool" where
  "instance_dto_step k v st =
     (if jkey k ''id'' then set_str v (\<lambda>s r. r\<lparr>id_id := s\<rparr>) st
      else if jkey k ''logical_name'' then set_str v (\<lambda>s r. r\<lparr>id_logical_name := s\<rparr>) st
      else if jkey k ''hostname'' then set_str v (\<lambda>s r. r\<lparr>id_hostname := s\<rparr>) st
      else if jkey k ''state'' then set_str v (\<lambda>s r. r\<lparr>id_state := s\<rparr>) st
      else if jkey k ''generation'' then set_int v (\<lambda>n r. r\<lparr>id_generation := n\<rparr>) st
      else if jkey k ''template_id'' then set_str v (\<lambda>s r. r\<lparr>id_template := s\<rparr>) st
      else if jkey k ''pve_node'' then set_opt v (\<lambda>s r. r\<lparr>id_node := s\<rparr>) st
      else if jkey k ''vmid'' then set_opt_int v (\<lambda>n r. r\<lparr>id_vmid := n\<rparr>) st
      else if jkey k ''ip_address'' then set_opt v (\<lambda>s r. r\<lparr>id_ip := s\<rparr>) st
      else if jkey k ''network_segment_id'' then set_opt v (\<lambda>s r. r\<lparr>id_segment := s\<rparr>) st
      else if jkey k ''current_job_id'' then set_opt v (\<lambda>s r. r\<lparr>id_job := s\<rparr>) st
      else if jkey k ''created_at'' then set_time v (\<lambda>t r. r\<lparr>id_created := t\<rparr>) st
      else if jkey k ''retired_at'' then set_opt_time v (\<lambda>t r. r\<lparr>id_retired := t\<rparr>) st else st)"

definition instance_dto_json :: "instance_dto \<Rightarrow> json" where
  "instance_dto_json i = JObj [(''id'', JStr (id_id i)), (''logical_name'', JStr (id_logical_name i)), (''hostname'', JStr (id_hostname i)),
     (''state'', JStr (id_state i)), (''generation'', JNum (id_generation i)), (''template_id'', JStr (id_template i)),
     (''pve_node'', jopt JStr (id_node i)), (''vmid'', jopt JNum (id_vmid i)), (''ip_address'', jopt JStr (id_ip i)),
     (''network_segment_id'', jopt JStr (id_segment i)), (''current_job_id'', jopt JStr (id_job i)), (''created_at'', jtime (id_created i)),
     (''retired_at'', jopt jtime (id_retired i))]"

record validation_dto =
  vd_type :: string
  vd_result :: string
  vd_ruleset :: string
  vd_started :: time

definition validation_dto_step :: "string \<Rightarrow> json \<Rightarrow> validation_dto \<times> bool \<Rightarrow> validation_dto \<times> bool" where
  "validation_dto_step k v st = (if jkey k ''type'' then set_str v (\<lambda>s r. r\<lparr>vd_type := s\<rparr>) st
     else if jkey k ''result'' then set_str v (\<lambda>s r. r\<lparr>vd_result := s\<rparr>) st
     else if jkey k ''ruleset_version'' then set_str v (\<lambda>s r. r\<lparr>vd_ruleset := s\<rparr>) st
     else if jkey k ''started_at'' then set_time v (\<lambda>t r. r\<lparr>vd_started := t\<rparr>) st else st)"

definition validation_dto_json :: "validation_dto \<Rightarrow> json" where
  "validation_dto_json v = JObj [(''type'', JStr (vd_type v)), (''result'', JStr (vd_result v)), (''ruleset_version'', JStr (vd_ruleset v)),
     (''started_at'', jtime (vd_started v))]"

record accepted_dto =
  ac_instance :: string
  ac_job :: string
  ac_state :: string

definition accepted_dto_step :: "string \<Rightarrow> json \<Rightarrow> accepted_dto \<times> bool \<Rightarrow> accepted_dto \<times> bool" where
  "accepted_dto_step k v st = (if jkey k ''instance_id'' then set_str v (\<lambda>s r. r\<lparr>ac_instance := s\<rparr>) st
     else if jkey k ''job_id'' then set_str v (\<lambda>s r. r\<lparr>ac_job := s\<rparr>) st
     else if jkey k ''state'' then set_str v (\<lambda>s r. r\<lparr>ac_state := s\<rparr>) st else st)"

definition accepted_dto_json :: "accepted_dto \<Rightarrow> json" where
  "accepted_dto_json a = JObj [(''instance_id'', JStr (ac_instance a)), (''job_id'', JStr (ac_job a)), (''state'', JStr (ac_state a))]"

abbreviation show_accepted :: "'x cli_env \<Rightarrow> (accepted_dto \<Rightarrow> string) \<Rightarrow> string \<Rightarrow> ('x, cli_output list) cli" where
  "show_accepted ce f \<equiv> show_reply ce accepted_dto_step \<lparr>ac_instance = [], ac_job = [], ac_state = []\<rparr> accepted_dto_json (\<lambda>a. OutLine (f a))"

definition create_flags :: flags where
  "create_flags = [(''template'', FlagStr []), (''segment'', FlagStr []), (''egress-policy'', FlagStr []), (''logical-name'', FlagStr []),
     (''workload'', FlagStr []), (''idempotency-key'', FlagStr [])]"

definition create_body :: "flags \<Rightarrow> json" where
  "create_body fs = json_of_map ([(''template_id'', JStr (flag_string fs ''template'')), (''network_segment_id'', JStr (flag_string fs ''segment'')),
       (''egress_policy_id'', JStr (flag_string fs ''egress-policy''))]
     @ (if flag_string fs ''logical-name'' \<noteq> [] then [(''logical_name'', JStr (flag_string fs ''logical-name''))] else [])
     @ (if flag_string fs ''workload'' \<noteq> [] then [(''workload'', json_of_map [(''adapter'', JStr (flag_string fs ''workload''))])] else []))"

definition instanceCreate :: "'x cli_env \<Rightarrow> string list \<Rightarrow> ('x, cli_output list) cli" where
  "instanceCreate ce args = with_flags create_flags args (\<lambda>fs _.
     if flag_string fs ''template'' = [] \<or> flag_string fs ''segment'' = [] \<or> flag_string fs ''egress-policy'' = []
     then usage ''--template, --segment, and --egress-policy are required''
     else bindE (idem_key_of ce fs ''instance-create'') (\<lambda>key.
          bindE (api_do ce ''POST'' ''/v1/instances'' key (Some (create_body fs)))
          (show_accepted ce (\<lambda>a. ''instance '' @ ac_instance a @ '' created, job '' @ ac_job a @ '' ('' @ ac_state a @ '')''))))"

definition instanceList :: "'x cli_env \<Rightarrow> ('x, cli_output list) cli" where
  "instanceList ce = bindE (api_do ce ''GET'' ''/v1/instances'' [] None)
     (show_reply ce (list_step instance_dto_step empty_instance_dto) (None, None) (list_json instance_dto_json)
        (\<lambda>r. printTable [''ID'', ''LOGICAL_NAME'', ''HOSTNAME'', ''STATE'', ''VMID'', ''IP'']
          (list_rows (\<lambda>i. [id_id i, id_logical_name i, id_hostname i, id_state i, nilIntToDash (id_vmid i), nilToDash (id_ip i)]) r)))"

definition instanceGet :: "'x cli_env \<Rightarrow> string list \<Rightarrow> ('x, cli_output list) cli" where
  "instanceGet ce args = (case args of [] \<Rightarrow> usage ''usage: vmf instance get <id>''
     | a # _ \<Rightarrow> bindE (api_do ce ''GET'' (''/v1/instances/'' @ a) [] None)
         (show_reply ce instance_dto_step empty_instance_dto instance_dto_json (\<lambda>i. printTable [''FIELD'', ''VALUE'']
            [[''id'', id_id i], [''logical_name'', id_logical_name i], [''hostname'', id_hostname i], [''state'', id_state i],
             [''generation'', itoa (id_generation i)], [''template_id'', id_template i], [''pve_node'', nilToDash (id_node i)],
             [''vmid'', nilIntToDash (id_vmid i)], [''ip_address'', nilToDash (id_ip i)], [''current_job_id'', nilToDash (id_job i)],
             [''created_at'', to_seconds (id_created i)]])))"

definition instanceEvidence :: "'x cli_env \<Rightarrow> string list \<Rightarrow> ('x, cli_output list) cli" where
  "instanceEvidence ce args = (case args of [] \<Rightarrow> usage ''usage: vmf instance evidence <id>''
     | a # _ \<Rightarrow> bindE (api_do ce ''GET'' (''/v1/instances/'' @ a @ ''/evidence'') [] None)
         (show_reply ce (list_step validation_dto_step \<lparr>vd_type = [], vd_result = [], vd_ruleset = [], vd_started = zero_time\<rparr>) (None, None)
            (list_json validation_dto_json) (\<lambda>r. printTable [''TYPE'', ''RESULT'', ''RULESET_VERSION'', ''STARTED_AT'']
              (list_rows (\<lambda>v. [vd_type v, vd_result v, vd_ruleset v, to_seconds (vd_started v)]) r))))"

text \<open>The reply is not decoded, only checked to be a document; it is printed as it came, without the white space around it.\<close>

definition trim_json :: "string \<Rightarrow> string" where
  "trim_json s = (let ws = (\<lambda>c. c \<in> {CHR '' '', CHR 0x09, CHR 0x0A, CHR 0x0D}) in rev (dropWhile ws (rev (dropWhile ws s))))"

definition action_flags :: flags where
  "action_flags = [(''reason'', FlagStr []), (''idempotency-key'', FlagStr [])]"

definition instanceAction :: "'x cli_env \<Rightarrow> string list \<Rightarrow> string \<Rightarrow> bool \<Rightarrow> ('x, cli_output list) cli" where
  "instanceAction ce args action requiresReason = with_flags action_flags args (\<lambda>fs rest. case rest of
       [] \<Rightarrow> usage (''usage: vmf instance '' @ action @ '' <id> [--reason <text>]'')
     | a # _ \<Rightarrow> if requiresReason \<and> flag_string fs ''reason'' = [] then usage (''--reason is required for '' @ action)
         else bindE (idem_key_of ce fs (''instance-'' @ action)) (\<lambda>key.
              bindE (api_do ce ''POST'' (''/v1/instances/'' @ a @ ''/'' @ action) key
                (if requiresReason then Some (json_of_map [(''reason'', JStr (flag_string fs ''reason''))]) else None)) (\<lambda>text.
              if text \<noteq> [] \<and> ce_parse ce text = None then failE (CliError (Wrap ''decode response'' json_error))
              else retE [if ce_json ce then OutRaw (trim_json text) else OutLine (''instance '' @ a @ '': '' @ action @ '' accepted'')])))"

definition runInstanceCommand :: "'x cli_env \<Rightarrow> string list \<Rightarrow> ('x, cli_output list) cli" where
  "runInstanceCommand ce args = (case args of
       [] \<Rightarrow> usage ''usage: vmf instance <create|list|get|evidence|retry|quarantine|rebuild|decommission>''
     | action # rest \<Rightarrow>
         if action = ''create'' then instanceCreate ce rest
         else if action = ''list'' then instanceList ce
         else if action = ''get'' then instanceGet ce rest
         else if action = ''evidence'' then instanceEvidence ce rest
         else if action = ''retry'' then instanceAction ce rest ''retry'' False
         else if action = ''quarantine'' then instanceAction ce rest ''quarantine'' True
         else if action = ''rebuild'' then instanceAction ce rest ''rebuild'' False
         else if action = ''decommission'' then instanceAction ce rest ''decommission'' True
         else usage (''vmf instance: unknown action '' @ json_quote action))"

section \<open>Jobs\<close>

record job_dto =
  jd_id :: string
  jd_instance :: string
  jd_operation :: string
  jd_state :: string
  jd_checkpoint :: string
  jd_attempt :: int
  jd_max_attempts :: int
  jd_error_code :: "string option"
  jd_error_message :: "string option"
  jd_created :: time
  jd_finished :: "time option"

definition empty_job_dto :: job_dto where
  "empty_job_dto = \<lparr>jd_id = [], jd_instance = [], jd_operation = [], jd_state = [], jd_checkpoint = [], jd_attempt = 0, jd_max_attempts = 0,
     jd_error_code = None, jd_error_message = None, jd_created = zero_time, jd_finished = None\<rparr>"

definition job_dto_step :: "string \<Rightarrow> json \<Rightarrow> job_dto \<times> bool \<Rightarrow> job_dto \<times> bool" where
  "job_dto_step k v st =
     (if jkey k ''id'' then set_str v (\<lambda>s r. r\<lparr>jd_id := s\<rparr>) st
      else if jkey k ''instance_id'' then set_str v (\<lambda>s r. r\<lparr>jd_instance := s\<rparr>) st
      else if jkey k ''operation'' then set_str v (\<lambda>s r. r\<lparr>jd_operation := s\<rparr>) st
      else if jkey k ''state'' then set_str v (\<lambda>s r. r\<lparr>jd_state := s\<rparr>) st
      else if jkey k ''checkpoint'' then set_str v (\<lambda>s r. r\<lparr>jd_checkpoint := s\<rparr>) st
      else if jkey k ''attempt'' then set_int v (\<lambda>n r. r\<lparr>jd_attempt := n\<rparr>) st
      else if jkey k ''max_attempts'' then set_int v (\<lambda>n r. r\<lparr>jd_max_attempts := n\<rparr>) st
      else if jkey k ''error_code'' then set_opt v (\<lambda>s r. r\<lparr>jd_error_code := s\<rparr>) st
      else if jkey k ''error_message'' then set_opt v (\<lambda>s r. r\<lparr>jd_error_message := s\<rparr>) st
      else if jkey k ''created_at'' then set_time v (\<lambda>t r. r\<lparr>jd_created := t\<rparr>) st
      else if jkey k ''finished_at'' then set_opt_time v (\<lambda>t r. r\<lparr>jd_finished := t\<rparr>) st else st)"

definition job_dto_json :: "job_dto \<Rightarrow> json" where
  "job_dto_json j = JObj [(''id'', JStr (jd_id j)), (''instance_id'', JStr (jd_instance j)), (''operation'', JStr (jd_operation j)),
     (''state'', JStr (jd_state j)), (''checkpoint'', JStr (jd_checkpoint j)), (''attempt'', JNum (jd_attempt j)),
     (''max_attempts'', JNum (jd_max_attempts j)), (''error_code'', jopt JStr (jd_error_code j)),
     (''error_message'', jopt JStr (jd_error_message j)), (''created_at'', jtime (jd_created j)), (''finished_at'', jopt jtime (jd_finished j))]"

record event_dto =
  ed_id :: string
  ed_type :: string
  ed_from :: "string option"
  ed_to :: "string option"
  ed_at :: time

definition event_dto_step :: "string \<Rightarrow> json \<Rightarrow> event_dto \<times> bool \<Rightarrow> event_dto \<times> bool" where
  "event_dto_step k v st = (if jkey k ''event_id'' then set_str v (\<lambda>s r. r\<lparr>ed_id := s\<rparr>) st
     else if jkey k ''type'' then set_str v (\<lambda>s r. r\<lparr>ed_type := s\<rparr>) st
     else if jkey k ''from'' then set_opt v (\<lambda>s r. r\<lparr>ed_from := s\<rparr>) st
     else if jkey k ''to'' then set_opt v (\<lambda>s r. r\<lparr>ed_to := s\<rparr>) st
     else if jkey k ''occurred_at'' then set_time v (\<lambda>t r. r\<lparr>ed_at := t\<rparr>) st else st)"

definition event_dto_json :: "event_dto \<Rightarrow> json" where
  "event_dto_json e = JObj [(''event_id'', JStr (ed_id e)), (''type'', JStr (ed_type e)), (''from'', jopt JStr (ed_from e)),
     (''to'', jopt JStr (ed_to e)), (''occurred_at'', jtime (ed_at e))]"

definition job_table :: "job_dto \<Rightarrow> cli_output" where
  "job_table j = printTable [''FIELD'', ''VALUE'']
     [[''id'', jd_id j], [''instance_id'', jd_instance j], [''operation'', jd_operation j], [''state'', jd_state j],
      [''checkpoint'', jd_checkpoint j], [''attempt'', itoa (jd_attempt j) @ ''/'' @ itoa (jd_max_attempts j)],
      [''error_code'', nilToDash (jd_error_code j)], [''error_message'', nilToDash (jd_error_message j)],
      [''created_at'', to_seconds (jd_created j)]]"

definition jobGet :: "'x cli_env \<Rightarrow> string list \<Rightarrow> ('x, cli_output list) cli" where
  "jobGet ce args = with_flags [(''events'', FlagBool False)] args (\<lambda>fs rest. case rest of
       [] \<Rightarrow> usage ''usage: vmf job get <id> [--events]''
     | a # _ \<Rightarrow>
         bindE (bindE (api_do ce ''GET'' (''/v1/jobs/'' @ a) [] None) (decode_into ce job_dto_step empty_job_dto)) (\<lambda>j.
         if flag_bool fs ''events''
         then bindE (bindE (api_do ce ''GET'' (''/v1/jobs/'' @ a @ ''/events'') [] None)
                (decode_into ce (list_step event_dto_step \<lparr>ed_id = [], ed_type = [], ed_from = None, ed_to = None, ed_at = zero_time\<rparr>)
                  (None, None))) (\<lambda>es.
              retE (if ce_json ce then [OutJson (JObj [(''events'', jopt (\<lambda>xs. JArr (map event_dto_json xs)) (fst es)), (''job'', job_dto_json j)])]
                else [job_table j, OutLine [], printTable [''OCCURRED_AT'', ''TYPE'', ''FROM'', ''TO'']
                  (list_rows (\<lambda>e. [to_seconds (ed_at e), ed_type e, nilToDash (ed_from e), nilToDash (ed_to e)]) es)]))
         else retE [if ce_json ce then OutJson (job_dto_json j) else job_table j]))"

definition jobRetry :: "'x cli_env \<Rightarrow> string list \<Rightarrow> ('x, cli_output list) cli" where
  "jobRetry ce args = with_flags action_flags args (\<lambda>fs rest. case rest of
       [] \<Rightarrow> usage ''usage: vmf job retry <id> --reason <text>''
     | a # _ \<Rightarrow> if flag_string fs ''reason'' = [] then usage ''--reason is required''
         else bindE (idem_key_of ce fs ''job-retry'') (\<lambda>key.
              bindE (api_do ce ''POST'' (''/v1/jobs/'' @ a @ ''/retry'') key (Some (json_of_map [(''reason'', JStr (flag_string fs ''reason''))])))
              (show_accepted ce (\<lambda>r. ''job '' @ ac_job r @ '' retried, state='' @ ac_state r))))"

definition runJobCommand :: "'x cli_env \<Rightarrow> string list \<Rightarrow> ('x, cli_output list) cli" where
  "runJobCommand ce args = (case args of [] \<Rightarrow> usage ''usage: vmf job <get|retry>''
     | action # rest \<Rightarrow> if action = ''get'' then jobGet ce rest else if action = ''retry'' then jobRetry ce rest
         else usage (''vmf job: unknown action '' @ json_quote action))"

section \<open>Templates, segments and findings\<close>

record template_dto =
  td_id :: string
  td_name :: string
  td_family :: string
  td_version :: string
  td_state :: string
  td_validation :: string
  td_created :: time

definition empty_template_dto :: template_dto where
  "empty_template_dto = \<lparr>td_id = [], td_name = [], td_family = [], td_version = [], td_state = [], td_validation = [], td_created = zero_time\<rparr>"

definition template_dto_step :: "string \<Rightarrow> json \<Rightarrow> template_dto \<times> bool \<Rightarrow> template_dto \<times> bool" where
  "template_dto_step k v st =
     (if jkey k ''id'' then set_str v (\<lambda>s r. r\<lparr>td_id := s\<rparr>) st
      else if jkey k ''name'' then set_str v (\<lambda>s r. r\<lparr>td_name := s\<rparr>) st
      else if jkey k ''family'' then set_str v (\<lambda>s r. r\<lparr>td_family := s\<rparr>) st
      else if jkey k ''version'' then set_str v (\<lambda>s r. r\<lparr>td_version := s\<rparr>) st
      else if jkey k ''state'' then set_str v (\<lambda>s r. r\<lparr>td_state := s\<rparr>) st
      else if jkey k ''validation_status'' then set_str v (\<lambda>s r. r\<lparr>td_validation := s\<rparr>) st
      else if jkey k ''created_at'' then set_time v (\<lambda>t r. r\<lparr>td_created := t\<rparr>) st else st)"

definition template_dto_json :: "template_dto \<Rightarrow> json" where
  "template_dto_json t = JObj [(''id'', JStr (td_id t)), (''name'', JStr (td_name t)), (''family'', JStr (td_family t)),
     (''version'', JStr (td_version t)), (''state'', JStr (td_state t)), (''validation_status'', JStr (td_validation t)),
     (''created_at'', jtime (td_created t))]"

definition templateList :: "'x cli_env \<Rightarrow> ('x, cli_output list) cli" where
  "templateList ce = bindE (api_do ce ''GET'' ''/v1/templates'' [] None)
     (show_reply ce (list_step template_dto_step empty_template_dto) (None, None) (list_json template_dto_json)
        (\<lambda>r. printTable [''ID'', ''NAME'', ''FAMILY'', ''VERSION'', ''STATE'', ''VALIDATION'']
          (list_rows (\<lambda>t. [td_id t, td_name t, td_family t, td_version t, td_state t, td_validation t]) r)))"

definition templateGet :: "'x cli_env \<Rightarrow> string list \<Rightarrow> ('x, cli_output list) cli" where
  "templateGet ce args = (case args of [] \<Rightarrow> usage ''usage: vmf template get <id>''
     | a # _ \<Rightarrow> bindE (api_do ce ''GET'' (''/v1/templates/'' @ a) [] None)
         (show_reply ce template_dto_step empty_template_dto template_dto_json (\<lambda>t. printTable [''FIELD'', ''VALUE'']
            [[''id'', td_id t], [''name'', td_name t], [''family'', td_family t], [''version'', td_version t], [''state'', td_state t],
             [''validation_status'', td_validation t], [''created_at'', to_seconds (td_created t)]])))"

definition template_flags :: flags where
  "template_flags = [(''name'', FlagStr []), (''family'', FlagStr []), (''version'', FlagStr []), (''pve-cluster'', FlagStr []),
     (''pve-node'', FlagStr []), (''pve-vmid'', FlagInt 0), (''checksum'', FlagStr []), (''idempotency-key'', FlagStr [])]"

definition template_body :: "flags \<Rightarrow> json" where
  "template_body fs = json_of_map [(''name'', JStr (flag_string fs ''name'')), (''family'', JStr (flag_string fs ''family'')),
     (''version'', JStr (flag_string fs ''version'')), (''pve_cluster_id'', JStr (flag_string fs ''pve-cluster'')),
     (''pve_node'', JStr (flag_string fs ''pve-node'')), (''pve_template_vmid'', JNum (flag_int fs ''pve-vmid'')),
     (''source_checksum'', JStr (flag_string fs ''checksum''))]"

definition templateCreate :: "'x cli_env \<Rightarrow> string list \<Rightarrow> ('x, cli_output list) cli" where
  "templateCreate ce args = with_flags template_flags args (\<lambda>fs _.
     if flag_string fs ''name'' = [] \<or> flag_string fs ''version'' = [] \<or> flag_string fs ''pve-cluster'' = [] \<or> flag_string fs ''pve-node'' = []
       \<or> flag_int fs ''pve-vmid'' = 0 \<or> flag_string fs ''checksum'' = []
     then usage ''--name, --version, --pve-cluster, --pve-node, --pve-vmid, and --checksum are required''
     else bindE (idem_key_of ce fs ''template-create'') (\<lambda>key.
          bindE (api_do ce ''POST'' ''/v1/templates'' key (Some (template_body fs)))
          (show_reply ce template_dto_step empty_template_dto template_dto_json
             (\<lambda>t. OutLine (''template '' @ td_id t @ '' created (state='' @ td_state t @ '')'')))))"

definition templatePromote :: "'x cli_env \<Rightarrow> string list \<Rightarrow> ('x, cli_output list) cli" where
  "templatePromote ce args = with_flags [(''idempotency-key'', FlagStr [])] args (\<lambda>fs rest. case rest of
       [] \<Rightarrow> usage ''usage: vmf template promote <id>''
     | a # _ \<Rightarrow> bindE (idem_key_of ce fs ''template-promote'') (\<lambda>key.
         bindE (api_do ce ''POST'' (''/v1/templates/'' @ a @ ''/promote'') key None)
         (show_reply ce template_dto_step empty_template_dto template_dto_json
            (\<lambda>t. OutLine (''template '' @ td_id t @ '' promoted to '' @ td_state t)))))"

definition runTemplateCommand :: "'x cli_env \<Rightarrow> string list \<Rightarrow> ('x, cli_output list) cli" where
  "runTemplateCommand ce args = (case args of [] \<Rightarrow> usage ''usage: vmf template <list|get|create|promote>''
     | action # rest \<Rightarrow> if action = ''list'' then templateList ce else if action = ''get'' then templateGet ce rest
         else if action = ''create'' then templateCreate ce rest else if action = ''promote'' then templatePromote ce rest
         else usage (''vmf template: unknown action '' @ json_quote action))"

record capacity_dto =
  cd_total :: int
  cd_free :: int
  cd_reserved :: int
  cd_assigned :: int
  cd_quarantined :: int

record segment_dto =
  sd_id :: string
  sd_name :: string
  sd_cidr :: string
  sd_gateway :: string
  sd_bridge :: string
  sd_state :: string
  sd_capacity :: capacity_dto

definition empty_segment_dto :: segment_dto where
  "empty_segment_dto = \<lparr>sd_id = [], sd_name = [], sd_cidr = [], sd_gateway = [], sd_bridge = [], sd_state = [],
     sd_capacity = \<lparr>cd_total = 0, cd_free = 0, cd_reserved = 0, cd_assigned = 0, cd_quarantined = 0\<rparr>\<rparr>"

definition capacity_dto_step :: "string \<Rightarrow> json \<Rightarrow> capacity_dto \<times> bool \<Rightarrow> capacity_dto \<times> bool" where
  "capacity_dto_step k v st =
     (if jkey k ''total'' then set_int v (\<lambda>n r. r\<lparr>cd_total := n\<rparr>) st
      else if jkey k ''free'' then set_int v (\<lambda>n r. r\<lparr>cd_free := n\<rparr>) st
      else if jkey k ''reserved'' then set_int v (\<lambda>n r. r\<lparr>cd_reserved := n\<rparr>) st
      else if jkey k ''assigned'' then set_int v (\<lambda>n r. r\<lparr>cd_assigned := n\<rparr>) st
      else if jkey k ''quarantined'' then set_int v (\<lambda>n r. r\<lparr>cd_quarantined := n\<rparr>) st else st)"

definition segment_dto_step :: "string \<Rightarrow> json \<Rightarrow> segment_dto \<times> bool \<Rightarrow> segment_dto \<times> bool" where
  "segment_dto_step k v st =
     (if jkey k ''id'' then set_str v (\<lambda>s r. r\<lparr>sd_id := s\<rparr>) st
      else if jkey k ''name'' then set_str v (\<lambda>s r. r\<lparr>sd_name := s\<rparr>) st
      else if jkey k ''cidr'' then set_str v (\<lambda>s r. r\<lparr>sd_cidr := s\<rparr>) st
      else if jkey k ''gateway'' then set_str v (\<lambda>s r. r\<lparr>sd_gateway := s\<rparr>) st
      else if jkey k ''bridge'' then set_str v (\<lambda>s r. r\<lparr>sd_bridge := s\<rparr>) st
      else if jkey k ''state'' then set_str v (\<lambda>s r. r\<lparr>sd_state := s\<rparr>) st
      else if jkey k ''capacity'' then set_struct capacity_dto_step v sd_capacity (\<lambda>c r. r\<lparr>sd_capacity := c\<rparr>) st else st)"

definition segment_dto_json :: "segment_dto \<Rightarrow> json" where
  "segment_dto_json s = JObj [(''id'', JStr (sd_id s)), (''name'', JStr (sd_name s)), (''cidr'', JStr (sd_cidr s)),
     (''gateway'', JStr (sd_gateway s)), (''bridge'', JStr (sd_bridge s)), (''state'', JStr (sd_state s)),
     (''capacity'', JObj [(''total'', JNum (cd_total (sd_capacity s))), (''free'', JNum (cd_free (sd_capacity s))),
        (''reserved'', JNum (cd_reserved (sd_capacity s))), (''assigned'', JNum (cd_assigned (sd_capacity s))),
        (''quarantined'', JNum (cd_quarantined (sd_capacity s)))])]"

definition segmentList :: "'x cli_env \<Rightarrow> ('x, cli_output list) cli" where
  "segmentList ce = bindE (api_do ce ''GET'' ''/v1/network-segments'' [] None)
     (show_reply ce (list_step segment_dto_step empty_segment_dto) (None, None) (list_json segment_dto_json)
        (\<lambda>r. printTable [''ID'', ''NAME'', ''CIDR'', ''BRIDGE'', ''STATE'', ''CAPACITY'']
          (list_rows (\<lambda>s. [sd_id s, sd_name s, sd_cidr s, sd_bridge s, sd_state s,
             itoa (cd_free (sd_capacity s)) @ '' free / '' @ itoa (cd_total (sd_capacity s)) @ '' total'']) r)))"

definition segment_flags :: flags where
  "segment_flags = [(''name'', FlagStr []), (''cidr'', FlagStr []), (''gateway'', FlagStr []), (''bridge'', FlagStr []),
     (''idempotency-key'', FlagStr [])]"

definition segment_body :: "flags \<Rightarrow> json" where
  "segment_body fs = json_of_map [(''name'', JStr (flag_string fs ''name'')), (''cidr'', JStr (flag_string fs ''cidr'')),
     (''gateway'', JStr (flag_string fs ''gateway'')), (''bridge'', JStr (flag_string fs ''bridge''))]"

definition segmentCreate :: "'x cli_env \<Rightarrow> string list \<Rightarrow> ('x, cli_output list) cli" where
  "segmentCreate ce args = with_flags segment_flags args (\<lambda>fs _.
     if flag_string fs ''name'' = [] \<or> flag_string fs ''cidr'' = [] \<or> flag_string fs ''gateway'' = [] \<or> flag_string fs ''bridge'' = []
     then usage ''--name, --cidr, --gateway, and --bridge are required''
     else bindE (idem_key_of ce fs ''segment-create'') (\<lambda>key.
          bindE (api_do ce ''POST'' ''/v1/network-segments'' key (Some (segment_body fs)))
          (show_reply ce segment_dto_step empty_segment_dto segment_dto_json
             (\<lambda>s. OutLine (''segment '' @ sd_id s @ '' created ('' @ sd_cidr s @ '')'')))))"

definition runSegmentCommand :: "'x cli_env \<Rightarrow> string list \<Rightarrow> ('x, cli_output list) cli" where
  "runSegmentCommand ce args = (case args of [] \<Rightarrow> usage ''usage: vmf segment <list|create>''
     | action # rest \<Rightarrow> if action = ''list'' then segmentList ce else if action = ''create'' then segmentCreate ce rest
         else usage (''vmf segment: unknown action '' @ json_quote action))"

record finding_dto =
  fd_id :: string
  fd_category :: string
  fd_severity :: string
  fd_summary :: string
  fd_state :: string
  fd_detected :: time

definition empty_finding_dto :: finding_dto where
  "empty_finding_dto = \<lparr>fd_id = [], fd_category = [], fd_severity = [], fd_summary = [], fd_state = [], fd_detected = zero_time\<rparr>"

definition finding_dto_step :: "string \<Rightarrow> json \<Rightarrow> finding_dto \<times> bool \<Rightarrow> finding_dto \<times> bool" where
  "finding_dto_step k v st =
     (if jkey k ''id'' then set_str v (\<lambda>s r. r\<lparr>fd_id := s\<rparr>) st
      else if jkey k ''category'' then set_str v (\<lambda>s r. r\<lparr>fd_category := s\<rparr>) st
      else if jkey k ''severity'' then set_str v (\<lambda>s r. r\<lparr>fd_severity := s\<rparr>) st
      else if jkey k ''summary'' then set_str v (\<lambda>s r. r\<lparr>fd_summary := s\<rparr>) st
      else if jkey k ''state'' then set_str v (\<lambda>s r. r\<lparr>fd_state := s\<rparr>) st
      else if jkey k ''detected_at'' then set_time v (\<lambda>t r. r\<lparr>fd_detected := t\<rparr>) st else st)"

definition finding_dto_json :: "finding_dto \<Rightarrow> json" where
  "finding_dto_json f = JObj [(''id'', JStr (fd_id f)), (''category'', JStr (fd_category f)), (''severity'', JStr (fd_severity f)),
     (''summary'', JStr (fd_summary f)), (''state'', JStr (fd_state f)), (''detected_at'', jtime (fd_detected f))]"

definition findingList :: "'x cli_env \<Rightarrow> ('x, cli_output list) cli" where
  "findingList ce = bindE (api_do ce ''GET'' ''/v1/findings'' [] None)
     (show_reply ce (list_step finding_dto_step empty_finding_dto) (None, None) (list_json finding_dto_json)
        (\<lambda>r. printTable [''ID'', ''CATEGORY'', ''SEVERITY'', ''STATE'', ''SUMMARY'', ''DETECTED_AT'']
          (list_rows (\<lambda>f. [fd_id f, fd_category f, fd_severity f, fd_state f, fd_summary f, to_seconds (fd_detected f)]) r)))"

definition runFindingCommand :: "'x cli_env \<Rightarrow> string list \<Rightarrow> ('x, cli_output list) cli" where
  "runFindingCommand ce args = (case args of [] \<Rightarrow> usage ''usage: vmf finding <list>''
     | action # rest \<Rightarrow> if action = ''list'' then findingList ce
         else usage (''vmf finding: unknown action '' @ json_quote action))"

section \<open>The program\<close>

text \<open>What is written to the standard error: nothing, the list of commands, what the package
  \<open>flag\<close> has to say, or \<open>error: \<close> and the error.\<close>

datatype complaint = Silent | UsageText | FlagText | ErrorText err

record cli_run =
  cr_out :: "cli_output list"
  cr_err :: complaint
  cr_status :: int

definition cli_exit :: "cli_stop + cli_output list \<Rightarrow> cli_run" where
  "cli_exit r = (case r of
       Inl (CliError e) \<Rightarrow> \<lparr>cr_out = [], cr_err = ErrorText e, cr_status = 1\<rparr>
     | Inl (CliExit n) \<Rightarrow> \<lparr>cr_out = [], cr_err = FlagText, cr_status = n\<rparr>
     | Inr out \<Rightarrow> \<lparr>cr_out = out, cr_err = Silent, cr_status = 0\<rparr>)"

text \<open>\<open>main\<close>; \<open>version\<close> and \<open>commit\<close> are set when the program is built.\<close>

definition cli_main :: "string \<Rightarrow> string \<Rightarrow> host \<Rightarrow> 'x cli_env \<Rightarrow> string list \<Rightarrow> 'x \<Rightarrow> cli_run \<times> 'x" where
  "cli_main version commit h ce args x = (let ce = parseGlobalFlags h ce in case args of
       [] \<Rightarrow> (\<lparr>cr_out = [], cr_err = UsageText, cr_status = 1\<rparr>, x)
     | command # rest \<Rightarrow>
         if command = ''version''
         then (\<lparr>cr_out = [OutLine (''vmf '' @ version @ '' ('' @ commit @ '')'')], cr_err = Silent, cr_status = 0\<rparr>, x)
         else if command = ''instance'' then map_prod cli_exit id (runInstanceCommand ce rest x)
         else if command = ''job'' then map_prod cli_exit id (runJobCommand ce rest x)
         else if command = ''template'' then map_prod cli_exit id (runTemplateCommand ce rest x)
         else if command = ''segment'' then map_prod cli_exit id (runSegmentCommand ce rest x)
         else if command = ''finding'' then map_prod cli_exit id (runFindingCommand ce rest x)
         else (\<lparr>cr_out = [], cr_err = UsageText, cr_status = 1\<rparr>, x))"

section \<open>Flags after an operand\<close>

text \<open>
  Parsing stops at the operand, so a flag that comes after it is an operand as well.  The usage text of the program shows
  \<open>--reason\<close> and \<open>--events\<close> after the id: typed like that the first is missing, and the second is ignored.
\<close>

definition operand :: "string \<Rightarrow> bool" where
  "operand a \<longleftrightarrow> length a < 2 \<or> hd a \<noteq> CHR ''-''"

lemma flag_Parse_operand: "operand a \<Longrightarrow> flag_Parse fs (a # args) = Inr (fs, a # args)"
  by (simp add: operand_def flag_arg_def)

lemma reason_after_the_id_is_missing:
  "operand a \<Longrightarrow> instanceAction ce (a # args) action True x = (Inl (CliError (Errf (''--reason is required for '' @ action))), x)"
  by (simp add: instanceAction_def with_flags_def flag_Parse_operand action_flags_def flag_string_def usage_def failE_def del: flag_Parse.simps)

lemma retry_reason_after_the_id_is_missing:
  "operand a \<Longrightarrow> jobRetry ce (a # args) x = (Inl (CliError (Errf ''--reason is required'')), x)"
  by (simp add: jobRetry_def with_flags_def flag_Parse_operand action_flags_def flag_string_def usage_def failE_def del: flag_Parse.simps)

lemma events_after_the_id_is_ignored: "operand a \<Longrightarrow> jobGet ce (a # args) = jobGet ce [a]"
  by (simp add: jobGet_def with_flags_def flag_Parse_operand del: flag_Parse.simps)

lemma documented_quarantine_never_works:
  assumes "operand a"
  shows "cli_main version commit h ce ([''instance'', ''quarantine'', a, ''--reason''] @ reason) x
    = (\<lparr>cr_out = [], cr_err = ErrorText (Errf ''--reason is required for quarantine''), cr_status = 1\<rparr>, x)"
  by (simp add: cli_main_def runInstanceCommand_def reason_after_the_id_is_missing[OF assms] cli_exit_def)

section \<open>What the server reads\<close>

text \<open>The body of a command is read by its handler as the flags were given.\<close>

lemma lower_keys:
  "to_lower ''name'' = ''name''" "to_lower ''family'' = ''family''" "to_lower ''version'' = ''version''"
  "to_lower ''pve_cluster_id'' = ''pve_cluster_id''" "to_lower ''pve_node'' = ''pve_node''"
  "to_lower ''pve_template_vmid'' = ''pve_template_vmid''" "to_lower ''source_checksum'' = ''source_checksum''"
  "to_lower ''cidr'' = ''cidr''" "to_lower ''gateway'' = ''gateway''" "to_lower ''bridge'' = ''bridge''"
  "to_lower ''logical_name'' = ''logical_name''" "to_lower ''template_id'' = ''template_id''"
  "to_lower ''network_segment_id'' = ''network_segment_id''" "to_lower ''egress_policy_id'' = ''egress_policy_id''"
  "to_lower ''workload'' = ''workload''" "to_lower ''adapter'' = ''adapter''"
  by code_simp+

lemma json_of_map_keys:
  "map fst kvs = names \<Longrightarrow> sort (remdups names) = ks \<Longrightarrow> json_of_map kvs = JObj (map (\<lambda>k. (k, the (map_of (rev kvs) k))) ks)"
  by (simp add: json_of_map_def)

lemma segment_keys: "sort (remdups [''name'', ''cidr'', ''gateway'', ''bridge'']) = [''bridge'', ''cidr'', ''gateway'', ''name'']"
  by code_simp

lemma template_keys:
  "sort (remdups [''name'', ''family'', ''version'', ''pve_cluster_id'', ''pve_node'', ''pve_template_vmid'', ''source_checksum'']) =
     [''family'', ''name'', ''pve_cluster_id'', ''pve_node'', ''pve_template_vmid'', ''source_checksum'', ''version'']"
  by code_simp

lemma instance_keys:
  "sort (remdups ([''template_id'', ''network_segment_id'', ''egress_policy_id''] @ (if l then [''logical_name''] else [])
       @ (if w then [''workload''] else []))) =
     ''egress_policy_id'' # (if l then [''logical_name''] else []) @ [''network_segment_id'', ''template_id''] @ (if w then [''workload''] else [])"
  by (cases l; cases w; simp only: if_True if_False; code_simp)

lemma segment_body_is_read:
  "unmarshal_with segment_request_step (Some (segment_body fs)) empty_segment =
     (empty_segment\<lparr>seg_name := flag_string fs ''name'', seg_cidr := flag_string fs ''cidr'', seg_gateway := flag_string fs ''gateway'',
        seg_bridge := flag_string fs ''bridge''\<rparr>, True)"
proof -
  have "segment_body fs = JObj [(''bridge'', JStr (flag_string fs ''bridge'')), (''cidr'', JStr (flag_string fs ''cidr'')),
      (''gateway'', JStr (flag_string fs ''gateway'')), (''name'', JStr (flag_string fs ''name''))]"
    unfolding segment_body_def by (subst json_of_map_keys[OF _ segment_keys]) simp_all
  then show ?thesis by (simp add: unmarshal_with_def segment_request_step_def jkey_def lower_keys set_str_def empty_segment_def)
qed

lemma template_body_is_read:
  assumes "- (2 ^ 63) \<le> flag_int fs ''pve-vmid''" "flag_int fs ''pve-vmid'' < 2 ^ 63"
  shows "unmarshal_with template_request_step (Some (template_body fs)) empty_template =
     (empty_template\<lparr>tpl_name := flag_string fs ''name'', tpl_family := flag_string fs ''family'', tpl_version := flag_string fs ''version'',
        tpl_cluster := flag_string fs ''pve-cluster'', tpl_node := flag_string fs ''pve-node'', tpl_vmid := flag_int fs ''pve-vmid'',
        tpl_checksum := flag_string fs ''checksum''\<rparr>, True)"
proof -
  have "template_body fs = JObj [(''family'', JStr (flag_string fs ''family'')), (''name'', JStr (flag_string fs ''name'')),
      (''pve_cluster_id'', JStr (flag_string fs ''pve-cluster'')), (''pve_node'', JStr (flag_string fs ''pve-node'')),
      (''pve_template_vmid'', JNum (flag_int fs ''pve-vmid'')), (''source_checksum'', JStr (flag_string fs ''checksum'')),
      (''version'', JStr (flag_string fs ''version''))]"
    unfolding template_body_def by (subst json_of_map_keys[OF _ template_keys]) simp_all
  with assms show ?thesis
    by (simp add: unmarshal_with_def template_request_step_def jkey_def lower_keys set_str_def set_int_def empty_template_def)
qed

lemma create_body_is_read:
  "unmarshal_with instance_request_step (Some (create_body fs)) empty_instance_request =
     (empty_instance_request\<lparr>ir_logical_name := flag_string fs ''logical-name'', ir_template := flag_string fs ''template'',
        ir_segment := flag_string fs ''segment'', ir_policy := flag_string fs ''egress-policy'',
        ir_workload := (if flag_string fs ''workload'' = [] then None else Some \<lparr>wr_adapter = flag_string fs ''workload'', wr_spec = None\<rparr>)\<rparr>, True)"
proof -
  define l w where "l = (flag_string fs ''logical-name'' \<noteq> [])" and "w = (flag_string fs ''workload'' \<noteq> [])"
  have adapter: "json_of_map [(''adapter'', v)] = JObj [(''adapter'', v)]" for v by (simp add: json_of_map_def)
  have "create_body fs = JObj ((''egress_policy_id'', JStr (flag_string fs ''egress-policy''))
      # (if l then [(''logical_name'', JStr (flag_string fs ''logical-name''))] else [])
      @ [(''network_segment_id'', JStr (flag_string fs ''segment'')), (''template_id'', JStr (flag_string fs ''template''))]
      @ (if w then [(''workload'', JObj [(''adapter'', JStr (flag_string fs ''workload''))])] else []))"
    unfolding create_body_def adapter by (subst json_of_map_keys[OF _ instance_keys[of l w]]) (simp_all add: l_def w_def)
  then show ?thesis
    by (simp add: unmarshal_with_def instance_request_step_def set_workload_def workload_step_def jkey_def lower_keys set_str_def
        empty_instance_request_def l_def w_def)
qed

end
